(* ===== verification/Text_Lines.thy ===== *)
theory Text_Lines
  imports Hardener_Prelude
begin

text \<open>
  Lemmas about the text operations of the prelude: trimming and tokens, and the line
  structure of a file (\<open>split_inclusive\<close> and \<open>str_lines\<close> against concatenation).
\<close>

subsection \<open>Trimming\<close>

lemma trim_start_Nil_iff: "trim_start s = [] \<longleftrightarrow> (\<forall>c\<in>set s. is_ws c)"
  by (simp add: trim_start_def)

lemma trim_end_Nil_iff: "trim_end s = [] \<longleftrightarrow> (\<forall>c\<in>set s. is_ws c)"
  by (simp add: trim_end_def)

lemma dropWhile_idem [simp]: "dropWhile P (dropWhile P s) = dropWhile P s"
  by (induction s) auto

lemma trim_start_idem [simp]: "trim_start (trim_start s) = trim_start s"
  by (simp add: trim_start_def)

lemma trim_end_idem [simp]: "trim_end (trim_end s) = trim_end s"
  by (simp add: trim_end_def)

lemma trim_start_eq_self: "s = [] \<or> \<not> is_ws (hd s) \<Longrightarrow> trim_start s = s"
  by (cases s) (auto simp: trim_start_def)

lemma trim_end_eq_self: "s = [] \<or> \<not> is_ws (last s) \<Longrightarrow> trim_end s = s"
  by (cases s rule: rev_cases) (auto simp: trim_end_def)

lemma trim_start_ws_append: "\<forall>c\<in>set w. is_ws c \<Longrightarrow> trim_start (w @ s) = trim_start s"
  by (simp add: trim_start_def)

lemma trim_end_append_ws: "\<forall>c\<in>set w. is_ws c \<Longrightarrow> trim_end (s @ w) = trim_end s"
  by (simp add: trim_end_def) (metis dropWhile_append2 set_rev)

lemma trim_end_hd: "trim_end s \<noteq> [] \<Longrightarrow> hd (trim_end s) = hd s"
proof -
  assume a: "trim_end s \<noteq> []"
  have "s = trim_end s @ rev (takeWhile is_ws (rev s))"
    by (metis rev_append rev_rev_ident takeWhile_dropWhile_id trim_end_def)
  with a show ?thesis by (metis hd_append2)
qed

lemma trim_append_ws: "\<forall>c\<in>set w. is_ws c \<Longrightarrow> trim (s @ w) = trim s"
proof (cases "\<forall>c\<in>set s. is_ws c")
  case True
  moreover assume "\<forall>c\<in>set w. is_ws c"
  ultimately have "trim_start (s @ w) = []" "trim_start s = []"
    by (auto simp: trim_start_Nil_iff)
  then show ?thesis by (simp add: trim_def)
next
  case False
  moreover assume w: "\<forall>c\<in>set w. is_ws c"
  ultimately have "trim_start (s @ w) = trim_start s @ w"
    by (auto simp: trim_start_def dropWhile_append)
  with w show ?thesis by (simp add: trim_def trim_end_append_ws)
qed

lemma trim_eq_self:
  assumes "s \<noteq> []" "\<not> is_ws (hd s)" "\<not> is_ws (last s)"
  shows "trim s = s"
  using assms by (simp add: trim_def trim_start_eq_self trim_end_eq_self)

lemma trim_start_hd: "trim_start s \<noteq> [] \<Longrightarrow> \<not> is_ws (hd (trim_start s))"
  by (simp add: trim_start_def hd_dropWhile)

lemma trim_hd: "trim s \<noteq> [] \<Longrightarrow> \<not> is_ws (hd (trim s))"
proof -
  assume ne: "trim s \<noteq> []"
  then have "trim_start s \<noteq> []" by (auto simp: trim_def trim_end_def)
  with ne show ?thesis by (metis trim_def trim_end_hd trim_start_hd)
qed

lemma trim_idem [simp]: "trim (trim s) = trim s"
proof (cases "trim s = []")
  case True
  then show ?thesis by (simp only:) (simp add: trim_def trim_start_def trim_end_def)
next
  case False
  then have "trim_start (trim s) = trim s"
    by (intro trim_start_eq_self) (simp add: trim_hd)
  then show ?thesis by (metis trim_def trim_end_idem)
qed

lemma trim_eq_Nil: "trim s = [] \<longleftrightarrow> (\<forall>c\<in>set s. is_ws c)"
proof
  assume "trim s = []"
  then have "\<forall>c\<in>set (trim_start s). is_ws c" by (simp add: trim_def trim_end_Nil_iff)
  then show "\<forall>c\<in>set s. is_ws c"
    by (metis trim_start_Nil_iff trim_start_idem)
next
  assume "\<forall>c\<in>set s. is_ws c"
  then have "trim_start s = []" by (simp add: trim_start_Nil_iff)
  then show "trim s = []" by (simp add: trim_def trim_end_def)
qed

lemma trim_set: "set (trim s) \<subseteq> set s"
  by (auto simp: trim_def trim_end_def trim_start_def dest!: set_dropWhileD)

lemma trim_start_ws_free: "\<forall>c\<in>set s. \<not> is_ws c \<Longrightarrow> trim_start s = s"
  by (rule trim_start_eq_self) (cases s, auto)

subsection \<open>Tokens\<close>

lemma split_whitespace_Nil [simp]: "split_whitespace [] = []"
  by (subst split_whitespace.simps) (simp add: trim_start_def)

lemma split_whitespace_eq_Nil: "split_whitespace s = [] \<longleftrightarrow> (\<forall>c\<in>set s. is_ws c)"
  by (subst split_whitespace.simps) (simp add: Let_def trim_start_Nil_iff)

lemma split_whitespace_word:
  assumes "v \<noteq> []" "\<forall>c\<in>set v. \<not> is_ws c"
  shows "split_whitespace v = [v]"
proof -
  have "takeWhile (\<lambda>c. \<not> is_ws c) v = v"
    using assms(2) by (auto simp: takeWhile_eq_all_conv)
  moreover have "split_whitespace (dropWhile (\<lambda>c. \<not> is_ws c) v) = []"
    using assms(2) by (metis dropWhile_eq_Nil_conv split_whitespace_Nil)
  ultimately show ?thesis
    using assms by (subst split_whitespace.simps) (simp add: Let_def trim_start_ws_free)
qed

lemma split_whitespace_Cons:
  "split_whitespace s = w # ws \<longleftrightarrow>
     trim_start s \<noteq> [] \<and> w = takeWhile (\<lambda>c. \<not> is_ws c) (trim_start s)
       \<and> ws = split_whitespace (dropWhile (\<lambda>c. \<not> is_ws c) (trim_start s))"
  by (subst split_whitespace.simps) (auto simp: Let_def)

lemma split_whitespace_Cons_hd:
  assumes "split_whitespace s = w # ws"
  shows "w \<noteq> [] \<and> (\<forall>c\<in>set w. \<not> is_ws c)"
proof -
  from assms have ne: "trim_start s \<noteq> []" and w: "w = takeWhile (\<lambda>c. \<not> is_ws c) (trim_start s)"
    by (simp_all add: split_whitespace_Cons)
  then obtain c cs where "trim_start s = c # cs" by (meson neq_Nil_conv)
  moreover have "\<not> is_ws (hd (trim_start s))" using ne by (rule trim_start_hd)
  ultimately have "w \<noteq> []" using w by simp
  with w show ?thesis by (auto dest: set_takeWhileD)
qed

lemma split_whitespace_tokens:
  "w \<in> set (split_whitespace s) \<Longrightarrow> w \<noteq> [] \<and> (\<forall>c\<in>set w. \<not> is_ws c)"
proof (induction s rule: split_whitespace.induct)
  case (1 s)
  from "1.prems" obtain v vs where Cons: "split_whitespace s = v # vs"
    by (cases "split_whitespace s") auto
  then have v: "v \<noteq> [] \<and> (\<forall>c\<in>set v. \<not> is_ws c)" by (rule split_whitespace_Cons_hd)
  from Cons have vs: "vs = split_whitespace (dropWhile (\<lambda>c. \<not> is_ws c) (trim_start s))"
    and ne: "trim_start s \<noteq> []"
    by (simp_all add: split_whitespace_Cons)
  from "1.prems" Cons consider "w = v" | "w \<in> set vs" by auto
  then show ?case
  proof cases
    case 2
    with "1.IH"[OF refl ne] vs show ?thesis by blast
  qed (use v in simp)
qed

subsection \<open>Lines\<close>

text \<open>The line lists \<open>split_inclusive\<close> produces: every line nonempty, a newline only as the
  last character, and every line but the last ends with one.\<close>

definition is_line :: "string \<Rightarrow> bool" where
  "is_line l = (l \<noteq> [] \<and> nl \<notin> set (butlast l))"

definition terminated :: "string \<Rightarrow> bool" where
  "terminated l = (l \<noteq> [] \<and> last l = nl)"

definition wf_lines :: "string list \<Rightarrow> bool" where
  "wf_lines ls = ((\<forall>l\<in>set ls. is_line l) \<and> (\<forall>l\<in>set (butlast ls). terminated l))"

lemma wf_lines_Nil [simp]: "wf_lines []"
  by (simp add: wf_lines_def)

lemma wf_lines_Cons:
  "wf_lines (l # ls) \<longleftrightarrow> is_line l \<and> (ls = [] \<or> terminated l) \<and> wf_lines ls"
  by (cases ls) (auto simp: wf_lines_def)

lemma wf_lines_append:
  "wf_lines (ls @ ms) \<longleftrightarrow>
     wf_lines ls \<and> wf_lines ms \<and> (ms = [] \<or> (\<forall>l\<in>set ls. terminated l))"
  by (induction ls) (auto simp: wf_lines_Cons)

lemma split_inclusive_Nil_iff [simp]: "split_inclusive s = [] \<longleftrightarrow> s = []"
  by (cases s) (auto split: list.splits)

lemma concat_split_inclusive [simp]: "concat (split_inclusive s) = s"
  by (induction s) (auto split: list.splits)

lemma wf_split_inclusive [simp]: "wf_lines (split_inclusive s)"
proof (induction s)
  case (Cons c cs)
  then show ?case
    by (cases "split_inclusive cs")
       (auto simp: wf_lines_Cons is_line_def terminated_def)
qed simp

lemma split_inclusive_line:
  assumes "is_line l" "r = [] \<or> terminated l"
  shows "split_inclusive (l @ r) = l # split_inclusive r"
  using assms
proof (induction l)
  case (Cons c l)
  show ?case
  proof (cases l)
    case Nil
    with Cons.prems show ?thesis by (auto simp: terminated_def)
  next
    case (Cons d l')
    with Cons.prems have c: "c \<noteq> nl" and p: "is_line l" "r = [] \<or> terminated l"
      by (auto simp: is_line_def terminated_def)
    from Cons.IH[OF p] c show ?thesis by simp
  qed
qed (simp add: is_line_def)

lemma split_inclusive_concat: "wf_lines ls \<Longrightarrow> split_inclusive (concat ls) = ls"
proof (induction ls)
  case (Cons l ls)
  then have l: "is_line l" "ls = [] \<or> terminated l" "wf_lines ls"
    by (auto simp: wf_lines_Cons)
  have "concat ls = [] \<or> terminated l" using l by auto
  with l Cons.IH show ?case by (simp add: split_inclusive_line)
qed simp

lemma strip_terminator_trim: "trim (strip_terminator l) = trim l"
proof (cases "l \<noteq> [] \<and> last l = nl")
  case True
  then have l: "l = butlast l @ [nl]" by (metis append_butlast_last_id)
  have nl: "trim l = trim (butlast l)" by (subst l) (simp add: trim_append_ws)
  show ?thesis
  proof (cases "butlast l \<noteq> [] \<and> last (butlast l) = cr")
    case True
    then have "butlast l = butlast (butlast l) @ [cr]" by (metis append_butlast_last_id)
    then have "trim (butlast l) = trim (butlast (butlast l))"
      by (metis is_ws_code(2) list.set(1) list.set_intros(1) set_ConsD trim_append_ws empty_iff)
    with nl True \<open>l \<noteq> [] \<and> last l = nl\<close> show ?thesis by (simp add: strip_terminator_def Let_def)
  next
    case False
    with nl True show ?thesis by (auto simp: strip_terminator_def Let_def)
  qed
qed (auto simp: strip_terminator_def)

lemma map_trim_str_lines: "map trim (str_lines s) = map trim (split_inclusive s)"
  by (simp add: str_lines_def strip_terminator_trim)

end
