(* ===== verification/Config_Text.thy ===== *)
theory Config_Text
  imports Text_Lines
begin

text \<open>
  The directive reader and writer of \<open>crates/hardener-common/src/file_utils.rs\<close>:
  \<open>global_scope\<close>, \<open>parse_config_value\<close>, \<open>split_directive\<close>, \<open>strip_prefix_with_case\<close>,
  \<open>set_config_directive\<close> and \<open>line_terminator\<close>.
\<close>

subsection \<open>Definitions\<close>

datatype config_format = SpaceSeparated | KeyValue | Auto

datatype duplicates = Keep | Remove

definition MATCH_KEYWORD :: string where
  "MATCH_KEYWORD = ''Match''"

definition split_directive :: "string \<Rightarrow> string \<times> string" where
  "split_directive line =
     (let key = takeWhile (\<lambda>c. \<not> (is_ws c \<or> c = CHR ''='')) line;
          rest = trim_start (dropWhile (\<lambda>c. \<not> (is_ws c \<or> c = CHR ''='')) line)
      in (key, case strip_prefix ''='' rest of None \<Rightarrow> rest | Some r \<Rightarrow> trim_start r))"

text \<open>The byte slice \<open>s[..prefix.len()]\<close> compares equal, ignoring ASCII case, only when it holds
  the same number of characters as the prefix, so the model slices by characters.\<close>

definition strip_prefix_with_case :: "string \<Rightarrow> string \<Rightarrow> bool \<Rightarrow> string option" where
  "strip_prefix_with_case s prefix case_sensitive =
     (if case_sensitive then strip_prefix prefix s
      else if length prefix \<le> length s \<and> eq_ignore_ascii_case (take (length prefix) s) prefix
           then Some (drop (length prefix) s)
           else None)"

text \<open>A live \<open>Match\<close> line, which ends the global region for the reader and the writer.\<close>

definition opens_match_block :: "string \<Rightarrow> bool" where
  "opens_match_block line =
     (let trimmed = trim line in
      \<not> starts_with ''#'' trimmed \<and> eq_ignore_ascii_case (fst (split_directive trimmed)) MATCH_KEYWORD)"

fun global_scope_from :: "string \<Rightarrow> nat \<Rightarrow> string list \<Rightarrow> string" where
  "global_scope_from content offset [] = content"
| "global_scope_from content offset (line # lines) =
     (if opens_match_block line then take offset content
      else global_scope_from content (offset + length line) lines)"

definition global_scope :: "string \<Rightarrow> string" where
  "global_scope content = global_scope_from content 0 (split_inclusive content)"

definition key_matches :: "bool \<Rightarrow> string \<Rightarrow> string \<Rightarrow> bool" where
  "key_matches case_sensitive key directive_name =
     (if case_sensitive then key = directive_name else eq_ignore_ascii_case key directive_name)"

definition first_token :: "string \<Rightarrow> string option" where
  "first_token s = (case split_whitespace s of [] \<Rightarrow> None | t # _ \<Rightarrow> Some t)"

text \<open>What one line contributes, in the space-separated and the key-value arm of the loop.\<close>

definition space_separated_value :: "string \<Rightarrow> bool \<Rightarrow> string \<Rightarrow> string option" where
  "space_separated_value directive_name case_sensitive line =
     (let trimmed = trim line in
      if trimmed = [] \<or> starts_with ''#'' trimmed then None
      else let (key, value_text) = split_directive trimmed in
        if key_matches case_sensitive key directive_name then first_token value_text else None)"

definition key_value_value :: "string \<Rightarrow> bool \<Rightarrow> string \<Rightarrow> string option" where
  "key_value_value directive_name case_sensitive line =
     (let trimmed = trim line in
      if trimmed = [] \<or> starts_with ''#'' trimmed then None
      else case strip_prefix_with_case trimmed directive_name case_sensitive of
        None \<Rightarrow> None
      | Some stripped \<Rightarrow>
          (case strip_prefix ''='' (trim_start stripped) of
             Some value \<Rightarrow> Some (trim value)
           | None \<Rightarrow>
               if stripped \<noteq> [] \<and> is_ws (hd stripped) then first_token stripped else None))"

text \<open>In the \<open>Auto\<close> arm the source recurses on the whole content from inside the loop, at the
  first line that is neither blank nor a comment; a content with no such line has no value.\<close>

definition is_live_line :: "string \<Rightarrow> bool" where
  "is_live_line line = (let trimmed = trim line in \<not> (trimmed = [] \<or> starts_with ''#'' trimmed))"

fun parse_config_value :: "string \<Rightarrow> string \<Rightarrow> config_format \<Rightarrow> bool \<Rightarrow> string option" where
  "parse_config_value content directive_name SpaceSeparated case_sensitive =
     find_map (space_separated_value directive_name case_sensitive) (str_lines content)"
| "parse_config_value content directive_name KeyValue case_sensitive =
     find_map (key_value_value directive_name case_sensitive) (str_lines content)"
| "parse_config_value content directive_name Auto case_sensitive =
     (if list_ex is_live_line (str_lines content) then
        (case find_map (key_value_value directive_name case_sensitive) (str_lines content) of
           Some v \<Rightarrow> Some v
         | None \<Rightarrow> find_map (space_separated_value directive_name case_sensitive) (str_lines content))
      else None)"

definition line_terminator :: "string \<Rightarrow> string" where
  "line_terminator line =
     (if ends_with [cr, nl] line then [cr, nl] else if ends_with [nl] line then [nl] else [])"

text \<open>The scan of \<open>set_config_directive\<close>: the first live definition, the first commented one,
  the further live ones, and the first live \<open>Match\<close> line, as line indices.\<close>

record directive_scan =
  live_at :: "nat option"
  commented_at :: "nat option"
  extra_at :: "nat list"
  boundary_at :: "nat option"

definition empty_scan :: directive_scan where
  "empty_scan = \<lparr>live_at = None, commented_at = None, extra_at = [], boundary_at = None\<rparr>"

fun scan_lines :: "string \<Rightarrow> bool \<Rightarrow> nat \<Rightarrow> string list \<Rightarrow> directive_scan \<Rightarrow> directive_scan" where
  "scan_lines directive_name case_sensitive index [] s = s"
| "scan_lines directive_name case_sensitive index (line # lines) s =
     (let trimmed = trim line;
          is_comment = starts_with ''#'' trimmed;
          check_line = trim (trim_start_matches (CHR ''#'') trimmed);
          first = fst (split_directive check_line);
          continue = scan_lines directive_name case_sensitive (Suc index) lines
      in if trimmed = [] then continue s
         else if first = [] then continue s
         else if \<not> is_comment \<and> eq_ignore_ascii_case first MATCH_KEYWORD
              then s\<lparr>boundary_at := Some index\<rparr>
         else if \<not> key_matches case_sensitive first directive_name then continue s
         else if is_comment then
           continue (case commented_at s of None \<Rightarrow> s\<lparr>commented_at := Some index\<rparr> | Some _ \<Rightarrow> s)
         else if live_at s = None then continue (s\<lparr>live_at := Some index\<rparr>)
         else continue (s\<lparr>extra_at := extra_at s @ [index]\<rparr>))"

definition directive_line :: "config_format \<Rightarrow> string \<Rightarrow> string \<Rightarrow> string" where
  "directive_line format directive_name value =
     (case format of
        KeyValue \<Rightarrow> directive_name @ '' = '' @ value
      | _ \<Rightarrow> directive_name @ '' '' @ value)"

definition remove_index :: "nat \<Rightarrow> 'a list \<Rightarrow> 'a list" where
  "remove_index i xs = take i xs @ drop (Suc i) xs"

definition insert_index :: "nat \<Rightarrow> 'a \<Rightarrow> 'a list \<Rightarrow> 'a list" where
  "insert_index i x xs = take i xs @ x # drop i xs"

definition place_directive :: "directive_scan \<Rightarrow> string \<Rightarrow> string list \<Rightarrow> string list" where
  "place_directive s new_line lines =
     (case (if live_at s = None then commented_at s else live_at s, boundary_at s) of
        (Some index, _) \<Rightarrow> lines[index := new_line @ line_terminator (lines ! index)]
      | (None, Some index) \<Rightarrow>
          (let t = line_terminator (lines ! index) in
           insert_index index (new_line @ (if t = [] then [nl] else t)) lines)
      | (None, None) \<Rightarrow>
          (let t = (if lines = [] then [nl] else line_terminator (last lines));
               lines' = (if lines \<noteq> [] \<and> \<not> ends_with [nl] (last lines)
                         then butlast lines @ [last lines @ [nl]] else lines)
           in lines' @ [new_line @ t]))"

definition set_config_directive ::
  "string \<Rightarrow> string \<Rightarrow> string \<Rightarrow> config_format \<Rightarrow> bool \<Rightarrow> duplicates \<Rightarrow> string" where
  "set_config_directive content directive_name value format case_sensitive duplicates =
     (let lines = split_inclusive content;
          s = scan_lines directive_name case_sensitive 0 lines empty_scan;
          placed = place_directive s (directive_line format directive_name value) lines;
          kept = (if duplicates = Remove then foldl (\<lambda>ls i. remove_index i ls) placed (rev (extra_at s))
                  else placed);
          out = concat kept
      in if ends_with [nl] out then out else out @ [nl])"

end
