(* ===== verification/Config_Edit.thy ===== *)
theory Config_Edit
  imports Config_Text
begin

text \<open>
  What \<open>set_config_directive\<close> does to a file, line by line: the scan is a search in the global
  region, the edit replaces, activates, inserts or appends exactly one line, and the written
  file splits back into the lines the edit produced.
\<close>


subsection \<open>Lines that define a directive\<close>

definition defines_live :: "string \<Rightarrow> bool \<Rightarrow> string \<Rightarrow> bool" where
  "defines_live name cs l =
     (\<not> starts_with ''#'' (trim l) \<and> key_matches cs (fst (split_directive (trim l))) name)"

definition defines_commented :: "string \<Rightarrow> bool \<Rightarrow> string \<Rightarrow> bool" where
  "defines_commented name cs l =
     (starts_with ''#'' (trim l) \<and>
      key_matches cs (fst (split_directive (trim (trim_start_matches (CHR ''#'') (trim l))))) name)"

text \<open>Keys and values a caller may write: a key without separators that is neither a comment nor
  \<open>Match\<close>, and a value the readers return whole.\<close>

definition valid_key :: "string \<Rightarrow> bool" where
  "valid_key name =
     (name \<noteq> [] \<and> (\<forall>c\<in>set name. \<not> is_ws c \<and> c \<noteq> CHR ''='') \<and> hd name \<noteq> CHR ''#''
      \<and> \<not> eq_ignore_ascii_case name MATCH_KEYWORD)"

definition valid_value :: "string \<Rightarrow> bool" where
  "valid_value v = (v \<noteq> [] \<and> (\<forall>c\<in>set v. \<not> is_ws c) \<and> hd v \<noteq> CHR ''='')"

definition terminators :: "string set" where
  "terminators = {[], [nl], [cr, nl]}"

lemma key_matches_Nil: "name \<noteq> [] \<Longrightarrow> \<not> key_matches cs [] name"
  by (auto simp: key_matches_def eq_ignore_ascii_case_def)

lemma key_matches_refl [simp]: "key_matches cs n n"
  by (simp add: key_matches_def)

lemma key_matches_sym: "key_matches cs a b = key_matches cs b a"
  by (auto simp: key_matches_def eq_ignore_ascii_case_sym)

lemma key_matches_trans: "key_matches cs a b \<Longrightarrow> key_matches cs b c \<Longrightarrow> key_matches cs a c"
  by (auto simp: key_matches_def split: if_splits intro: eq_ignore_ascii_case_trans)

lemma key_matches_not_Match:
  "key_matches cs k name \<Longrightarrow> eq_ignore_ascii_case k MATCH_KEYWORD \<Longrightarrow> eq_ignore_ascii_case name MATCH_KEYWORD"
  by (auto simp: key_matches_def split: if_splits
        intro: eq_ignore_ascii_case_trans simp: eq_ignore_ascii_case_sym)

lemma split_directive_Nil [simp]: "split_directive [] = ([], [])"
  by (simp add: split_directive_def trim_start_def strip_prefix_def starts_with_def)

lemma opens_match_key:
  "opens_match_block l \<longleftrightarrow> \<not> starts_with ''#'' (trim l) \<and>
     eq_ignore_ascii_case (fst (split_directive (trim l))) MATCH_KEYWORD"
  by (simp add: opens_match_block_def Let_def)

lemma defines_live_not_match:
  "valid_key name \<Longrightarrow> defines_live name cs l \<Longrightarrow> \<not> opens_match_block l"
  by (auto simp: defines_live_def opens_match_key valid_key_def dest: key_matches_not_Match)

lemma defines_commented_not_match: "defines_commented name cs l \<Longrightarrow> \<not> opens_match_block l"
  by (simp add: defines_commented_def opens_match_key)

lemma defines_disjoint: "defines_live name cs l \<Longrightarrow> \<not> defines_commented name cs l"
  by (simp add: defines_commented_def defines_live_def)

lemma not_comment_check_line:
  "\<not> starts_with ''#'' t \<Longrightarrow> trim_start_matches (CHR ''#'') t = t"
  by (cases t) (auto simp: trim_start_matches_def starts_with_def)

text \<open>The global region and what follows it.\<close>

definition global_lines :: "string list \<Rightarrow> string list" where
  "global_lines ls = takeWhile (\<lambda>l. \<not> opens_match_block l) ls"

definition block_lines :: "string list \<Rightarrow> string list" where
  "block_lines ls = dropWhile (\<lambda>l. \<not> opens_match_block l) ls"

lemma global_block_lines: "global_lines ls @ block_lines ls = ls"
  by (simp add: global_lines_def block_lines_def)

lemma global_lines_Cons:
  "global_lines (l # ls) = (if opens_match_block l then [] else l # global_lines ls)"
  "block_lines (l # ls) = (if opens_match_block l then l # ls else block_lines ls)"
  by (simp_all add: global_lines_def block_lines_def)

lemma global_lines_Nil [simp]: "global_lines [] = []" "block_lines [] = []"
  by (simp_all add: global_lines_def block_lines_def)

lemma global_lines_append:
  "\<forall>l\<in>set ls. \<not> opens_match_block l \<Longrightarrow> global_lines (ls @ ms) = ls @ global_lines ms"
  "\<forall>l\<in>set ls. \<not> opens_match_block l \<Longrightarrow> block_lines (ls @ ms) = block_lines ms"
  by (simp_all add: global_lines_def block_lines_def)

lemma global_lines_block [simp]: "global_lines (block_lines ls) = []"
  "block_lines (block_lines ls) = block_lines ls"
  by (induction ls) (auto simp: global_lines_Cons)

lemma set_global_lines: "l \<in> set (global_lines ls) \<Longrightarrow> \<not> opens_match_block l"
  by (auto simp: global_lines_def dest: set_takeWhileD)

lemma global_scope_from_eq:
  "wf_lines ls \<Longrightarrow> content = pre @ concat ls \<Longrightarrow>
     global_scope_from content (length pre) ls = pre @ concat (global_lines ls)"
proof (induction ls arbitrary: pre)
  case (Cons l ls)
  from Cons.IH[of "pre @ l"] Cons.prems show ?case
    by (auto simp: global_lines_Cons wf_lines_Cons)
qed simp

lemma global_scope_lines: "split_inclusive (global_scope c) = global_lines (split_inclusive c)"
proof -
  have "global_scope c = concat (global_lines (split_inclusive c))"
    using global_scope_from_eq[of "split_inclusive c" c "[]"]
    by (simp add: global_scope_def)
  moreover have "wf_lines (global_lines (split_inclusive c))"
    by (metis global_block_lines wf_lines_append wf_split_inclusive)
  ultimately show ?thesis by (simp add: split_inclusive_concat)
qed

subsection \<open>What the scan finds\<close>

fun indices_of :: "(string \<Rightarrow> bool) \<Rightarrow> nat \<Rightarrow> string list \<Rightarrow> nat list" where
  "indices_of P i [] = []"
| "indices_of P i (l # ls) = (if P l then i # indices_of P (Suc i) ls else indices_of P (Suc i) ls)"

fun first_of :: "'a list \<Rightarrow> 'a option" where
  "first_of [] = None"
| "first_of (x # _) = Some x"

definition or_else :: "'a option \<Rightarrow> 'a option \<Rightarrow> 'a option" where
  "or_else a b = (case a of None \<Rightarrow> b | Some x \<Rightarrow> Some x)"

lemma or_else_simps [simp]: "or_else None b = b" "or_else (Some x) b = Some x"
  by (simp_all add: or_else_def)

lemma scan_lines_Cons:
  assumes "name \<noteq> []"
  shows "scan_lines name cs i (l # ls) s =
    (if opens_match_block l then s\<lparr>boundary_at := Some i\<rparr>
     else if defines_live name cs l then
       scan_lines name cs (Suc i) ls
         (if live_at s = None then s\<lparr>live_at := Some i\<rparr> else s\<lparr>extra_at := extra_at s @ [i]\<rparr>)
     else if defines_commented name cs l then
       scan_lines name cs (Suc i) ls
         (case commented_at s of None \<Rightarrow> s\<lparr>commented_at := Some i\<rparr> | Some _ \<Rightarrow> s)
     else scan_lines name cs (Suc i) ls s)"
proof (cases "trim l = []")
  case True
  then have "fst (split_directive (trim l)) = []" by simp
  moreover have "\<not> eq_ignore_ascii_case [] MATCH_KEYWORD"
    by (simp add: eq_ignore_ascii_case_def MATCH_KEYWORD_def)
  ultimately show ?thesis
    using assms True key_matches_Nil[OF assms, of cs]
    by (simp add: opens_match_key defines_live_def defines_commented_def starts_with_def)
next
  case False
  show ?thesis
  proof (cases "starts_with ''#'' (trim l)")
    case True
    then show ?thesis
      using False key_matches_Nil[OF assms, of cs]
      by (auto simp: opens_match_key defines_live_def defines_commented_def Let_def)
  next
    case nc: False
    have "\<not> eq_ignore_ascii_case [] MATCH_KEYWORD"
      by (simp add: eq_ignore_ascii_case_def MATCH_KEYWORD_def)
    then show ?thesis
      using False nc key_matches_Nil[OF assms, of cs]
      by (auto simp: opens_match_key defines_live_def defines_commented_def Let_def
            not_comment_check_line)
  qed
qed

lemma scan_lines_eq:
  assumes "valid_key name"
  shows "scan_lines name cs i ls s =
    s\<lparr>live_at := or_else (live_at s) (first_of (indices_of (defines_live name cs) i (global_lines ls))),
      commented_at := or_else (commented_at s)
        (first_of (indices_of (defines_commented name cs) i (global_lines ls))),
      extra_at := extra_at s @ (if live_at s = None then tl (indices_of (defines_live name cs) i (global_lines ls))
        else indices_of (defines_live name cs) i (global_lines ls)),
      boundary_at := (if block_lines ls = [] then boundary_at s else Some (i + length (global_lines ls)))\<rparr>"
proof (induction ls arbitrary: i s)
  case Nil
  then show ?case by (cases s) (auto simp: or_else_def split: option.splits)
next
  case (Cons l ls)
  from assms have ne: "name \<noteq> []" by (simp add: valid_key_def)
  show ?case
    using assms
    by (cases s)
       (auto simp: scan_lines_Cons[OF ne] Cons.IH global_lines_Cons or_else_def simp del: scan_lines.simps(2)
          dest: defines_live_not_match defines_commented_not_match defines_disjoint
          split: option.splits)
qed


subsection \<open>The edit as a function of the line structure\<close>

definition replace_first :: "(string \<Rightarrow> bool) \<Rightarrow> string \<Rightarrow> string list \<Rightarrow> string list" where
  "replace_first P new ls =
     takeWhile (\<lambda>l. \<not> P l) ls @ (new @ line_terminator (hd (dropWhile (\<lambda>l. \<not> P l) ls)))
       # tl (dropWhile (\<lambda>l. \<not> P l) ls)"

definition drop_later :: "(string \<Rightarrow> bool) \<Rightarrow> string list \<Rightarrow> string list" where
  "drop_later P ls = takeWhile (\<lambda>l. \<not> P l) ls
     @ (case dropWhile (\<lambda>l. \<not> P l) ls of [] \<Rightarrow> [] | d # r \<Rightarrow> d # filter (\<lambda>l. \<not> P l) r)"

definition terminate_last :: "string list \<Rightarrow> string list" where
  "terminate_last ls = (if ls \<noteq> [] \<and> \<not> ends_with [nl] (last ls)
     then butlast ls @ [last ls @ [nl]] else ls)"

text \<open>What the writer does, stated on lines: rewrite the first live definition of the global
  region (dropping the later ones when duplicates are to go), else activate the first commented
  one, else insert above the first \<open>Match\<close>, else append.\<close>

definition edited_global ::
  "string \<Rightarrow> bool \<Rightarrow> duplicates \<Rightarrow> string \<Rightarrow> string list \<Rightarrow> string list" where
  "edited_global name cs dup new ls =
     (let g = global_lines ls; b = block_lines ls; live = defines_live name cs;
          com = defines_commented name cs
      in if list_ex live g then replace_first live new (if dup = Remove then drop_later live g else g)
         else if list_ex com g then replace_first com new g
         else if b \<noteq> [] then
           g @ [new @ (let t = line_terminator (hd b) in if t = [] then [nl] else t)]
         else terminate_last g @ [new @ (if g = [] then [nl] else line_terminator (last g))])"

definition edited_lines ::
  "string \<Rightarrow> bool \<Rightarrow> duplicates \<Rightarrow> string \<Rightarrow> string list \<Rightarrow> string list" where
  "edited_lines name cs dup new ls = edited_global name cs dup new ls @ block_lines ls"

lemma first_of_indices:
  "first_of (indices_of P i ls) =
     (if list_ex P ls then Some (i + length (takeWhile (\<lambda>l. \<not> P l) ls)) else None)"
  by (induction ls arbitrary: i) auto

lemma tl_indices:
  "tl (indices_of P i ls) =
     indices_of P (Suc (i + length (takeWhile (\<lambda>l. \<not> P l) ls))) (tl (dropWhile (\<lambda>l. \<not> P l) ls))"
  by (induction ls arbitrary: i) auto

lemma indices_of_eq_Nil: "\<not> list_ex P ls \<Longrightarrow> indices_of P i ls = []"
  by (induction ls arbitrary: i) auto

lemma remove_indices:
  "length a = k \<Longrightarrow>
     foldl (\<lambda>ls i. remove_index i ls) (a @ m @ b) (rev (indices_of P k m))
       = a @ filter (\<lambda>l. \<not> P l) m @ b"
proof (induction m arbitrary: a k)
  case (Cons l m)
  from Cons.prems have k: "length (a @ [l]) = Suc k" by simp
  from Cons.IH[OF k] Cons.prems show ?case
    by (auto simp: remove_index_def)
qed simp

lemma dropWhile_list_ex: "list_ex P ls \<Longrightarrow> dropWhile (\<lambda>l. \<not> P l) ls \<noteq> []"
  by (auto simp: list_ex_iff)

lemma split_at_first:
  "list_ex P ls \<Longrightarrow>
     ls = takeWhile (\<lambda>l. \<not> P l) ls @ hd (dropWhile (\<lambda>l. \<not> P l) ls) # tl (dropWhile (\<lambda>l. \<not> P l) ls)"
  by (metis dropWhile_list_ex list.collapse takeWhile_dropWhile_id)

lemma list_update_at_first:
  assumes "list_ex P g"
  shows "(g @ b)[length (takeWhile (\<lambda>l. \<not> P l) g) :=
            new @ line_terminator ((g @ b) ! length (takeWhile (\<lambda>l. \<not> P l) g))]
         = replace_first P new g @ b"
proof -
  obtain p d r where g: "g = p @ d # r" and p: "takeWhile (\<lambda>l. \<not> P l) g = p"
    and d: "dropWhile (\<lambda>l. \<not> P l) g = d # r"
    using split_at_first[OF assms] by (metis dropWhile_list_ex[OF assms] list.collapse)
  show ?thesis unfolding replace_first_def p d unfolding g by simp
qed

lemma drop_later_parts:
  assumes "list_ex P g"
  shows "takeWhile (\<lambda>l. \<not> P l) (drop_later P g) = takeWhile (\<lambda>l. \<not> P l) g"
    and "dropWhile (\<lambda>l. \<not> P l) (drop_later P g)
           = hd (dropWhile (\<lambda>l. \<not> P l) g) # filter (\<lambda>l. \<not> P l) (tl (dropWhile (\<lambda>l. \<not> P l) g))"
proof -
  obtain d r where d: "dropWhile (\<lambda>l. \<not> P l) g = d # r" 
    using dropWhile_list_ex[OF assms] by (metis list.collapse)
  then have Pd: "P d" by (metis dropWhile_eq_Cons_conv)
  have np: "\<And>x. x \<in> set (takeWhile (\<lambda>l. \<not> P l) g) \<Longrightarrow> \<not> P x" by (auto dest: set_takeWhileD)
  show "takeWhile (\<lambda>l. \<not> P l) (drop_later P g) = takeWhile (\<lambda>l. \<not> P l) g"
    using np Pd by (simp add: drop_later_def d takeWhile_append2)
  show "dropWhile (\<lambda>l. \<not> P l) (drop_later P g)
           = hd (dropWhile (\<lambda>l. \<not> P l) g) # filter (\<lambda>l. \<not> P l) (tl (dropWhile (\<lambda>l. \<not> P l) g))"
    using np Pd by (simp add: drop_later_def d dropWhile_append2)
qed

lemma set_config_directive_edited:
  assumes "valid_key name"
  shows "set_config_directive content name value format cs dup =
    (let out = concat (edited_lines name cs dup (directive_line format name value)
                         (split_inclusive content))
     in if ends_with [nl] out then out else out @ [nl])"
proof -
  let ?ls = "split_inclusive content" and ?new = "directive_line format name value"
  let ?L = "defines_live name cs" and ?C = "defines_commented name cs"
  let ?g = "global_lines ?ls" and ?b = "block_lines ?ls"
  define s where "s = scan_lines name cs 0 ?ls empty_scan"
  define kept where "kept = (if dup = Remove
      then foldl (\<lambda>ls i. remove_index i ls) (place_directive s ?new ?ls) (rev (extra_at s))
      else place_directive s ?new ?ls)"
  have ls: "?ls = ?g @ ?b" by (simp add: global_block_lines)
  have s: "s = \<lparr>live_at = first_of (indices_of ?L 0 ?g), commented_at = first_of (indices_of ?C 0 ?g),
      extra_at = tl (indices_of ?L 0 ?g),
      boundary_at = (if ?b = [] then None else Some (length ?g))\<rparr>"
    unfolding s_def by (simp add: scan_lines_eq[OF assms] empty_scan_def)
  have "kept = edited_lines name cs dup ?new ?ls"
  proof (cases "list_ex ?L ?g")
    case True
    let ?p = "takeWhile (\<lambda>l. \<not> ?L l) ?g" and ?r = "dropWhile (\<lambda>l. \<not> ?L l) ?g"
    have pl: "place_directive s ?new ?ls = replace_first ?L ?new ?g @ ?b"
      using True list_update_at_first[OF True, of ?b ?new]
      by (simp add: place_directive_def s first_of_indices global_block_lines)
    have "foldl (\<lambda>ls i. remove_index i ls) (replace_first ?L ?new ?g @ ?b) (rev (extra_at s))
        = replace_first ?L ?new (drop_later ?L ?g) @ ?b"
      using remove_indices[of "?p @ [?new @ line_terminator (hd ?r)]" "Suc (length ?p)" "tl ?r" ?b ?L]
      by (simp add: s tl_indices replace_first_def drop_later_parts[OF True])
    with pl True show ?thesis by (simp add: kept_def edited_lines_def edited_global_def Let_def)
  next
    case nl: False
    then have x: "extra_at s = []" by (simp add: s indices_of_eq_Nil)
    have "place_directive s ?new ?ls = edited_lines name cs dup ?new ?ls"
    proof (cases "list_ex ?C ?g")
      case True
      with nl list_update_at_first[OF True, of ?b ?new] show ?thesis
        by (simp add: place_directive_def s first_of_indices edited_lines_def edited_global_def
              global_block_lines)
    next
      case com: False
      show ?thesis
      proof (cases "?b = []")
        case True
        then have "?g = ?ls" by (metis append_Nil2 global_block_lines)
        with True nl com show ?thesis
          by (simp add: place_directive_def s first_of_indices edited_lines_def edited_global_def
              Let_def terminate_last_def)
      next
        case False
        then have "?ls ! length ?g = hd ?b"
          by (subst (1) ls) (simp add: nth_append hd_conv_nth)
        moreover have "take (length ?g) ?ls = ?g" "drop (length ?g) ?ls = ?b"
          by (metis append_eq_conv_conj ls)+
        ultimately show ?thesis
          using False nl com
          by (simp add: place_directive_def s first_of_indices edited_lines_def edited_global_def
              Let_def insert_index_def)
      qed
    qed
    with x show ?thesis by (simp add: kept_def)
  qed
  moreover have "set_config_directive content name value format cs dup =
      (let out = concat kept in if ends_with [nl] out then out else out @ [nl])"
    unfolding set_config_directive_def kept_def s_def Let_def by (rule refl)
  ultimately show ?thesis by simp
qed


subsection \<open>The written file, line by line\<close>

lemma line_terminator_cases: "line_terminator l \<in> terminators"
  by (simp add: line_terminator_def terminators_def)

lemma line_terminator_Nil_iff: "line_terminator l = [] \<longleftrightarrow> \<not> terminated l"
  by (simp add: line_terminator_def ends_with_single terminated_def)
     (auto simp: ends_with_iff)

lemma terminators_ws: "t \<in> terminators \<Longrightarrow> \<forall>c\<in>set t. is_ws c"
  by (auto simp: terminators_def)

lemma trim_terminators: "t \<in> terminators \<Longrightarrow> trim (l @ t) = trim l"
  by (simp add: terminators_ws trim_append_ws)

lemma is_line_terminators:
  assumes "nl \<notin> set l" "l \<noteq> []" "t \<in> terminators"
  shows "is_line (l @ t)" and "terminated (l @ t) \<longleftrightarrow> t \<noteq> []"
proof -
  show "is_line (l @ t)"
    using assms by (auto simp: is_line_def terminators_def butlast_append dest: in_set_butlastD)
  show "terminated (l @ t) \<longleftrightarrow> t \<noteq> []"
    using assms by (auto simp: terminated_def terminators_def) (metis last_in_set)
qed

lemma map_trim_terminate_last: "map trim (terminate_last ls) = map trim ls"
proof (cases "ls \<noteq> [] \<and> \<not> ends_with [nl] (last ls)")
  case True
  then have "map trim ls = map trim (butlast ls) @ [trim (last ls)]"
    by (metis append_butlast_last_id map_append list.simps(8,9))
  with True show ?thesis
    by (simp add: terminate_last_def trim_append_ws)
qed (auto simp: terminate_last_def)

lemma opens_match_block_trim: "trim l = trim l' \<Longrightarrow> opens_match_block l = opens_match_block l'"
  by (simp add: opens_match_key)

lemma defines_live_trim: "trim l = trim l' \<Longrightarrow> defines_live n cs l = defines_live n cs l'"
  by (simp add: defines_live_def)

lemma terminate_last_append:
  "ms \<noteq> [] \<Longrightarrow> terminate_last (ls @ ms) = ls @ terminate_last ms"
  by (simp add: terminate_last_def butlast_append)

lemma terminate_last_eq_Nil [simp]: "terminate_last ls = [] \<longleftrightarrow> ls = []"
  by (simp add: terminate_last_def)

lemma terminate_last_concat:
  assumes "wf_lines ls" "ls \<noteq> []"
  shows "split_inclusive (let out = concat ls in if ends_with [nl] out then out else out @ [nl])
         = terminate_last ls"
proof -
  have ls: "ls = butlast ls @ [last ls]" using assms by simp
  have lne: "last ls \<noteq> []" "nl \<notin> set (butlast (last ls))"
    using assms by (auto simp: wf_lines_def is_line_def)
  have c: "concat ls = concat (butlast ls) @ last ls" using arg_cong[OF ls, of concat] by simp
  then have "concat ls \<noteq> [] \<and> last (concat ls) = last (last ls)" using lne by simp
  then have ew: "ends_with [nl] (concat ls) = ends_with [nl] (last ls)"
    using lne by (simp add: ends_with_single)
  show ?thesis
  proof (cases "ends_with [nl] (last ls)")
    case True
    with ew assms show ?thesis by (simp add: terminate_last_def split_inclusive_concat)
  next
    case False
    have "nl \<notin> set (last ls)"
      using False lne by (metis append_butlast_last_id ends_with_single in_set_conv_decomp
          rotate1.simps(2) set_ConsD set_rotate1)
    then have "wf_lines (butlast ls @ [last ls @ [nl]])"
      using assms by (auto simp: wf_lines_append wf_lines_Cons is_line_def butlast_append
          wf_lines_def in_set_butlastD dest: in_set_butlastD)
    then have "split_inclusive (concat (butlast ls @ [last ls @ [nl]])) = butlast ls @ [last ls @ [nl]]"
      by (rule split_inclusive_concat)
    moreover have "concat (butlast ls @ [last ls @ [nl]]) = concat ls @ [nl]"
      using c by simp
    ultimately have "split_inclusive (concat ls @ [nl]) = butlast ls @ [last ls @ [nl]]"
      by (simp only:)
    then show ?thesis
      using False ew assms(2) by (simp add: terminate_last_def)
  qed
qed


lemma hash_start: "starts_with ''#'' s \<longleftrightarrow> s \<noteq> [] \<and> hd s = CHR ''#''"
  by (cases s) (auto simp: starts_with_def)

text \<open>The line the writer produces reads as a live definition of its own key.\<close>

lemma trim_directive_line:
  assumes "valid_key name" "valid_value v" "t \<in> terminators"
  shows "trim (directive_line fmt name v @ t) = directive_line fmt name v"
proof -
  have "name \<noteq> []" "v \<noteq> []" "\<not> is_ws (hd name)" "\<not> is_ws (last v)"
    using assms by (auto simp: valid_key_def valid_value_def)
  then have "trim (directive_line fmt name v) = directive_line fmt name v"
    by (intro trim_eq_self) (auto simp: directive_line_def split: config_format.splits)
  with assms(3) show ?thesis by (simp add: trim_terminators)
qed

lemma directive_line_no_nl:
  assumes "valid_key name" "valid_value v"
  shows "nl \<notin> set (directive_line fmt name v)" "directive_line fmt name v \<noteq> []"
proof -
  have "nl \<notin> set name" "nl \<notin> set v"
    using assms is_ws_code(1) unfolding valid_key_def valid_value_def by blast+
  then show "nl \<notin> set (directive_line fmt name v)"
    by (cases fmt) (simp_all add: directive_line_def)
  show "directive_line fmt name v \<noteq> []"
    by (cases fmt) (simp_all add: directive_line_def)
qed

lemma split_directive_line:
  assumes "valid_key name" "valid_value v"
  shows "split_directive (directive_line fmt name v) = (name, v)"
proof -
  have n: "\<forall>c\<in>set name. \<not> is_ws c \<and> c \<noteq> CHR ''=''" using assms by (auto simp: valid_key_def)
  have sp: "takeWhile (\<lambda>c. \<not> is_ws c \<and> c \<noteq> CHR ''='') (name @ CHR '' '' # r) = name"
    "dropWhile (\<lambda>c. \<not> is_ws c \<and> c \<noteq> CHR ''='') (name @ CHR '' '' # r) = CHR '' '' # r" for r
    using n by (auto simp: takeWhile_append2 dropWhile_append2)
  have v: "trim_start v = v" "strip_prefix ''='' v = None"
    using assms by (auto simp: valid_value_def trim_start_ws_free strip_prefix_def starts_with_def)
       (cases v, auto)
  have ts: "trim_start (CHR '' '' # r) = trim_start r" for r
    by (simp add: trim_start_def)
  have eq: "trim_start (CHR ''='' # r) = CHR ''='' # r" "strip_prefix ''='' (CHR ''='' # r) = Some r" for r
    by (simp_all add: trim_start_def strip_prefix_def starts_with_def)
  show ?thesis
    by (cases fmt) (simp_all add: directive_line_def split_directive_def Let_def sp v ts eq)
qed

lemma directive_line_live:
  assumes "valid_key name" "valid_value v" "t \<in> terminators"
  shows "defines_live n cs (directive_line fmt name v @ t) \<longleftrightarrow> key_matches cs name n"
    and "\<not> opens_match_block (directive_line fmt name v @ t)"
proof -
  have h: "\<not> starts_with ''#'' (directive_line fmt name v)"
    using assms by (auto simp: hash_start valid_key_def directive_line_def split: config_format.splits)
  then show "defines_live n cs (directive_line fmt name v @ t) \<longleftrightarrow> key_matches cs name n"
    using assms by (simp add: defines_live_def trim_directive_line split_directive_line)
  show "\<not> opens_match_block (directive_line fmt name v @ t)"
    using assms by (simp add: opens_match_key trim_directive_line split_directive_line valid_key_def)
qed

text \<open>The edited global region is a list of well-formed lines, none of which opens a block.\<close>

lemma replace_first_parts:
  assumes "list_ex P g"
  obtains p d r where "g = p @ d # r" "P d" "\<forall>l\<in>set p. \<not> P l"
    "replace_first P new g = p @ (new @ line_terminator d) # r"
    "drop_later P g = p @ d # filter (\<lambda>l. \<not> P l) r"
    "replace_first P new (drop_later P g) = p @ (new @ line_terminator d) # filter (\<lambda>l. \<not> P l) r"
proof -
  let ?p = "takeWhile (\<lambda>l. \<not> P l) g" and ?r = "dropWhile (\<lambda>l. \<not> P l) g"
  obtain d r where d: "?r = d # r"
    using dropWhile_list_ex[OF assms] by (metis list.collapse)
  show thesis
  proof (rule that[of ?p d r])
    show "g = ?p @ d # r" using d by (metis takeWhile_dropWhile_id)
    show "P d" using d by (metis dropWhile_eq_Cons_conv)
    show "\<forall>l\<in>set ?p. \<not> P l" by (auto dest: set_takeWhileD)
    show "replace_first P new (drop_later P g)
        = ?p @ (new @ line_terminator d) # filter (\<lambda>l. \<not> P l) r"
      by (simp add: replace_first_def drop_later_parts[OF assms] d)
  qed (simp_all add: replace_first_def drop_later_def d)
qed

text \<open>One description of the five outcomes of the edit: lines kept in front, the new line, and
  lines kept behind; a line is replaced, or activated from a comment, or nothing is dropped.\<close>

lemma edited_global_cases:
  assumes "valid_key name"
  obtains (live) p d r r' t where "global_lines ls = p @ d # r" "defines_live name cs d"
      "\<forall>l\<in>set p. \<not> defines_live name cs l" "t = line_terminator d"
      "r' = (if dup = Remove then filter (\<lambda>l. \<not> defines_live name cs l) r else r)"
      "edited_global name cs dup new ls = p @ (new @ t) # r'"
  | (commented) p d r t where "global_lines ls = p @ d # r" "defines_commented name cs d"
      "\<forall>l\<in>set (global_lines ls). \<not> defines_live name cs l" "t = line_terminator d"
      "edited_global name cs dup new ls = p @ (new @ t) # r"
  | (insert) t where "\<forall>l\<in>set (global_lines ls). \<not> defines_live name cs l" "block_lines ls \<noteq> []"
      "t \<in> terminators" "t \<noteq> []" "edited_global name cs dup new ls = global_lines ls @ [new @ t]"
  | (append) t where "\<forall>l\<in>set (global_lines ls). \<not> defines_live name cs l" "block_lines ls = []"
      "t \<in> terminators" "edited_global name cs dup new ls = terminate_last (global_lines ls) @ [new @ t]"
proof -
  let ?g = "global_lines ls" and ?L = "defines_live name cs" and ?C = "defines_commented name cs"
  consider (a) "list_ex ?L ?g" | (b) "\<not> list_ex ?L ?g" "list_ex ?C ?g"
    | (c) "\<not> list_ex ?L ?g" "\<not> list_ex ?C ?g" "block_lines ls \<noteq> []"
    | (d) "\<not> list_ex ?L ?g" "\<not> list_ex ?C ?g" "block_lines ls = []" by blast
  then show thesis
  proof cases
    case a
    obtain p d r where *: "?g = p @ d # r" "?L d" "\<forall>l\<in>set p. \<not> ?L l"
      "replace_first ?L new ?g = p @ (new @ line_terminator d) # r"
      "replace_first ?L new (drop_later ?L ?g) = p @ (new @ line_terminator d) # filter (\<lambda>l. \<not> ?L l) r"
      by (rule replace_first_parts[OF a, of new])
    show thesis by (rule live[OF *(1-3) refl refl]) (use a * in \<open>simp add: edited_global_def Let_def\<close>)
  next
    case b
    obtain p d r where *: "?g = p @ d # r" "?C d" "\<forall>l\<in>set p. \<not> ?C l"
      "replace_first ?C new ?g = p @ (new @ line_terminator d) # r"
      by (rule replace_first_parts[OF b(2), of new])
    show thesis
      by (rule commented[OF *(1,2) _ refl]) (use b * in \<open>auto simp: edited_global_def Let_def list_ex_iff\<close>)
  next
    case c
    let ?t = "let t = line_terminator (hd (block_lines ls)) in if t = [] then [nl] else t"
    show thesis
      by (rule insert[of ?t]) (use c line_terminator_cases[of "hd (block_lines ls)"] in
        \<open>auto simp: edited_global_def Let_def list_ex_iff terminators_def\<close>)
  next
    case d
    let ?t = "if ?g = [] then [nl] else line_terminator (last ?g)"
    show thesis
      by (rule append[of ?t]) (use d line_terminator_cases[of "last ?g"] in
        \<open>auto simp: edited_global_def Let_def list_ex_iff terminators_def\<close>)
  qed
qed


lemma wf_lines_filter: "wf_lines (xs @ ys) \<Longrightarrow> wf_lines (filter P xs @ ys)"
  by (induction xs) (auto simp: wf_lines_Cons)

lemma wf_lines_replace:
  assumes "wf_lines (p @ d # r)" "nl \<notin> set new" "new \<noteq> []"
  shows "wf_lines (p @ (new @ line_terminator d) # r)"
proof -
  have "is_line (new @ line_terminator d)" "terminated (new @ line_terminator d) = terminated d"
    using is_line_terminators[OF assms(2,3) line_terminator_cases[of d]]
      line_terminator_Nil_iff[of d] by auto
  with assms(1) show ?thesis by (simp add: wf_lines_append wf_lines_Cons)
qed

lemma wf_terminate_last:
  assumes "wf_lines ls" shows "wf_lines (terminate_last ls)" "\<forall>l\<in>set (terminate_last ls). terminated l"
proof -
  have "wf_lines (terminate_last ls) \<and> (\<forall>l\<in>set (terminate_last ls). terminated l)"
  proof (cases "ls = []")
    case False
    define m l where "m = butlast ls" and "l = last ls"
    have ls: "ls = m @ [l]" using False by (simp add: m_def l_def)
    with assms have w: "wf_lines m" "is_line l" "\<forall>x\<in>set m. terminated x"
      by (auto simp: wf_lines_append wf_lines_Cons)
    show ?thesis
    proof (cases "last l = nl")
      case True
      with w show ?thesis
        by (auto simp: ls terminate_last_def ends_with_single wf_lines_append wf_lines_Cons
            terminated_def is_line_def)
    next
      case f: False
      have "nl \<notin> set l"
        using w(2) f by (cases l rule: rev_cases) (auto simp: is_line_def)
      with f w show ?thesis
        by (auto simp: ls terminate_last_def ends_with_single wf_lines_append wf_lines_Cons
            terminated_def is_line_def butlast_append)
    qed
  qed (simp add: terminate_last_def)
  then show "wf_lines (terminate_last ls)" "\<forall>l\<in>set (terminate_last ls). terminated l" by auto
qed

lemma edited_lines_wf:
  assumes "valid_key name" "wf_lines ls" "nl \<notin> set new" "new \<noteq> []"
  shows "wf_lines (edited_lines name cs dup new ls)" "edited_lines name cs dup new ls \<noteq> []"
proof -
  have wf: "wf_lines (global_lines ls @ block_lines ls)" using assms(2) by (simp add: global_block_lines)
  have nt: "is_line (new @ t)" "terminated (new @ t) \<longleftrightarrow> t \<noteq> []" if "t \<in> terminators" for t
    using is_line_terminators[OF assms(3,4) that] .
  show "wf_lines (edited_lines name cs dup new ls)"
    using assms(1)
  proof (cases rule: edited_global_cases[of name ls cs dup new, consumes 1])
    case (live p d r r' t)
    have "wf_lines (p @ (new @ t) # r @ block_lines ls)"
      using wf assms(3,4) live(1,4) by (simp add: wf_lines_replace)
    then have "wf_lines ((p @ [new @ t]) @ r' @ block_lines ls)"
      using live(5) wf_lines_filter[of r "block_lines ls"]
      by (auto simp: wf_lines_append wf_lines_Cons)
    then show ?thesis using live by (simp add: edited_lines_def)
  next
    case (commented p d r t)
    then show ?thesis
      using wf_lines_replace[of p d "r @ block_lines ls" new] wf assms(3,4)
      by (simp add: edited_lines_def)
  next
    case (insert t)
    with wf nt[of t] show ?thesis by (auto simp: edited_lines_def wf_lines_append wf_lines_Cons)
  next
    case (append t)
    with wf nt[of t] wf_terminate_last[of "global_lines ls"] show ?thesis
      by (auto simp: edited_lines_def wf_lines_append wf_lines_Cons)
  qed
  show "edited_lines name cs dup new ls \<noteq> []"
    using assms(1)
    by (cases rule: edited_global_cases[of name ls cs dup new, consumes 1])
       (auto simp: edited_lines_def)
qed

lemma split_set_config_directive:
  assumes "valid_key name" "valid_value v"
  shows "split_inclusive (set_config_directive content name v format cs dup) =
    terminate_last (edited_lines name cs dup (directive_line format name v) (split_inclusive content))"
  using edited_lines_wf[OF assms(1) wf_split_inclusive directive_line_no_nl[OF assms]]
    terminate_last_concat set_config_directive_edited[OF assms(1)]
  by simp

lemma edited_global_opens:
  assumes "valid_key name" "valid_value v"
  shows "\<forall>l\<in>set (edited_global name cs dup (directive_line fmt name v) ls). \<not> opens_match_block l"
proof -
  let ?new = "directive_line fmt name v"
  have g: "\<forall>l\<in>set (global_lines ls). \<not> opens_match_block l" by (simp add: set_global_lines)
  have nt: "\<not> opens_match_block (?new @ t)" if "t \<in> terminators" for t
    by (rule directive_line_live(2)[OF assms that])
  have tl: "\<forall>l\<in>set (terminate_last (global_lines ls)). \<not> opens_match_block l"
  proof
    fix l assume "l \<in> set (terminate_last (global_lines ls))"
    then have "trim l \<in> set (map trim (global_lines ls))"
      by (metis imageI list.set_map map_trim_terminate_last)
    with g show "\<not> opens_match_block l" by (auto dest: opens_match_block_trim)
  qed
  show ?thesis
    using assms(1)
    by (cases rule: edited_global_cases[of name ls cs dup ?new, consumes 1])
       (use g nt tl line_terminator_cases in \<open>auto split: if_splits\<close>)
qed

lemma global_lines_split:
  assumes "\<forall>l\<in>set e. \<not> opens_match_block l" "b = [] \<or> opens_match_block (hd b)"
  shows "global_lines (terminate_last (e @ b)) = (if b = [] then terminate_last e else e)"
    and "block_lines (terminate_last (e @ b)) = terminate_last b"
proof -
  have tr: "opens_match_block (hd (terminate_last b))" if "b \<noteq> []"
  proof -
    have "trim (hd (terminate_last b)) = trim (hd b)"
      using that map_trim_terminate_last[of b] by (metis hd_map terminate_last_eq_Nil)
    with assms(2) that show ?thesis by (auto dest: opens_match_block_trim)
  qed
  have te: "\<forall>l\<in>set (terminate_last e). \<not> opens_match_block l"
  proof
    fix l assume "l \<in> set (terminate_last e)"
    then have "trim l \<in> set (map trim e)"
      by (metis imageI list.set_map map_trim_terminate_last)
    with assms(1) show "\<not> opens_match_block l" by (auto dest: opens_match_block_trim)
  qed
  show "global_lines (terminate_last (e @ b)) = (if b = [] then terminate_last e else e)"
    using tr global_lines_append(1)[OF assms(1), of "terminate_last b"]
      global_lines_append(1)[OF te, of "[]"]
    by (cases "terminate_last b") (auto simp: terminate_last_append global_lines_Cons)
  show "block_lines (terminate_last (e @ b)) = terminate_last b"
  proof (cases "b = []")
    case True
    then show ?thesis using global_lines_append(2)[OF te, of "[]"] by (simp add: terminate_last_def)
  next
    case False
    then show ?thesis
      using tr global_lines_append(2)[OF assms(1), of "terminate_last b"]
      by (cases "terminate_last b") (auto simp: terminate_last_append global_lines_Cons)
  qed
qed

lemma block_lines_hd: "block_lines ls = [] \<or> opens_match_block (hd (block_lines ls))"
  by (induction ls) (auto simp: global_lines_Cons)

text \<open>The global region and the blocks of the written file.\<close>

lemma written_regions:
  assumes "valid_key name" "valid_value v"
    and out: "out = set_config_directive content name v fmt cs dup"
    and e: "e = edited_global name cs dup (directive_line fmt name v) (split_inclusive content)"
    and b: "b = block_lines (split_inclusive content)"
  shows "split_inclusive out = terminate_last (e @ b)"
    and "global_lines (split_inclusive out) = (if b = [] then terminate_last e else e)"
    and "block_lines (split_inclusive out) = terminate_last b"
    and "map trim (str_lines (global_scope out)) = map trim e"
proof -
  show s: "split_inclusive out = terminate_last (e @ b)"
    using split_set_config_directive[OF assms(1,2)] by (simp add: out e b edited_lines_def)
  have *: "\<forall>l\<in>set e. \<not> opens_match_block l" "b = [] \<or> opens_match_block (hd b)"
    unfolding e b by (rule edited_global_opens[OF assms(1,2)] block_lines_hd)+
  show g: "global_lines (split_inclusive out) = (if b = [] then terminate_last e else e)"
    and "block_lines (split_inclusive out) = terminate_last b"
    using global_lines_split[OF *] s by simp_all
  show "map trim (str_lines (global_scope out)) = map trim e"
    by (simp add: map_trim_str_lines global_scope_lines g map_trim_terminate_last)
qed


subsection \<open>Readers that agree with the writer\<close>

text \<open>What a reader of one line owes the writer: it looks at the trimmed line only, yields a
  value for live definitions of its key only, and reads back the line the writer produces.\<close>

locale directive_reader =
  fixes line_value :: "string \<Rightarrow> bool \<Rightarrow> string \<Rightarrow> string option"
    and fmt :: config_format
  assumes value_of_live: "valid_key name \<Longrightarrow> line_value name cs l = Some v \<Longrightarrow> defines_live name cs l"
    and value_by_trim: "line_value name cs l = line_value name cs (trim l)"
    and reads_back: "valid_key name \<Longrightarrow> valid_value v \<Longrightarrow>
      line_value name cs (directive_line fmt name v) = Some v"
begin

definition read_global :: "string \<Rightarrow> bool \<Rightarrow> string \<Rightarrow> string option" where
  "read_global name cs content = find_map (line_value name cs) (str_lines (global_scope content))"

lemma find_map_trim: "find_map (line_value name cs) (map trim ls) = find_map (line_value name cs) ls"
  by (induction ls) (auto simp: value_by_trim[of name cs, symmetric] split: option.splits)

lemma read_written:
  assumes "valid_key name" "valid_value v"
  shows "read_global n c (set_config_directive content name v fmt' cs dup) =
    find_map (line_value n c)
      (edited_global name cs dup (directive_line fmt' name v) (split_inclusive content))"
  using written_regions(4)[OF assms refl refl refl] unfolding read_global_def
  by (metis find_map_trim)

lemma read_unwritten: "read_global n c content = find_map (line_value n c) (global_lines (split_inclusive content))"
  unfolding read_global_def by (metis find_map_trim map_trim_str_lines global_scope_lines)

lemma no_live_no_value:
  assumes "valid_key name" "\<forall>l\<in>set ls. \<not> defines_live name cs l"
  shows "find_map (line_value name cs) ls = None"
  unfolding find_map_None_iff using assms value_of_live by (metis not_None_eq)

lemma reads_back_terminated:
  assumes "valid_key name" "valid_value v" "t \<in> terminators"
  shows "line_value name cs (directive_line fmt name v @ t) = Some v"
  by (subst value_by_trim) (simp add: trim_directive_line[OF assms] reads_back assms)

lemma read_set:
  assumes "valid_key name" "valid_value v"
  shows "read_global name cs (set_config_directive content name v fmt cs dup) = Some v"
proof -
  let ?ls = "split_inclusive content" and ?new = "directive_line fmt name v"
  have rb: "line_value name cs (?new @ t) = Some v" if "t \<in> terminators" for t
    by (rule reads_back_terminated[OF assms that])
  have tl: "find_map (line_value name cs) (terminate_last ls) = find_map (line_value name cs) ls" for ls
    by (metis find_map_trim map_trim_terminate_last)
  show ?thesis
    unfolding read_written[OF assms] using assms(1)
    by (cases rule: edited_global_cases[of name ?ls cs dup ?new, consumes 1])
       (use assms(1) rb line_terminator_cases in
         \<open>auto simp: find_map_append no_live_no_value tl\<close>)
qed

lemma read_frame:
  assumes "valid_key name" "valid_value v" "valid_key n" "\<not> eq_ignore_ascii_case name n"
  shows "read_global n c (set_config_directive content name v fmt' cs dup) = read_global n c content"
proof -
  let ?ls = "split_inclusive content" and ?new = "directive_line fmt' name v"
  have km: "\<not> key_matches c k n" if "key_matches cs k name" for k
    using that assms(4) by (auto simp: key_matches_def eq_ignore_ascii_case_def split: if_splits)
  have live: "line_value n c d = None" if "defines_live name cs d" for d
    using that km value_of_live[OF assms(3)] by (meson defines_live_def not_None_eq)
  have com: "line_value n c d = None" if "defines_commented name cs d" for d
    using that value_of_live[OF assms(3), of c d]
    by (cases "line_value n c d") (auto simp: defines_live_def defines_commented_def)
  have new: "line_value n c (?new @ t) = None" if "t \<in> terminators" for t
    using km[OF key_matches_refl] directive_line_live(1)[OF assms(1,2) that, of n c]
      value_of_live[OF assms(3)] by (meson not_None_eq)
  have tl: "find_map (line_value n c) (terminate_last ls) = find_map (line_value n c) ls" for ls
    by (metis find_map_trim map_trim_terminate_last)
  have fl: "find_map (line_value n c) (filter (\<lambda>l. \<not> defines_live name cs l) ls)
      = find_map (line_value n c) ls" for ls
    by (induction ls) (auto simp: live split: option.splits)
  show ?thesis
    unfolding read_written[OF assms(1,2)] read_unwritten[of n c content] using assms(1)
    by (cases rule: edited_global_cases[of name ?ls cs dup ?new, consumes 1])
       (use new live com line_terminator_cases in
         \<open>auto simp: find_map_append tl fl split: option.splits\<close>)
qed

end

subsection \<open>The two line readers\<close>

lemma ascii_lower_ws: "is_ws (ascii_lower c) = is_ws c"
  by (auto simp: is_ws_def ascii_lower_def Let_def)

lemma of_char_ascii_lower:
  "(of_char (ascii_lower c) :: nat) =
     (if 65 \<le> (of_char c :: nat) \<and> (of_char c :: nat) \<le> 90 then of_char c + 32 else of_char c)"
  by (auto simp: ascii_lower_def Let_def)

lemma ascii_lower_eq_sign: "ascii_lower c = CHR ''='' \<longleftrightarrow> c = CHR ''=''"
proof -
  have *: "x = CHR ''='' \<longleftrightarrow> (of_char x :: nat) = 61" for x
    using of_char_eq_iff[of x "CHR ''=''", where ?'a = nat] by simp
  show ?thesis unfolding * of_char_ascii_lower by auto
qed

lemma separators_ignore_case:
  assumes "eq_ignore_ascii_case a b" "\<forall>c\<in>set b. \<not> is_ws c \<and> c \<noteq> CHR ''=''"
  shows "\<forall>c\<in>set a. \<not> is_ws c \<and> c \<noteq> CHR ''=''"
proof
  fix c assume "c \<in> set a"
  then have "ascii_lower c \<in> ascii_lower ` set b"
    using assms(1) by (metis eq_ignore_ascii_case_def image_eqI list.set_map)
  then show "\<not> is_ws c \<and> c \<noteq> CHR ''=''"
    using assms(2) by (metis ascii_lower_eq_sign ascii_lower_ws imageE)
qed

lemma split_directive_key:
  assumes "\<forall>c\<in>set k. \<not> is_ws c \<and> c \<noteq> CHR ''=''" "r = [] \<or> is_ws (hd r) \<or> hd r = CHR ''=''"
  shows "fst (split_directive (k @ r)) = k"
  using assms by (cases r) (auto simp: split_directive_def Let_def takeWhile_append2)

lemma strip_prefix_with_case_Some:
  assumes "strip_prefix_with_case s p cs = Some r"
  obtains k where "s = k @ r" "key_matches cs k p"
proof (cases cs)
  case True
  with assms have "s = p @ r" by (simp add: strip_prefix_with_case_def strip_prefix_eq_Some)
  then show thesis by (rule that) simp
next
  case False
  with assms have "s = take (length p) s @ r" "eq_ignore_ascii_case (take (length p) s) p"
    by (auto simp: strip_prefix_with_case_def split: if_splits)
  then show thesis using False by (intro that) (auto simp: key_matches_def)
qed

lemma key_value_defines_live:
  assumes "valid_key name" "key_value_value name cs l = Some v"
  shows "defines_live name cs l"
proof -
  let ?t = "trim l"
  have n: "\<forall>c\<in>set name. \<not> is_ws c \<and> c \<noteq> CHR ''=''" using assms(1) by (simp add: valid_key_def)
  from assms(2) obtain r where h: "\<not> starts_with ''#'' ?t"
    and r: "strip_prefix_with_case ?t name cs = Some r"
    and c: "(case strip_prefix ''='' (trim_start r) of Some value \<Rightarrow> Some (trim value)
           | None \<Rightarrow> if r \<noteq> [] \<and> is_ws (hd r) then first_token r else None) = Some v"
    by (auto simp: key_value_value_def Let_def split: if_splits option.splits)
  obtain k where k: "?t = k @ r" "key_matches cs k name"
    by (rule strip_prefix_with_case_Some[OF r])
  have "\<forall>c\<in>set k. \<not> is_ws c \<and> c \<noteq> CHR ''=''"
    using k(2) n separators_ignore_case[of k name] by (auto simp: key_matches_def split: if_splits)
  moreover have "r = [] \<or> is_ws (hd r) \<or> hd r = CHR ''=''"
  proof (cases r)
    case (Cons a r')
    with c show ?thesis
      by (cases "is_ws a") (auto simp: trim_start_def strip_prefix_def starts_with_def split: if_splits)
  qed simp
  ultimately have "fst (split_directive ?t) = k" unfolding k(1) by (rule split_directive_key)
  with h k(2) show ?thesis by (simp add: defines_live_def)
qed

lemma directive_line_trim:
  "valid_key name \<Longrightarrow> valid_value v \<Longrightarrow> trim (directive_line fmt name v) = directive_line fmt name v"
  using trim_directive_line[of name v "[]" fmt] by (simp add: terminators_def)

lemma directive_line_not_comment: "valid_key name \<Longrightarrow> \<not> starts_with ''#'' (directive_line fmt name v)"
  by (auto simp: hash_start valid_key_def directive_line_def split: config_format.splits)

interpretation ss: directive_reader space_separated_value SpaceSeparated
proof
  fix name cs l v
  show "space_separated_value name cs l = Some v \<Longrightarrow> defines_live name cs l"
    by (auto simp: space_separated_value_def defines_live_def Let_def split: if_splits prod.splits)
  show "space_separated_value name cs l = space_separated_value name cs (trim l)"
    by (simp add: space_separated_value_def Let_def)
  assume "valid_key name" "valid_value v"
  then show "space_separated_value name cs (directive_line SpaceSeparated name v) = Some v"
    by (simp add: space_separated_value_def directive_line_trim directive_line_not_comment Let_def
        directive_line_no_nl split_directive_line first_token_def split_whitespace_word valid_value_def)
qed

lemma key_value_reads_back:
  assumes "valid_key name" and v: "valid_value v"
  shows "key_value_value name cs (directive_line fmt name v) = Some v"
proof -
  have sp: "strip_prefix ''='' (CHR ''='' # r) = Some r" "strip_prefix ''='' v = None" for r
    using v by (cases v; auto simp: strip_prefix_def starts_with_def valid_value_def)+
  have t: "trim (CHR '' '' # v) = v" "trim_start (CHR '' '' # v) = v" "first_token (CHR '' '' # v) = Some v"
  proof -
    have ts: "trim_start (CHR '' '' # v) = trim_start v" by (simp add: trim_start_def)
    also have "\<dots> = v" using v by (simp add: trim_start_ws_free valid_value_def)
    finally show "trim_start (CHR '' '' # v) = v" .
    show "trim (CHR '' '' # v) = v"
    proof -
      have "trim (CHR '' '' # v) = trim v" unfolding trim_def by (simp only: ts)
      then show ?thesis using v by (simp add: trim_eq_self valid_value_def)
    qed
    show "first_token (CHR '' '' # v) = Some v"
    proof -
      have "split_whitespace (CHR '' '' # v) = split_whitespace v"
        by (subst (1 2) split_whitespace.simps) (simp only: ts)
      then show ?thesis using v by (simp add: first_token_def split_whitespace_word valid_value_def)
    qed
  qed
  have "\<exists>s. strip_prefix_with_case (directive_line fmt name v) name cs = Some s \<and>
      (s = '' = '' @ v \<or> s = '' '' @ v)"
    by (cases fmt) (simp_all add: strip_prefix_with_case_def strip_prefix_def directive_line_def)
  then obtain s where s: "strip_prefix_with_case (directive_line fmt name v) name cs = Some s"
    "s = '' = '' @ v \<or> s = '' '' @ v" by blast
  have "trim_start ('' = '' @ v) = CHR ''='' # CHR '' '' # v" by (simp add: trim_start_def)
  with s assms t show ?thesis
    by (auto simp: key_value_value_def directive_line_trim directive_line_not_comment Let_def
        directive_line_no_nl sp)
qed

lemma key_value_by_trim: "key_value_value name cs l = key_value_value name cs (trim l)"
  by (simp add: key_value_value_def Let_def)

interpretation kv: directive_reader key_value_value KeyValue
  by unfold_locales (rule key_value_defines_live key_value_by_trim key_value_reads_back; assumption?)+

interpretation au: directive_reader key_value_value Auto
  by unfold_locales (rule key_value_defines_live key_value_by_trim key_value_reads_back; assumption?)+


subsection \<open>Writing twice\<close>

lemma line_terminator_append:
  assumes "c \<noteq> cr" "c \<noteq> nl" "t \<in> terminators"
  shows "line_terminator ((x @ [c]) @ t) = t"
  using assms by (auto simp: terminators_def line_terminator_def ends_with_def)

lemma line_terminator_written:
  assumes "valid_value v" "t \<in> terminators"
  shows "line_terminator (directive_line fmt name v @ t) = t"
proof -
  have v: "v \<noteq> []" "\<forall>c\<in>set v. \<not> is_ws c" using assms(1) by (auto simp: valid_value_def)
  obtain pre where d: "directive_line fmt name v = pre @ v"
    by (cases fmt) (auto simp: directive_line_def)
  obtain w c where w: "v = w @ [c]" using v(1) by (metis rev_exhaust)
  have "c \<noteq> cr" "c \<noteq> nl" using v w by auto
  then have "line_terminator (((pre @ w) @ [c]) @ t) = t"
    using assms(2) by (rule line_terminator_append)
  then show ?thesis by (simp add: w d[unfolded w])
qed

text \<open>A file whose global region already holds the line at its first live definition, and no
  later one when duplicates go, is what the edit produces.\<close>

lemma edited_global_fixed:
  assumes "valid_key name" "valid_value v" "t \<in> terminators"
    and g: "global_lines ls = p @ (directive_line fmt name v @ t) # r"
    and p: "\<forall>l\<in>set p. \<not> defines_live name cs l"
    and r: "dup = Remove \<longrightarrow> (\<forall>l\<in>set r. \<not> defines_live name cs l)"
  shows "edited_lines name cs dup (directive_line fmt name v) ls = ls"
proof -
  let ?new = "directive_line fmt name v" and ?L = "defines_live name cs"
  have live: "?L (?new @ t)" using directive_line_live(1)[OF assms(1-3), of name cs] by simp
  have tw: "takeWhile (\<lambda>l. \<not> ?L l) (p @ (?new @ t) # r) = p"
    "dropWhile (\<lambda>l. \<not> ?L l) (p @ (?new @ t) # r) = (?new @ t) # r"
    using p live by (simp_all add: takeWhile_append2 dropWhile_append2)
  have "replace_first ?L ?new (global_lines ls) = global_lines ls"
    by (simp add: replace_first_def g tw line_terminator_written[OF assms(2,3)])
  moreover have "dup = Remove \<Longrightarrow> drop_later ?L (global_lines ls) = global_lines ls"
    using r by (simp add: drop_later_def g tw filter_id_conv)
  moreover have "list_ex ?L (global_lines ls)" using live by (simp add: g)
  ultimately have "edited_global name cs dup ?new ls = global_lines ls"
    by (auto simp: edited_global_def Let_def)
  then show ?thesis by (simp add: edited_lines_def global_block_lines)
qed

lemma written_has_line:
  assumes "valid_key name" "valid_value v"
  obtains p t r where "t \<in> terminators"
    "edited_global name cs dup (directive_line fmt name v) ls = p @ (directive_line fmt name v @ t) # r"
    "\<forall>l\<in>set p. \<not> defines_live name cs l"
    "dup = Remove \<longrightarrow> (\<forall>l\<in>set r. \<not> defines_live name cs l)"
proof -
  have tl: "\<forall>l\<in>set (terminate_last ls). \<not> defines_live name cs l"
    if "\<forall>l\<in>set ls. \<not> defines_live name cs l" for ls
  proof
    fix l assume "l \<in> set (terminate_last ls)"
    then have "trim l \<in> set (map trim ls)" by (metis imageI list.set_map map_trim_terminate_last)
    with that show "\<not> defines_live name cs l" by (auto dest: defines_live_trim)
  qed
  show thesis
    using assms(1)
  proof (cases rule: edited_global_cases[of name ls cs dup "directive_line fmt name v", consumes 1])
    case (live p d r r' t)
    then show thesis by (intro that[of t p r']) (auto simp: line_terminator_cases)
  next
    case (commented p d r t)
    then show thesis by (intro that[of t p r]) (auto simp: line_terminator_cases)
  next
    case (insert t)
    then show thesis by (intro that[of t "global_lines ls" "[]"]) auto
  next
    case (append t)
    then show thesis using tl by (intro that[of t "terminate_last (global_lines ls)" "[]"]) auto
  qed
qed

lemma terminate_last_written:
  assumes "t \<in> terminators"
  obtains t' r' where "t' \<in> terminators" "terminate_last (p @ (new @ t) # r) = p @ (new @ t') # r'"
    "map trim r' = map trim r"
proof (cases "r = []")
  case True
  show thesis
  proof (cases "ends_with [nl] (new @ t)")
    case True
    then show thesis using assms \<open>r = []\<close> by (intro that[of t "[]"]) (simp_all add: terminate_last_def)
  next
    case False
    then have "t = []" using assms by (auto simp: terminators_def ends_with_single)
    with False \<open>r = []\<close> show thesis
      by (intro that[of "[nl]" "[]"]) (simp_all add: terminate_last_def terminators_def)
  qed
next
  case False
  then have "terminate_last ((p @ [new @ t]) @ r) = (p @ [new @ t]) @ terminate_last r"
    by (rule terminate_last_append)
  then show thesis using assms by (intro that[of t "terminate_last r"]) (simp_all add: map_trim_terminate_last)
qed

lemma not_live_map_trim:
  assumes "map trim ls = map trim ms" "\<forall>l\<in>set ms. \<not> defines_live n cs l"
  shows "\<forall>l\<in>set ls. \<not> defines_live n cs l"
proof
  fix l assume "l \<in> set ls"
  then have "trim l \<in> set (map trim ms)" using assms(1) by (metis imageI list.set_map)
  with assms(2) show "\<not> defines_live n cs l" by (auto dest: defines_live_trim)
qed

lemma set_config_directive_idem:
  assumes "valid_key name" "valid_value v"
  shows "set_config_directive (set_config_directive content name v fmt cs dup) name v fmt cs dup
    = set_config_directive content name v fmt cs dup"
proof -
  let ?new = "directive_line fmt name v" and ?b = "block_lines (split_inclusive content)"
  define out where "out = set_config_directive content name v fmt cs dup"
  define e where "e = edited_global name cs dup ?new (split_inclusive content)"
  note w = written_regions[OF assms out_def e_def refl]
  obtain p t r where e: "t \<in> terminators" "e = p @ (?new @ t) # r"
    "\<forall>l\<in>set p. \<not> defines_live name cs l" "dup = Remove \<longrightarrow> (\<forall>l\<in>set r. \<not> defines_live name cs l)"
    unfolding e_def by (rule written_has_line[OF assms])
  obtain t' r' where e': "t' \<in> terminators" "terminate_last e = p @ (?new @ t') # r'"
    "map trim r' = map trim r"
    unfolding e(2) by (rule terminate_last_written[OF e(1)])
  have "edited_lines name cs dup ?new (split_inclusive out) = split_inclusive out"
  proof (cases "?b = []")
    case True
    then have "global_lines (split_inclusive out) = p @ (?new @ t') # r'" using w(2) e'(2) by simp
    moreover have "dup = Remove \<longrightarrow> (\<forall>l\<in>set r'. \<not> defines_live name cs l)"
      using e(4) not_live_map_trim[OF e'(3)] by blast
    ultimately show ?thesis by (rule edited_global_fixed[OF assms e'(1) _ e(3)])
  next
    case False
    then have "global_lines (split_inclusive out) = p @ (?new @ t) # r" using w(2) e(2) by simp
    then show ?thesis by (rule edited_global_fixed[OF assms e(1) _ e(3,4)])
  qed
  moreover have "ends_with [nl] out"
    by (auto simp: out_def set_config_directive_edited[OF assms(1)] Let_def ends_with_single)
  ultimately show ?thesis
    by (simp add: set_config_directive_edited[OF assms(1), of out] Let_def flip: out_def)
qed


subsection \<open>Properties of the reader and the writer\<close>

lemma read_global_simps:
  "parse_config_value (global_scope content) name SpaceSeparated cs = ss.read_global name cs content"
  "parse_config_value (global_scope content) name KeyValue cs = kv.read_global name cs content"
  by (simp_all add: ss.read_global_def kv.read_global_def)

lemma parse_auto:
  "parse_config_value content name Auto cs =
     or_else (parse_config_value content name KeyValue cs)
       (parse_config_value content name SpaceSeparated cs)"
proof (cases "list_ex is_live_line (str_lines content)")
  case True
  then show ?thesis by (simp split: option.splits)
next
  case False
  then have "find_map (key_value_value name cs) (str_lines content) = None"
    "find_map (space_separated_value name cs) (str_lines content) = None"
    by (auto simp: find_map_None_iff list_ex_iff is_live_line_def key_value_value_def
        space_separated_value_def Let_def)
  with False show ?thesis by simp
qed

text \<open>C30. Writing a directive and parsing the global region of the written file in the same format
  gives back the written value, wherever the directive stood before: as a live line, a comment,
  only in a \<open>Match\<close> block, or nowhere.\<close>

theorem set_then_parse:
  assumes "valid_key name" "valid_value v"
  shows "parse_config_value (global_scope (set_config_directive content name v fmt cs dup)) name fmt cs
    = Some v"
  by (cases fmt)
     (simp_all only: read_global_simps parse_auto ss.read_set[OF assms] kv.read_set[OF assms]
       au.read_set[OF assms, unfolded au.read_global_def, folded kv.read_global_def] or_else_simps)

lemma valid_witnesses:
  "valid_key ''PermitRootLogin''" "valid_value ''no''" "valid_key ''Port''"
  "\<not> eq_ignore_ascii_case ''PermitRootLogin'' ''Port''"
  by code_simp+

theorem set_then_parse_witness:
  "parse_config_value (global_scope (set_config_directive
     (''#PermitRootLogin yes'' @ [nl] @ ''Match User a'' @ [nl] @ ''PermitRootLogin yes'')
     ''PermitRootLogin'' ''no'' SpaceSeparated False Keep)) ''PermitRootLogin'' SpaceSeparated False
   = Some ''no''"
  by (rule set_then_parse[OF valid_witnesses(1,2)])

text \<open>Writing one directive leaves the parsed value of every other directive unchanged, in every
  format and whichever case rule either side uses.\<close>

theorem set_keeps_others:
  assumes "valid_key name" "valid_value v" "valid_key n" "\<not> eq_ignore_ascii_case name n"
  shows "parse_config_value (global_scope (set_config_directive content name v fmt cs dup)) n fmt' c
    = parse_config_value (global_scope content) n fmt' c"
  by (cases fmt')
     (simp_all only: read_global_simps parse_auto ss.read_frame[OF assms] kv.read_frame[OF assms])

theorem set_keeps_others_witness:
  "parse_config_value (global_scope (set_config_directive (''Port 22'' @ [nl]) ''PermitRootLogin'' ''no''
     SpaceSeparated False Remove)) ''Port'' Auto False
   = parse_config_value (global_scope (''Port 22'' @ [nl])) ''Port'' Auto False"
  by (rule set_keeps_others[OF valid_witnesses])

text \<open>Writing the same directive twice writes the same bytes as writing it once.\<close>

theorem set_twice:
  assumes "valid_key name" "valid_value v"
  shows "set_config_directive (set_config_directive content name v fmt cs dup) name v fmt cs dup
    = set_config_directive content name v fmt cs dup"
  by (rule set_config_directive_idem[OF assms])

theorem set_twice_witness:
  "set_config_directive (set_config_directive (''Port 22'' @ [nl]) ''PermitRootLogin'' ''no'' KeyValue True Remove)
     ''PermitRootLogin'' ''no'' KeyValue True Remove
   = set_config_directive (''Port 22'' @ [nl]) ''PermitRootLogin'' ''no'' KeyValue True Remove"
  by (rule set_twice[OF valid_witnesses(1,2)])

lemma concat_terminate_last:
  "concat (terminate_last ls) = (if ls = [] \<or> ends_with [nl] (last ls) then concat ls else concat ls @ [nl])"
proof (cases "ls = []")
  case False
  then have "concat ls = concat (butlast ls) @ last ls"
    by (metis append_butlast_last_id concat.simps concat_append append_Nil2)
  with False show ?thesis by (simp add: terminate_last_def)
qed (simp add: terminate_last_def)

lemma after_global_scope: "drop (length (global_scope c)) c = concat (block_lines (split_inclusive c))"
proof -
  have "c = concat (global_lines (split_inclusive c)) @ concat (block_lines (split_inclusive c))"
    by (metis concat_append concat_split_inclusive global_block_lines)
  moreover have "global_scope c = concat (global_lines (split_inclusive c))"
    by (metis concat_split_inclusive global_scope_lines)
  ultimately show ?thesis by (metis append_eq_conv_conj)
qed

text \<open>What follows the global region, the \<open>Match\<close> blocks, is kept byte for byte: the writer
  only adds the final newline when the file has none.\<close>

theorem set_keeps_blocks:
  assumes "valid_key name" "valid_value v"
  shows "let out = set_config_directive content name v fmt cs dup;
             blocks = drop (length (global_scope content)) content
         in drop (length (global_scope out)) out =
            (if blocks = [] \<or> ends_with [nl] blocks then blocks else blocks @ [nl])"
proof -
  let ?b = "block_lines (split_inclusive content)"
  have wf: "wf_lines ?b" by (metis global_block_lines wf_lines_append wf_split_inclusive)
  have "concat ?b = [] \<longleftrightarrow> ?b = []" using wf by (auto simp: wf_lines_def is_line_def)
  moreover have "ends_with [nl] (concat ?b) = ends_with [nl] (last ?b)" if "?b \<noteq> []"
  proof -
    have "concat ?b = concat (butlast ?b) @ last ?b"
      using that by (metis append_butlast_last_id concat.simps concat_append append_Nil2)
    moreover have "last ?b \<noteq> []" using that wf by (auto simp: wf_lines_def is_line_def)
    ultimately show ?thesis by (simp add: ends_with_single)
  qed
  ultimately show ?thesis
    by (auto simp: Let_def after_global_scope written_regions(3)[OF assms refl refl refl] concat_terminate_last)
qed

theorem set_keeps_blocks_witness:
  "let content = ''Port 22'' @ [nl] @ ''Match User a'' @ [nl] @ ''  Port 23'';
       out = set_config_directive content ''PermitRootLogin'' ''no'' SpaceSeparated False Keep;
       blocks = drop (length (global_scope content)) content
   in drop (length (global_scope out)) out =
      (if blocks = [] \<or> ends_with [nl] blocks then blocks else blocks @ [nl])"
  unfolding Let_def by (rule set_keeps_blocks[OF valid_witnesses(1,2), unfolded Let_def])

end
