(* ===== verification/Number_Text.thy ===== *)
theory Number_Text
  imports Hardener_Prelude
begin

text \<open>
  Integers as text: Rust's \<open>from_str\<close>, \<open>from_str_radix\<close> and display formats on the ranges the
  program uses. An \<open>i64\<close> is an \<open>int\<close> in its range and a \<open>u32\<close> a \<open>nat\<close> below \<open>2^32\<close>; the
  range checks and the saturating negation are written out.
\<close>

definition digit_value :: "nat \<Rightarrow> char \<Rightarrow> nat option" where
  "digit_value b c = (let n = (of_char c :: nat) in if 48 \<le> n \<and> n < 48 + b then Some (n - 48) else None)"

definition digit_char :: "nat \<Rightarrow> char" where
  "digit_char d = char_of (48 + d)"

fun read_digits :: "nat \<Rightarrow> nat \<Rightarrow> string \<Rightarrow> nat option" where
  "read_digits b acc [] = Some acc"
| "read_digits b acc (c # cs) =
     (case digit_value b c of None \<Rightarrow> None | Some d \<Rightarrow> read_digits b (acc * b + d) cs)"

text \<open>Radices up to ten only, which is all the program uses (8 and 10).\<close>

fun show_radix :: "nat \<Rightarrow> nat \<Rightarrow> string" where
  "show_radix b n =
     (if b < 2 \<or> n < b then [digit_char n] else show_radix b (n div b) @ [digit_char (n mod b)])"

declare show_radix.simps [simp del]

definition parse_unsigned :: "nat \<Rightarrow> nat \<Rightarrow> string \<Rightarrow> nat option" where
  "parse_unsigned b bound s =
     (let r = (case s of CHR ''+'' # r \<Rightarrow> r | _ \<Rightarrow> s) in
      if r = [] then None
      else case read_digits b 0 r of
             Some n \<Rightarrow> if n < bound then Some n else None
           | None \<Rightarrow> None)"

definition i64_min :: int where "i64_min = -(2 ^ 63)"
definition i64_max :: int where "i64_max = 2 ^ 63 - 1"

definition parse_i64 :: "string \<Rightarrow> int option" where
  "parse_i64 s =
     (case s of
        CHR ''-'' # r \<Rightarrow>
          (if r = [] then None
           else case read_digits 10 0 r of
                  Some n \<Rightarrow> if i64_min \<le> - int n then Some (- int n) else None
                | None \<Rightarrow> None)
      | _ \<Rightarrow> map_option int (parse_unsigned 10 (2 ^ 63) s))"

definition show_int :: "int \<Rightarrow> string" where
  "show_int i = (if i < 0 then CHR ''-'' # show_radix 10 (nat (- i)) else show_radix 10 (nat i))"

definition saturating_neg :: "int \<Rightarrow> int" where
  "saturating_neg n = (if n = i64_min then i64_max else - n)"

definition pad_left :: "nat \<Rightarrow> string \<Rightarrow> string" where
  "pad_left w s = replicate (w - length s) (CHR ''0'') @ s"

lemma digit_value_char: "d < b \<Longrightarrow> b \<le> 10 \<Longrightarrow> digit_value b (digit_char d) = Some d"
  by (simp add: digit_value_def digit_char_def)

lemma digit_char_no_sign: "d < 10 \<Longrightarrow> digit_char d \<noteq> CHR ''+'' \<and> digit_char d \<noteq> CHR ''-''"
proof -
  assume "d < 10"
  then have "(of_char (digit_char d) :: nat) = 48 + d" by (simp add: digit_char_def)
  then show ?thesis by auto
qed

lemma read_digits_append:
  "read_digits b acc (xs @ ys) =
     (case read_digits b acc xs of None \<Rightarrow> None | Some n \<Rightarrow> read_digits b n ys)"
  by (induction xs arbitrary: acc) (auto split: option.splits)

lemma read_show_radix:
  assumes "2 \<le> b" "b \<le> 10"
  shows "read_digits b 0 (show_radix b n) = Some n"
  using assms
proof (induction b n rule: show_radix.induct)
  case (1 b n)
  show ?case
  proof (cases "n < b")
    case True
    with 1 show ?thesis by (subst show_radix.simps) (simp add: digit_value_char)
  next
    case False
    have "n mod b < b" using "1.prems" by simp
    then have d: "digit_value b (digit_char (n mod b)) = Some (n mod b)"
      using "1.prems" by (intro digit_value_char)
    have "read_digits b 0 (show_radix b (n div b)) = Some (n div b)"
      using "1.IH" "1.prems" False by simp
    with d False "1.prems" show ?thesis
      by (subst show_radix.simps) (simp add: read_digits_append)
  qed
qed

lemma show_radix_ne [simp]: "show_radix b n \<noteq> []"
  by (subst show_radix.simps) simp

lemma show_radix_hd:
  "2 \<le> b \<Longrightarrow> b \<le> 10 \<Longrightarrow> \<exists>d c. d < 10 \<and> show_radix b n = digit_char d # c"
proof (induction b n rule: show_radix.induct)
  case (1 b n)
  show ?case
  proof (cases "n < b")
    case True
    with 1 show ?thesis by (subst show_radix.simps) (auto intro!: exI[of _ n])
  next
    case False
    with 1 obtain d c where "d < 10" "show_radix b (n div b) = digit_char d # c" by auto
    with False "1.prems" show ?thesis by (subst show_radix.simps) auto
  qed
qed

lemma parse_unsigned_show:
  assumes "2 \<le> b" "b \<le> 10" "n < bound"
  shows "parse_unsigned b bound (show_radix b n) = Some n"
proof -
  obtain d c where d: "d < 10" "show_radix b n = digit_char d # c"
    using show_radix_hd[OF assms(1,2)] by blast
  then have "(case show_radix b n of CHR ''+'' # r \<Rightarrow> r | _ \<Rightarrow> show_radix b n) = show_radix b n"
    using digit_char_no_sign[of d] by (auto split: list.splits char.splits bool.splits)
  then show ?thesis
    using assms by (simp add: parse_unsigned_def Let_def read_show_radix)
qed

lemma parse_i64_no_minus:
  "s = [] \<or> hd s \<noteq> CHR ''-'' \<Longrightarrow> parse_i64 s = map_option int (parse_unsigned 10 (2 ^ 63) s)"
  by (cases s) (auto simp: parse_i64_def split: char.splits bool.splits)

lemma parse_show_int:
  assumes "i64_min \<le> i" "i \<le> i64_max"
  shows "parse_i64 (show_int i) = Some i"
proof (cases "i < 0")
  case True
  with assms show ?thesis by (simp add: show_int_def parse_i64_def read_show_radix)
next
  case False
  obtain d c where d: "d < 10" "show_radix 10 (nat i) = digit_char d # c"
    using show_radix_hd[of 10 "nat i"] by auto
  then have "hd (show_radix 10 (nat i)) \<noteq> CHR ''-''" using digit_char_no_sign by simp
  moreover have "parse_unsigned 10 (2 ^ 63) (show_radix 10 (nat i)) = Some (nat i)"
    using assms False by (intro parse_unsigned_show) (auto simp: i64_max_def)
  ultimately show ?thesis using False by (simp add: show_int_def parse_i64_no_minus)
qed

lemma parse_i64_range: "parse_i64 s = Some n \<Longrightarrow> i64_min \<le> n \<and> n \<le> i64_max"
  by (auto simp: parse_i64_def parse_unsigned_def i64_min_def i64_max_def Let_def
      split: list.splits char.splits bool.splits if_splits option.splits)

end
