(* ===== verification/Host_Executor.thy ===== *)
theory Host_Executor
  imports Text_Lines Number_Text "HOL-Library.AList"
begin

text \<open>
  The host as the program sees it: \<open>crates/hardener-common/src/error.rs\<close> (errors and the
  permission-denied test), \<open>executor/mod.rs\<close> (the \<open>SystemExecutor\<close> trait, its provided methods and
  the host keys), \<open>vendor_config.rs\<close> (the layered read) and \<open>executor/mock.rs\<close> (the executor whose
  whole state is in the program).

  An executor is a record of operations on a host state: reads are functions of the state,
  commands and writes also return the next state. Paths are strings; the operations of
  \<open>std::path\<close> used here are defined on their components.
\<close>

subsection \<open>Errors\<close>

datatype io_kind = NotFoundKind | PermissionDeniedKind | OtherKind

datatype hardening_error =
  ConfigError string | DatabaseError string | DependencyError string | ExecutorError string
| NotificationError string | NotFoundError string | PluginError string | PrivilegeError string
| RollbackError string | SerialisationError string | StateError string
| SystemError io_kind string | UnsupportedDistroError string | ValidationError string

text \<open>An \<open>anyhow\<close> error is its chain of causes, outermost first, each with its text and, for an
  \<open>io::Error\<close>, its kind; one that wraps a \<open>HardeningError\<close> can be taken back out.\<close>

datatype host_error = Causes "(io_kind option \<times> string) list" | Hardening hardening_error

fun error_text :: "hardening_error \<Rightarrow> string" where
  "error_text (ConfigError m) = ''Configuration error: '' @ m"
| "error_text (DatabaseError m) = ''Database error: '' @ m"
| "error_text (DependencyError m) = ''Dependency error: '' @ m"
| "error_text (ExecutorError m) = ''Executor error: '' @ m"
| "error_text (NotificationError m) = ''Notification error: '' @ m"
| "error_text (NotFoundError m) = ''Not found: '' @ m"
| "error_text (PluginError m) = ''Plugin error: '' @ m"
| "error_text (PrivilegeError m) = ''Insufficient privileges: '' @ m"
| "error_text (RollbackError m) = ''Rollback error: '' @ m"
| "error_text (SerialisationError m) = ''Serialisation error: '' @ m"
| "error_text (StateError m) = ''State management error: '' @ m"
| "error_text (SystemError _ m) = ''System error: '' @ m"
| "error_text (UnsupportedDistroError m) = ''Distribution not supported: '' @ m"
| "error_text (ValidationError m) = ''Validation error: '' @ m"

fun host_error_text :: "host_error \<Rightarrow> string" where
  "host_error_text (Causes []) = []"
| "host_error_text (Causes ((_, m) # _)) = m"
| "host_error_text (Hardening e) = error_text e"

fun hardening_of :: "host_error \<Rightarrow> hardening_error" where
  "hardening_of (Hardening e) = e"
| "hardening_of (Causes cs) = ExecutorError (host_error_text (Causes cs))"

definition message_indicates_permission_denied :: "string \<Rightarrow> bool" where
  "message_indicates_permission_denied m =
     (contains ''Permission denied'' m \<or> contains ''permission denied'' m
      \<or> contains ''Operation not permitted'' m \<or> contains ''must be root'' m
      \<or> contains ''need to be root'' m \<or> contains ''requires root'' m)"

definition message_indicates_ssh_auth_failure :: "string \<Rightarrow> bool" where
  "message_indicates_ssh_auth_failure message =
     (let m = map ascii_lower message in
      contains ''permission denied'' m \<or> contains ''publickey'' m \<or> contains ''authentication'' m
      \<or> contains ''could not open a connection to your authentication agent'' m
      \<or> contains ''no such identity'' m)"

fun error_chain :: "host_error \<Rightarrow> (io_kind option \<times> string) list" where
  "error_chain (Causes cs) = cs"
| "error_chain (Hardening (SystemError k m)) = [(None, error_text (SystemError k m)), (Some k, m)]"
| "error_chain (Hardening e) = [(None, error_text e)]"

definition is_permission_denied :: "host_error \<Rightarrow> bool" where
  "is_permission_denied e =
     list_ex (\<lambda>(kind, text). kind = Some PermissionDeniedKind \<or> message_indicates_permission_denied text)
       (error_chain e)"

subsection \<open>Paths\<close>

fun split_on :: "char \<Rightarrow> string \<Rightarrow> string list" where
  "split_on c [] = [[]]"
| "split_on c (x # xs) =
     (if x = c then [] # split_on c xs
      else case split_on c xs of [] \<Rightarrow> [[x]] | w # ws \<Rightarrow> (x # w) # ws)"

definition is_absolute :: "string \<Rightarrow> bool" where
  "is_absolute path = starts_with ''/'' path"

text \<open>The components of \<open>Path::components\<close>: the root, then the names, without empty ones and
  without \<open>.\<close> (a leading \<open>.\<close> of a relative path apart).\<close>

definition path_names :: "string \<Rightarrow> string list" where
  "path_names path =
     (let names = filter (\<lambda>n. n \<noteq> []) (split_on (CHR ''/'') path) in
      if is_absolute path \<or> names = [] then filter (\<lambda>n. n \<noteq> ''.'') names
      else hd names # filter (\<lambda>n. n \<noteq> ''.'') (tl names))"

definition path_components :: "string \<Rightarrow> bool \<times> string list" where
  "path_components path = (is_absolute path, path_names path)"

definition path_starts_with :: "string \<Rightarrow> string \<Rightarrow> bool" where
  "path_starts_with path base =
     (is_absolute path = is_absolute base \<and> starts_with (path_names base) (path_names path))"

definition file_name :: "string \<Rightarrow> string option" where
  "file_name path =
     (case rev (path_names path) of
        [] \<Rightarrow> None
      | n # _ \<Rightarrow> if n = ''..'' \<or> n = ''.'' then None else Some n)"

definition render_path :: "bool \<Rightarrow> string list \<Rightarrow> string" where
  "render_path absolute names = (if absolute then CHR ''/'' # join ''/'' names else join ''/'' names)"

definition parent_path :: "string \<Rightarrow> string option" where
  "parent_path path =
     (if path_names path = [] then None
      else Some (render_path (is_absolute path) (butlast (path_names path))))"

definition join_path :: "string \<Rightarrow> string \<Rightarrow> string" where
  "join_path base path =
     (if is_absolute path then path
      else if base = [] \<or> ends_with ''/'' base then base @ path else base @ ''/'' @ path)"

subsection \<open>The executor trait\<close>

record command_output =
  stdout :: string
  stderr :: string
  exit_code :: int

definition command_success :: "command_output \<Rightarrow> bool" where
  "command_success out = (exit_code out = 0)"

record file_metadata =
  exists :: bool
  is_file :: bool
  is_dir :: bool
  mode :: nat
  size :: nat
  uid :: nat
  gid :: nat

type_synonym 'a host_result = "(host_error, 'a) result"

record 'h executor =
  description :: string
  legacy_description :: "string option"
  is_remote :: bool
  read_file :: "'h \<Rightarrow> string \<Rightarrow> string host_result"
  read_file_optional :: "'h \<Rightarrow> string \<Rightarrow> string option host_result"
  path_exists :: "'h \<Rightarrow> string \<Rightarrow> bool host_result"
  metadata_of :: "'h \<Rightarrow> string \<Rightarrow> file_metadata host_result"
  read_dir :: "'h \<Rightarrow> string \<Rightarrow> string list host_result"
  write_file :: "'h \<Rightarrow> string \<Rightarrow> string \<Rightarrow> unit host_result \<times> 'h"
  execute_command :: "'h \<Rightarrow> string \<Rightarrow> string list \<Rightarrow> command_output host_result \<times> 'h"
  read_link :: "'h \<Rightarrow> string \<Rightarrow> string option host_result \<times> 'h"
  link_target_as_writer :: "'h \<Rightarrow> string \<Rightarrow> string option host_result \<times> 'h"

text \<open>\<open>{:?}\<close> of a string, without its escapes; only error texts use it.\<close>

definition debug_str :: "string \<Rightarrow> string" where
  "debug_str s = [CHR 0x22] @ s @ [CHR 0x22]"

definition parse_link_probe :: "string \<Rightarrow> string option host_result" where
  "parse_link_probe out =
     (let answer = trim out in
      if answer = ''NOTLINK'' then Inr None
      else case strip_prefix ''LINK '' answer of
             Some target \<Rightarrow>
               if target \<noteq> [] then Inr (Some target)
               else Inl (Hardening (ExecutorError
                 (''could not determine whether the path is a symlink; the probe said '' @ debug_str answer)))
           | None \<Rightarrow> Inl (Hardening (ExecutorError
                 (''could not determine whether the path is a symlink; the probe said '' @ debug_str answer))))"

definition normalise_probe_path :: "string \<Rightarrow> string host_result" where
  "normalise_probe_path path =
     (let trimmed = trim_end_matches (CHR ''/'') path in
      if trimmed = [] then Inr ''/''
      else let final_component = last (split_on (CHR ''/'') trimmed) in
        if final_component = ''.'' \<or> final_component = ''..'' then
          Inl (Hardening (ExecutorError (''the link probe refuses '' @ debug_str trimmed
            @ '': a path whose final component is `.` or `..` names no final component the probe can answer about'')))
        else Inr trimmed)"

text \<open>The provided bodies of the trait; the mock executor overrides both.\<close>

definition default_read_link ::
  "('h, 'z) executor_scheme \<Rightarrow> 'h \<Rightarrow> string \<Rightarrow> string option host_result \<times> 'h" where
  "default_read_link ex h path =
     (case execute_command ex h ''readlink'' [''-n'', ''--'', path] of
        (Inl e, h') \<Rightarrow> (Inl e, h')
      | (Inr out, h') \<Rightarrow>
          (if exit_code out = 0 then (Inr (Some (trim (stdout out))), h')
           else if exit_code out = 1 then (Inr None, h')
           else (Inl (Hardening (ExecutorError (''readlink '' @ path @ '' exited ''
                   @ show_int (exit_code out) @ '': '' @ trim (stderr out)))), h')))"

text \<open>The probe script itself runs in the host's shell, so it is an argument of the model.\<close>

definition default_link_target_as_writer ::
  "string \<Rightarrow> ('h, 'z) executor_scheme \<Rightarrow> 'h \<Rightarrow> string \<Rightarrow> string option host_result \<times> 'h" where
  "default_link_target_as_writer LINK_PROBE_SCRIPT ex h path =
     (case normalise_probe_path path of
        Inl e \<Rightarrow> (Inl e, h)
      | Inr normalised \<Rightarrow>
          (let elevation = (if is_remote ex then ''sudo -n'' else []) in
           case execute_command ex h ''sh'' [''-c'', LINK_PROBE_SCRIPT, ''_'', normalised, elevation] of
             (Inl e, h') \<Rightarrow> (Inl e, h')
           | (Inr out, h') \<Rightarrow>
               (if exit_code out \<noteq> 0 then
                  (Inl (Hardening (ExecutorError (''the link probe exited '' @ show_int (exit_code out)
                     @ '': '' @ trim (stderr out)))), h')
                else (parse_link_probe (stdout out), h'))))"

definition host_key_for :: "('h, 'z) executor_scheme \<Rightarrow> string" where
  "host_key_for ex = (if is_remote ex then description ex else ''local'')"

definition host_keys_for :: "('h, 'z) executor_scheme \<Rightarrow> string list" where
  "host_keys_for ex =
     (let current = host_key_for ex in
      case legacy_description ex of
        None \<Rightarrow> [current]
      | Some legacy \<Rightarrow> if legacy \<noteq> current then [current, legacy] else [current])"

definition hostname_file_name :: "string \<Rightarrow> string option" where
  "hostname_file_name contents =
     find (\<lambda>line. line \<noteq> [] \<and> \<not> starts_with ''#'' line) (map trim (str_lines contents))"

definition session_host_key :: "('h, 'z) executor_scheme \<Rightarrow> 'h \<Rightarrow> string" where
  "session_host_key ex h =
     (if is_remote ex then host_key_for ex
      else case read_file ex h ''/etc/hostname'' of
             Inl _ \<Rightarrow> host_key_for ex
           | Inr contents \<Rightarrow>
               (case hostname_file_name contents of Some name \<Rightarrow> name | None \<Rightarrow> host_key_for ex))"

definition session_is_root :: "('h, 'z) executor_scheme \<Rightarrow> 'h \<Rightarrow> bool \<times> 'h" where
  "session_is_root ex h =
     (case execute_command ex h ''id'' [''-u''] of
        (Inr out, h') \<Rightarrow> (command_success out \<and> trim (stdout out) = ''0'', h')
      | (Inl _, h') \<Rightarrow> (False, h'))"

subsection \<open>Layered configuration\<close>

datatype config_layer = AdminLayer | VendorLayer

datatype layered_read =
  Found string config_layer string
| Absent
| Unreadable string string bool

definition vendor_path_for :: "string \<Rightarrow> string option" where
  "vendor_path_for admin_path =
     (case strip_prefix ''/etc/'' admin_path of
        None \<Rightarrow> None
      | Some rest \<Rightarrow> if rest = [] then None else Some (''/usr/etc/'' @ rest))"

datatype layer = LayerContent string | LayerAbsent | LayerUnreadable string bool

definition read_one :: "('h, 'z) executor_scheme \<Rightarrow> 'h \<Rightarrow> string \<Rightarrow> layer" where
  "read_one ex h path =
     (case read_file ex h path of
        Inr content \<Rightarrow> LayerContent content
      | Inl e \<Rightarrow>
          (case path_exists ex h path of
             Inr False \<Rightarrow> LayerAbsent
           | _ \<Rightarrow> LayerUnreadable (host_error_text e) (is_permission_denied e)))"

definition read_layered :: "('h, 'z) executor_scheme \<Rightarrow> 'h \<Rightarrow> string \<Rightarrow> layered_read" where
  "read_layered ex h admin_path =
     (case read_one ex h admin_path of
        LayerContent content \<Rightarrow> Found admin_path AdminLayer content
      | LayerUnreadable reason denied \<Rightarrow> Unreadable admin_path reason denied
      | LayerAbsent \<Rightarrow>
          (case vendor_path_for admin_path of
             None \<Rightarrow> Absent
           | Some vendor \<Rightarrow>
               (case read_one ex h vendor of
                  LayerContent content \<Rightarrow> Found vendor VendorLayer content
                | LayerAbsent \<Rightarrow> Absent
                | LayerUnreadable reason denied \<Rightarrow> Unreadable vendor reason denied)))"

subsection \<open>The mock executor\<close>

text \<open>The registries behind the mutexes of \<open>MockExecutor\<close>. The metadata store is an association
  list because \<open>read_dir\<close> enumerates it; a hash map enumerates in an unspecified order.\<close>

record mock_host =
  files :: "string \<rightharpoonup> string"
  metadata_store :: "(string \<times> file_metadata) list"
  commands :: "((string \<times> string list) \<times> command_output) list"
  command_programs :: "string \<rightharpoonup> command_output"
  command_sequences :: "string \<times> string list \<Rightarrow> command_output list"
  command_spawn_failure :: "string list"
  read_permission_denied :: "string list"
  read_dir_denied :: "string list"
  metadata_error :: "string list"
  path_exists_error :: "string list"
  path_exists_override :: "string \<rightharpoonup> bool"
  symlinks :: "string \<rightharpoonup> string"
  unprobeable :: "string list"
  files_written :: "(string \<times> string) list"
  commands_executed :: "(string \<times> string list) list"

definition new_mock :: mock_host where
  "new_mock = \<lparr>files = Map.empty, metadata_store = [], commands = [], command_programs = Map.empty,
     command_sequences = (\<lambda>_. []), command_spawn_failure = [], read_permission_denied = [],
     read_dir_denied = [], metadata_error = [], path_exists_error = [], path_exists_override = Map.empty,
     symlinks = Map.empty, unprobeable = [], files_written = [], commands_executed = []\<rparr>"

definition absent_metadata :: file_metadata where
  "absent_metadata = \<lparr>exists = False, is_file = False, is_dir = False, mode = 0, size = 0, uid = 0, gid = 0\<rparr>"

definition regular_metadata :: "nat \<Rightarrow> file_metadata" where
  "regular_metadata sz =
     \<lparr>exists = True, is_file = True, is_dir = False, mode = 33188, size = sz, uid = 0, gid = 0\<rparr>"

definition directory_metadata :: file_metadata where
  "directory_metadata =
     \<lparr>exists = True, is_file = False, is_dir = True, mode = 16877, size = 0, uid = 0, gid = 0\<rparr>"

definition with_file :: "string \<Rightarrow> string \<Rightarrow> mock_host \<Rightarrow> mock_host" where
  "with_file path content h =
     h\<lparr>files := (files h)(path \<mapsto> content),
       metadata_store := AList.update path (regular_metadata (length content)) (metadata_store h)\<rparr>"

definition without_file :: "string \<Rightarrow> mock_host \<Rightarrow> mock_host" where
  "without_file path h =
     h\<lparr>files := (files h)(path := None), metadata_store := AList.delete path (metadata_store h)\<rparr>"

definition with_directory :: "string \<Rightarrow> mock_host \<Rightarrow> mock_host" where
  "with_directory path h = h\<lparr>metadata_store := AList.update path directory_metadata (metadata_store h)\<rparr>"

definition with_read_permission_denied :: "string \<Rightarrow> mock_host \<Rightarrow> mock_host" where
  "with_read_permission_denied path h =
     h\<lparr>read_permission_denied := path # read_permission_denied h,
       metadata_store := (if map_of (metadata_store h) path = None
         then AList.update path \<lparr>exists = True, is_file = True, is_dir = False, mode = 33152,
                size = 0, uid = 0, gid = 0\<rparr> (metadata_store h)
         else metadata_store h)\<rparr>"

definition with_command :: "string \<Rightarrow> string list \<Rightarrow> command_output \<Rightarrow> mock_host \<Rightarrow> mock_host" where
  "with_command program args out h = h\<lparr>commands := AList.update (program, args) out (commands h)\<rparr>"

definition mock_read_file :: "mock_host \<Rightarrow> string \<Rightarrow> string host_result" where
  "mock_read_file h path =
     (if path \<in> set (read_permission_denied h) then
        Inl (Causes [(Some PermissionDeniedKind, ''Mock: permission denied: '' @ path)])
      else case files h path of
             Some content \<Rightarrow> Inr content
           | None \<Rightarrow> Inl (Causes [(None, ''Mock: file not found: '' @ path)]))"

definition mock_read_file_optional :: "mock_host \<Rightarrow> string \<Rightarrow> string option host_result" where
  "mock_read_file_optional h path = Inr (files h path)"

definition mock_write_file :: "mock_host \<Rightarrow> string \<Rightarrow> string \<Rightarrow> unit host_result \<times> mock_host" where
  "mock_write_file h path content =
     (Inr (), (with_file path content h)\<lparr>files_written := files_written h @ [(path, content)]\<rparr>)"

definition mock_path_exists :: "mock_host \<Rightarrow> string \<Rightarrow> bool host_result" where
  "mock_path_exists h path =
     (if path \<in> set (path_exists_error h) then
        Inl (Causes [(Some OtherKind, ''Mock: path_exists unavailable: '' @ path)])
      else case path_exists_override h path of
             Some b \<Rightarrow> Inr b
           | None \<Rightarrow> Inr (case map_of (metadata_store h) path of Some m \<Rightarrow> exists m | None \<Rightarrow> False))"

definition mock_read_link :: "mock_host \<Rightarrow> string \<Rightarrow> string option host_result \<times> mock_host" where
  "mock_read_link h path = (Inr (symlinks h path), h)"

definition mock_link_target_as_writer ::
  "mock_host \<Rightarrow> string \<Rightarrow> string option host_result \<times> mock_host" where
  "mock_link_target_as_writer h path =
     (if path \<in> set (unprobeable h) then
        (Inl (Causes [(None, ''Mock: could not determine whether '' @ path @ '' is a symlink'')]), h)
      else (Inr (symlinks h path), h))"

definition mock_file_metadata :: "mock_host \<Rightarrow> string \<Rightarrow> file_metadata host_result" where
  "mock_file_metadata h path =
     (if path \<in> set (metadata_error h) then
        Inl (Causes [(Some OtherKind, ''Mock: metadata unavailable: '' @ path)])
      else Inr (case map_of (metadata_store h) path of Some m \<Rightarrow> m | None \<Rightarrow> absent_metadata))"

definition mock_execute_command ::
  "mock_host \<Rightarrow> string \<Rightarrow> string list \<Rightarrow> command_output host_result \<times> mock_host" where
  "mock_execute_command h program args =
     (if program \<in> set (command_spawn_failure h) then
        (Inl (Causes [(None, ''Failed to execute command '' @ program),
                      (Some NotFoundKind, ''No such file or directory (os error 2)'')]), h)
      else
        (let h = h\<lparr>commands_executed := commands_executed h @ [(program, args)]\<rparr>;
             key = (program, args)
         in case command_sequences h key of
              out # rest \<Rightarrow> (Inr out, h\<lparr>command_sequences := (command_sequences h)(key := rest)\<rparr>)
            | [] \<Rightarrow>
                (case map_of (commands h) key of
                   Some out \<Rightarrow> (Inr out, h)
                 | None \<Rightarrow>
                     (case command_programs h program of
                        Some out \<Rightarrow> (Inr out, h)
                      | None \<Rightarrow> (Inl (Causes [(None, ''Mock: command not registered: '' @ program)]), h)))))"

definition mock_read_dir :: "mock_host \<Rightarrow> string \<Rightarrow> string list host_result" where
  "mock_read_dir h path =
     (if path \<in> set (read_dir_denied h) then
        Inl (Causes [(Some PermissionDeniedKind, ''Permission denied (os error 13): '' @ path)])
      else Inr (filter (\<lambda>child. parent_path child = Some path) (map fst (metadata_store h))))"

definition mock_executor :: "bool \<Rightarrow> string \<Rightarrow> mock_host executor" where
  "mock_executor remote desc =
     \<lparr>description = desc, legacy_description = None, is_remote = remote,
      read_file = mock_read_file, read_file_optional = mock_read_file_optional,
      path_exists = mock_path_exists, metadata_of = mock_file_metadata, read_dir = mock_read_dir,
      write_file = mock_write_file, execute_command = mock_execute_command,
      read_link = mock_read_link, link_target_as_writer = mock_link_target_as_writer\<rparr>"

lemma mock_executor_simps [simp]:
  "read_file (mock_executor r d) = mock_read_file"
  "read_file_optional (mock_executor r d) = mock_read_file_optional"
  "path_exists (mock_executor r d) = mock_path_exists"
  "metadata_of (mock_executor r d) = mock_file_metadata"
  "read_dir (mock_executor r d) = mock_read_dir"
  "write_file (mock_executor r d) = mock_write_file"
  "execute_command (mock_executor r d) = mock_execute_command"
  "read_link (mock_executor r d) = mock_read_link"
  "link_target_as_writer (mock_executor r d) = mock_link_target_as_writer"
  "is_remote (mock_executor r d) = r" "description (mock_executor r d) = d"
  by (simp_all add: mock_executor_def)

subsection \<open>What the components may rely on\<close>

text \<open>
  The files an executor stores: a write that succeeded is what a later read of the path gives, up to the
  white space the kernel adds to a parameter; one that failed changes nothing; no other path is touched.
\<close>

locale file_store =
  fixes ex :: "'h executor"
  assumes write_reads: "write_file ex h path content = (Inr u, h') \<Longrightarrow> read_file ex h' path = Inr content' \<Longrightarrow>
      trim content' = trim content"
    and write_fails: "write_file ex h path content = (Inl e, h') \<Longrightarrow> read_file ex h' path = read_file ex h path"
    and write_others: "write_file ex h path content = (r, h') \<Longrightarrow> other \<noteq> path \<Longrightarrow>
      read_file ex h' other = read_file ex h other"

lemma mock_file_store: "file_store (mock_executor r d)"
  by unfold_locales (auto simp: mock_write_file_def mock_read_file_def with_file_def split: if_splits option.splits)

interpretation mock_files: file_store "mock_executor r d" for r d
  by (rule mock_file_store)

text \<open>The effects an executor records: files written and commands run. Reads leave them alone, a
  write records its own path and content, a command at most itself.\<close>

locale recorded_effects =
  fixes ex :: "'h executor"
    and writes :: "'h \<Rightarrow> (string \<times> string) list"
    and runs :: "'h \<Rightarrow> (string \<times> string list) list"
  assumes write_records: "write_file ex h path content = (r, h') \<Longrightarrow>
      runs h' = runs h \<and> (writes h' = writes h \<or> writes h' = writes h @ [(path, content)])"
    and run_records: "execute_command ex h program args = (out, h') \<Longrightarrow>
      writes h' = writes h \<and> (runs h' = runs h \<or> runs h' = runs h @ [(program, args)])"
    and read_link_records: "read_link ex h path = (l, h') \<Longrightarrow> writes h' = writes h \<and> runs h' = runs h"
    and link_target_records:
      "link_target_as_writer ex h path = (t, h') \<Longrightarrow> writes h' = writes h \<and> runs h' = runs h"
begin

text \<open>The effects of a computation that took the state from \<open>h\<close> to \<open>h'\<close> all satisfy \<open>W\<close> and \<open>R\<close>.\<close>

definition confined ::
  "(string \<times> string \<Rightarrow> bool) \<Rightarrow> (string \<times> string list \<Rightarrow> bool) \<Rightarrow> 'h \<Rightarrow> 'h \<Rightarrow> bool" where
  "confined W R h h' =
     (\<exists>ws rs. writes h' = writes h @ ws \<and> runs h' = runs h @ rs \<and> (\<forall>w\<in>set ws. W w) \<and> (\<forall>r\<in>set rs. R r))"

lemma confined_refl [intro, simp]: "confined W R h h"
  by (auto simp: confined_def)

lemma confined_trans [trans]:
  assumes "confined W R h h'" "confined W R h' h''" shows "confined W R h h''"
proof -
  from assms(1) obtain ws rs where a: "writes h' = writes h @ ws" "runs h' = runs h @ rs"
    "\<forall>w\<in>set ws. W w" "\<forall>r\<in>set rs. R r" unfolding confined_def by blast
  from assms(2) obtain ws' rs' where b: "writes h'' = writes h' @ ws'" "runs h'' = runs h' @ rs'"
    "\<forall>w\<in>set ws'. W w" "\<forall>r\<in>set rs'. R r" unfolding confined_def by blast
  show ?thesis
    unfolding confined_def
    by (rule exI[of _ "ws @ ws'"], rule exI[of _ "rs @ rs'"]) (use a b in auto)
qed

lemma confined_mono:
  "confined W R h h' \<Longrightarrow> (\<And>w. W w \<Longrightarrow> W' w) \<Longrightarrow> (\<And>r. R r \<Longrightarrow> R' r) \<Longrightarrow> confined W' R' h h'"
  unfolding confined_def by blast

lemma write_confined: "write_file ex h path content = (r, h') \<Longrightarrow> W (path, content) \<Longrightarrow> confined W R h h'"
  using write_records[of h path content r h'] by (auto simp: confined_def)

lemma run_confined: "execute_command ex h program args = (out, h') \<Longrightarrow> R (program, args) \<Longrightarrow> confined W R h h'"
  using run_records[of h program args out h'] by (auto simp: confined_def)

lemma read_link_confined: "read_link ex h path = (l, h') \<Longrightarrow> confined W R h h'"
  using read_link_records[of h path l h'] by (auto simp: confined_def)

lemma link_target_confined: "link_target_as_writer ex h path = (l, h') \<Longrightarrow> confined W R h h'"
  using link_target_records[of h path l h'] by (auto simp: confined_def)

end

lemma mock_execute_records:
  "mock_execute_command h program args = (out, h') \<Longrightarrow>
     files_written h' = files_written h \<and> files h' = files h \<and> metadata_store h' = metadata_store h \<and>
     (commands_executed h' = commands_executed h \<or> commands_executed h' = commands_executed h @ [(program, args)])"
  by (auto simp: mock_execute_command_def Let_def split: if_splits list.splits option.splits)

interpretation mock: recorded_effects "mock_executor r d" files_written commands_executed
  by unfold_locales
     (auto simp: mock_write_file_def with_file_def mock_read_link_def mock_link_target_as_writer_def
       dest: mock_execute_records split: if_splits)

subsection \<open>Layered reads and probes\<close>

text \<open>A layered read answers with the vendor file only when the administrator's file is confirmed
  absent; an administrator's file that is there and cannot be read is reported unreadable, never
  replaced by the vendor's content, and absence is reported only when every layer confirmed it.\<close>

theorem read_layered_faithful:
  "(case read_layered ex h path of
      Found p AdminLayer c \<Rightarrow> p = path \<and> read_file ex h path = Inr c
    | Found p VendorLayer c \<Rightarrow> \<not> is_ok (read_file ex h path) \<and> path_exists ex h path = Inr False
        \<and> vendor_path_for path = Some p \<and> read_file ex h p = Inr c
    | Absent \<Rightarrow> path_exists ex h path = Inr False
        \<and> (case vendor_path_for path of None \<Rightarrow> True | Some p \<Rightarrow> path_exists ex h p = Inr False)
    | Unreadable p reason denied \<Rightarrow> \<not> is_ok (read_file ex h p) \<and> path_exists ex h p \<noteq> Inr False
        \<and> (p = path \<or> (path_exists ex h path = Inr False \<and> vendor_path_for path = Some p)))"
  by (auto simp: read_layered_def read_one_def split: sum.splits layer.splits option.splits bool.splits)

lemma parse_link_probe_None: "parse_link_probe out = Inr None \<longleftrightarrow> trim out = ''NOTLINK''"
  by (auto simp: parse_link_probe_def Let_def split: option.splits)

lemma normalise_probe_path_final:
  "normalise_probe_path path = Inr p \<Longrightarrow> last (split_on (CHR ''/'') p) \<notin> {''.'', ''..''}"
  by (auto simp: normalise_probe_path_def Let_def split: if_splits)

text \<open>The link probe admits a path as not a symlink only when the probe exited cleanly and printed
  exactly that answer about the path with its trailing slashes removed; a path ending in a dot
  component is refused before any command runs.\<close>

theorem link_probe_admits_only_notlink:
  "(fst (default_link_target_as_writer script ex h path) = Inr None \<longleftrightarrow>
      (\<exists>p out h'. normalise_probe_path path = Inr p
        \<and> execute_command ex h ''sh'' [''-c'', script, ''_'', p, if is_remote ex then ''sudo -n'' else []]
            = (Inr out, h')
        \<and> exit_code out = 0 \<and> trim (stdout out) = ''NOTLINK''))
   \<and> (case normalise_probe_path path of
          Inl _ \<Rightarrow> snd (default_link_target_as_writer script ex h path) = h
            \<and> \<not> is_ok (fst (default_link_target_as_writer script ex h path))
        | Inr p \<Rightarrow> last (split_on (CHR ''/'') p) \<notin> {''.'', ''..''})"
proof
  let ?run = "\<lambda>p. execute_command ex h ''sh'' [''-c'', script, ''_'', p, if is_remote ex then ''sudo -n'' else []]"
  show "fst (default_link_target_as_writer script ex h path) = Inr None \<longleftrightarrow>
      (\<exists>p out h'. normalise_probe_path path = Inr p \<and> ?run p = (Inr out, h')
        \<and> exit_code out = 0 \<and> trim (stdout out) = ''NOTLINK'')"
  proof (cases "normalise_probe_path path")
    case (Inr p)
    obtain r h' where run: "?run p = (r, h')" by fastforce
    show ?thesis
      by (cases r)
         (simp_all add: default_link_target_as_writer_def Inr Let_def run parse_link_probe_None)
  qed (simp add: default_link_target_as_writer_def)
  show "case normalise_probe_path path of
          Inl _ \<Rightarrow> snd (default_link_target_as_writer script ex h path) = h
            \<and> \<not> is_ok (fst (default_link_target_as_writer script ex h path))
        | Inr p \<Rightarrow> last (split_on (CHR ''/'') p) \<notin> {''.'', ''..''}"
    using normalise_probe_path_final[of path]
    by (simp add: default_link_target_as_writer_def split: sum.splits)
qed

end
