(* ===== verification/Wildcard.thy ===== *)
theory Wildcard
  imports Hardener_Prelude
begin

text \<open>
  The two-pointer wildcard loop that the sshd Include expansion and the sysctl pattern test share. A
  pattern is a list of tokens; a token either runs over any stretch of the name (a star) or is compared
  with one character. The loop tries the comparison first. \<open>None\<close> would be a loop that does not end.
\<close>

partial_function (option) wildcard_loop ::
  "('p \<Rightarrow> 'c \<Rightarrow> bool) \<Rightarrow> ('p \<Rightarrow> bool) \<Rightarrow> 'p list \<Rightarrow> 'c list \<Rightarrow> nat \<Rightarrow> nat \<Rightarrow> nat option \<Rightarrow> nat \<Rightarrow> bool option" where
  "wildcard_loop hit is_star pattern name p n star resume =
     (if n < length name then
        if p < length pattern \<and> hit (pattern ! p) (name ! n) then
          wildcard_loop hit is_star pattern name (p + 1) (n + 1) star resume
        else if p < length pattern \<and> is_star (pattern ! p) then
          wildcard_loop hit is_star pattern name (p + 1) n (Some p) n
        else (case star of
                Some star_at \<Rightarrow> wildcard_loop hit is_star pattern name (star_at + 1) (resume + 1) star (resume + 1)
              | None \<Rightarrow> Some False)
      else Some (list_all is_star (drop p pattern)))"

declare wildcard_loop.simps [code]

text \<open>What a pattern means.\<close>

fun wildcard_spec :: "('p \<Rightarrow> 'c \<Rightarrow> bool) \<Rightarrow> ('p \<Rightarrow> bool) \<Rightarrow> 'p list \<Rightarrow> 'c list \<Rightarrow> bool" where
  "wildcard_spec hit is_star [] n = (n = [])"
| "wildcard_spec hit is_star (c # p) [] = (is_star c \<and> wildcard_spec hit is_star p [])"
| "wildcard_spec hit is_star (c # p) (d # n) =
     (if is_star c then wildcard_spec hit is_star p (d # n) \<or> wildcard_spec hit is_star (c # p) n
      else hit c d \<and> wildcard_spec hit is_star p n)"

definition wildcard_variant :: "'p list \<Rightarrow> 'c list \<Rightarrow> nat \<Rightarrow> nat option \<Rightarrow> nat \<Rightarrow> nat \<times> nat \<times> nat" where
  "wildcard_variant pattern name n star resume =
     ((case star of None \<Rightarrow> Suc (length pattern) | Some s \<Rightarrow> length pattern - s),
      length name - resume, length name - n)"

definition wildcard_inv :: "'p list \<Rightarrow> 'c list \<Rightarrow> nat \<Rightarrow> nat \<Rightarrow> nat option \<Rightarrow> nat \<Rightarrow> bool" where
  "wildcard_inv pattern name p n star resume =
     (p \<le> length pattern \<and> n \<le> length name \<and> resume \<le> n \<and> (case star of None \<Rightarrow> True | Some s \<Rightarrow> s < p))"

text \<open>On the characters \<open>ok\<close> admits, no star compares equal, so trying the comparison first is harmless.\<close>

locale wildcard =
  fixes hit :: "'p \<Rightarrow> 'c \<Rightarrow> bool" and is_star :: "'p \<Rightarrow> bool" and ok :: "'c \<Rightarrow> bool"
  assumes exclusive: "ok d \<Longrightarrow> hit c d \<Longrightarrow> \<not> is_star c"
begin

abbreviation loop :: "'p list \<Rightarrow> 'c list \<Rightarrow> nat \<Rightarrow> nat \<Rightarrow> nat option \<Rightarrow> nat \<Rightarrow> bool option" where
  "loop \<equiv> wildcard_loop hit is_star"

abbreviation spec :: "'p list \<Rightarrow> 'c list \<Rightarrow> bool" where
  "spec \<equiv> wildcard_spec hit is_star"

lemma loop_returns:
  "wildcard_inv pattern name p n star resume \<Longrightarrow> \<exists>b. loop pattern name p n star resume = Some b"
proof (induction "wildcard_variant pattern name n star resume" arbitrary: p n star resume
    rule: wf_induct_rule[OF wf_lex_prod[OF wf_less wf_lex_prod[OF wf_less wf_less]]])
  case 1
  note IH = "1.hyps" and inv = "1.prems"
  show ?case
  proof (cases "n < length name")
    case False
    then show ?thesis by (subst wildcard_loop.simps) simp
  next
    case n: True
    consider (lit) "p < length pattern" "hit (pattern ! p) (name ! n)"
      | (star) "p < length pattern" "\<not> hit (pattern ! p) (name ! n)" "is_star (pattern ! p)"
      | (retry) "\<not> (p < length pattern \<and> (hit (pattern ! p) (name ! n)))"
          "\<not> (p < length pattern \<and> is_star (pattern ! p))" by blast
    then show ?thesis
    proof cases
      case lit
      have "\<exists>b. loop pattern name (p + 1) (n + 1) star resume = Some b"
        by (rule IH) (use n lit inv in \<open>auto simp: wildcard_variant_def wildcard_inv_def split: option.splits\<close>)
      with n lit show ?thesis by (subst wildcard_loop.simps) simp
    next
      case star
      have "\<exists>b. loop pattern name (p + 1) n (Some p) n = Some b"
        by (rule IH) (use n star inv in \<open>auto simp: wildcard_variant_def wildcard_inv_def split: option.splits\<close>)
      with n star show ?thesis by (subst wildcard_loop.simps) simp
    next
      case retry
      show ?thesis
      proof (cases "star")
        case None
        then show ?thesis using n retry by (subst wildcard_loop.simps) auto
      next
        case (Some s)
        have "\<exists>b. loop pattern name (s + 1) (resume + 1) star (resume + 1) = Some b"
          by (rule IH) (use n Some inv in \<open>auto simp: wildcard_variant_def wildcard_inv_def\<close>)
        then show ?thesis using n retry Some by (subst wildcard_loop.simps) auto
      qed
    qed
  qed
qed

lemma spec_star:
  "is_star c \<Longrightarrow> spec (c # p) n \<longleftrightarrow> (\<exists>k\<le>length n. spec p (drop k n))"
proof (induction n)
  case (Cons d n)
  have "(\<exists>k\<le>length (d # n). spec p (drop k (d # n))) \<longleftrightarrow>
      spec p (d # n) \<or> (\<exists>k\<le>length n. spec p (drop k n))"
    by (metis Suc_le_mono drop0 drop_Suc_Cons le0 length_Cons not0_implies_Suc)
  with Cons show ?case by simp
qed simp

lemma spec_lits:
  assumes "\<forall>c\<in>set seg. \<not> is_star c"
  shows "spec (seg @ p) n \<longleftrightarrow> length seg \<le> length n \<and>
     (\<forall>i<length seg. hit (seg ! i) (n ! i)) \<and> spec p (drop (length seg) n)"
  using assms
proof (induction seg arbitrary: n)
  case (Cons c seg)
  show ?case
  proof (cases n)
    case Nil
    with Cons.prems show ?thesis by simp
  next
    case (Cons d m)
    have all: "(\<forall>i<length (c # seg). hit ((c # seg) ! i) ((d # m) ! i)) \<longleftrightarrow>
        (hit c d) \<and> (\<forall>i<length seg. hit (seg ! i) (m ! i))"
      by (simp add: All_less_Suc2)
    show ?thesis
      using Cons.IH[of m] Cons.prems \<open>n = d # m\<close> all by auto
  qed
qed simp

lemma spec_Nil: "spec p [] \<longleftrightarrow> list_all (\<lambda>c. is_star c) p"
  by (induction p) auto

text \<open>What the loop keeps: the whole match reduces to the match from the last \<open>*\<close>, and since that
  \<open>*\<close> the pattern has matched character by character.\<close>

definition wildcard_track :: "'p list \<Rightarrow> 'c list \<Rightarrow> nat \<Rightarrow> nat \<Rightarrow> nat option \<Rightarrow> nat \<Rightarrow> bool" where
  "wildcard_track pattern name p n star resume =
     (wildcard_inv pattern name p n star resume \<and>
      (case star of
         None \<Rightarrow> spec pattern name = spec (drop p pattern) (drop n name)
       | Some s \<Rightarrow> is_star (pattern ! s)
           \<and> spec pattern name = spec (drop s pattern) (drop resume name)
           \<and> n - resume = p - Suc s
           \<and> (\<forall>i<p - Suc s. \<not> is_star (pattern ! (Suc s + i)) \<and>
                (hit (pattern ! (Suc s + i)) (name ! (resume + i))))))"

text \<open>From the state after a \<open>*\<close> at \<open>s\<close>: an attempt at \<open>k\<close> needs the literals up to \<open>p\<close> and then the
  rest of the pattern.\<close>

lemma wildcard_attempt:
  assumes "s < p" "p \<le> length pattern" "\<forall>i<p - Suc s. \<not> is_star (pattern ! (Suc s + i))"
  shows "spec (drop (Suc s) pattern) m \<longleftrightarrow> p - Suc s \<le> length m \<and>
     (\<forall>i<p - Suc s. hit (pattern ! (Suc s + i)) (m ! i)) \<and>
     spec (drop p pattern) (drop (p - Suc s) m)"
proof -
  let ?seg = "take (p - Suc s) (drop (Suc s) pattern)"
  have len: "length ?seg = p - Suc s" using assms by simp
  have nth: "?seg ! i = pattern ! (Suc s + i)" if "i < p - Suc s" for i using that assms by simp
  have "\<forall>c\<in>set ?seg. \<not> is_star c"
    using assms(3) nth len by (metis in_set_conv_nth)
  note lits = spec_lits[OF this, of "drop p pattern" m, unfolded len]
  have "drop (Suc s) pattern = ?seg @ drop p pattern"
    using assms by (metis Suc_leI append_take_drop_id drop_drop le_add_diff_inverse2)
  then have "spec (drop (Suc s) pattern) m = spec (?seg @ drop p pattern) m" by (rule arg_cong)
  also note lits
  finally show ?thesis using nth by auto
qed

lemma wildcard_from_star:
  assumes "s < length pattern" "is_star (pattern ! s)"
  shows "spec (drop s pattern) m \<longleftrightarrow> (\<exists>k\<le>length m. spec (drop (Suc s) pattern) (drop k m))"
  using assms spec_star by (metis Cons_nth_drop_Suc)

lemma track_literal:
  assumes "wildcard_track pattern name p n star resume" "n < length name" "p < length pattern"
    "\<forall>d\<in>set name. ok d" "hit (pattern ! p) (name ! n)"
  shows "wildcard_track pattern name (Suc p) (Suc n) star resume"
proof -
  have ns: "\<not> is_star (pattern ! p)" using exclusive[OF _ assms(5)] assms(2,4) by simp
  have dp: "drop p pattern = pattern ! p # drop (Suc p) pattern" "drop n name = name ! n # drop (Suc n) name"
    using assms(2,3) by (simp_all add: Cons_nth_drop_Suc)
  show ?thesis
  proof (cases star)
    case None
    with assms ns dp show ?thesis by (auto simp: wildcard_track_def wildcard_inv_def)
  next
    case (Some s)
    have "n = resume + (p - Suc s)" "s < p"
      using assms(1) Some by (auto simp: wildcard_track_def wildcard_inv_def)
    moreover from this have "Suc p - Suc s = Suc (p - Suc s)" "Suc s + (p - Suc s) = p" by auto
    ultimately show ?thesis
      using assms ns Some by (auto simp: wildcard_track_def wildcard_inv_def All_less_Suc)
  qed
qed

lemma track_star:
  assumes t: "wildcard_track pattern name p n star resume" and p: "p < length pattern" "is_star (pattern ! p)"
  shows "wildcard_track pattern name (Suc p) n (Some p) n"
proof -
  have "spec pattern name = spec (drop p pattern) (drop n name)"
  proof (cases star)
    case None
    with t show ?thesis by (simp add: wildcard_track_def)
  next
    case (Some s)
    have inv: "s < p" "n \<le> length name" "resume \<le> n" and s: "is_star (pattern ! s)"
      and g: "spec pattern name = spec (drop s pattern) (drop resume name)"
      and n: "n = resume + (p - Suc s)"
      and l: "\<forall>i<p - Suc s. \<not> is_star (pattern ! (Suc s + i)) \<and>
                (hit (pattern ! (Suc s + i)) (name ! (resume + i)))"
      using t Some by (auto simp: wildcard_track_def wildcard_inv_def)
    have at: "spec (drop (Suc s) pattern) m \<longleftrightarrow> p - Suc s \<le> length m \<and>
       (\<forall>i<p - Suc s. hit (pattern ! (Suc s + i)) (m ! i)) \<and>
       spec (drop p pattern) (drop (p - Suc s) m)" for m
      by (rule wildcard_attempt) (use inv p l in auto)
    have star: "spec (drop p pattern) m \<longleftrightarrow> (\<exists>k\<le>length m. spec (drop (Suc p) pattern) (drop k m))" for m
      by (rule wildcard_from_star[OF p])
    have later: "spec (drop p pattern) (drop n name)" if "spec (drop p pattern) (drop k name)" "n \<le> k" "k \<le> length name" for k
    proof -
      from that(1) obtain j where "j \<le> length (drop k name)" "spec (drop (Suc p) pattern) (drop (k + j) name)"
        unfolding star by (auto simp: add.commute)
      then show ?thesis
        unfolding star using that(2,3) inv(2)
        by (intro exI[of _ "k + j - n"]) auto
    qed
    have "spec (drop s pattern) (drop resume name) \<longleftrightarrow>
        (\<exists>k\<le>length (drop resume name). spec (drop (Suc s) pattern) (drop k (drop resume name)))"
      by (rule wildcard_from_star) (use inv p s in auto)
    also have "\<dots> \<longleftrightarrow> spec (drop p pattern) (drop n name)"
    proof
      assume "\<exists>k\<le>length (drop resume name). spec (drop (Suc s) pattern) (drop k (drop resume name))"
      then obtain k where k: "k \<le> length (drop resume name)" "p - Suc s \<le> length (drop k (drop resume name))"
        and "spec (drop p pattern) (drop (p - Suc s + (k + resume)) name)"
        unfolding at by (auto simp: add.commute)
      from this(3) show "spec (drop p pattern) (drop n name)"
        by (rule later) (use k inv n in auto)
    next
      assume r: "spec (drop p pattern) (drop n name)"
      have "spec (drop (Suc s) pattern) (drop resume name)"
        unfolding at using r l n inv by (auto simp: add.commute)
      then show "\<exists>k\<le>length (drop resume name). spec (drop (Suc s) pattern) (drop k (drop resume name))"
        by (intro exI[of _ 0]) simp
    qed
    finally show ?thesis using g by simp
  qed
  with t p show ?thesis by (auto simp: wildcard_track_def wildcard_inv_def split: option.splits)
qed

lemma track_attempt_here:
  assumes t: "wildcard_track pattern name p n (Some s) resume"
  shows "spec (drop (Suc s) pattern) (drop resume name) \<longleftrightarrow> spec (drop p pattern) (drop n name)"
    and "spec pattern name \<longleftrightarrow>
      (\<exists>k\<le>length name - resume. spec (drop (Suc s) pattern) (drop (k + resume) name))"
proof -
  have inv: "s < p" "p \<le> length pattern" "n \<le> length name" "resume \<le> n"
    and s: "is_star (pattern ! s)"
    and g: "spec pattern name = spec (drop s pattern) (drop resume name)"
    and n: "n - resume = p - Suc s"
    and l: "\<forall>i<p - Suc s. \<not> is_star (pattern ! (Suc s + i)) \<and>
              (hit (pattern ! (Suc s + i)) (name ! (resume + i)))"
    using t by (auto simp: wildcard_track_def wildcard_inv_def)
  have "p - Suc s + resume = n" using inv n by arith
  then have nr: "drop (p - Suc s) (drop resume name) = drop n name" by (simp only: drop_drop)
  have nl: "p - Suc s \<le> length (drop resume name)" using inv n by auto
  have "\<forall>i<p - Suc s. hit (pattern ! (Suc s + i)) (drop resume name ! i)"
    using l inv by auto
  then show "spec (drop (Suc s) pattern) (drop resume name) \<longleftrightarrow> spec (drop p pattern) (drop n name)"
    by (subst wildcard_attempt[of s p]) (use inv l nr nl in \<open>auto simp del: drop_drop\<close>)
  show "spec pattern name \<longleftrightarrow>
      (\<exists>k\<le>length name - resume. spec (drop (Suc s) pattern) (drop (k + resume) name))"
    unfolding g by (subst wildcard_from_star) (use inv s in auto)
qed

lemma track_retry:
  assumes t: "wildcard_track pattern name p n (Some s) resume" and n: "n < length name"
    and no: "\<not> spec (drop p pattern) (drop n name)"
  shows "wildcard_track pattern name (Suc s) (Suc resume) (Some s) (Suc resume)"
proof -
  have inv: "s < p" "p \<le> length pattern" "resume \<le> n" "is_star (pattern ! s)"
    using t by (auto simp: wildcard_track_def wildcard_inv_def)
  have here: "\<not> spec (drop (Suc s) pattern) (drop (0 + resume) name)"
    using track_attempt_here(1)[OF t] no by simp
  have "spec pattern name \<longleftrightarrow>
      (\<exists>k\<le>length name - resume. spec (drop (Suc s) pattern) (drop (k + resume) name))"
    by (rule track_attempt_here(2)[OF t])
  also have "\<dots> \<longleftrightarrow> (\<exists>k\<le>length name - Suc resume. spec (drop (Suc s) pattern) (drop (k + Suc resume) name))"
  proof
    assume "\<exists>k\<le>length name - resume. spec (drop (Suc s) pattern) (drop (k + resume) name)"
    then obtain k where k: "k \<le> length name - resume" "spec (drop (Suc s) pattern) (drop (k + resume) name)"
      by blast
    with here obtain j where "k = Suc j" by (cases k) auto
    with k n inv show "\<exists>k\<le>length name - Suc resume. spec (drop (Suc s) pattern) (drop (k + Suc resume) name)"
      by (intro exI[of _ j]) auto
  next
    assume "\<exists>k\<le>length name - Suc resume. spec (drop (Suc s) pattern) (drop (k + Suc resume) name)"
    then obtain k where "k \<le> length name - Suc resume" "spec (drop (Suc s) pattern) (drop (Suc k + resume) name)"
      by auto
    then show "\<exists>k\<le>length name - resume. spec (drop (Suc s) pattern) (drop (k + resume) name)"
      using n inv by (intro exI[of _ "Suc k"]) auto
  qed
  also have "\<dots> \<longleftrightarrow> spec (drop s pattern) (drop (Suc resume) name)"
    by (subst wildcard_from_star) (use inv in auto)
  finally show ?thesis
    using inv n by (auto simp: wildcard_track_def wildcard_inv_def)
qed

lemma track_end:
  assumes t: "wildcard_track pattern name p (length name) star resume"
  shows "spec pattern name \<longleftrightarrow> list_all (\<lambda>c. is_star c) (drop p pattern)"
proof (cases star)
  case None
  with t show ?thesis by (simp add: wildcard_track_def spec_Nil)
next
  case (Some s)
  have t': "wildcard_track pattern name p (length name) (Some s) resume" using t Some by simp
  have inv: "s < p" "p \<le> length pattern" "resume \<le> length name"
    and n: "length name - resume = p - Suc s"
    and l: "\<forall>i<p - Suc s. \<not> is_star (pattern ! (Suc s + i))"
    using t' by (auto simp: wildcard_track_def wildcard_inv_def)
  show ?thesis
  proof (cases "list_all (\<lambda>c. is_star c) (drop p pattern)")
    case True
    then have "spec (drop (Suc s) pattern) (drop (0 + resume) name)"
      using track_attempt_here(1)[OF t'] by (simp add: spec_Nil)
    with True show ?thesis using track_attempt_here(2)[OF t'] by (metis le0)
  next
    case False
    have "\<not> spec (drop (Suc s) pattern) (drop (k + resume) name)" for k
    proof
      assume "spec (drop (Suc s) pattern) (drop (k + resume) name)"
      then have "p - Suc s \<le> length (drop (k + resume) name)"
        and g: "spec (drop p pattern) (drop (p - Suc s) (drop (k + resume) name))"
        using wildcard_attempt[of s p pattern "drop (k + resume) name"] inv l by auto
      then have "drop (p - Suc s) (drop (k + resume) name) = []" using n inv by auto
      with g False show False by (simp add: spec_Nil)
    qed
    with False show ?thesis using track_attempt_here(2)[OF t'] by simp
  qed
qed

lemma loop_correct:
  assumes name: "\<forall>d\<in>set name. ok d"
  shows "wildcard_track pattern name p n star resume \<Longrightarrow>
    loop pattern name p n star resume = Some (spec pattern name)"
proof (induction "wildcard_variant pattern name n star resume" arbitrary: p n star resume
    rule: wf_induct_rule[OF wf_lex_prod[OF wf_less wf_lex_prod[OF wf_less wf_less]]])
  case 1
  note IH = "1.hyps" and t = "1.prems"
  have inv: "wildcard_inv pattern name p n star resume" using t by (simp add: wildcard_track_def)
  show ?case
  proof (cases "n < length name")
    case False
    then have "n = length name" using inv by (simp add: wildcard_inv_def)
    with t show ?thesis by (subst wildcard_loop.simps) (simp add: track_end)
  next
    case n: True
    consider (lit) "p < length pattern" "hit (pattern ! p) (name ! n)"
      | (star) "p < length pattern" "\<not> hit (pattern ! p) (name ! n)" "is_star (pattern ! p)"
      | (retry) "\<not> (p < length pattern \<and> (hit (pattern ! p) (name ! n)))"
          "\<not> (p < length pattern \<and> is_star (pattern ! p))" by blast
    then show ?thesis
    proof cases
      case lit
      have "loop pattern name (Suc p) (Suc n) star resume = Some (spec pattern name)"
        by (rule IH) (use n track_literal[OF t n lit(1) name lit(2)] in \<open>auto simp: wildcard_variant_def\<close>)
      with n lit show ?thesis by (subst wildcard_loop.simps) simp
    next
      case star
      have "loop pattern name (Suc p) n (Some p) n = Some (spec pattern name)"
        by (rule IH) (use n star inv track_star[OF t star(1,3)] in
            \<open>auto simp: wildcard_variant_def wildcard_inv_def split: option.splits\<close>)
      with n star show ?thesis by (subst wildcard_loop.simps) simp
    next
      case retry
      have no: "\<not> spec (drop p pattern) (drop n name)"
      proof (cases "p < length pattern")
        case True
        then have "drop p pattern = pattern ! p # drop (Suc p) pattern" "drop n name = name ! n # drop (Suc n) name"
          using n by (simp_all add: Cons_nth_drop_Suc)
        with retry True show ?thesis by auto
      next
        case False
        with n show ?thesis by simp
      qed
      show ?thesis
      proof (cases star)
        case None
        then have "\<not> spec pattern name" using t no by (simp add: wildcard_track_def)
        with None show ?thesis using n retry by (subst wildcard_loop.simps) auto
      next
        case (Some s)
        have "loop pattern name (Suc s) (Suc resume) star (Suc resume) = Some (spec pattern name)"
          by (rule IH) (use n Some inv track_retry[OF t[unfolded Some] n no] in
              \<open>auto simp: wildcard_variant_def wildcard_inv_def\<close>)
        then show ?thesis using n retry Some by (subst wildcard_loop.simps) auto
      qed
    qed
  qed
qed

lemma loop_decides: "\<forall>d\<in>set name. ok d \<Longrightarrow> loop pattern name 0 0 None 0 = Some (spec pattern name)"
  by (rule loop_correct) (simp_all add: wildcard_track_def wildcard_inv_def)

lemma loop_ends: "\<exists>b. loop pattern name 0 0 None 0 = Some b"
  by (rule loop_returns) (simp add: wildcard_inv_def)

end

end
