(* ===== verification/Ssh_Include.thy ===== *)
theory Ssh_Include
  imports Config_Edit Host_Executor Wildcard
begin

text \<open>
  Resolving \<open>Include\<close> directives the way sshd does, from
  \<open>crates/hardener-plugins/src/ssh/include.rs\<close>, and the drop-in the tool writes when it cannot
  win by editing the main file (\<open>ssh/dropin.rs\<close>). The executor is a parameter.
\<close>

subsection \<open>Definitions\<close>

definition MAX_INCLUDE_DEPTH :: nat where "MAX_INCLUDE_DEPTH = 16"
definition SSH_CONFIG_DIR :: string where "SSH_CONFIG_DIR = ''/etc/ssh''"

record effective_value =
  effective_text :: string
  effective_source :: string

type_synonym segments = "(string \<times> string) list"

definition first_value :: "(string \<Rightarrow> bool) \<Rightarrow> segments \<Rightarrow> string \<Rightarrow> effective_value option" where
  "first_value considered segs directive_name =
     find_map (\<lambda>(path, content).
         map_option (\<lambda>v. \<lparr>effective_text = v, effective_source = path\<rparr>)
           (parse_config_value (global_scope content) directive_name SpaceSeparated False))
       (filter (\<lambda>(path, _). considered path) segs)"

definition effective :: "segments \<Rightarrow> string \<Rightarrow> effective_value option" where
  "effective segs directive_name = first_value (\<lambda>_. True) segs directive_name"

definition effective_without :: "segments \<Rightarrow> string \<Rightarrow> string \<Rightarrow> effective_value option" where
  "effective_without segs directive_name ignored_path =
     first_value (\<lambda>path. path \<noteq> ignored_path) segs directive_name"

definition include_patterns :: "string \<Rightarrow> string list option" where
  "include_patterns line =
     (let trimmed = trim line in
      if starts_with ''#'' trimmed then None
      else case split_whitespace trimmed of
             [] \<Rightarrow> None
           | keyword # patterns \<Rightarrow>
               if \<not> eq_ignore_ascii_case keyword ''Include'' then None
               else if patterns \<noteq> [] then Some patterns else None)"

text \<open>The \<open>while\<close> loop of \<open>glob_matches\<close> over its four variables; \<open>None\<close> would be a loop that does
  not end.\<close>

definition glob_loop ::
  "string \<Rightarrow> string \<Rightarrow> nat \<Rightarrow> nat \<Rightarrow> nat option \<Rightarrow> nat \<Rightarrow> bool option" where
  "glob_loop = wildcard_loop (\<lambda>c d. c = CHR ''?'' \<or> c = d) (\<lambda>c. c = CHR ''*'')"

definition glob_matches :: "string \<Rightarrow> string \<Rightarrow> bool" where
  "glob_matches pattern name = (glob_loop pattern name 0 0 None 0 = Some True)"

definition pattern_is_supported :: "string \<Rightarrow> bool" where
  "pattern_is_supported pattern = (CHR ''['' \<notin> set pattern \<and> CHR '']'' \<notin> set pattern)"

definition relative_base :: "string \<Rightarrow> string option" where
  "relative_base including_path =
     (if starts_with ''/etc/'' including_path then Some SSH_CONFIG_DIR else None)"

definition absolute_pattern :: "string \<Rightarrow> string \<Rightarrow> string option" where
  "absolute_pattern pattern including_path =
     (if is_absolute pattern then Some pattern
      else map_option (\<lambda>base. join_path base pattern) (relative_base including_path))"

definition expand_pattern ::
  "('h, 'z) executor_scheme \<Rightarrow> 'h \<Rightarrow> string \<Rightarrow> string \<Rightarrow> (hardening_error, string list) result" where
  "expand_pattern ex h pattern including_path =
     (if \<not> pattern_is_supported pattern then
        Inl (PluginError (''Include pattern '' @ pattern
          @ '' uses a character class, which this tool cannot expand; check it by hand with `sshd -T`''))
      else case absolute_pattern pattern including_path of
        None \<Rightarrow> Inl (PluginError (''The relative Include pattern '' @ pattern @ '' in '' @ including_path
          @ '' resolves against sshd's compiled sysconfdir, which this tool cannot read for a file outside /etc; check it by hand with `sshd -T`''))
      | Some absolute \<Rightarrow>
          if \<not> (CHR ''*'' \<in> set pattern \<or> CHR ''?'' \<in> set pattern) then
            (case path_exists ex h absolute of
               Inr True \<Rightarrow> Inr [absolute]
             | Inr False \<Rightarrow> Inr []
             | Inl e \<Rightarrow> Inl (PluginError (''Cannot determine whether the included file '' @ absolute
                 @ '' exists: '' @ host_error_text e)))
          else case (parent_path absolute, file_name absolute) of
            (Some directory, Some file_pattern) \<Rightarrow>
              (case read_dir ex h directory of
                 Inl e \<Rightarrow> Inl (PluginError (''Cannot list '' @ directory @ '' to expand the Include pattern ''
                   @ pattern @ '': '' @ host_error_text e))
               | Inr entries \<Rightarrow>
                   Inr (sort_key path_names (filter (\<lambda>entry.
                     (case file_name entry of None \<Rightarrow> False | Some name \<Rightarrow> glob_matches file_pattern name))
                     entries)))
          | _ \<Rightarrow> Inl (PluginError (''Include pattern '' @ pattern @ '' has no directory to search'')))"

definition flush :: "string \<Rightarrow> string \<Rightarrow> segments" where
  "flush path pending = (if pending \<noteq> [] then [(path, pending)] else [])"

fun collect :: "('a \<Rightarrow> ('e, 'b list) result) \<Rightarrow> 'a list \<Rightarrow> ('e, 'b list) result" where
  "collect f [] = Inr []"
| "collect f (x # xs) = and_then (f x) (\<lambda>ys. and_then (collect f xs) (\<lambda>zs. Inr (ys @ zs)))"

text \<open>The loop over the lines of one file: \<open>inc\<close> is what one pattern of an \<open>Include\<close> contributes.\<close>

fun expand_lines ::
  "(string \<Rightarrow> (hardening_error, segments) result) \<Rightarrow> string \<Rightarrow> string \<Rightarrow> string list \<Rightarrow>
   (hardening_error, segments) result" where
  "expand_lines inc path pending [] = Inr (flush path pending)"
| "expand_lines inc path pending (line # lines) =
     (case include_patterns line of
        None \<Rightarrow> expand_lines inc path (pending @ line @ [nl]) lines
      | Some patterns \<Rightarrow>
          and_then (collect inc patterns) (\<lambda>included.
            and_then (expand_lines inc path [] lines) (\<lambda>rest.
              Inr (flush path pending @ included @ rest))))"

definition include_file ::
  "('h, 'z) executor_scheme \<Rightarrow> 'h \<Rightarrow> (string \<Rightarrow> string \<Rightarrow> (hardening_error, segments) result) \<Rightarrow>
   string \<Rightarrow> (hardening_error, segments) result" where
  "include_file ex h expand included =
     (case read_file ex h included of
        Inl e \<Rightarrow> Inl (PluginError (''Cannot read the included file '' @ included @ '': '' @ host_error_text e))
      | Inr content \<Rightarrow> expand included content)"

primrec expand_into ::
  "nat \<Rightarrow> ('h, 'z) executor_scheme \<Rightarrow> 'h \<Rightarrow> string \<Rightarrow> string \<Rightarrow> (hardening_error, segments) result" where
  "expand_into 0 ex h path content =
     Inl (PluginError (''Include nesting exceeded '' @ show_radix 10 MAX_INCLUDE_DEPTH @ '' levels at ''
       @ path @ ''; this is a loop rather than a configuration''))"
| "expand_into (Suc depth) ex h path content =
     expand_lines (\<lambda>pattern. and_then (expand_pattern ex h pattern path)
                    (collect (include_file ex h (expand_into depth ex h))))
       path [] (str_lines content)"

definition resolve ::
  "('h, 'z) executor_scheme \<Rightarrow> 'h \<Rightarrow> string \<Rightarrow> string \<Rightarrow> (hardening_error, segments) result" where
  "resolve ex h main_path main_content = expand_into MAX_INCLUDE_DEPTH ex h main_path main_content"

subsection \<open>The drop-in\<close>

definition DROPIN_PATH :: string where "DROPIN_PATH = ''/etc/ssh/sshd_config.d/00-hardener.conf''"
definition DROPIN_DIR :: string where "DROPIN_DIR = ''/etc/ssh/sshd_config.d''"
definition DROPIN_MODE :: string where "DROPIN_MODE = ''0600''"

definition DROPIN_HEADER :: string where
  "DROPIN_HEADER =
     ''# Managed by linux-hardener. Edits here are overwritten on the next'' @ [nl]
   @ ''# apply, and this file is removed when it is no longer needed. sshd reads this'' @ [nl]
   @ ''# directory before the main configuration, which is why the directives below'' @ [nl]
   @ ''# live here rather than in sshd_config.'' @ [nl]"

record dropin_directive =
  keyword :: string
  dropin_value :: string
  dropin_note :: string

definition render_dropin :: "dropin_directive list \<Rightarrow> string" where
  "render_dropin ds =
     DROPIN_HEADER @ concat (map (\<lambda>d. keyword d @ '' '' @ dropin_value d @ [nl]) (sort_key keyword ds))"

definition remove_dropin :: "('h, 'z) executor_scheme \<Rightarrow> 'h \<Rightarrow> (hardening_error, unit) result \<times> 'h" where
  "remove_dropin ex h =
     (let remove = (case execute_command ex h ''rm'' [''-f'', DROPIN_PATH] of
          (Inl e, h') \<Rightarrow> (Inl (PluginError (''Failed to remove '' @ DROPIN_PATH @ '': '' @ host_error_text e)), h')
        | (Inr out, h') \<Rightarrow>
            (if \<not> command_success out then
               (Inl (PluginError (''Failed to remove '' @ DROPIN_PATH @ '': '' @ trim (stderr out))), h')
             else (Inr (), h')))
      in case path_exists ex h DROPIN_PATH of
           Inr False \<Rightarrow> (Inr (), h)
         | Inr True \<Rightarrow> remove
         | Inl _ \<Rightarrow> remove)"

text \<open>\<open>ensure_directory\<close> is the plugins' shared helper; what it answers (a reason it failed, or
  nothing) and the state it leaves are an argument here.\<close>

definition write_dropin ::
  "('h, 'z) executor_scheme \<Rightarrow> ('h \<Rightarrow> string \<Rightarrow> string option \<times> 'h) \<Rightarrow> 'h \<Rightarrow> dropin_directive list \<Rightarrow>
   (hardening_error, unit) result \<times> 'h" where
  "write_dropin ex ensure_directory h ds =
     (if ds = [] then remove_dropin ex h
      else case ensure_directory h DROPIN_DIR of
        (Some reason, h') \<Rightarrow> (Inl (PluginError reason), h')
      | (None, h') \<Rightarrow>
          (case write_file ex h' DROPIN_PATH (render_dropin ds) of
             (Inl e, h'') \<Rightarrow>
               (Inl (PluginError (''Failed to write '' @ DROPIN_PATH @ '': '' @ host_error_text e)), h'')
           | (Inr _, h'') \<Rightarrow>
               (Inr (), snd (execute_command ex h'' ''chmod'' [DROPIN_MODE, DROPIN_PATH]))))"

subsection \<open>The glob matcher\<close>

text \<open>What a pattern of \<open>*\<close> and \<open>?\<close> means.\<close>

definition glob_spec :: "string \<Rightarrow> string \<Rightarrow> bool" where
  "glob_spec = wildcard_spec (\<lambda>c d. c = CHR ''?'' \<or> c = d) (\<lambda>c. c = CHR ''*'')"

interpretation glob: wildcard "\<lambda>c d. c = CHR ''?'' \<or> c = d" "\<lambda>c. c = CHR ''*''" "\<lambda>d. d \<noteq> CHR ''*''"
  by unfold_locales auto

lemma glob_spec_star: "glob_spec (CHR ''*'' # p) n \<longleftrightarrow> (\<exists>k\<le>length n. glob_spec p (drop k n))"
  by (simp add: glob_spec_def glob.spec_star)

text \<open>C36. The wildcard matcher returns on every pattern and name, and on a name without a literal
  asterisk it decides exactly the meaning of \<open>*\<close> and \<open>?\<close>.\<close>

theorem glob_matches_exact:
  "(\<exists>b. glob_loop pattern name 0 0 None 0 = Some b)
   \<and> (CHR ''*'' \<notin> set name \<longrightarrow> glob_matches pattern name = glob_spec pattern name)"
proof
  show "\<exists>b. glob_loop pattern name 0 0 None 0 = Some b"
    unfolding glob_loop_def by (rule glob.loop_ends)
  show "CHR ''*'' \<notin> set name \<longrightarrow> glob_matches pattern name = glob_spec pattern name"
  proof
    assume "CHR ''*'' \<notin> set name"
    then have "\<forall>d\<in>set name. d \<noteq> CHR ''*''" by auto
    then show "glob_matches pattern name = glob_spec pattern name"
      unfolding glob_matches_def glob_loop_def glob_spec_def by (simp add: glob.loop_decides)
  qed
qed

theorem glob_matches_exact_witness:
  "glob_matches ''*.conf'' ''50-redhat.conf'' = True"
  using glob_matches_exact[of "''*.conf''" "''50-redhat.conf''"] by (simp add: glob_spec_def)

lemma glob_spec_suffix: "glob_spec s s"
proof (induction s)
  case (Cons c s)
  show ?case
  proof (cases "c = CHR ''*''")
    case True
    then show ?thesis unfolding True glob_spec_star using Cons by (intro exI[of _ 1]) simp
  qed (use Cons in \<open>simp add: glob_spec_def\<close>)
qed (simp add: glob_spec_def)

text \<open>On a file name that starts with an asterisk the matcher misses: it takes the asterisk of the
  pattern for the literal one, so for every suffix the pattern \<open>*suffix\<close> does not find the file
  \<open>*c suffix\<close>, which the pattern's meaning includes.\<close>

theorem glob_misses_literal_star:
  assumes "hd suffix \<noteq> CHR ''*''" "hd suffix \<noteq> CHR ''?''" "hd suffix \<noteq> c" "suffix \<noteq> []"
  shows "glob_spec (CHR ''*'' # suffix) (CHR ''*'' # c # suffix)
    \<and> \<not> glob_matches (CHR ''*'' # suffix) (CHR ''*'' # c # suffix)"
proof
  show "glob_spec (CHR ''*'' # suffix) (CHR ''*'' # c # suffix)"
    unfolding glob_spec_star by (rule exI[of _ 2]) (simp add: glob_spec_suffix eval_nat_numeral)
  obtain d r where "suffix = d # r" using assms(4) by (meson neq_Nil_conv)
  with assms show "\<not> glob_matches (CHR ''*'' # suffix) (CHR ''*'' # c # suffix)"
    by (simp add: glob_matches_def glob_loop_def wildcard_loop.simps)
qed

theorem glob_misses_literal_star_witness:
  "glob_spec ''*.conf'' ''*x.conf'' \<and> \<not> glob_matches ''*.conf'' ''*x.conf''"
  using glob_misses_literal_star[of "''.conf''" "CHR ''x''"] by simp

subsection \<open>The order of processing\<close>

abbreviation unlines :: "string list \<Rightarrow> string" where
  "unlines ls \<equiv> concat (map (\<lambda>l. l @ [nl]) ls)"

abbreviation include_free :: "string list \<Rightarrow> bool" where
  "include_free ls \<equiv> list_all (\<lambda>l. include_patterns l = None) ls"

lemma expand_lines_free:
  "include_free ls \<Longrightarrow> expand_lines inc path pending ls = Inr (flush path (pending @ unlines ls))"
  by (induction ls arbitrary: pending) auto

lemma expand_lines_include:
  "include_free pre \<Longrightarrow> include_patterns line = Some patterns \<Longrightarrow>
     expand_lines inc path pending (pre @ line # post) =
       and_then (collect inc patterns) (\<lambda>included.
         and_then (expand_lines inc path [] post) (\<lambda>rest.
           Inr (flush path (pending @ unlines pre) @ included @ rest)))"
  by (induction pre arbitrary: pending) auto

lemma collect_map: "(\<And>x. x \<in> set xs \<Longrightarrow> f x = Inr (g x)) \<Longrightarrow> collect f xs = Inr (concat (map g xs))"
  by (induction xs) auto

lemma collect_Inr_D: "collect f xs = Inr ys \<Longrightarrow> x \<in> set xs \<Longrightarrow> is_ok (f x)"
  by (induction xs arbitrary: ys) (auto simp: and_then_eq_Inr)

text \<open>A segment, rendered again line by line, reads like the text it came from.\<close>

lemma str_lines_no_nl: "l \<in> set (str_lines s) \<Longrightarrow> nl \<notin> set l"
proof -
  assume "l \<in> set (str_lines s)"
  then obtain m where m: "m \<in> set (split_inclusive s)" "l = strip_terminator m"
    by (auto simp: str_lines_def)
  then have "is_line m" using wf_split_inclusive[of s] by (auto simp: wf_lines_def)
  then have "m \<noteq> []" "nl \<notin> set (butlast m)" by (auto simp: is_line_def)
  then show ?thesis
    using m(2) by (cases m rule: rev_cases)
      (auto simp: strip_terminator_def Let_def butlast_append dest: in_set_butlastD split: if_splits)
qed

lemma split_inclusive_unlines:
  "\<forall>l\<in>set ls. nl \<notin> set l \<Longrightarrow> split_inclusive (unlines ls) = map (\<lambda>l. l @ [nl]) ls"
proof (rule split_inclusive_concat)
  assume "\<forall>l\<in>set ls. nl \<notin> set l"
  then show "wf_lines (map (\<lambda>l. l @ [nl]) ls)"
    by (simp add: wf_lines_def is_line_def terminated_def flip: map_butlast)
qed

lemma global_lines_trim:
  "map trim ls = map trim ms \<Longrightarrow> map trim (global_lines ls) = map trim (global_lines ms)"
proof (induction ls arbitrary: ms)
  case (Cons l ls)
  then obtain m ms' where "ms = m # ms'" "trim l = trim m" "map trim ls = map trim ms'"
    by (cases ms) auto
  then show ?case using Cons.IH[of ms'] opens_match_block_trim[of l m] by (simp add: global_lines_Cons)
qed simp

lemma read_same_trim:
  assumes "map trim (split_inclusive a) = map trim (split_inclusive b)"
  shows "parse_config_value (global_scope a) name SpaceSeparated cs
       = parse_config_value (global_scope b) name SpaceSeparated cs"
  using global_lines_trim[OF assms] unfolding read_global_simps ss.read_unwritten
  by (metis ss.find_map_trim)

lemma read_rendered:
  "parse_config_value (global_scope (unlines (str_lines c))) name SpaceSeparated cs
   = parse_config_value (global_scope c) name SpaceSeparated cs"
proof (rule read_same_trim)
  have "split_inclusive (unlines (str_lines c)) = map (\<lambda>l. l @ [nl]) (str_lines c)"
    by (rule split_inclusive_unlines) (simp add: str_lines_no_nl)
  then show "map trim (split_inclusive (unlines (str_lines c))) = map trim (split_inclusive c)"
    using map_trim_str_lines[of c] by (simp add: comp_def trim_append_ws)
qed

definition segment_value :: "string \<Rightarrow> string \<Rightarrow> string \<Rightarrow> effective_value option" where
  "segment_value directive_name path content =
     map_option (\<lambda>v. \<lparr>effective_text = v, effective_source = path\<rparr>)
       (parse_config_value (global_scope content) directive_name SpaceSeparated False)"

lemma effective_segments: "effective segs name = find_map (\<lambda>(path, content). segment_value name path content) segs"
  by (simp add: effective_def first_value_def segment_value_def)

lemma segment_value_Nil [simp]: "segment_value name path [] = None"
  by (simp add: segment_value_def global_scope_def str_lines_def)

lemma find_map_flush [simp]:
  "find_map (\<lambda>(path, content). segment_value name path content) (flush path pending)
     = segment_value name path pending"
  by (cases "segment_value name path pending") (auto simp: flush_def split: option.splits)

lemma effective_append:
  "effective (a @ b) name = or_else (effective a name) (effective b name)"
  by (simp add: effective_segments find_map_append or_else_def)

lemma effective_flush: "effective (flush path pending) name = segment_value name path pending"
  by (simp add: effective_segments)

lemma effective_files:
  "effective (concat (map (\<lambda>f. flush f (unlines (str_lines (content_of f)))) fs)) name
     = find_map (\<lambda>f. segment_value name f (content_of f)) fs"
proof (induction fs)
  case (Cons f fs)
  have "segment_value name f (unlines (str_lines (content_of f))) = segment_value name f (content_of f)"
    by (simp only: segment_value_def read_rendered)
  with Cons show ?case
    by (simp add: effective_append effective_flush or_else_def split: option.splits)
qed (simp add: effective_segments)

lemma expand_free:
  "include_free (str_lines c) \<Longrightarrow> expand_into (Suc d) ex h f c = Inr (flush f (unlines (str_lines c)))"
  by (simp add: expand_lines_free)

lemma resolve_one_include:
  assumes "str_lines content = pre @ line # post" "include_free pre" "include_free post"
    and "include_patterns line = Some [pattern]" "expand_pattern ex h pattern main = Inr fs"
    and files: "\<And>f. f \<in> set fs \<Longrightarrow> read_file ex h f = Inr (content_of f) \<and> include_free (str_lines (content_of f))"
  shows "resolve ex h main content = Inr (flush main (unlines pre)
     @ concat (map (\<lambda>f. flush f (unlines (str_lines (content_of f)))) fs) @ flush main (unlines post))"
proof -
  have "\<exists>m. MAX_INCLUDE_DEPTH = Suc (Suc m)"
    by (rule exI[of _ 14]) (simp add: MAX_INCLUDE_DEPTH_def)
  then obtain m where m: "MAX_INCLUDE_DEPTH = Suc (Suc m)" by blast
  have "collect (include_file ex h (expand_into (Suc m) ex h)) fs
      = Inr (concat (map (\<lambda>f. flush f (unlines (str_lines (content_of f)))) fs))"
    by (rule collect_map) (simp add: include_file_def files expand_free del: expand_into.simps)
  then have "resolve ex h main content = expand_lines (\<lambda>pattern. and_then (expand_pattern ex h pattern main)
      (collect (include_file ex h (expand_into (Suc m) ex h)))) main [] (pre @ line # post)"
    unfolding resolve_def m by (subst expand_into.simps(2)) (simp only: assms(1))
  also have "\<dots> = Inr (flush main (unlines pre)
     @ concat (map (\<lambda>f. flush f (unlines (str_lines (content_of f)))) fs) @ flush main (unlines post))"
    using assms(2-5) \<open>collect _ fs = _\<close>
    by (simp add: expand_lines_include expand_lines_free del: expand_into.simps)
  finally show ?thesis .
qed

text \<open>With an \<open>Include\<close> in the main file, a directive takes its value from the lines above the
  \<open>Include\<close> when they set it, else from the included files in lexical order, first one first, else
  from the lines below, and the file reported is the one that supplies it.\<close>

theorem include_order:
  assumes "str_lines content = pre @ line # post" "include_free pre" "include_free post"
    and "include_patterns line = Some [pattern]" "expand_pattern ex h pattern main = Inr fs"
    and "list_all (\<lambda>f. read_file ex h f = Inr (content_of f) \<and> include_free (str_lines (content_of f))) fs"
  shows "map_option (\<lambda>segs. effective segs name) (result_ok (resolve ex h main content)) =
    Some (or_else (segment_value name main (unlines pre))
           (or_else (find_map (\<lambda>f. segment_value name f (content_of f)) fs)
                    (segment_value name main (unlines post))))"
  using resolve_one_include[OF assms(1-5), of content_of] assms(6)
  by (simp add: list_all_iff effective_append effective_flush effective_files)

definition fragment_host :: mock_host where
  "fragment_host =
     with_file ''/etc/ssh/sshd_config.d/50-redhat.conf'' (''PermitRootLogin yes'' @ [nl]) new_mock"

definition shipped_main :: string where
  "shipped_main = ''Include /etc/ssh/sshd_config.d/*.conf'' @ [nl] @ ''PermitRootLogin no'' @ [nl]"

lemma fragment_facts:
  "str_lines shipped_main = [] @ ''Include /etc/ssh/sshd_config.d/*.conf'' # [''PermitRootLogin no'']"
  "include_free []" "include_free [''PermitRootLogin no'']"
  "include_patterns ''Include /etc/ssh/sshd_config.d/*.conf'' = Some [''/etc/ssh/sshd_config.d/*.conf'']"
  by code_simp+

lemma fragment_found:
  "expand_pattern (mock_executor False ''mock'') fragment_host ''/etc/ssh/sshd_config.d/*.conf'' ''/etc/ssh/sshd_config''
    = Inr [''/etc/ssh/sshd_config.d/50-redhat.conf'']"
  by code_simp

lemma fragment_read:
  "list_all (\<lambda>f. read_file (mock_executor False ''mock'') fragment_host f = Inr (''PermitRootLogin yes'' @ [nl])
     \<and> include_free (str_lines (''PermitRootLogin yes'' @ [nl]))) [''/etc/ssh/sshd_config.d/50-redhat.conf'']"
  by code_simp

theorem include_order_witness:
  "map_option (\<lambda>segs. effective segs ''PermitRootLogin'')
     (result_ok (resolve (mock_executor False ''mock'') fragment_host ''/etc/ssh/sshd_config'' shipped_main))
   = Some (Some \<lparr>effective_text = ''yes'', effective_source = ''/etc/ssh/sshd_config.d/50-redhat.conf''\<rparr>)"
proof -
  have v: "segment_value ''PermitRootLogin'' ''/etc/ssh/sshd_config.d/50-redhat.conf'' (''PermitRootLogin yes'' @ [nl])
      = Some \<lparr>effective_text = ''yes'', effective_source = ''/etc/ssh/sshd_config.d/50-redhat.conf''\<rparr>"
    by code_simp
  show ?thesis
    using include_order[OF fragment_facts fragment_found,
        of "\<lambda>_. ''PermitRootLogin yes'' @ [nl]" "''PermitRootLogin''", OF fragment_read]
    by (simp only: v find_map.simps list.map concat.simps segment_value_Nil or_else_simps option.case)
qed

text \<open>A file that includes itself is refused at the depth limit rather than followed forever or
  half read.\<close>

lemma self_include_refused:
  assumes "str_lines content = pre @ line # post" "include_free pre"
    and "include_patterns line = Some (pattern # patterns)" "expand_pattern ex h pattern path = Inr (path # fs)"
    and "read_file ex h path = Inr content"
  shows "\<not> is_ok (expand_into depth ex h path content)"
proof (induction depth)
  case (Suc depth)
  then obtain e where "expand_into depth ex h path content = Inl e"
    by (cases "expand_into depth ex h path content") auto
  then have "\<exists>e. collect (include_file ex h (expand_into depth ex h)) (path # fs) = Inl e"
    using assms(5) by (simp add: include_file_def)
  then have "\<exists>e. collect (\<lambda>pattern. and_then (expand_pattern ex h pattern path)
        (collect (include_file ex h (expand_into depth ex h)))) (pattern # patterns) = Inl e"
    using assms(4) by (auto simp del: collect.simps simp: collect.simps(2))
  then obtain e where e: "collect (\<lambda>pattern. and_then (expand_pattern ex h pattern path)
        (collect (include_file ex h (expand_into depth ex h)))) (pattern # patterns) = Inl e" by blast
  show ?case
    unfolding expand_into.simps assms(1)
    by (subst expand_lines_include[OF assms(2,3)]) (simp del: collect.simps add: e)
qed simp

end
