(* ===== verification/Hardener_Types.thy ===== *)
theory Hardener_Types
  imports Complex_Main Text_Lines Number_Text "HOL-Library.Word"
begin

text \<open>
  The data every component exchanges, from \<open>crates/hardener-types/src/lib.rs\<close>: severities,
  frameworks and controls, findings, unchecked checks, scan and apply results, rollback results
  and validation reports, with the counting and labelling operations defined on them.
\<close>

subsection \<open>Plugins, severities, categories\<close>

type_synonym plugin_id = string

definition plugin_id_named_by :: "plugin_id \<Rightarrow> string \<Rightarrow> bool" where
  "plugin_id_named_by plugin_id entry =
     (case strip_prefix entry plugin_id of
        None \<Rightarrow> False
      | Some rest \<Rightarrow> rest = [] \<or> starts_with ''-'' rest)"

datatype severity = Info | Low | Medium | High | Critical

fun severity_rank :: "severity \<Rightarrow> nat" where
  "severity_rank Info = 0" | "severity_rank Low = 1" | "severity_rank Medium = 2"
| "severity_rank High = 3" | "severity_rank Critical = 4"

lemma severity_rank_inj: "severity_rank a = severity_rank b \<Longrightarrow> a = b"
  by (cases a; cases b) auto

text \<open>The derived \<open>Ord\<close> of the enum follows the order of its variants.\<close>

instantiation severity :: linorder
begin

definition less_eq_severity :: "severity \<Rightarrow> severity \<Rightarrow> bool" where
  "less_eq_severity a b = (severity_rank a \<le> severity_rank b)"

definition less_severity :: "severity \<Rightarrow> severity \<Rightarrow> bool" where
  "less_severity a b = (severity_rank a < severity_rank b)"

instance
  by standard (auto simp: less_eq_severity_def less_severity_def intro: severity_rank_inj)

end

fun severity_text :: "severity \<Rightarrow> string" where
  "severity_text Info = ''INFO''"
| "severity_text Low = ''LOW''"
| "severity_text Medium = ''MEDIUM''"
| "severity_text High = ''HIGH''"
| "severity_text Critical = ''CRITICAL''"

datatype finding_category =
  Audit | Authentication | Cryptography | FileSystem | Kernel | MandatoryAccessControl
| Network | Services

fun category_text :: "finding_category \<Rightarrow> string" where
  "category_text Audit = ''Audit''"
| "category_text Authentication = ''Authentication''"
| "category_text Cryptography = ''Cryptography''"
| "category_text FileSystem = ''File System''"
| "category_text Kernel = ''Kernel''"
| "category_text MandatoryAccessControl = ''MAC''"
| "category_text Network = ''Network''"
| "category_text Services = ''Services''"

subsection \<open>Compliance frameworks and controls\<close>

datatype compliance_framework =
  CIS | HIPAA | ISO27001 | NIST | PCIDSS | STIG | GDPR | SOC2 | NIST800171 | FedRAMP

definition ALL_FRAMEWORKS :: "compliance_framework list" where
  "ALL_FRAMEWORKS = [CIS, STIG, NIST, PCIDSS, HIPAA, GDPR, ISO27001, SOC2, NIST800171, FedRAMP]"

fun framework_text :: "compliance_framework \<Rightarrow> string" where
  "framework_text CIS = ''CIS''"
| "framework_text HIPAA = ''HIPAA''"
| "framework_text ISO27001 = ''ISO27001''"
| "framework_text NIST = ''NIST''"
| "framework_text PCIDSS = ''PCIDSS''"
| "framework_text STIG = ''STIG''"
| "framework_text GDPR = ''GDPR''"
| "framework_text SOC2 = ''SOC 2''"
| "framework_text NIST800171 = ''NIST 800-171''"
| "framework_text FedRAMP = ''FedRAMP''"

fun framework_id :: "compliance_framework \<Rightarrow> string" where
  "framework_id CIS = ''cis''"
| "framework_id HIPAA = ''hipaa''"
| "framework_id ISO27001 = ''iso27001''"
| "framework_id NIST = ''nist''"
| "framework_id PCIDSS = ''pci-dss''"
| "framework_id STIG = ''stig''"
| "framework_id GDPR = ''gdpr''"
| "framework_id SOC2 = ''soc2''"
| "framework_id NIST800171 = ''800-171''"
| "framework_id FedRAMP = ''fedramp''"

text \<open>\<open>str::to_lowercase\<close> on U+0000 to U+00FF: the ASCII capitals, and U+00C0 to U+00DE without the
  multiplication sign U+00D7.\<close>

definition char_lowercase :: "char \<Rightarrow> char" where
  "char_lowercase c = (let n = (of_char c :: nat) in
     if (65 \<le> n \<and> n \<le> 90) \<or> (192 \<le> n \<and> n \<le> 222 \<and> n \<noteq> 215) then char_of (n + 32) else c)"

definition to_lowercase :: "string \<Rightarrow> string" where
  "to_lowercase s = map char_lowercase s"

definition framework_from_id :: "string \<Rightarrow> compliance_framework option" where
  "framework_from_id s =
     (let lower = to_lowercase s in
      case find (\<lambda>f. framework_id f = lower) ALL_FRAMEWORKS of
        Some f \<Rightarrow> Some f
      | None \<Rightarrow>
          (if lower = ''pcidss'' \<or> lower = ''pci'' then Some PCIDSS
           else if lower = ''iso'' \<or> lower = ''iso-27001'' then Some ISO27001
           else if lower = ''soc-2'' then Some SOC2
           else if lower = ''nist800171'' \<or> lower = ''nist-800-171'' then Some NIST800171
           else if lower = ''fed-ramp'' then Some FedRAMP
           else None))"

fun framework_full_name :: "compliance_framework \<Rightarrow> string" where
  "framework_full_name CIS = ''CIS Benchmark''"
| "framework_full_name HIPAA = ''HIPAA Security Rule''"
| "framework_full_name ISO27001 = ''ISO/IEC 27001''"
| "framework_full_name NIST = ''NIST 800-53''"
| "framework_full_name PCIDSS = ''PCI-DSS v4.0''"
| "framework_full_name STIG = ''DISA STIG''"
| "framework_full_name GDPR = ''GDPR Article 32''"
| "framework_full_name SOC2 = ''SOC 2 Trust Services Criteria''"
| "framework_full_name NIST800171 = ''NIST SP 800-171''"
| "framework_full_name FedRAMP = ''FedRAMP Moderate Baseline''"

datatype compliance_profile = Generic | Rhel10

fun profile_text :: "compliance_profile \<Rightarrow> string" where
  "profile_text Generic = ''generic''"
| "profile_text Rhel10 = ''rhel10''"

definition profile_from_str :: "string \<Rightarrow> (string, compliance_profile) result" where
  "profile_from_str s =
     (let lower = to_lowercase s in
      if lower = ''generic'' then Inr Generic
      else if lower = ''rhel10'' \<or> lower = ''rhel-10'' then Inr Rhel10
      else Inl (''Unknown profile '' @ [CHR 0x27] @ s @ [CHR 0x27]
                @ ''. Valid options: generic, rhel10''))"

fun profile_label :: "compliance_profile \<Rightarrow> compliance_framework \<Rightarrow> string option" where
  "profile_label Rhel10 STIG = Some ''DISA RHEL 10 STIG V1R1''"
| "profile_label Rhel10 CIS = Some ''CIS RHEL 10 Benchmark v1.0.1''"
| "profile_label Generic STIG = Some ''RHEL 8 baseline IDs''"
| "profile_label _ _ = None"

record compliance_mapping =
  compliance_framework :: compliance_framework
  compliance_control_id :: string
  compliance_control_title :: string
  compliance_section :: "string option"

datatype control_status = Pass | Fail | NotApplicable | ManualReview

fun control_status_text :: "control_status \<Rightarrow> string" where
  "control_status_text Pass = ''Pass''"
| "control_status_text Fail = ''Fail''"
| "control_status_text NotApplicable = ''N/A''"
| "control_status_text ManualReview = ''MANUAL''"

subsection \<open>Policy exceptions on findings\<close>

record finding_policy_exception =
  exception_allowed_value :: string
  exception_reason :: string
  exception_approved_by :: "string option"
  exception_approved_date :: "string option"
  exception_ticket :: "string option"
  exception_expires :: "string option"
  exception_is_expired :: bool

datatype decline_reason =
  ValueMismatch string string
| Expired string

record finding_exception_declined =
  exception_declined_reason :: decline_reason
  declined_exception_reason :: string

datatype exception_outcome =
  NotConfigured
| Applied finding_policy_exception
| Declined finding_exception_declined

definition POLICY_EXCEPTION_LABEL :: string where
  "POLICY_EXCEPTION_LABEL = ''POLICY EXCEPTION''"

definition quoted :: "string \<Rightarrow> string" where
  "quoted s = [CHR 0x27] @ s @ [CHR 0x27]"

definition exception_declined_line :: "finding_exception_declined \<Rightarrow> string" where
  "exception_declined_line d =
     ''exception not applied: ''
     @ (case exception_declined_reason d of
          ValueMismatch documented observed \<Rightarrow>
            ''documents '' @ quoted documented @ '', host has '' @ quoted observed
        | Expired expired_on \<Rightarrow> ''expired '' @ expired_on)
     @ '' ('' @ POLICY_EXCEPTION_LABEL @ '': '' @ declined_exception_reason d @ '')''"

definition exception_preview_line :: "string \<Rightarrow> string \<Rightarrow> string \<Rightarrow> string" where
  "exception_preview_line setting observed reason =
     setting @ '': left at '' @ quoted observed @ '' ('' @ POLICY_EXCEPTION_LABEL @ '': '' @ reason @ '')''"

record finding =
  finding_category :: finding_category
  finding_current_value :: string
  finding_description :: string
  finding_explanation :: string
  finding_id :: string
  finding_impact :: string
  finding_recommended_value :: string
  finding_remediation_steps :: "string list"
  finding_severity :: severity
  finding_title :: string
  finding_compliance :: "compliance_mapping list"
  finding_exception :: exception_outcome
  finding_exception_key :: "string option"

definition is_policy_excepted :: "finding \<Rightarrow> bool" where
  "is_policy_excepted f = (case finding_exception f of Applied _ \<Rightarrow> True | _ \<Rightarrow> False)"

definition evidence_label :: "finding \<Rightarrow> string" where
  "evidence_label f =
     (if is_policy_excepted f then POLICY_EXCEPTION_LABEL else severity_text (finding_severity f))"

subsection \<open>Inventory and unchecked checks\<close>

record plugin_metadata =
  plugin_category :: finding_category
  plugin_description :: string
  metadata_plugin_id :: plugin_id
  plugin_name :: string
  plugin_version :: string

record plugin_coverage =
  coverage_metadata :: plugin_metadata
  coverage :: "compliance_mapping list"

datatype plugin_inventory = Known "plugin_coverage list" | Unavailable string

text \<open>The hash set of the source lives across the whole filter: a mapping is kept when its framework
  and control were not seen before it.\<close>

fun first_seen :: "(compliance_framework \<times> string) set \<Rightarrow> compliance_mapping list \<Rightarrow> compliance_mapping list" where
  "first_seen seen [] = []"
| "first_seen seen (m # ms) =
     (let key = (compliance_framework m, compliance_control_id m) in
      if key \<in> seen then first_seen seen ms else m # first_seen (insert key seen) ms)"

fun assessed_controls :: "plugin_inventory \<Rightarrow> compliance_mapping list" where
  "assessed_controls (Known plugins) = first_seen {} (concat (map coverage plugins))"
| "assessed_controls (Unavailable _) = []"

fun inventory_plugins :: "plugin_inventory \<Rightarrow> plugin_coverage list" where
  "inventory_plugins (Known plugins) = plugins"
| "inventory_plugins (Unavailable _) = []"

datatype unchecked_blocker = Privilege | Environment | Unknown

record unchecked_check =
  unchecked_check_id :: string
  unchecked_title :: string
  unchecked_category :: finding_category
  unchecked_reason :: string
  unchecked_blocker :: unchecked_blocker
  unchecked_compliance :: "compliance_mapping list"

record unchecked_tally =
  tally_total :: nat
  needing_privilege :: nat

definition tally_from_checks :: "unchecked_check list \<Rightarrow> unchecked_tally" where
  "tally_from_checks unchecked =
     foldl (\<lambda>tally check. \<lparr>tally_total = tally_total tally + 1,
              needing_privilege = needing_privilege tally
                + (if unchecked_blocker check = Privilege then 1 else 0)\<rparr>)
       \<lparr>tally_total = 0, needing_privilege = 0\<rparr> unchecked"

definition privilege_would_help :: "unchecked_tally \<Rightarrow> bool" where
  "privilege_would_help t = (needing_privilege t > 0)"

definition unchecked_summary :: "unchecked_check list \<Rightarrow> string option" where
  "unchecked_summary unchecked =
     (let t = tally_from_checks unchecked; total = tally_total t; privileged = needing_privilege t in
      if total = 0 then None
      else if privileged = 0 then Some (show_radix 10 total @ '' check(s) could not be verified'')
      else if privileged = total then
        Some (show_radix 10 total @ '' check(s) require root; run with sudo for a full scan'')
      else Some (show_radix 10 total @ '' check(s) could not be verified, '' @ show_radix 10 privileged
             @ '' of them for want of root; run with sudo for a fuller scan''))"

subsection \<open>Scan and apply results\<close>

datatype skip_reason = DisabledByConfig

record scan_result =
  scan_plugin_id :: plugin_id
  scan_success :: bool
  scan_findings :: "finding list"
  scan_unchecked :: "unchecked_check list"
  scan_duration_us :: nat
  scan_error :: "string option"
  scan_skipped :: "skip_reason option"

datatype change_type =
  ConfigFile | FirewallRule | KernelParameter | Package | Permissions | Service | Skipped | Checkpoint

fun change_type_text :: "change_type \<Rightarrow> string" where
  "change_type_text ConfigFile = ''Config File''"
| "change_type_text FirewallRule = ''Firewall Rule''"
| "change_type_text KernelParameter = ''Kernel Parameter''"
| "change_type_text Package = ''Package''"
| "change_type_text Permissions = ''Permissions''"
| "change_type_text Service = ''Service''"
| "change_type_text Skipped = ''Skipped''"
| "change_type_text Checkpoint = ''Checkpoint''"

record change =
  change_description :: string
  change_type :: change_type
  change_success :: bool
  change_error :: "string option"

definition is_skipped :: "change \<Rightarrow> bool" where
  "is_skipped c = (change_type c = Skipped)"

definition is_checkpoint :: "change \<Rightarrow> bool" where
  "is_checkpoint c = (change_type c = Checkpoint)"

definition join_failure_reasons :: "change list \<Rightarrow> string option" where
  "join_failure_reasons changes =
     (let reasons = filter_map change_error
            (filter (\<lambda>c. \<not> is_skipped c \<and> \<not> is_checkpoint c \<and> \<not> change_success c) changes)
      in if reasons = [] then None else Some (join ''; '' reasons))"

record apply_result =
  apply_plugin_id :: plugin_id
  apply_success :: bool
  apply_changes :: "change list"
  apply_checkpoint_id :: "string option"
  apply_error :: "string option"

definition applied_change_count :: "apply_result \<Rightarrow> nat" where
  "applied_change_count r =
     length (filter (\<lambda>c. \<not> is_skipped c \<and> \<not> is_checkpoint c \<and> change_success c) (apply_changes r))"

definition failed_change_count :: "apply_result \<Rightarrow> nat" where
  "failed_change_count r =
     length (filter (\<lambda>c. \<not> is_skipped c \<and> \<not> is_checkpoint c \<and> \<not> change_success c) (apply_changes r))"

definition skipped_change_count :: "apply_result \<Rightarrow> nat" where
  "skipped_change_count r = length (filter is_skipped (apply_changes r))"

definition failure_reason :: "apply_result \<Rightarrow> string option" where
  "failure_reason r =
     (case apply_error r of
        Some error \<Rightarrow> Some error
      | None \<Rightarrow> if apply_success r then None else join_failure_reasons (apply_changes r))"

record plugin_outcome =
  outcome_plugin :: plugin_id
  outcome_success :: bool
  outcome_applied :: nat
  outcome_failed :: nat
  outcome_error :: "string option"

definition outcome_of :: "apply_result \<Rightarrow> plugin_outcome" where
  "outcome_of r = \<lparr>outcome_plugin = apply_plugin_id r, outcome_success = apply_success r,
     outcome_applied = applied_change_count r, outcome_failed = failed_change_count r,
     outcome_error = failure_reason r\<rparr>"

subsection \<open>Rollback results\<close>

datatype file_restore_action = Restored | Removed | PermissionsRestored | RestoreSkipped

definition UNDELETABLE_ROLLBACK_PATHS :: "string list" where
  "UNDELETABLE_ROLLBACK_PATHS =
     [''/root'', ''/boot'', ''/etc/ssh'', ''/etc/sudoers'', ''/etc/sudoers.d'', ''/etc/passwd'',
      ''/etc/group'', ''/etc/shadow'', ''/etc/gshadow'', ''/etc/ssh/sshd_config'',
      ''/etc/sysctl.conf'', ''/etc/audit/auditd.conf'', ''/etc/selinux/config'', ''/etc/sysctl.d'',
      ''/etc/pam.d'', ''/etc/security'', ''/etc/audit/rules.d'', ''/etc/apparmor'', ''/etc/apparmor.d'']"

record file_restore_result =
  restore_path :: string
  restore_action :: file_restore_action
  restore_success :: bool
  restore_error :: "string option"

record reload_result =
  reload_plugin_id :: string
  reload_action :: string
  reload_success :: bool
  reload_error :: "string option"

datatype divergence_state = Diverged | Unverifiable

record rollback_divergence =
  divergence_plugin_id :: string
  divergence_subject :: string
  divergence_state :: divergence_state
  divergence_detail :: string
  divergence_expected :: "string option"

record rollback_result =
  rollback_checkpoint_id :: string
  rollback_checkpoint_name :: string
  rollback_success :: bool
  rollback_files :: "file_restore_result list"
  rollback_reloads :: "reload_result list"
  rollback_divergences :: "rollback_divergence list"

definition reloads_ok :: "rollback_result \<Rightarrow> bool" where
  "reloads_ok r = list_all reload_success (rollback_reloads r)"

definition divergence_counts :: "rollback_result \<Rightarrow> nat \<times> nat" where
  "divergence_counts r =
     foldl (\<lambda>(diverged, unverifiable) row.
              case divergence_state row of
                Diverged \<Rightarrow> (diverged + 1, unverifiable)
              | Unverifiable \<Rightarrow> (diverged, unverifiable + 1))
       (0, 0) (rollback_divergences r)"

definition rollback_failed_label :: "nat \<Rightarrow> nat \<Rightarrow> string" where
  "rollback_failed_label failed reload_failed =
     (if reload_failed = 0 then show_radix 10 failed @ '' failed''
      else show_radix 10 failed @ '' failed ('' @ show_radix 10 reload_failed @ '' due to reload)'')"

definition rollback_divergence_note :: "nat \<Rightarrow> nat \<Rightarrow> string" where
  "rollback_divergence_note diverged unverifiable =
     join '', ''
       ((if diverged = 0 then [] else if diverged = 1 then [''1 divergence'']
         else [show_radix 10 diverged @ '' divergences''])
        @ (if unverifiable = 0 then [] else if unverifiable = 1 then [''1 unchecked'']
           else [show_radix 10 unverifiable @ '' unchecked'']))"

subsection \<open>Validation, compliance summaries, severity tallies\<close>

record validation_issue =
  validation_issue_severity :: severity
  validation_issue_message :: string
  validation_issue_config_key :: "string option"

record validation_report =
  validation_report_plugin_id :: plugin_id
  validation_report_is_valid :: bool
  validation_report_issues :: "validation_issue list"
  validation_report_estimated_changes :: "string list"
  validation_report_compliant_count :: nat
  validation_report_exceptions :: "string list"

definition has_blocking_issue :: "validation_report \<Rightarrow> bool" where
  "has_blocking_issue r =
     list_ex (\<lambda>i. validation_issue_severity i = Critical \<or> validation_issue_severity i = High)
       (validation_report_issues r)"

record control_result =
  control_id :: string
  control_title :: string
  control_section :: string
  control_status :: control_status
  control_findings :: "finding list"

record control_outcome =
  outcome_control_id :: string
  outcome_control_title :: string
  outcome_control_section :: string
  outcome_control_status :: control_status

definition control_outcome_of :: "control_result \<Rightarrow> control_outcome" where
  "control_outcome_of r = \<lparr>outcome_control_id = control_id r, outcome_control_title = control_title r,
     outcome_control_section = control_section r, outcome_control_status = control_status r\<rparr>"

text \<open>The score is a rational here; the code computes it in \<open>f64\<close>.\<close>

record compliance_summary =
  summary_total_controls :: nat
  summary_passing :: nat
  summary_failing :: nat
  summary_manual_review :: nat
  summary_not_applicable :: nat
  summary_score_percentage :: rat

definition count_status :: "control_status \<Rightarrow> control_result list \<Rightarrow> nat" where
  "count_status s controls = length (filter (\<lambda>c. control_status c = s) controls)"

definition summary_from_controls :: "control_result list \<Rightarrow> compliance_summary" where
  "summary_from_controls controls =
     (let total = length controls; passing = count_status Pass controls;
          not_applicable = count_status NotApplicable controls;
          applicable = total - not_applicable;
          score = (if applicable > 0 then of_nat passing / of_nat applicable * 100
                   else if total > 0 then 0 else 100)
      in \<lparr>summary_total_controls = total, summary_passing = passing,
          summary_failing = count_status Fail controls,
          summary_manual_review = count_status ManualReview controls,
          summary_not_applicable = not_applicable, summary_score_percentage = score\<rparr>)"

record severity_tallies =
  critical :: "32 word"
  high :: "32 word"
  medium :: "32 word"
  low :: "32 word"
  info :: "32 word"

definition tally_finding :: "severity_tallies \<Rightarrow> finding \<Rightarrow> severity_tallies" where
  "tally_finding t f =
     (case finding_severity f of
        Critical \<Rightarrow> t\<lparr>critical := critical t + 1\<rparr>
      | High \<Rightarrow> t\<lparr>high := high t + 1\<rparr>
      | Medium \<Rightarrow> t\<lparr>medium := medium t + 1\<rparr>
      | Low \<Rightarrow> t\<lparr>low := low t + 1\<rparr>
      | Info \<Rightarrow> t\<lparr>info := info t + 1\<rparr>)"

definition tallies_from_results :: "scan_result list \<Rightarrow> severity_tallies" where
  "tallies_from_results results =
     foldl tally_finding \<lparr>critical = 0, high = 0, medium = 0, low = 0, info = 0\<rparr>
       (concat (map scan_findings results))"

subsection \<open>Facts about names\<close>

lemma plugin_id_named_by_iff:
  "plugin_id_named_by p entry \<longleftrightarrow> p = entry \<or> (\<exists>rest. p = entry @ CHR ''-'' # rest)"
  by (auto simp: plugin_id_named_by_def strip_prefix_def starts_with_iff split: option.splits if_splits)

lemma framework_id_lower: "to_lowercase (framework_id f) = framework_id f"
  by (cases f) (simp_all add: to_lowercase_def char_lowercase_def)

lemma framework_from_lower:
  "to_lowercase s = framework_id f \<Longrightarrow> framework_from_id s = Some f"
  by (cases f) (simp_all add: framework_from_id_def ALL_FRAMEWORKS_def)

lemma framework_from_id_id [simp]: "framework_from_id (framework_id f) = Some f"
  by (rule framework_from_lower[OF framework_id_lower])

subsection \<open>Counting lemmas\<close>

lemma length_filter_split:
  "length xs = length (filter P xs) + length (filter (\<lambda>x. \<not> P x) xs)"
  by (induction xs) auto

lemma tally_from_checks_eq:
  "tally_from_checks cs = \<lparr>tally_total = length cs,
     needing_privilege = length (filter (\<lambda>c. unchecked_blocker c = Privilege) cs)\<rparr>"
proof -
  have "foldl (\<lambda>tally check. \<lparr>tally_total = tally_total tally + 1,
              needing_privilege = needing_privilege tally
                + (if unchecked_blocker check = Privilege then 1 else 0)\<rparr>)
       \<lparr>tally_total = a, needing_privilege = b\<rparr> cs
     = \<lparr>tally_total = a + length cs,
        needing_privilege = b + length (filter (\<lambda>c. unchecked_blocker c = Privilege) cs)\<rparr>" for a b
    by (induction cs arbitrary: a b) auto
  then show ?thesis by (simp add: tally_from_checks_def)
qed

lemma divergence_counts_eq:
  "divergence_counts r =
     (length (filter (\<lambda>d. divergence_state d = Diverged) (rollback_divergences r)),
      length (filter (\<lambda>d. divergence_state d = Unverifiable) (rollback_divergences r)))"
proof -
  have "foldl (\<lambda>(d, u) row. case divergence_state row of Diverged \<Rightarrow> (d + 1, u) | Unverifiable \<Rightarrow> (d, u + 1))
      (a, b) rows = (a + length (filter (\<lambda>x. divergence_state x = Diverged) rows),
        b + length (filter (\<lambda>x. divergence_state x = Unverifiable) rows))" for a b :: nat and rows
    by (induction rows arbitrary: a b) (auto split: divergence_state.splits)
  from this[of 0 0 "rollback_divergences r"] show ?thesis unfolding divergence_counts_def by simp
qed

lemma count_status_sum:
  "count_status Pass cs + count_status Fail cs + count_status ManualReview cs
     + count_status NotApplicable cs = length cs"
proof (induction cs)
  case (Cons c cs)
  then show ?case by (cases "control_status c") (auto simp: count_status_def)
qed (simp add: count_status_def)

text \<open>A compliance summary accounts for every control exactly once, its score lies between 0 and
  100, and the score is 100 only when the report is empty, or something applies and every
  applicable control passes: excluding every control never reads as compliance.\<close>

theorem summary_accounts:
  "let s = summary_from_controls controls in
     summary_passing s + summary_failing s + summary_manual_review s + summary_not_applicable s
       = summary_total_controls s
   \<and> 0 \<le> summary_score_percentage s \<and> summary_score_percentage s \<le> 100
   \<and> (summary_score_percentage s = 100 \<longleftrightarrow>
        controls = [] \<or>
        (summary_passing s > 0 \<and> summary_failing s = 0 \<and> summary_manual_review s = 0))"
proof -
  let ?p = "count_status Pass controls" and ?f = "count_status Fail controls"
  let ?m = "count_status ManualReview controls" and ?n = "count_status NotApplicable controls"
  have t: "?p + ?f + ?m + ?n = length controls" by (rule count_status_sum)
  then have a: "length controls - ?n = ?p + ?f + ?m" by simp
  show ?thesis
  proof (cases "?p + ?f + ?m = 0")
    case True
    with t have "length controls = ?n" by simp
    with True a show ?thesis
      by (auto simp: summary_from_controls_def Let_def count_status_def)
  next
    case False
    define d :: rat where "d = of_nat (?p + ?f + ?m)"
    have d: "d > 0" "of_nat ?p \<le> d" using False by (simp_all add: d_def del: of_nat_add)
    have "(of_nat ?p / d * 100 = 100) = (of_nat ?p = d)"
      using d by (simp add: field_simps)
    also have "\<dots> = (?f = 0 \<and> ?m = 0)"
      by (simp only: d_def of_nat_eq_iff) auto
    finally have e: "(of_nat ?p / d * 100 = 100) = (?f = 0 \<and> ?m = 0)" .
    have b: "0 \<le> of_nat ?p / d * 100" "of_nat ?p / d * 100 \<le> 100"
      using d by (simp_all add: field_simps)
    have ne: "controls \<noteq> []" using False by (auto simp: count_status_def)
    have "length controls - ?n > 0" using False a by simp
    then have s: "summary_score_percentage (summary_from_controls controls) = of_nat ?p / d * 100"
      unfolding d_def a[symmetric] by (simp add: summary_from_controls_def Let_def)
    have fields: "summary_passing (summary_from_controls controls) = ?p"
      "summary_failing (summary_from_controls controls) = ?f"
      "summary_manual_review (summary_from_controls controls) = ?m"
      "summary_not_applicable (summary_from_controls controls) = ?n"
      "summary_total_controls (summary_from_controls controls) = length controls"
      by (simp_all add: summary_from_controls_def Let_def)
    show ?thesis unfolding Let_def fields s using b e t ne False by auto
  qed
qed

text \<open>Every change of an apply is counted once, as applied, failed, skipped or a checkpoint, and a
  failure reason is reported exactly when the plugin reported an error, or failed with a counted
  failed change that says why.\<close>

theorem apply_counts:
  "applied_change_count r + failed_change_count r + skipped_change_count r
     + length (filter is_checkpoint (apply_changes r)) = length (apply_changes r)
   \<and> (failure_reason r = None \<longleftrightarrow> apply_error r = None \<and>
        (apply_success r \<or> list_all (\<lambda>c. is_skipped c \<or> is_checkpoint c \<or> change_success c
            \<or> change_error c = None) (apply_changes r)))"
proof
  have *: "\<not> (is_skipped c \<and> is_checkpoint c)" for c
    by (simp add: is_skipped_def is_checkpoint_def)
  have "length (filter (\<lambda>c. \<not> is_skipped c \<and> \<not> is_checkpoint c \<and> change_success c) cs)
      + length (filter (\<lambda>c. \<not> is_skipped c \<and> \<not> is_checkpoint c \<and> \<not> change_success c) cs)
      + length (filter is_skipped cs) + length (filter is_checkpoint cs) = length cs" for cs
    using * by (induction cs) auto
  then show "applied_change_count r + failed_change_count r + skipped_change_count r
     + length (filter is_checkpoint (apply_changes r)) = length (apply_changes r)"
    by (simp add: applied_change_count_def failed_change_count_def skipped_change_count_def)
  have fm: "filter_map change_error cs = [] \<longleftrightarrow> (\<forall>c\<in>set cs. change_error c = None)" for cs
    by (induction cs) (auto split: option.splits)
  show "failure_reason r = None \<longleftrightarrow> apply_error r = None \<and>
        (apply_success r \<or> list_all (\<lambda>c. is_skipped c \<or> is_checkpoint c \<or> change_success c
            \<or> change_error c = None) (apply_changes r))"
    by (auto simp: failure_reason_def join_failure_reasons_def Let_def fm list_all_iff split: option.splits if_splits)
qed

subsection \<open>The control set of an inventory\<close>

abbreviation control_key :: "compliance_mapping \<Rightarrow> compliance_framework \<times> string" where
  "control_key m \<equiv> (compliance_framework m, compliance_control_id m)"

lemma first_seen_keys:
  "control_key ` set (first_seen seen ms) = control_key ` set ms - seen"
  by (induction ms arbitrary: seen) (auto simp: Let_def)

lemma first_seen_distinct:
  "distinct (map control_key (first_seen seen ms))"
proof (induction ms arbitrary: seen)
  case (Cons m ms)
  have "control_key m \<notin> control_key ` set (first_seen (insert (control_key m) seen) ms)"
    unfolding first_seen_keys by simp
  with Cons show ?case by (simp add: Let_def)
qed simp

lemma first_seen_subset: "set (first_seen seen ms) \<subseteq> set ms"
  by (induction ms arbitrary: seen) (auto simp: Let_def)

text \<open>The assessed controls of a known inventory are the controls its plugins cover, each framework
  and control once; an unavailable inventory assesses nothing.\<close>

theorem assessed_controls_exact:
  "(case inventory of
      Known plugins \<Rightarrow>
        control_key ` set (assessed_controls inventory)
          = (\<Union>p\<in>set plugins. control_key ` set (coverage p))
      \<and> set (assessed_controls inventory) \<subseteq> (\<Union>p\<in>set plugins. set (coverage p))
      \<and> distinct (map control_key (assessed_controls inventory))
    | Unavailable why \<Rightarrow> assessed_controls inventory = [])"
proof (cases inventory)
  case (Known plugins)
  have "set (concat (map coverage plugins)) = (\<Union>p\<in>set plugins. set (coverage p))" by simp
  then show ?thesis
    using Known first_seen_subset[of "{}" "concat (map coverage plugins)"]
    by (simp add: first_seen_keys first_seen_distinct image_UN)
qed simp

definition findings_at :: "severity \<Rightarrow> scan_result list \<Rightarrow> nat" where
  "findings_at s results =
     length (filter (\<lambda>f. finding_severity f = s) (concat (map scan_findings results)))"

lemma unat_of_nat_small: "n < 2 ^ 32 \<Longrightarrow> unat (of_nat n :: 32 word) = n"
  by (simp add: unat_of_nat take_bit_nat_eq_self)

lemma fold_tally:
  "foldl tally_finding \<lparr>critical = a, high = b, medium = c, low = d, info = e\<rparr> fs =
     \<lparr>critical = a + of_nat (length (filter (\<lambda>f. finding_severity f = Critical) fs)),
      high = b + of_nat (length (filter (\<lambda>f. finding_severity f = High) fs)),
      medium = c + of_nat (length (filter (\<lambda>f. finding_severity f = Medium) fs)),
      low = d + of_nat (length (filter (\<lambda>f. finding_severity f = Low) fs)),
      info = e + of_nat (length (filter (\<lambda>f. finding_severity f = Info) fs))\<rparr>"
  by (induction fs arbitrary: a b c d e) (auto simp: tally_finding_def split: severity.splits)

lemma tallies_eq:
  "tallies_from_results rs =
     \<lparr>critical = of_nat (findings_at Critical rs), high = of_nat (findings_at High rs),
      medium = of_nat (findings_at Medium rs), low = of_nat (findings_at Low rs),
      info = of_nat (findings_at Info rs)\<rparr>"
  by (simp add: tallies_from_results_def fold_tally findings_at_def)

end
