(* ===== verification/Policy_Config.thy ===== *)
theory Policy_Config
  imports Hardener_Types
begin

text \<open>
  The configuration the scan and the apply consult: \<open>crates/hardener-core/src/config.rs\<close> (plugin
  sections, directive overrides, policy exceptions, which plugins run) and
  \<open>config/scope.rs\<close> (controls declared not applicable, their review deadline and their hosts).

  Dates belong to the \<open>chrono\<close> library: a \<open>calendar\<close> carries its date parser and its month
  addition as parameters, on any linearly ordered type of dates, and today's date is an argument.
  Hash maps keyed by strings are maps.
\<close>

subsection \<open>Definitions\<close>

record 'd calendar =
  parse_iso_date :: "string \<Rightarrow> 'd option"
  checked_add_months :: "'d \<Rightarrow> nat \<Rightarrow> 'd option"

record policy_exception =
  documented_value :: string
  allowed :: bool
  reason :: string
  approved_by :: "string option"
  approved_date :: "string option"
  ticket :: "string option"
  expires :: "string option"

record plugin_config =
  enabled :: "bool option"
  directives :: "string \<rightharpoonup> string"
  exceptions :: "string \<rightharpoonup> policy_exception"

definition default_plugin_config :: plugin_config where
  "default_plugin_config = \<lparr>enabled = None, directives = Map.empty, exceptions = Map.empty\<rparr>"

definition plugin_is_enabled :: "plugin_config \<Rightarrow> bool" where
  "plugin_is_enabled c = (case enabled c of None \<Rightarrow> True | Some b \<Rightarrow> b)"

definition resolve_str :: "plugin_config \<Rightarrow> string \<Rightarrow> string \<Rightarrow> string" where
  "resolve_str c key baseline = (case directives c key of Some v \<Rightarrow> v | None \<Rightarrow> baseline)"

definition is_expired :: "'d::linorder calendar \<Rightarrow> 'd \<Rightarrow> policy_exception \<Rightarrow> bool" where
  "is_expired cal today e =
     (case expires e of
        None \<Rightarrow> False
      | Some s \<Rightarrow> (case parse_iso_date cal s of None \<Rightarrow> False | Some expiry_date \<Rightarrow> today > expiry_date))"

definition exception_is_valid :: "'d::linorder calendar \<Rightarrow> 'd \<Rightarrow> policy_exception \<Rightarrow> bool" where
  "exception_is_valid cal today e = (allowed e \<and> \<not> is_expired cal today e)"

definition to_finding_exception ::
  "'d::linorder calendar \<Rightarrow> 'd \<Rightarrow> policy_exception \<Rightarrow> finding_policy_exception" where
  "to_finding_exception cal today e =
     \<lparr>exception_allowed_value = documented_value e, exception_reason = reason e,
      exception_approved_by = approved_by e, exception_approved_date = approved_date e,
      exception_ticket = ticket e, exception_expires = expires e,
      exception_is_expired = is_expired cal today e\<rparr>"

definition exception_outcome_with ::
  "'d::linorder calendar \<Rightarrow> 'd \<Rightarrow> plugin_config \<Rightarrow> string \<Rightarrow> string option \<Rightarrow>
   (string \<Rightarrow> string \<Rightarrow> bool) \<Rightarrow> exception_outcome" where
  "exception_outcome_with cal today c key observed matches =
     (case exceptions c key of
        None \<Rightarrow> NotConfigured
      | Some e \<Rightarrow>
          if \<not> allowed e then NotConfigured
          else let declined = (\<lambda>r. Declined \<lparr>exception_declined_reason = r,
                                            declined_exception_reason = reason e\<rparr>) in
            if is_expired cal today e then
              declined (Expired (case expires e of None \<Rightarrow> [] | Some s \<Rightarrow> s))
            else case observed of
              Some v \<Rightarrow> if \<not> matches (documented_value e) v then declined (ValueMismatch (documented_value e) v)
                        else Applied (to_finding_exception cal today e)
            | None \<Rightarrow> Applied (to_finding_exception cal today e))"

definition mode_is_documented_by :: "string \<Rightarrow> nat \<Rightarrow> bool" where
  "mode_is_documented_by documented observed_mode =
     (parse_unsigned 8 (2 ^ 32) documented = Some observed_mode)"

definition exception_outcome_for_value ::
  "'d::linorder calendar \<Rightarrow> 'd \<Rightarrow> plugin_config \<Rightarrow> string \<Rightarrow> string \<Rightarrow> exception_outcome" where
  "exception_outcome_for_value cal today c key observed =
     exception_outcome_with cal today c key (Some observed) (\<lambda>v observed. v = observed)"

definition exception_outcome_for_presence ::
  "'d::linorder calendar \<Rightarrow> 'd \<Rightarrow> plugin_config \<Rightarrow> string \<Rightarrow> exception_outcome" where
  "exception_outcome_for_presence cal today c key =
     exception_outcome_with cal today c key None (\<lambda>_ _. True)"

definition exception_outcome_for_mode ::
  "'d::linorder calendar \<Rightarrow> 'd \<Rightarrow> plugin_config \<Rightarrow> string \<Rightarrow> nat \<Rightarrow> exception_outcome" where
  "exception_outcome_for_mode cal today c key observed_mode =
     exception_outcome_with cal today c key (Some (pad_left 4 (show_radix 8 observed_mode)))
       (\<lambda>v _. mode_is_documented_by v observed_mode)"

definition has_valid_exception ::
  "'d::linorder calendar \<Rightarrow> 'd \<Rightarrow> plugin_config \<Rightarrow> string \<Rightarrow> policy_exception option" where
  "has_valid_exception cal today c key =
     (case exceptions c key of
        Some e \<Rightarrow> if exception_is_valid cal today e then Some e else None
      | None \<Rightarrow> None)"

definition matching_exception ::
  "'d::linorder calendar \<Rightarrow> 'd \<Rightarrow> plugin_config \<Rightarrow> string \<Rightarrow> string \<Rightarrow> policy_exception option" where
  "matching_exception cal today c key actual_value =
     (case has_valid_exception cal today c key of
        Some e \<Rightarrow> if documented_value e = actual_value then Some e else None
      | None \<Rightarrow> None)"

definition matching_mode_exception ::
  "'d::linorder calendar \<Rightarrow> 'd \<Rightarrow> plugin_config \<Rightarrow> string \<Rightarrow> nat \<Rightarrow> policy_exception option" where
  "matching_mode_exception cal today c key actual_mode =
     (case has_valid_exception cal today c key of
        Some e \<Rightarrow> if mode_is_documented_by (documented_value e) actual_mode then Some e else None
      | None \<Rightarrow> None)"

record scope_exclusion =
  scope_reason :: string
  scope_approved_by :: "string option"
  scope_approved_date :: "string option"
  scope_ticket :: "string option"
  review_by :: "string option"
  hosts :: "string list"

type_synonym compliance_config = "string \<rightharpoonup> (string \<rightharpoonup> scope_exclusion)"

record global_config =
  enabled_plugins :: "string list"
  disabled_plugins :: "string list"

record hardener_config =
  global :: global_config
  ssh :: plugin_config
  kernel :: plugin_config
  firewall :: plugin_config
  pam :: plugin_config
  audit :: plugin_config
  mac :: plugin_config
  permissions :: plugin_config
  services :: plugin_config
  compliance :: compliance_config

definition get_plugin_config :: "hardener_config \<Rightarrow> plugin_id \<Rightarrow> plugin_config" where
  "get_plugin_config c plugin_id =
     (if plugin_id = ''ssh-hardening'' then ssh c
      else if plugin_id = ''kernel-hardening'' then kernel c
      else if plugin_id = ''firewall-hardening'' then firewall c
      else if plugin_id = ''pam-hardening'' then pam c
      else if plugin_id = ''audit-hardening'' then audit c
      else if plugin_id = ''mac-hardening'' then mac c
      else if plugin_id = ''permissions-hardening'' then permissions c
      else if plugin_id = ''service-minimisation'' then services c
      else default_plugin_config)"

definition config_section :: "plugin_id \<Rightarrow> string option" where
  "config_section plugin_id =
     (if plugin_id = ''ssh-hardening'' then Some ''ssh''
      else if plugin_id = ''kernel-hardening'' then Some ''kernel''
      else if plugin_id = ''firewall-hardening'' then Some ''firewall''
      else if plugin_id = ''pam-hardening'' then Some ''pam''
      else if plugin_id = ''audit-hardening'' then Some ''audit''
      else if plugin_id = ''mac-hardening'' then Some ''mac''
      else if plugin_id = ''permissions-hardening'' then Some ''permissions''
      else if plugin_id = ''service-minimisation'' then Some ''services''
      else None)"

definition is_plugin_enabled :: "hardener_config \<Rightarrow> plugin_id \<Rightarrow> bool" where
  "is_plugin_enabled c plugin_id =
     (if \<not> plugin_is_enabled (get_plugin_config c plugin_id) then False
      else if list_ex (\<lambda>p. p = plugin_id) (disabled_plugins (global c)) then False
      else enabled_plugins (global c) = [] \<or> list_ex (\<lambda>p. p = plugin_id) (enabled_plugins (global c)))"

fun default_review_months :: "compliance_framework \<Rightarrow> nat" where
  "default_review_months CIS = 12"
| "default_review_months STIG = 12"
| "default_review_months NIST = 12"
| "default_review_months PCIDSS = 12"
| "default_review_months HIPAA = 12"
| "default_review_months GDPR = 12"
| "default_review_months ISO27001 = 12"
| "default_review_months SOC2 = 12"
| "default_review_months NIST800171 = 12"
| "default_review_months FedRAMP = 12"

definition strip_port :: "string \<Rightarrow> string" where
  "strip_port target =
     (case rsplit_once (CHR '':'') target of
        None \<Rightarrow> target
      | Some (head, port) \<Rightarrow>
          (let host = (case rsplit_once (CHR ''@'') head of None \<Rightarrow> head | Some (_, h) \<Rightarrow> h);
               numeric = (port \<noteq> [] \<and> list_all is_ascii_digit port)
           in if numeric \<and> CHR '':'' \<notin> set host then head else target))"

definition review_deadline :: "'d calendar \<Rightarrow> scope_exclusion \<Rightarrow> string \<Rightarrow> 'd option" where
  "review_deadline cal e fid =
     (case framework_from_id fid of
        None \<Rightarrow> None
      | Some framework \<Rightarrow>
          (case review_by e of
             Some explicit \<Rightarrow> parse_iso_date cal explicit
           | None \<Rightarrow>
               (case scope_approved_date e of
                  None \<Rightarrow> None
                | Some s \<Rightarrow>
                    (case parse_iso_date cal s of
                       None \<Rightarrow> None
                     | Some approved \<Rightarrow>
                         checked_add_months cal approved (default_review_months framework)))))"

definition is_valid_on :: "'d::linorder calendar \<Rightarrow> scope_exclusion \<Rightarrow> string \<Rightarrow> 'd \<Rightarrow> bool" where
  "is_valid_on cal e fid today =
     (case review_deadline cal e fid of None \<Rightarrow> False | Some deadline \<Rightarrow> today \<le> deadline)"

definition covers_host :: "scope_exclusion \<Rightarrow> string \<Rightarrow> string \<Rightarrow> string \<Rightarrow> bool" where
  "covers_host e host_target hostname name =
     (if hosts e = [] then True
      else let spellings = [host_target, strip_port host_target, hostname, name] in
        list_ex (\<lambda>h. list_ex (\<lambda>s. eq_ignore_ascii_case h s) spellings) (hosts e))"

subsection \<open>Scan and apply agree on exceptions\<close>

lemma exception_outcome_with_applied:
  "(\<exists>f. exception_outcome_with cal today c key observed matches = Applied f) \<longleftrightarrow>
     (\<exists>e. has_valid_exception cal today c key = Some e \<and>
        (case observed of None \<Rightarrow> True | Some v \<Rightarrow> matches (documented_value e) v))"
  by (auto simp: exception_outcome_with_def has_valid_exception_def exception_is_valid_def Let_def
      split: option.splits if_splits)

text \<open>The scan reports an exception as applied exactly when the apply path finds one to honour, for
  values, for file modes and for presence checks: the two spellings of validity agree.\<close>

theorem scan_apply_exceptions_agree:
  "((\<exists>f. exception_outcome_for_value cal today c key v = Applied f) = (matching_exception cal today c key v \<noteq> None))
   \<and> ((\<exists>f. exception_outcome_for_mode cal today c key m = Applied f)
        = (matching_mode_exception cal today c key m \<noteq> None))
   \<and> ((\<exists>f. exception_outcome_for_presence cal today c key = Applied f)
        = (has_valid_exception cal today c key \<noteq> None))"
  by (auto simp: exception_outcome_for_value_def exception_outcome_for_mode_def exception_outcome_for_presence_def
      exception_outcome_with_applied matching_exception_def matching_mode_exception_def
      split: option.splits if_splits)

text \<open>What an applied outcome carries is live: it is not expired, and it names the value documented.\<close>

lemma applied_outcome_live:
  "exception_outcome_with cal today c key observed matches = Applied f \<Longrightarrow>
     \<not> exception_is_expired f"
  by (auto simp: exception_outcome_with_def to_finding_exception_def Let_def split: option.splits if_splits)

lemma show_radix_8_pad:
  "read_digits 8 0 (replicate k (CHR ''0'') @ s) = read_digits 8 0 s"
  by (induction k) (auto simp: digit_value_def)

text \<open>An exception documenting a mode in octal, with or without padding zeros, documents exactly
  that mode.\<close>

theorem octal_mode_documented:
  assumes "m < 2 ^ 32"
  shows "mode_is_documented_by (pad_left w (show_radix 8 m)) m' \<longleftrightarrow> m' = m"
proof -
  let ?s = "pad_left w (show_radix 8 m)"
  obtain d c where d: "d < 10" "show_radix 8 m = digit_char d # c"
    using show_radix_hd[of 8 m] by auto
  have "?s \<noteq> [] \<and> hd ?s \<noteq> CHR ''+''"
    using d digit_char_no_sign[of d] by (cases "w - length (show_radix 8 m)") (auto simp: pad_left_def)
  then have "(case ?s of CHR ''+'' # r \<Rightarrow> r | _ \<Rightarrow> ?s) = ?s" "?s \<noteq> []"
    by (auto split: list.splits char.splits bool.splits)
  moreover have "read_digits 8 0 ?s = Some m"
    by (simp add: pad_left_def show_radix_8_pad read_show_radix)
  ultimately have "parse_unsigned 8 (2 ^ 32) ?s = Some m"
    using assms by (simp add: parse_unsigned_def Let_def)
  then show ?thesis by (auto simp: mode_is_documented_by_def)
qed

theorem octal_mode_documented_witness:
  "mode_is_documented_by (pad_left 4 (show_radix 8 416)) 416"
  using octal_mode_documented[of 416 4 416] by simp

text \<open>An exclusion fails closed: when it is valid on a day its framework id names a framework, and
  either its review date parses and has not passed, or it has none and its approval date parses
  with the framework's interval not yet over; and it was valid on every earlier day.\<close>

theorem exclusion_fails_closed:
  assumes "is_valid_on cal e fid today"
  shows "(\<exists>framework. framework_from_id fid = Some framework \<and>
      (case review_by e of
         Some s \<Rightarrow> (\<exists>d. parse_iso_date cal s = Some d \<and> today \<le> d)
       | None \<Rightarrow> (\<exists>s a d. scope_approved_date e = Some s \<and> parse_iso_date cal s = Some a \<and>
            checked_add_months cal a (default_review_months framework) = Some d \<and> today \<le> d)))
    \<and> (earlier \<le> today \<longrightarrow> is_valid_on cal e fid earlier)"
  using assms by (auto simp: is_valid_on_def review_deadline_def split: option.splits)

definition day_calendar :: "nat calendar" where
  "day_calendar = \<lparr>parse_iso_date = parse_unsigned 10 10000, checked_add_months = (\<lambda>d m. Some (d + 30 * m))\<rparr>"

theorem exclusion_fails_closed_witness:
  "\<exists>e. is_valid_on day_calendar e ''CIS'' 360 \<and> is_valid_on day_calendar e ''CIS'' 7"
proof -
  let ?e = "\<lparr>scope_reason = ''cloud'', scope_approved_by = None, scope_approved_date = Some ''0'',
    scope_ticket = None, review_by = None, hosts = []\<rparr>"
  have "framework_from_id ''CIS'' = Some CIS"
    by (rule framework_from_lower) code_simp
  then have v: "is_valid_on day_calendar ?e ''CIS'' 360"
    by (simp add: is_valid_on_def review_deadline_def day_calendar_def parse_unsigned_def digit_value_def)
  have "is_valid_on day_calendar ?e ''CIS'' 7"
    using exclusion_fails_closed[OF v, of 7] by simp
  with v show ?thesis by blast
qed

lemma disabled_plugin_never_runs:
  "plugin_id \<in> set (disabled_plugins (global c)) \<Longrightarrow> \<not> is_plugin_enabled c plugin_id"
  by (auto simp: is_plugin_enabled_def list_ex_iff)

lemma is_plugin_enabled_iff:
  "is_plugin_enabled c p \<longleftrightarrow> enabled (get_plugin_config c p) \<noteq> Some False
     \<and> p \<notin> set (disabled_plugins (global c))
     \<and> (enabled_plugins (global c) = [] \<or> p \<in> set (enabled_plugins (global c)))"
  by (auto simp: is_plugin_enabled_def plugin_is_enabled_def list_ex_iff split: option.splits)

end
