(* ===== verification/Strictness.thy ===== *)
theory Strictness
  imports Policy_Config
begin

text \<open>
  \<open>crates/hardener-plugins/src/strictness.rs\<close>: how a configuration value is judged against a
  secure baseline, and the directive tables that use it (\<open>SSH_DIRECTIVES\<close>, \<open>KERNEL_PARAMS\<close>,
  \<open>PAM_DIRECTIVES\<close>). \<open>None\<close> from \<open>clamp_target\<close> and \<open>violated_by\<close> is the panic of their
  \<open>expect\<close>.
\<close>

subsection \<open>Definitions\<close>

datatype strictness = AtMost | AtLeast | NonZeroAtMost | Ranked "string list list"

definition in_group :: "string \<Rightarrow> string list \<Rightarrow> bool" where
  "in_group v spellings = list_ex (\<lambda>spelling. eq_ignore_ascii_case spelling v) spellings"

fun rank_from :: "nat \<Rightarrow> string list list \<Rightarrow> string \<Rightarrow> (int \<times> string) option" where
  "rank_from index [] v = None"
| "rank_from index (g # groups) v =
     (if in_group v g then Some (int index, hd g) else rank_from (Suc index) groups v)"

fun place :: "strictness \<Rightarrow> string \<Rightarrow> (int \<times> string) option" where
  "place (Ranked order) v = rank_from 0 order v"
| "place AtLeast v = map_option (\<lambda>n. (n, show_int n)) (parse_i64 v)"
| "place AtMost v = map_option (\<lambda>n. (saturating_neg n, show_int n)) (parse_i64 v)"
| "place NonZeroAtMost v =
     map_option (\<lambda>n. if n = 0 then (i64_min, show_int n) else (saturating_neg n, show_int n)) (parse_i64 v)"

definition clamp_target :: "strictness \<Rightarrow> string \<Rightarrow> string option \<Rightarrow> string option" where
  "clamp_target s baseline candidate =
     (case place s baseline of
        None \<Rightarrow> None
      | Some (baseline_score, baseline_spelling) \<Rightarrow>
          Some (case Option.bind candidate (place s) of
                  Some (score, spelling) \<Rightarrow> if score > baseline_score then spelling else baseline_spelling
                | None \<Rightarrow> baseline_spelling))"

definition resolved_target :: "strictness \<Rightarrow> plugin_config \<Rightarrow> string \<Rightarrow> string \<Rightarrow> string option" where
  "resolved_target s config key baseline = clamp_target s baseline (Some (resolve_str config key baseline))"

definition violated_by :: "strictness \<Rightarrow> string \<Rightarrow> string option \<Rightarrow> bool option" where
  "violated_by s target current =
     (case place s target of
        None \<Rightarrow> None
      | Some (target_score, _) \<Rightarrow>
          Some (case Option.bind current (place s) of
                  None \<Rightarrow> True
                | Some (score, _) \<Rightarrow> score < target_score))"

subsection \<open>The directive tables\<close>

text \<open>One record for the three table entry structs, which hold the same fields under their own
  prefixes; the PAM one adds its file.\<close>

record secure_directive =
  directive_name :: string
  secure_value :: string
  directive_description :: string
  directive_severity :: severity
  compare :: strictness

definition REMOTE_ROOT_SAFE_VALUE :: string where
  "REMOTE_ROOT_SAFE_VALUE = ''prohibit-password''"

definition PERMIT_ROOT_LOGIN_ORDER :: "string list list" where
  "PERMIT_ROOT_LOGIN_ORDER =
     [[''yes''], [REMOTE_ROOT_SAFE_VALUE, ''without-password''], [''forced-commands-only''], [''no'']]"

definition OFF_IS_STRICTER :: "string list list" where
  "OFF_IS_STRICTER = [[''yes''], [''no'']]"

definition secure_directive_of :: "string \<Rightarrow> string \<Rightarrow> string \<Rightarrow> severity \<Rightarrow> strictness \<Rightarrow> secure_directive" where
  "secure_directive_of n v d sev c =
     \<lparr>directive_name = n, secure_value = v, directive_description = d, directive_severity = sev, compare = c\<rparr>"

definition SSH_DIRECTIVES :: "secure_directive list" where
  "SSH_DIRECTIVES =
    [secure_directive_of ''PermitRootLogin'' ''no''
        ''Disable direct root login via SSH'' Critical (Ranked PERMIT_ROOT_LOGIN_ORDER),
     secure_directive_of ''PasswordAuthentication'' ''no''
        ''Require key-based authentication only'' Critical (Ranked OFF_IS_STRICTER),
     secure_directive_of ''PermitEmptyPasswords'' ''no''
        ''Disallow empty passwords'' Critical (Ranked OFF_IS_STRICTER),
     secure_directive_of ''MaxAuthTries'' ''3''
        ''Limit authentication attempts to prevent brute force'' Medium AtMost,
     secure_directive_of ''X11Forwarding'' ''no''
        ''Disable X11 forwarding to reduce attack surface'' Medium (Ranked OFF_IS_STRICTER),
     secure_directive_of ''ClientAliveInterval'' ''300''
        ''Disconnect idle SSH sessions after 5 minutes'' Low NonZeroAtMost,
     secure_directive_of ''ClientAliveCountMax'' ''2''
        ''Maximum idle connection checks before disconnect'' Low AtMost]"

definition SUID_DUMPABLE_ORDER :: "string list list" where
  "SUID_DUMPABLE_ORDER = [[''1''], [''2''], [''0'']]"

definition RP_FILTER_ORDER :: "string list list" where
  "RP_FILTER_ORDER = [[''0''], [''2''], [''1'']]"

definition KERNEL_PARAMS :: "secure_directive list" where
  "KERNEL_PARAMS =
    [secure_directive_of ''kernel.randomize_va_space'' ''2''
        ''Enable full address space layout randomisation (ASLR)'' High AtLeast,
     secure_directive_of ''kernel.kptr_restrict'' ''2''
        ''Hides kernel pointers from all users except root'' Medium AtLeast,
     secure_directive_of ''kernel.dmesg_restrict'' ''1''
        ''Restricts dmesg access to privileged users only'' Medium AtLeast,
     secure_directive_of ''kernel.yama.ptrace_scope'' ''2''
        ''Restricts ptrace usage to admin-only'' High AtLeast,
     secure_directive_of ''fs.suid_dumpable'' ''0''
        ''Prevents setuid processes from creating core dumps'' Medium (Ranked SUID_DUMPABLE_ORDER),
     secure_directive_of ''fs.protected_hardlinks'' ''1''
        ''Prevents hardlink creation to files user doesn't own'' Medium AtLeast,
     secure_directive_of ''fs.protected_symlinks'' ''1''
        ''Prevents symlink following in sticky world-writable directories'' Medium AtLeast,
     secure_directive_of ''net.ipv4.conf.all.rp_filter'' ''1''
        ''Enables reverse path filtering (anti-spoofing)'' High (Ranked RP_FILTER_ORDER),
     secure_directive_of ''net.ipv4.conf.default.rp_filter'' ''1''
        ''Enables reverse path filtering for new interfaces'' High (Ranked RP_FILTER_ORDER),
     secure_directive_of ''net.ipv4.tcp_syncookies'' ''1''
        ''Enables SYN flood protection'' High AtLeast,
     secure_directive_of ''net.ipv4.conf.all.accept_source_route'' ''0''
        ''Disables source routing (security risk)'' Medium AtMost,
     secure_directive_of ''net.ipv4.conf.default.accept_source_route'' ''0''
        ''Disables source routing for new interfaces'' Medium AtMost,
     secure_directive_of ''net.ipv4.conf.all.accept_redirects'' ''0''
        ''Disables acceptance of ICMP redirects (prevents route table poisoning)'' Medium AtMost,
     secure_directive_of ''net.ipv4.conf.default.accept_redirects'' ''0''
        ''Disables ICMP redirect acceptance for new interfaces'' Medium AtMost,
     secure_directive_of ''net.ipv4.conf.all.secure_redirects'' ''0''
        ''Disables acceptance of secure ICMP redirects'' Medium AtMost,
     secure_directive_of ''net.ipv4.conf.default.secure_redirects'' ''0''
        ''Disables secure ICMP redirect acceptance for new interfaces'' Medium AtMost,
     secure_directive_of ''net.ipv4.conf.all.log_martians'' ''1''
        ''Logs packets with impossible (martian) source addresses'' Low AtLeast,
     secure_directive_of ''net.ipv4.conf.default.log_martians'' ''1''
        ''Logs martian packets for new interfaces'' Low AtLeast]"

definition FAILLOCK_CONF :: string where "FAILLOCK_CONF = ''/etc/security/faillock.conf''"
definition PWHISTORY_CONF :: string where "PWHISTORY_CONF = ''/etc/security/pwhistory.conf''"

datatype pam_config_file = PwQuality | LoginDefs | PamAuth | SecurityConf string

fun conf_path :: "pam_config_file \<Rightarrow> string option" where
  "conf_path PwQuality = Some ''/etc/security/pwquality.conf''"
| "conf_path LoginDefs = Some ''/etc/login.defs''"
| "conf_path (SecurityConf path) = Some path"
| "conf_path PamAuth = None"

record pam_directive = secure_directive +
  pam_config_file :: pam_config_file

definition pam_directive_of ::
  "string \<Rightarrow> string \<Rightarrow> string \<Rightarrow> severity \<Rightarrow> pam_config_file \<Rightarrow> strictness \<Rightarrow> pam_directive" where
  "pam_directive_of n v d sev f c =
     \<lparr>directive_name = n, secure_value = v, directive_description = d, directive_severity = sev, compare = c, pam_config_file = f\<rparr>"

definition PAM_DIRECTIVES :: "pam_directive list" where
  "PAM_DIRECTIVES =
    [pam_directive_of ''minlen'' ''14''
        ''Minimum password length of 14 characters'' High PwQuality AtLeast,
     pam_directive_of ''dcredit'' ''-1''
        ''Require at least one digit in password'' Medium PwQuality AtMost,
     pam_directive_of ''ucredit'' ''-1''
        ''Require at least one uppercase character in password'' Medium PwQuality AtMost,
     pam_directive_of ''lcredit'' ''-1''
        ''Require at least one lowercase character in password'' Medium PwQuality AtMost,
     pam_directive_of ''ocredit'' ''-1''
        ''Require at least one special character in password'' Medium PwQuality AtMost,
     pam_directive_of ''maxrepeat'' ''3''
        ''Maximum consecutive identical characters in password'' Low PwQuality NonZeroAtMost,
     pam_directive_of ''PASS_MAX_DAYS'' ''90''
        ''Maximum password age of 90 days'' Medium LoginDefs AtMost,
     pam_directive_of ''PASS_MIN_DAYS'' ''1''
        ''Minimum password age of 1 day (prevents rapid changes)'' Low LoginDefs AtLeast,
     pam_directive_of ''PASS_WARN_AGE'' ''7''
        ''Warn users 7 days before password expiry'' Low LoginDefs AtLeast,
     pam_directive_of ''deny'' ''5''
        ''Lock the account after at most 5 failed attempts'' High (SecurityConf FAILLOCK_CONF) AtMost,
     pam_directive_of ''remember'' ''5''
        ''Remember at least the last 5 passwords to prevent reuse'' Medium (SecurityConf PWHISTORY_CONF) AtLeast]"

subsection \<open>A scale and its clamp\<close>

text \<open>What the clamp needs of a comparison: the spelling it returns is placed where the value was,
  and is its own spelling.\<close>

locale scale =
  fixes place :: "string \<Rightarrow> (int \<times> string) option"
  assumes canonical: "place v = Some (n, w) \<Longrightarrow> place w = Some (n, w)"
begin

definition clamp :: "string \<Rightarrow> string option \<Rightarrow> string option" where
  "clamp baseline candidate =
     (case place baseline of
        None \<Rightarrow> None
      | Some (b, wb) \<Rightarrow>
          Some (case Option.bind candidate place of
                  Some (n, w) \<Rightarrow> if n > b then w else wb
                | None \<Rightarrow> wb))"

lemma clamp_placed:
  assumes "clamp baseline candidate = Some t"
  obtains b n wb where "place baseline = Some (b, wb)" "place t = Some (n, t)" "b \<le> n"
    "\<And>v m w. candidate = Some v \<Longrightarrow> place v = Some (m, w) \<Longrightarrow> m \<le> n"
    "t = wb \<or> (\<exists>v. candidate = Some v \<and> place v = Some (n, t))"
proof -
  obtain b wb where p: "place baseline = Some (b, wb)"
    and t: "t = (case Option.bind candidate place of Some (n, w) \<Rightarrow> if n > b then w else wb | None \<Rightarrow> wb)"
    using assms by (auto simp: clamp_def split: option.splits)
  show thesis
  proof (cases "Option.bind candidate place")
    case None
    then have "t = wb" using t by simp
    moreover have "\<And>v m w. candidate = Some v \<Longrightarrow> place v = Some (m, w) \<Longrightarrow> m \<le> b"
      using None by auto
    ultimately show thesis using p canonical[OF p] by (intro that[of b wb b]) auto
  next
    case (Some nw)
    obtain m w where nw: "nw = (m, w)" by fastforce
    with Some obtain v where v: "candidate = Some v" "place v = Some (m, w)"
      by (cases candidate) auto
    show thesis
    proof (cases "m > b")
      case True
      then have "t = w" using t Some nw by simp
      then show thesis using True p v canonical[OF v(2)] by (intro that[of b wb m]) auto
    next
      case False
      then have "t = wb" using t Some nw by simp
      then show thesis using False p v canonical[OF p] by (intro that[of b wb b]) auto
    qed
  qed
qed

lemma clamp_total: "place baseline \<noteq> None \<Longrightarrow> \<exists>t. clamp baseline candidate = Some t"
  by (auto simp: clamp_def)

lemma clamp_again:
  assumes "clamp baseline candidate = Some t"
  shows "clamp t (Some t) = Some t" "clamp baseline (Some t) = Some t"
proof -
  obtain b n wb where *: "place baseline = Some (b, wb)" "place t = Some (n, t)" "b \<le> n"
    "t = wb \<or> (\<exists>v. candidate = Some v \<and> place v = Some (n, t))"
    using assms by (rule clamp_placed)
  show "clamp t (Some t) = Some t" using * by (simp add: clamp_def)
  show "clamp baseline (Some t) = Some t"
  proof (cases "b < n")
    case True
    then show ?thesis using * by (simp add: clamp_def)
  next
    case False
    with *(3) have n: "n = b" by simp
    have "t = wb"
    proof (cases "Option.bind candidate place")
      case None
      then show ?thesis using assms *(1) by (simp add: clamp_def)
    next
      case (Some nw)
      obtain m w where nw: "nw = (m, w)" by fastforce
      then obtain v where "candidate = Some v" "place v = Some (m, w)"
        using Some by (cases candidate) auto
      then have "m > b \<Longrightarrow> place t = Some (m, t)"
        using assms *(1) canonical by (auto simp: clamp_def)
      then have "\<not> m > b" using *(2) n by auto
      then show ?thesis using assms *(1) Some nw by (simp add: clamp_def)
    qed
    then show ?thesis using *(1,2) n by (simp add: clamp_def)
  qed
qed

end

text \<open>A ranking is well formed when the first spelling of every group is found in that group.\<close>

definition wf_order :: "string list list \<Rightarrow> bool" where
  "wf_order order =
     list_all (\<lambda>i. rank_from 0 order (hd (order ! i)) = Some (int i, hd (order ! i))) [0..<length order]"

fun wf_strictness :: "strictness \<Rightarrow> bool" where
  "wf_strictness (Ranked order) = wf_order order"
| "wf_strictness _ = True"

lemma rank_from_Some:
  "rank_from k order v = Some (n, w) \<Longrightarrow>
     \<exists>i<length order. n = int (k + i) \<and> w = hd (order ! i)"
proof (induction order arbitrary: k)
  case (Cons g gs)
  show ?case
  proof (cases "in_group v g")
    case True
    with Cons.prems show ?thesis by auto
  next
    case False
    with Cons obtain i where "i < length gs" "n = int (Suc k + i)" "w = hd (gs ! i)" by fastforce
    then show ?thesis by (intro exI[of _ "Suc i"]) auto
  qed
qed simp

lemma parse_place_numeric:
  assumes "parse_i64 v = Some n"
  shows "parse_i64 (show_int n) = Some n"
  using parse_i64_range[OF assms] by (simp add: parse_show_int)

lemma scale_place: "wf_strictness s \<Longrightarrow> scale (place s)"
proof
  fix v n w assume wf: "wf_strictness s" and p: "place s v = Some (n, w)"
  show "place s w = Some (n, w)"
  proof (cases s)
    case (Ranked order)
    with p obtain i where "i < length order" "n = int i" "w = hd (order ! i)"
      using rank_from_Some[of 0 order v n w] by auto
    with wf Ranked show ?thesis by (auto simp: wf_order_def list_all_iff)
  next
    case AtMost
    with p obtain k where "parse_i64 v = Some k" "n = saturating_neg k" "w = show_int k" by auto
    with AtMost show ?thesis by (simp add: parse_place_numeric[of v])
  next
    case AtLeast
    with p obtain k where "parse_i64 v = Some k" "n = k" "w = show_int k" by auto
    with AtLeast show ?thesis by (simp add: parse_place_numeric[of v])
  next
    case NonZeroAtMost
    with p obtain k where k: "parse_i64 v = Some k"
      and "(if k = 0 then (i64_min, show_int k) else (saturating_neg k, show_int k)) = (n, w)" by auto
    then have w: "w = show_int k" "n = (if k = 0 then i64_min else saturating_neg k)"
      by (simp_all split: if_splits)
    show ?thesis
      by (simp only: NonZeroAtMost place.simps w parse_place_numeric[OF k] option.map if_distrib)
         simp
  qed
qed

interpretation at_most: scale "place AtMost" by (rule scale_place) simp
interpretation at_least: scale "place AtLeast" by (rule scale_place) simp
interpretation non_zero_at_most: scale "place NonZeroAtMost" by (rule scale_place) simp

lemma clamp_target_scale: "wf_strictness s \<Longrightarrow> clamp_target s b c = scale.clamp (place s) b c"
  by (simp add: clamp_target_def scale.clamp_def[OF scale_place])

text \<open>C29. A clamp can only tighten: its result is a value the comparison places under its own
  spelling, it violates neither the baseline nor a candidate the comparison can place, it is the
  baseline's spelling or the candidate's, and clamping it again changes nothing.\<close>

theorem clamp_only_tightens:
  assumes "wf_strictness s" "clamp_target s baseline candidate = Some t"
  shows "violated_by s baseline (Some t) = Some False
    \<and> (\<forall>v. candidate = Some v \<longrightarrow> place s v \<noteq> None \<longrightarrow> violated_by s v (Some t) = Some False)
    \<and> (map_option snd (place s baseline) = Some t
        \<or> map_option snd (Option.bind candidate (place s)) = Some t)
    \<and> clamp_target s t (Some t) = Some t
    \<and> clamp_target s baseline (Some t) = Some t"
proof -
  note c = clamp_target_scale[OF assms(1)]
  have cl: "scale.clamp (place s) baseline candidate = Some t" using assms by (simp add: c)
  obtain b n wb where *: "place s baseline = Some (b, wb)" "place s t = Some (n, t)" "b \<le> n"
    "\<And>v m w. candidate = Some v \<Longrightarrow> place s v = Some (m, w) \<Longrightarrow> m \<le> n"
    "t = wb \<or> (\<exists>v. candidate = Some v \<and> place s v = Some (n, t))"
    using cl by (rule scale.clamp_placed[OF scale_place[OF assms(1)]]) blast
  show ?thesis
    using * scale.clamp_again[OF scale_place[OF assms(1)] cl]
    by (auto simp: c violated_by_def split: option.splits prod.splits dest: leD)
qed

theorem clamp_only_tightens_witness:
  "violated_by (Ranked RP_FILTER_ORDER) ''2'' (Some ''1'') = Some False"
proof -
  have w: "wf_strictness (Ranked RP_FILTER_ORDER)" by code_simp
  have c: "clamp_target (Ranked RP_FILTER_ORDER) ''2'' (Some ''1'') = Some ''1''" by code_simp
  show ?thesis using clamp_only_tightens[OF w c] by blast
qed

subsection \<open>The shipped tables\<close>

definition shipped_directives :: "secure_directive list" where
  "shipped_directives = SSH_DIRECTIVES @ KERNEL_PARAMS @ map secure_directive.truncate PAM_DIRECTIVES"

abbreviation sound_entry :: "secure_directive \<Rightarrow> bool" where
  "sound_entry d \<equiv> wf_strictness (compare d) \<and> place (compare d) (secure_value d) \<noteq> None"

lemma wf_tables:
  "wf_order PERMIT_ROOT_LOGIN_ORDER" "wf_order OFF_IS_STRICTER" "wf_order SUID_DUMPABLE_ORDER"
  "wf_order RP_FILTER_ORDER"
  by code_simp+

lemma placed_in_tables:
  "rank_from 0 PERMIT_ROOT_LOGIN_ORDER ''no'' = Some (3, ''no'')"
  "rank_from 0 OFF_IS_STRICTER ''no'' = Some (1, ''no'')"
  "rank_from 0 SUID_DUMPABLE_ORDER ''0'' = Some (2, ''0'')"
  "rank_from 0 RP_FILTER_ORDER ''1'' = Some (2, ''1'')"
  by code_simp+

lemma shipped_placeable: "list_all sound_entry shipped_directives"
proof -
  have p: "parse_i64 ''0'' = Some 0" "parse_i64 ''1'' = Some 1" "parse_i64 ''2'' = Some 2"
    "parse_i64 ''3'' = Some 3" "parse_i64 ''5'' = Some 5" "parse_i64 ''7'' = Some 7"
    "parse_i64 ''14'' = Some 14" "parse_i64 ''90'' = Some 90" "parse_i64 ''300'' = Some 300"
    "parse_i64 ''-1'' = Some (- 1)"
    by (simp_all add: parse_i64_def parse_unsigned_def digit_value_def i64_min_def)
  show ?thesis
    by (simp add: shipped_directives_def SSH_DIRECTIVES_def KERNEL_PARAMS_def PAM_DIRECTIVES_def
        secure_directive_of_def pam_directive_of_def secure_directive.defs wf_tables placed_in_tables p)
qed

lemma resolved_target_sound:
  assumes "sound_entry d"
  shows "case resolved_target (compare d) config (directive_name d) (secure_value d) of
        None \<Rightarrow> False
      | Some t \<Rightarrow>
          violated_by (compare d) (secure_value d) (Some t) = Some False
        \<and> violated_by (compare d) t None = Some True
        \<and> violated_by (compare d) t (Some t) = Some False"
proof -
  have wf: "wf_strictness (compare d)" and pl: "place (compare d) (secure_value d) \<noteq> None"
    using assms by auto
  note sc = scale_place[OF wf] and ct = clamp_target_scale[OF wf]
  obtain t where t: "resolved_target (compare d) config (directive_name d) (secure_value d) = Some t"
    using scale.clamp_total[OF sc pl] by (auto simp: resolved_target_def ct)
  then have cl: "scale.clamp (place (compare d)) (secure_value d)
      (Some (resolve_str config (directive_name d) (secure_value d))) = Some t"
    by (simp add: resolved_target_def ct)
  obtain b n wb where "place (compare d) (secure_value d) = Some (b, wb)"
    "place (compare d) t = Some (n, t)" "b \<le> n"
    using cl by (rule scale.clamp_placed[OF sc]) blast
  then show ?thesis by (simp add: t violated_by_def)
qed

text \<open>Clamping a target that can be placed: the result is placed, in its own spelling, no lower than the
  target and no lower than what is observed.\<close>

lemma clamp_target_placed:
  assumes "wf_strictness s" "place s target = Some (b, u)"
  obtains t n where "clamp_target s target observed = Some t" "place s t = Some (n, t)" "b \<le> n"
    "\<And>v m w. observed = Some v \<Longrightarrow> place s v = Some (m, w) \<Longrightarrow> m \<le> n"
    "t = u \<or> (\<exists>v. observed = Some v \<and> place s v = Some (n, t))"
proof -
  obtain t where t: "scale.clamp (place s) target observed = Some t"
    using scale.clamp_total[OF scale_place[OF assms(1)], of target observed] assms(2) by auto
  then have "clamp_target s target observed = Some t" by (simp add: clamp_target_scale[OF assms(1)])
  moreover obtain c n w where c: "place s target = Some (c, w)" "place s t = Some (n, t)" "c \<le> n"
    "\<And>v m w. observed = Some v \<Longrightarrow> place s v = Some (m, w) \<Longrightarrow> m \<le> n"
    "t = w \<or> (\<exists>v. observed = Some v \<and> place s v = Some (n, t))"
    using t by (rule scale.clamp_placed[OF scale_place[OF assms(1)]]) blast
  moreover have "c = b" "w = u" using c(1) assms(2) by auto
  ultimately show thesis using that[of t n] by blast
qed

lemma resolved_target_placed:
  assumes "sound_entry d"
  obtains t n b u where "resolved_target (compare d) config (directive_name d) (secure_value d) = Some t"
    "place (compare d) t = Some (n, t)" "place (compare d) (secure_value d) = Some (b, u)" "b \<le> n"
    "t = u \<or> place (compare d) (resolve_str config (directive_name d) (secure_value d)) = Some (n, t)"
proof -
  obtain b u where "wf_strictness (compare d)" and b: "place (compare d) (secure_value d) = Some (b, u)"
    using assms by auto
  then obtain t n where "clamp_target (compare d) (secure_value d)
        (Some (resolve_str config (directive_name d) (secure_value d))) = Some t"
      "place (compare d) t = Some (n, t)" "b \<le> n"
      "t = u \<or> place (compare d) (resolve_str config (directive_name d) (secure_value d)) = Some (n, t)"
    by (rule clamp_target_placed) blast
  then show thesis using that[of t n b u] b by (simp add: resolved_target_def)
qed

text \<open>C35. For every directive of the three shipped tables and any operator configuration, resolving the
  target never panics, the target is never weaker than the shipped baseline, an unset host
  value violates it, and a host value equal to the target satisfies it.\<close>

theorem shipped_targets_resolve:
  "list_all (\<lambda>d.
     (case resolved_target (compare d) config (directive_name d) (secure_value d) of
        None \<Rightarrow> False
      | Some t \<Rightarrow>
          violated_by (compare d) (secure_value d) (Some t) = Some False
        \<and> violated_by (compare d) t None = Some True
        \<and> violated_by (compare d) t (Some t) = Some False)) shipped_directives"
  using shipped_placeable resolved_target_sound by (simp add: list_all_iff)

end
