(* ===== verification/Checkpoint_Store.thy ===== *)
theory Checkpoint_Store
  imports Hardener_Types Host_Executor
begin

text \<open>
  Checkpoints and where they are kept: \<open>crates/hardener-state/src/checkpoint.rs\<close> and the storing,
  listing, deleting, digesting and signing half of \<open>manager.rs\<close>.

  The database is its two tables as lists of rows; a failing query of SQLite itself is not
  modelled, the failures the code distinguishes (no such row, a duplicate primary key, nothing
  deleted) are, and a transaction that fails leaves the tables as they were. SHA-256 and Ed25519
  are parameters (\<open>crypto\<close>). File contents are the text they were read as: the code turns it into
  bytes to store it and back to write it.
\<close>

subsection \<open>Checkpoints and file states\<close>

type_synonym bytes = "nat list"

datatype content_absence = ByDesign | ReadFailed

definition utf8_char :: "char \<Rightarrow> bytes" where
  "utf8_char c = (let n = (of_char c :: nat) in if n < 128 then [n] else [192 + n div 64, 128 + n mod 64])"

definition utf8 :: "string \<Rightarrow> bytes" where
  "utf8 s = concat (map utf8_char s)"

fun digest_tag :: "content_absence \<Rightarrow> bytes" where
  "digest_tag ByDesign = utf8 ''d''"
| "digest_tag ReadFailed = utf8 ''f''"

fun as_column :: "content_absence \<Rightarrow> string" where
  "as_column ByDesign = ''by_design''"
| "as_column ReadFailed = ''read_failed''"

definition from_column :: "string option \<Rightarrow> content_absence option" where
  "from_column stored =
     (if stored = Some ''by_design'' then Some ByDesign
      else if stored = Some ''read_failed'' then Some ReadFailed
      else None)"

record file_state =
  file_path :: string
  file_content :: "string option"
  file_permissions :: nat
  file_owner_uid :: nat
  file_owner_gid :: nat
  file_link_target :: "string option"
  file_content_absence :: "content_absence option"

text \<open>\<open>{:o}\<close> of the mode masked with \<open>0o7777\<close>.\<close>

definition restore_mode_string :: "file_state \<Rightarrow> string" where
  "restore_mode_string f = show_radix 8 (file_permissions f mod 4096)"

definition recorded_absent :: "file_state \<Rightarrow> bool" where
  "recorded_absent f = (file_content f = None \<and> file_permissions f = 0)"

record checkpoint =
  checkpoint_id :: string
  checkpoint_name :: string
  checkpoint_timestamp :: int
  checkpoint_username :: string
  checkpoint_signature :: bytes
  host_key :: string

record crypto =
  sha256 :: "bytes \<Rightarrow> bytes"
  sign :: "bytes \<Rightarrow> (hardening_error, bytes) result"
  verify :: "bytes \<Rightarrow> bytes \<Rightarrow> (hardening_error, unit) result"

text \<open>\<open>to_be_bytes\<close> of a \<open>u32\<close> and of an \<open>i64\<close>.\<close>

fun be_bytes :: "nat \<Rightarrow> nat \<Rightarrow> bytes" where
  "be_bytes 0 n = []"
| "be_bytes (Suc k) n = be_bytes k (n div 256) @ [n mod 256]"

definition u32_be :: "nat \<Rightarrow> bytes" where "u32_be n = be_bytes 4 n"
definition i64_be :: "int \<Rightarrow> bytes" where "i64_be i = be_bytes 8 (nat (i mod 2 ^ 64))"

definition option_bytes :: "('a \<Rightarrow> bytes) \<Rightarrow> 'a option \<Rightarrow> bytes" where
  "option_bytes f x = (case x of None \<Rightarrow> [] | Some y \<Rightarrow> f y)"

definition file_state_bytes :: "file_state \<Rightarrow> bytes" where
  "file_state_bytes f =
     utf8 (file_path f) @ option_bytes utf8 (file_content f)
     @ u32_be (file_permissions f) @ u32_be (file_owner_uid f) @ u32_be (file_owner_gid f)
     @ option_bytes utf8 (file_link_target f) @ option_bytes digest_tag (file_content_absence f)"

definition digest_input :: "string \<Rightarrow> string \<Rightarrow> int \<Rightarrow> string \<Rightarrow> file_state list \<Rightarrow> bytes" where
  "digest_input cid name timestamp username states =
     utf8 cid @ utf8 name @ i64_be timestamp @ utf8 username
     @ concat (map file_state_bytes (sort_key file_path states))"

definition generate_digest ::
  "crypto \<Rightarrow> string \<Rightarrow> string \<Rightarrow> int \<Rightarrow> string \<Rightarrow> file_state list \<Rightarrow> bytes" where
  "generate_digest c cid name timestamp username states =
     sha256 c (digest_input cid name timestamp username states)"

definition generate_signature ::
  "crypto \<Rightarrow> string \<Rightarrow> string \<Rightarrow> int \<Rightarrow> string \<Rightarrow> file_state list \<Rightarrow> (hardening_error, bytes) result" where
  "generate_signature c cid name timestamp username states =
     sign c (generate_digest c cid name timestamp username states)"

subsection \<open>The tables\<close>

record file_row =
  row_checkpoint_id :: string
  row_file_path :: string
  row_content :: "string option"
  row_permissions :: int
  row_owner_uid :: int
  row_owner_gid :: int
  row_link_target :: "string option"
  row_content_absence :: "string option"

record database =
  checkpoints_table :: "checkpoint list"
  file_states_table :: "file_row list"

definition row_of :: "string \<Rightarrow> file_state \<Rightarrow> file_row" where
  "row_of cid f =
     \<lparr>row_checkpoint_id = cid, row_file_path = file_path f, row_content = file_content f,
      row_permissions = int (file_permissions f), row_owner_uid = int (file_owner_uid f),
      row_owner_gid = int (file_owner_gid f), row_link_target = file_link_target f,
      row_content_absence = map_option as_column (file_content_absence f)\<rparr>"

definition as_u32 :: "int \<Rightarrow> nat" where "as_u32 i = nat (i mod 2 ^ 32)"

definition state_of_row :: "file_row \<Rightarrow> file_state" where
  "state_of_row r =
     \<lparr>file_path = row_file_path r, file_content = row_content r,
      file_permissions = as_u32 (row_permissions r), file_owner_uid = as_u32 (row_owner_uid r),
      file_owner_gid = as_u32 (row_owner_gid r), file_link_target = row_link_target r,
      file_content_absence = from_column (row_content_absence r)\<rparr>"

definition store_checkpoint ::
  "database \<Rightarrow> checkpoint \<Rightarrow> file_state list \<Rightarrow> (hardening_error, unit) result \<times> database" where
  "store_checkpoint db header states =
     (if list_ex (\<lambda>c. checkpoint_id c = checkpoint_id header) (checkpoints_table db) then
        (Inl (DatabaseError ''UNIQUE constraint failed: checkpoints.id''), db)
      else (Inr (), db\<lparr>checkpoints_table := checkpoints_table db @ [header],
              file_states_table := file_states_table db @ map (row_of (checkpoint_id header)) states\<rparr>))"

definition get_checkpoint ::
  "database \<Rightarrow> string \<Rightarrow> (hardening_error, checkpoint \<times> file_state list) result" where
  "get_checkpoint db cid =
     (case find (\<lambda>c. checkpoint_id c = cid) (checkpoints_table db) of
        None \<Rightarrow> Inl (NotFoundError (''checkpoint '' @ quoted cid
                @ ''. Run `hardener checkpoint list` to see the checkpoints that exist.''))
      | Some c \<Rightarrow> Inr (c, map state_of_row
            (sort_key row_file_path (filter (\<lambda>r. row_checkpoint_id r = cid) (file_states_table db)))))"

definition list_checkpoints :: "database \<Rightarrow> checkpoint list" where
  "list_checkpoints db = sort_key (\<lambda>c. - checkpoint_timestamp c) (checkpoints_table db)"

text \<open>\<open>Iterator::max_by_key\<close>: the last of the greatest.\<close>

fun max_by_key :: "('a \<Rightarrow> 'k::linorder) \<Rightarrow> 'a list \<Rightarrow> 'a option" where
  "max_by_key key [] = None"
| "max_by_key key (x # xs) =
     (case max_by_key key xs of
        None \<Rightarrow> Some x
      | Some y \<Rightarrow> if key x > key y then Some x else Some y)"

definition select_latest_named :: "checkpoint list \<Rightarrow> string list \<Rightarrow> string list \<Rightarrow> checkpoint list" where
  "select_latest_named checkpoints host_keys names =
     filter_map (\<lambda>name. max_by_key checkpoint_timestamp
        (filter (\<lambda>c. host_key c \<in> set host_keys \<and> checkpoint_name c = name) checkpoints)) names"

definition latest_named_for_host :: "database \<Rightarrow> string list \<Rightarrow> string list \<Rightarrow> checkpoint list" where
  "latest_named_for_host db host_keys names = select_latest_named (list_checkpoints db) host_keys names"

definition delete_checkpoint :: "database \<Rightarrow> string \<Rightarrow> (hardening_error, unit) result \<times> database" where
  "delete_checkpoint db cid =
     (if \<not> list_ex (\<lambda>c. checkpoint_id c = cid) (checkpoints_table db) then
        (Inl (DatabaseError (''no checkpoint with id '' @ quoted cid)), db)
      else (Inr (), db\<lparr>checkpoints_table := filter (\<lambda>c. checkpoint_id c \<noteq> cid) (checkpoints_table db),
              file_states_table := filter (\<lambda>r. row_checkpoint_id r \<noteq> cid) (file_states_table db)\<rparr>))"

text \<open>The orphan predicate: no checkpoint has the row's cid.\<close>

definition is_orphan :: "database \<Rightarrow> file_row \<Rightarrow> bool" where
  "is_orphan db r = (\<not> list_ex (\<lambda>c. checkpoint_id c = row_checkpoint_id r) (checkpoints_table db))"

record orphaned_file_states =
  orphan_rows :: nat
  orphan_checkpoints :: nat

definition orphaned_file_states_of :: "database \<Rightarrow> orphaned_file_states" where
  "orphaned_file_states_of db =
     (let orphans = filter (is_orphan db) (file_states_table db) in
      \<lparr>orphan_rows = length orphans, orphan_checkpoints = length (remdups (map row_checkpoint_id orphans))\<rparr>)"

definition remove_orphaned_file_states :: "database \<Rightarrow> nat \<times> database" where
  "remove_orphaned_file_states db =
     (length (filter (is_orphan db) (file_states_table db)),
      db\<lparr>file_states_table := filter (\<lambda>r. \<not> is_orphan db r) (file_states_table db)\<rparr>)"

definition verify_checkpoint :: "crypto \<Rightarrow> database \<Rightarrow> string \<Rightarrow> (hardening_error, unit) result" where
  "verify_checkpoint c db cid =
     and_then (get_checkpoint db cid) (\<lambda>(checkpoint, states).
       verify c (generate_digest c (checkpoint_id checkpoint) (checkpoint_name checkpoint)
                   (checkpoint_timestamp checkpoint) (checkpoint_username checkpoint) states)
         (checkpoint_signature checkpoint))"

text \<open>What the clock, the random suffix and \<open>USER\<close> answer to one call.\<close>

record moment =
  fresh_id :: string
  now_seconds :: int
  user_name :: string

definition persist_signed_checkpoint ::
  "crypto \<Rightarrow> moment \<Rightarrow> database \<Rightarrow> string \<Rightarrow> string \<Rightarrow> file_state list \<Rightarrow>
   (hardening_error, string) result \<times> database" where
  "persist_signed_checkpoint c now db host name states =
     (case generate_signature c (fresh_id now) name (now_seconds now) (user_name now) states of
        Inl e \<Rightarrow> (Inl e, db)
      | Inr signature \<Rightarrow>
          (case store_checkpoint db \<lparr>checkpoint_id = fresh_id now, checkpoint_name = name,
                  checkpoint_timestamp = now_seconds now, checkpoint_username = user_name now,
                  checkpoint_signature = signature, host_key = host\<rparr> states of
             (Inl e, db') \<Rightarrow> (Inl e, db')
           | (Inr _, db') \<Rightarrow> (Inr (fresh_id now), db')))"

subsection \<open>Rows and states\<close>

definition u32_fields :: "file_state \<Rightarrow> bool" where
  "u32_fields f = (file_permissions f < 2 ^ 32 \<and> file_owner_uid f < 2 ^ 32 \<and> file_owner_gid f < 2 ^ 32)"

lemma from_as_column [simp]: "from_column (map_option as_column a) = a"
proof (cases a)
  case (Some x)
  then show ?thesis by (cases x) (simp_all add: from_column_def)
qed (simp add: from_column_def)

lemma as_u32_int [simp]: "n < 2 ^ 32 \<Longrightarrow> as_u32 (int n) = n"
  by (simp add: as_u32_def nat_mod_distrib)

lemma state_of_row_of: "u32_fields f \<Longrightarrow> state_of_row (row_of cid f) = f"
  by (cases f) (simp add: u32_fields_def state_of_row_def row_of_def)

lemma insort_key_map: "insort_key f (g x) (map g ys) = map g (insort_key (\<lambda>z. f (g z)) x ys)"
  by (induction ys) auto

lemma sort_key_map: "sort_key f (map g xs) = map g (sort_key (\<lambda>z. f (g z)) xs)"
  by (induction xs) (simp_all add: insort_key_map)

lemma sort_key_idem [simp]: "sort_key f (sort_key f xs) = sort_key f xs"
  by (simp add: sort_key_id_if_sorted)

lemma row_of_path [simp]: "row_file_path (row_of cid f) = file_path f" "row_checkpoint_id (row_of cid f) = cid"
  by (simp_all add: row_of_def)

lemma digest_input_sorted:
  "digest_input cid name t u (sort_key file_path states) = digest_input cid name t u states"
  by (simp add: digest_input_def)

lemma store_checkpoint_Inr:
  "store_checkpoint db header states = (Inr u, db') \<longleftrightarrow>
     (\<forall>c\<in>set (checkpoints_table db). checkpoint_id c \<noteq> checkpoint_id header) \<and>
     db' = db\<lparr>checkpoints_table := checkpoints_table db @ [header],
              file_states_table := file_states_table db @ map (row_of (checkpoint_id header)) states\<rparr>"
  by (auto simp: store_checkpoint_def list_ex_iff)

text \<open>No row is left over from a deleted checkpoint of the same id.\<close>

definition id_unused :: "database \<Rightarrow> string \<Rightarrow> bool" where
  "id_unused db cid = (\<not> list_ex (\<lambda>r. row_checkpoint_id r = cid) (file_states_table db))"

lemma get_checkpoint_cong:
  assumes find: "find (\<lambda>c. checkpoint_id c = cid) (checkpoints_table db')
      = find (\<lambda>c. checkpoint_id c = cid) (checkpoints_table db)"
    and "list_ex (\<lambda>c. checkpoint_id c = cid) (checkpoints_table db) \<Longrightarrow>
      filter (\<lambda>r. row_checkpoint_id r = cid) (file_states_table db')
        = filter (\<lambda>r. row_checkpoint_id r = cid) (file_states_table db)"
  shows "get_checkpoint db' cid = get_checkpoint db cid"
proof (cases "list_ex (\<lambda>c. checkpoint_id c = cid) (checkpoints_table db)")
  case True
  with assms(2) show ?thesis by (simp only: get_checkpoint_def find)
next
  case False
  then have "find (\<lambda>c. checkpoint_id c = cid) (checkpoints_table db) = None"
    by (auto simp: find_None_iff list_ex_iff)
  then show ?thesis by (simp only: get_checkpoint_def find option.case)
qed

lemma get_stored:
  assumes "store_checkpoint db header states = (Inr u, db')" "id_unused db (checkpoint_id header)"
    and "list_all u32_fields states"
  shows "get_checkpoint db' (checkpoint_id header) = Inr (header, sort_key file_path states)"
proof -
  let ?id = "checkpoint_id header"
  have new: "\<forall>c\<in>set (checkpoints_table db). checkpoint_id c \<noteq> ?id"
    and db': "db' = db\<lparr>checkpoints_table := checkpoints_table db @ [header],
              file_states_table := file_states_table db @ map (row_of ?id) states\<rparr>"
    using assms(1) by (auto simp: store_checkpoint_Inr)
  have "find (\<lambda>c. checkpoint_id c = ?id) (checkpoints_table db @ [header]) = Some header"
    using new by (auto simp: find_Some_iff nth_append intro!: exI[of _ "length (checkpoints_table db)"])
  moreover have "filter (\<lambda>r. row_checkpoint_id r = ?id) (file_states_table db) = []"
    using assms(2) by (auto simp: id_unused_def list_ex_iff filter_empty_conv)
  moreover have "map state_of_row (map (row_of ?id) (sort_key file_path states)) = sort_key file_path states"
    using assms(3) by (auto simp: list_all_iff state_of_row_of intro: map_idI)
  ultimately show ?thesis
    by (simp add: get_checkpoint_def db' sort_key_map comp_def)
qed

text \<open>A checkpoint that was stored is read back whole: its header as written, and its file states
  in the order of their paths.\<close>

theorem store_get_roundtrip:
  assumes "store_checkpoint db header states = (Inr u, db')" "id_unused db (checkpoint_id header)"
    and "list_all u32_fields states"
  shows "get_checkpoint db' (checkpoint_id header) = Inr (header, sort_key file_path states)"
  by (rule get_stored[OF assms])

definition sample_states :: "file_state list" where
  "sample_states =
     [\<lparr>file_path = ''/etc/ssh/sshd_config'', file_content = Some ''Port 22'', file_permissions = 33188,
       file_owner_uid = 0, file_owner_gid = 0, file_link_target = None, file_content_absence = None\<rparr>,
      \<lparr>file_path = ''/etc/login.defs'', file_content = None, file_permissions = 0,
       file_owner_uid = 0, file_owner_gid = 0, file_link_target = None, file_content_absence = None\<rparr>]"

definition sample_checkpoint :: checkpoint where
  "sample_checkpoint = \<lparr>checkpoint_id = ''cp_1'', checkpoint_name = ''ssh'', checkpoint_timestamp = 7,
     checkpoint_username = ''root'', checkpoint_signature = [], host_key = ''local''\<rparr>"

definition empty_database :: database where
  "empty_database = \<lparr>checkpoints_table = [], file_states_table = []\<rparr>"

lemma sample_facts: "id_unused empty_database cid" "list_all u32_fields sample_states"
  by (simp_all add: id_unused_def empty_database_def u32_fields_def sample_states_def)

theorem store_get_roundtrip_witness:
  "\<exists>db'. store_checkpoint empty_database sample_checkpoint sample_states = (Inr (), db')
     \<and> get_checkpoint db' ''cp_1'' = Inr (sample_checkpoint, sort_key file_path sample_states)"
proof -
  obtain db' where s: "store_checkpoint empty_database sample_checkpoint sample_states = (Inr (), db')"
    by (simp add: store_checkpoint_def empty_database_def)
  then show ?thesis
    using store_get_roundtrip[OF s sample_facts] by (simp add: sample_checkpoint_def)
qed

text \<open>A checkpoint the program has just created and signed verifies, whatever order its file
  states were captured in, provided the signer verifies what it signs.\<close>

theorem created_checkpoint_verifies:
  assumes "persist_signed_checkpoint c now db host name states = (Inr cid, db')"
    and "\<And>d s. sign c d = Inr s \<Longrightarrow> verify c d s = Inr ()"
    and "id_unused db (fresh_id now)" "list_all u32_fields states"
  shows "cid = fresh_id now \<and> verify_checkpoint c db' cid = Inr ()
    \<and> map_option host_key (find (\<lambda>k. checkpoint_id k = cid) (checkpoints_table db')) = Some host"
proof -
  obtain s where s: "generate_signature c (fresh_id now) name (now_seconds now) (user_name now) states = Inr s"
    using assms(1) by (auto simp: persist_signed_checkpoint_def split: sum.splits)
  let ?h = "\<lparr>checkpoint_id = fresh_id now, checkpoint_name = name, checkpoint_timestamp = now_seconds now,
     checkpoint_username = user_name now, checkpoint_signature = s, host_key = host\<rparr>"
  have st: "store_checkpoint db ?h states = (Inr (), db')" and cid: "cid = fresh_id now"
    using assms(1) s by (auto simp: persist_signed_checkpoint_def split: sum.splits prod.splits)
  have g: "get_checkpoint db' (fresh_id now) = Inr (?h, sort_key file_path states)"
    using get_stored[OF st] assms(3,4) by simp
  have "verify c (generate_digest c (fresh_id now) name (now_seconds now) (user_name now) states) s = Inr ()"
    using assms(2) s by (simp add: generate_signature_def)
  then have "verify_checkpoint c db' (fresh_id now) = Inr ()"
    by (simp add: verify_checkpoint_def g generate_digest_def digest_input_sorted)
  moreover have "find (\<lambda>k. checkpoint_id k = fresh_id now) (checkpoints_table db') = Some ?h"
    using g by (auto simp: get_checkpoint_def split: option.splits)
  ultimately show ?thesis using cid by simp
qed

definition sample_crypto :: crypto where
  "sample_crypto = \<lparr>sha256 = (\<lambda>d. d), sign = (\<lambda>d. Inr (0 # d)),
     verify = (\<lambda>d s. if s = 0 # d then Inr () else Inl (ConfigError ''Signature verification failed''))\<rparr>"

theorem created_checkpoint_verifies_witness:
  "\<exists>db'. persist_signed_checkpoint sample_crypto \<lparr>fresh_id = ''cp_1'', now_seconds = 7, user_name = ''root''\<rparr>
       empty_database ''local'' ''ssh'' sample_states = (Inr ''cp_1'', db')
     \<and> verify_checkpoint sample_crypto db' ''cp_1'' = Inr ()"
proof -
  let ?now = "\<lparr>fresh_id = ''cp_1'', now_seconds = 7, user_name = ''root''\<rparr>"
  have law: "\<And>d s. sign sample_crypto d = Inr s \<Longrightarrow> verify sample_crypto d s = Inr ()"
    by (auto simp: sample_crypto_def)
  obtain db' where p: "persist_signed_checkpoint sample_crypto ?now empty_database ''local'' ''ssh'' sample_states
      = (Inr ''cp_1'', db')"
    by (simp add: persist_signed_checkpoint_def generate_signature_def sample_crypto_def
        store_checkpoint_def empty_database_def)
  then show ?thesis
    using created_checkpoint_verifies[OF p law] sample_facts by simp
qed

text \<open>Deleting a checkpoint removes it and all of its file states and nothing else, so every
  other checkpoint reads as before and no row is orphaned; deleting one that does not exist fails
  and changes nothing.\<close>

theorem delete_exact:
  "(case delete_checkpoint db cid of
      (Inr _, db') \<Rightarrow> \<not> is_ok (get_checkpoint db' cid) \<and> id_unused db' cid
        \<and> (\<forall>other. other = cid \<or> get_checkpoint db' other = get_checkpoint db other)
        \<and> filter (is_orphan db') (file_states_table db')
            = filter (\<lambda>r. is_orphan db r \<and> row_checkpoint_id r \<noteq> cid) (file_states_table db)
    | (Inl _, db') \<Rightarrow> db' = db \<and> \<not> is_ok (get_checkpoint db cid))"
proof (cases "list_ex (\<lambda>c. checkpoint_id c = cid) (checkpoints_table db)")
  case False
  then have "find (\<lambda>c. checkpoint_id c = cid) (checkpoints_table db) = None"
    by (auto simp: find_None_iff list_ex_iff)
  with False show ?thesis by (simp add: delete_checkpoint_def get_checkpoint_def)
next
  case True
  let ?db' = "snd (delete_checkpoint db cid)"
  have find_other: "find (\<lambda>c. checkpoint_id c = other) (filter (\<lambda>c. checkpoint_id c \<noteq> cid) cs)
      = (if other = cid then None else find (\<lambda>c. checkpoint_id c = other) cs)" for other cs
    by (induction cs) auto
  have "get_checkpoint ?db' other = get_checkpoint db other" if "other \<noteq> cid" for other
  proof -
    have "filter (\<lambda>r. row_checkpoint_id r = other) (filter (\<lambda>r. row_checkpoint_id r \<noteq> cid) rows)
        = filter (\<lambda>r. row_checkpoint_id r = other) rows" for rows
      unfolding filter_filter using that by (intro filter_cong) auto
    then show ?thesis
      using that True by (intro get_checkpoint_cong) (simp_all add: delete_checkpoint_def find_other)
  qed
  moreover have "\<not> is_ok (get_checkpoint ?db' cid)"
    using True by (simp add: delete_checkpoint_def get_checkpoint_def find_other)
  moreover have "id_unused ?db' cid"
    using True by (simp add: delete_checkpoint_def id_unused_def list_ex_iff)
  moreover have "filter (is_orphan ?db') (file_states_table ?db')
      = filter (\<lambda>r. is_orphan db r \<and> row_checkpoint_id r \<noteq> cid) (file_states_table db)"
    using True by (auto simp: delete_checkpoint_def is_orphan_def list_ex_iff intro!: filter_cong)
  ultimately show ?thesis using True by (simp add: delete_checkpoint_def) blast
qed

text \<open>Clearing orphans removes exactly as many rows as were reported orphaned, leaves none, and
  changes no checkpoint that exists.\<close>

theorem orphan_removal_exact:
  "(let (removed, db') = remove_orphaned_file_states db in
     removed = orphan_rows (orphaned_file_states_of db)
   \<and> removed + length (file_states_table db') = length (file_states_table db)
   \<and> orphaned_file_states_of db' = \<lparr>orphan_rows = 0, orphan_checkpoints = 0\<rparr>
   \<and> checkpoints_table db' = checkpoints_table db
   \<and> (\<forall>cid. get_checkpoint db' cid = get_checkpoint db cid))"
proof -
  let ?db' = "snd (remove_orphaned_file_states db)"
  have o: "is_orphan ?db' r = is_orphan db r" for r
    by (simp add: is_orphan_def remove_orphaned_file_states_def)
  have "get_checkpoint ?db' cid = get_checkpoint db cid" for cid
  proof (rule get_checkpoint_cong)
    assume "list_ex (\<lambda>c. checkpoint_id c = cid) (checkpoints_table db)"
    then show "filter (\<lambda>r. row_checkpoint_id r = cid) (file_states_table ?db')
        = filter (\<lambda>r. row_checkpoint_id r = cid) (file_states_table db)"
      by (auto simp: remove_orphaned_file_states_def filter_filter is_orphan_def intro!: filter_cong)
  qed (simp add: remove_orphaned_file_states_def)
  moreover have "filter (is_orphan ?db') (file_states_table ?db') = []"
    unfolding filter_empty_conv o by (simp add: remove_orphaned_file_states_def)
  ultimately show ?thesis
    using sum_length_filter_compl[of "is_orphan db" "file_states_table db"]
    by (simp add: remove_orphaned_file_states_def orphaned_file_states_of_def Let_def case_prod_beta)
qed


lemma sort_key_single [simp]: "sort_key f [x] = [x]"
  by simp

lemma utf8_append [simp]: "utf8 (a @ b) = utf8 a @ utf8 b"
  by (simp add: utf8_def)

lemma get_checkpoint_retargeted:
  "get_checkpoint (db\<lparr>checkpoints_table := map (\<lambda>k. k\<lparr>host_key := h\<rparr>) (checkpoints_table db)\<rparr>) cid
   = (case get_checkpoint db cid of Inl e \<Rightarrow> Inl e | Inr (k, states) \<Rightarrow> Inr (k\<lparr>host_key := h\<rparr>, states))"
proof -
  have *: "find (\<lambda>k. checkpoint_id k = cid) (map (\<lambda>k. k\<lparr>host_key := h\<rparr>) ks)
      = map_option (\<lambda>k. k\<lparr>host_key := h\<rparr>) (find (\<lambda>k. checkpoint_id k = cid) ks)" for ks
    by (induction ks) auto
  show ?thesis
    unfolding get_checkpoint_def by (simp add: * split: option.splits)
qed

text \<open>What the signature does not cover: the host a checkpoint belongs to is outside the digest,
  so rewriting it leaves the checkpoint verifying, and because the fields are hashed without their
  lengths, moving text from a file's path to the start of its content, or from a checkpoint's name
  to its id, leaves the digest as it was, for every hash function.\<close>

theorem digest_blind_spots:
  "verify_checkpoint c (db\<lparr>checkpoints_table := map (\<lambda>k. k\<lparr>host_key := h\<rparr>) (checkpoints_table db)\<rparr>) cid
     = verify_checkpoint c db cid
   \<and> generate_digest c cid name t u
        [f\<lparr>file_path := p @ x, file_content := Some y\<rparr>]
     = generate_digest c cid name t u
        [f\<lparr>file_path := p, file_content := Some (x @ y)\<rparr>]
   \<and> generate_digest c (cid @ z) name t u states = generate_digest c cid (z @ name) t u states"
proof -
  have "verify_checkpoint c (db\<lparr>checkpoints_table := map (\<lambda>k. k\<lparr>host_key := h\<rparr>) (checkpoints_table db)\<rparr>) cid
     = verify_checkpoint c db cid"
    by (simp add: verify_checkpoint_def get_checkpoint_retargeted split: sum.splits prod.splits)
  then show ?thesis
    by (simp add: generate_digest_def digest_input_def file_state_bytes_def option_bytes_def)
qed

subsection \<open>The newest checkpoint of a name\<close>

lemma max_by_key_None: "max_by_key key xs = None \<longleftrightarrow> xs = []"
  by (induction xs) (auto split: option.splits)

lemma max_by_key_Some:
  "max_by_key key xs = Some x \<Longrightarrow> x \<in> set xs \<and> (\<forall>y\<in>set xs. key y \<le> key x)"
  by (induction xs arbitrary: x) (auto simp: max_by_key_None split: option.splits if_splits intro: order.trans less_imp_le)

lemma latest_named_sound:
  "k \<in> set (latest_named_for_host db hosts names) \<Longrightarrow>
     k \<in> set (checkpoints_table db) \<and> host_key k \<in> set hosts \<and> checkpoint_name k \<in> set names
     \<and> (\<forall>o'\<in>set (checkpoints_table db). host_key o' \<in> set hosts \<and> checkpoint_name o' = checkpoint_name k
          \<longrightarrow> checkpoint_timestamp o' \<le> checkpoint_timestamp k)"
  by (auto simp: latest_named_for_host_def select_latest_named_def set_filter_map list_checkpoints_def
      dest!: max_by_key_Some)

end
