(* ===== verification/Checkpoint_Rollback.thy ===== *)
theory Checkpoint_Rollback
  imports Checkpoint_Store "HOL-Library.Multiset"
begin

text \<open>
  Capturing a host's files into a checkpoint and restoring them: the rest of
  \<open>crates/hardener-state/src/manager.rs\<close>. Every operation that talks to the executor returns the
  next host state beside its result. The recursion of \<open>capture_directory_recursive\<close> follows the
  host's directories, so it takes fuel, and running out of it is \<open>None\<close>.
\<close>

unbundle bit_operations_syntax

subsection \<open>Capturing\<close>

definition host_bind ::
  "('e, 'a) result \<times> 'h \<Rightarrow> ('a \<Rightarrow> 'h \<Rightarrow> ('e, 'b) result \<times> 'h) \<Rightarrow> ('e, 'b) result \<times> 'h" where
  "host_bind m f = (case m of (Inl e, h) \<Rightarrow> (Inl e, h) | (Inr a, h) \<Rightarrow> f a h)"

definition SYMLINK_MODE :: nat where "SYMLINK_MODE = 41471"
definition FILE_TYPE_MASK :: nat where "FILE_TYPE_MASK = 61440"
definition DIRECTORY_TYPE_BITS :: nat where "DIRECTORY_TYPE_BITS = 16384"

datatype content_policy = Required | BestEffort

definition metadata_for_capture ::
  "('h, 'z) executor_scheme \<Rightarrow> 'h \<Rightarrow> string \<Rightarrow> (hardening_error, file_metadata) result" where
  "metadata_for_capture ex h path =
     map_err (\<lambda>e. SystemError OtherKind (host_error_text e)) (metadata_of ex h path)"

definition absent_state :: "string \<Rightarrow> file_state" where
  "absent_state path =
     \<lparr>file_path = path, file_content = None, file_permissions = 0, file_owner_uid = 0,
      file_owner_gid = 0, file_link_target = None, file_content_absence = None\<rparr>"

definition symlink_state :: "string \<Rightarrow> file_metadata \<Rightarrow> string \<Rightarrow> file_state" where
  "symlink_state path meta target =
     \<lparr>file_path = path, file_content = None, file_permissions = SYMLINK_MODE,
      file_owner_uid = uid meta, file_owner_gid = gid meta, file_link_target = Some target,
      file_content_absence = None\<rparr>"

definition link_target_of ::
  "('h, 'z) executor_scheme \<Rightarrow> 'h \<Rightarrow> string \<Rightarrow> (hardening_error, string option) result \<times> 'h" where
  "link_target_of ex h path =
     (case read_link ex h path of (r, h') \<Rightarrow>
        (map_err (\<lambda>e. ExecutorError (''Cannot tell whether '' @ path
           @ '' is a symlink, so it cannot be captured safely: '' @ host_error_text e)) r, h'))"

definition capture_single_file ::
  "('h, 'z) executor_scheme \<Rightarrow> 'h \<Rightarrow> string \<Rightarrow> content_policy \<Rightarrow>
   (hardening_error, file_state) result \<times> 'h" where
  "capture_single_file ex h path policy =
     host_bind (metadata_for_capture ex h path, h) (\<lambda>meta h.
       if \<not> exists meta then (Inr (absent_state path), h)
       else host_bind (link_target_of ex h path) (\<lambda>link h.
         case link of
           Some target \<Rightarrow> (Inr (symlink_state path meta target), h)
         | None \<Rightarrow>
             let state = (\<lambda>content absence. \<lparr>file_path = path, file_content = content,
                   file_permissions = mode meta, file_owner_uid = uid meta, file_owner_gid = gid meta,
                   file_link_target = None, file_content_absence = absence\<rparr>)
             in (case read_file ex h path of
                   Inr content \<Rightarrow> (Inr (state (Some content) None), h)
                 | Inl e \<Rightarrow>
                     (case policy of
                        Required \<Rightarrow> (Inl (ExecutorError (''Cannot checkpoint '' @ path
                          @ '': its content could not be read ('' @ host_error_text e
                          @ ''). Without that content, a later rollback could not restore the file, so continuing would leave it unprotected.'')), h)
                      | BestEffort \<Rightarrow> (Inr (state None (Some ReadFailed)), h)))))"

definition capture_directory_entry ::
  "('h, 'z) executor_scheme \<Rightarrow> 'h \<Rightarrow> string \<Rightarrow> (hardening_error, file_state) result \<times> 'h" where
  "capture_directory_entry ex h path =
     host_bind (metadata_for_capture ex h path, h) (\<lambda>meta h.
       if \<not> exists meta then (Inr (absent_state path), h)
       else host_bind (link_target_of ex h path) (\<lambda>link h.
         (Inr \<lparr>file_path = path, file_content = None, file_permissions = mode meta,
            file_owner_uid = uid meta, file_owner_gid = gid meta, file_link_target = link,
            file_content_absence = Some ByDesign\<rparr>, h)))"

text \<open>The loop over a directory's children; \<open>recurse\<close> captures a directory.\<close>

fun capture_children ::
  "('h, 'z) executor_scheme \<Rightarrow>
   ('h \<Rightarrow> string \<Rightarrow> ((hardening_error, file_state list) result \<times> 'h) option) \<Rightarrow>
   'h \<Rightarrow> string list \<Rightarrow> ((hardening_error, file_state list) result \<times> 'h) option" where
  "capture_children ex recurse h [] = Some (Inr [], h)"
| "capture_children ex recurse h (child # children) =
     (case metadata_for_capture ex h child of
        Inl e \<Rightarrow> Some (Inl e, h)
      | Inr child_meta \<Rightarrow>
          (case (if is_dir child_meta then recurse h child
                 else Some (host_bind (capture_single_file ex h child BestEffort) (\<lambda>s h. (Inr [s], h)))) of
             None \<Rightarrow> None
           | Some (Inl e, h') \<Rightarrow> Some (Inl e, h')
           | Some (Inr states, h') \<Rightarrow>
               (case capture_children ex recurse h' children of
                  None \<Rightarrow> None
                | Some (Inl e, h'') \<Rightarrow> Some (Inl e, h'')
                | Some (Inr rest, h'') \<Rightarrow> Some (Inr (states @ rest), h''))))"

primrec capture_directory_recursive ::
  "nat \<Rightarrow> ('h, 'z) executor_scheme \<Rightarrow> 'h \<Rightarrow> string \<Rightarrow>
   ((hardening_error, file_state list) result \<times> 'h) option" where
  "capture_directory_recursive 0 ex h path = None"
| "capture_directory_recursive (Suc fuel) ex h path =
     (case capture_directory_entry ex h path of
        (Inl e, h') \<Rightarrow> Some (Inl e, h')
      | (Inr entry, h') \<Rightarrow>
          (case read_dir ex h' path of
             Inl e \<Rightarrow> Some (Inl (SystemError OtherKind (host_error_text e)), h')
           | Inr children \<Rightarrow>
               map_option (\<lambda>(r, h''). (case r of Inl e \<Rightarrow> Inl e | Inr states \<Rightarrow> Inr (entry # states), h''))
                 (capture_children ex (capture_directory_recursive fuel ex) h' children)))"

definition capture_file_state ::
  "nat \<Rightarrow> ('h, 'z) executor_scheme \<Rightarrow> 'h \<Rightarrow> string \<Rightarrow>
   ((hardening_error, file_state list) result \<times> 'h) option" where
  "capture_file_state fuel ex h path =
     (case metadata_for_capture ex h path of
        Inl e \<Rightarrow> Some (Inl e, h)
      | Inr meta \<Rightarrow>
          if \<not> exists meta then Some (Inr [absent_state path], h)
          else (case link_target_of ex h path of
             (Inl e, h') \<Rightarrow> Some (Inl e, h')
           | (Inr (Some target), h') \<Rightarrow> Some (Inr [symlink_state path meta target], h')
           | (Inr None, h') \<Rightarrow>
               if is_dir meta then capture_directory_recursive fuel ex h' path
               else Some (host_bind (capture_single_file ex h' path Required) (\<lambda>s h. (Inr [s], h)))))"

fun capture_paths ::
  "nat \<Rightarrow> ('h, 'z) executor_scheme \<Rightarrow> 'h \<Rightarrow> string list \<Rightarrow>
   ((hardening_error, file_state list) result \<times> 'h) option" where
  "capture_paths fuel ex h [] = Some (Inr [], h)"
| "capture_paths fuel ex h (path # paths) =
     (case capture_file_state fuel ex h path of
        None \<Rightarrow> None
      | Some (Inl e, h') \<Rightarrow> Some (Inl e, h')
      | Some (Inr states, h') \<Rightarrow>
          map_option (\<lambda>(r, h''). (case r of Inl e \<Rightarrow> Inl e | Inr rest \<Rightarrow> Inr (states @ rest), h''))
            (capture_paths fuel ex h' paths))"

definition create_checkpoint ::
  "nat \<Rightarrow> crypto \<Rightarrow> moment \<Rightarrow> ('h, 'z) executor_scheme \<Rightarrow> 'h \<Rightarrow> database \<Rightarrow> string \<Rightarrow> string list \<Rightarrow>
   ((hardening_error, string) result \<times> 'h \<times> database) option" where
  "create_checkpoint fuel c now ex h db name paths =
     (case capture_paths fuel ex h paths of
        None \<Rightarrow> None
      | Some (Inl e, h') \<Rightarrow> Some (Inl e, h', db)
      | Some (Inr states, h') \<Rightarrow>
          (case persist_signed_checkpoint c now db (host_key_for ex) name states of
             (r, db') \<Rightarrow> Some (r, h', db')))"

fun capture_entries ::
  "('h, 'z) executor_scheme \<Rightarrow> 'h \<Rightarrow> string list \<Rightarrow> (hardening_error, file_state list) result \<times> 'h" where
  "capture_entries ex h [] = (Inr [], h)"
| "capture_entries ex h (path # paths) =
     host_bind (capture_directory_entry ex h path) (\<lambda>s h.
       host_bind (capture_entries ex h paths) (\<lambda>rest h. (Inr (s # rest), h)))"

definition create_checkpoint_metadata_only ::
  "crypto \<Rightarrow> moment \<Rightarrow> ('h, 'z) executor_scheme \<Rightarrow> 'h \<Rightarrow> database \<Rightarrow> string \<Rightarrow> string list \<Rightarrow>
   (hardening_error, string) result \<times> 'h \<times> database" where
  "create_checkpoint_metadata_only c now ex h db name paths =
     (case capture_entries ex h paths of
        (Inl e, h') \<Rightarrow> (Inl e, h', db)
      | (Inr states, h') \<Rightarrow>
          (case persist_signed_checkpoint c now db (host_key_for ex) name states of
             (r, db') \<Rightarrow> (r, h', db')))"

text \<open>One file state of \<open>snapshot_current_state\<close>, and the loop over the reference states.\<close>

definition snapshot_state ::
  "('h, 'z) executor_scheme \<Rightarrow> 'h \<Rightarrow> file_state \<Rightarrow> (hardening_error, file_state) result \<times> 'h" where
  "snapshot_state ex h ref =
     (let path = file_path ref in
      if file_content ref \<noteq> None then
        host_bind (metadata_for_capture ex h path, h) (\<lambda>meta h.
          if exists meta \<and> is_file meta then
            (case read_file ex h path of
               Inl e \<Rightarrow> (Inl (ExecutorError (''Cannot snapshot current state of '' @ path
                 @ '' before rollback: '' @ host_error_text e)), h)
             | Inr content \<Rightarrow>
                 host_bind (link_target_of ex h path) (\<lambda>link h.
                   (Inr \<lparr>file_path = path,
                      file_content = (if link = None then Some content else None),
                      file_permissions = (if link \<noteq> None then SYMLINK_MODE else mode meta),
                      file_owner_uid = uid meta, file_owner_gid = gid meta,
                      file_link_target = link, file_content_absence = None\<rparr>, h)))
          else capture_directory_entry ex h path)
      else capture_directory_entry ex h path)"

fun snapshot_states ::
  "('h, 'z) executor_scheme \<Rightarrow> 'h \<Rightarrow> file_state list \<Rightarrow> (hardening_error, file_state list) result \<times> 'h" where
  "snapshot_states ex h [] = (Inr [], h)"
| "snapshot_states ex h (ref # refs) =
     host_bind (snapshot_state ex h ref) (\<lambda>s h.
       host_bind (snapshot_states ex h refs) (\<lambda>rest h. (Inr (s # rest), h)))"

definition snapshot_current_state ::
  "crypto \<Rightarrow> moment \<Rightarrow> ('h, 'z) executor_scheme \<Rightarrow> 'h \<Rightarrow> database \<Rightarrow> string \<Rightarrow> file_state list \<Rightarrow>
   (hardening_error, string) result \<times> 'h \<times> database" where
  "snapshot_current_state c now ex h db name refs =
     (case snapshot_states ex h refs of
        (Inl e, h') \<Rightarrow> (Inl e, h', db)
      | (Inr states, h') \<Rightarrow>
          (case persist_signed_checkpoint c now db (host_key_for ex) name states of
             (r, db') \<Rightarrow> (r, h', db')))"

subsection \<open>Restoring\<close>

definition restore_command_refusal ::
  "('h, 'z) executor_scheme \<Rightarrow> 'h \<Rightarrow> string \<Rightarrow> string list \<Rightarrow> string \<Rightarrow> string option \<times> 'h" where
  "restore_command_refusal ex h program args path =
     (let refusal = (\<lambda>detail. Some (program @ '' '' @ path @ '': '' @ detail)) in
      case execute_command ex h program args of
        (Inr out, h') \<Rightarrow>
          (if command_success out then None
           else if trim (stderr out) = [] then refusal (''exited '' @ show_int (exit_code out))
           else refusal (trim (stderr out)), h')
      | (Inl e, h') \<Rightarrow> (refusal (host_error_text e), h'))"

definition ensure_directory ::
  "('h, 'z) executor_scheme \<Rightarrow> 'h \<Rightarrow> string \<Rightarrow> string option \<times> 'h" where
  "ensure_directory ex h dir =
     (if path_exists ex h dir = Inr True then (None, h)
      else restore_command_refusal ex h ''mkdir'' [''-p'', dir] dir)"

definition within_dirs :: "string list \<Rightarrow> string \<Rightarrow> bool" where
  "within_dirs prefixes candidate = list_ex (\<lambda>p. starts_with p candidate) prefixes"

definition rollback_target_refusal ::
  "string list \<Rightarrow> ('h, 'z) executor_scheme \<Rightarrow> 'h \<Rightarrow> file_state \<Rightarrow> string option \<times> 'h" where
  "rollback_target_refusal prefixes ex h f =
     (let path = file_path f in
      if \<not> starts_with ''/'' path \<or> ''..'' \<in> set (path_names path) \<or> \<not> within_dirs prefixes path then
        (Some (''Rollback path outside allowed directories: '' @ path), h)
      else if file_link_target f \<noteq> None then (None, h)
      else if recorded_absent f then (None, h)
      else (case link_target_as_writer ex h path of
              (Inr None, h') \<Rightarrow> (None, h')
            | (Inr (Some resolved), h') \<Rightarrow>
                (if within_dirs prefixes resolved then None
                 else Some (''Rollback symlink '' @ path @ '' resolves outside allowed directories''), h')
            | (Inl e, h') \<Rightarrow>
                (Some (''Rollback target cannot be determined to be safe to write: '' @ path @ '': ''
                   @ host_error_text e), h')))"

type_synonym restore_outcome = "file_restore_action \<times> (hardening_error, unit) result"

definition refusal_result :: "string option \<Rightarrow> (hardening_error, unit) result" where
  "refusal_result r = (case r of None \<Rightarrow> Inr () | Some refusal \<Rightarrow> Inl (ExecutorError refusal))"

definition remove_or_refuse ::
  "('h, 'z) executor_scheme \<Rightarrow> 'h \<Rightarrow> string \<Rightarrow> restore_outcome \<times> 'h" where
  "remove_or_refuse ex h path =
     (if path \<notin> set UNDELETABLE_ROLLBACK_PATHS then
        (case restore_command_refusal ex h ''rm'' [''-f'', path] path of
           (refusal, h') \<Rightarrow> ((Removed, refusal_result refusal), h'))
      else (case path_exists ex h path of
              Inr False \<Rightarrow> ((RestoreSkipped, Inr ()), h)
            | Inr True \<Rightarrow> ((RestoreSkipped, Inl (RollbackError (''Refusing to delete '' @ path
                @ '': the checkpoint recorded this path as absent, but it exists now. It may have arrived from a package installed after the checkpoint was taken; this tool will not delete it.''))), h)
            | Inl e \<Rightarrow> ((RestoreSkipped, Inl (RollbackError (''Refusing to delete '' @ path
                @ '': could not determine whether it exists: '' @ host_error_text e))), h)))"

definition restore_symlink ::
  "('h, 'z) executor_scheme \<Rightarrow> 'h \<Rightarrow> string \<Rightarrow> string \<Rightarrow> restore_outcome \<times> 'h" where
  "restore_symlink ex h path target =
     (let parent_refusal = (case parent_path path of
            Some parent \<Rightarrow> ensure_directory ex h parent
          | None \<Rightarrow> (None, h))
      in case parent_refusal of
           (Some refusal, h') \<Rightarrow> ((Restored, Inl (ExecutorError refusal)), h')
         | (None, h') \<Rightarrow>
             (case restore_command_refusal ex h' ''ln'' [''-sfn'', target, path] path of
                (refusal, h'') \<Rightarrow> ((Restored, refusal_result refusal), h'')))"

text \<open>The mode and the owner, both attempted; the first refusal is the result.\<close>

definition restore_metadata ::
  "('h, 'z) executor_scheme \<Rightarrow> 'h \<Rightarrow> file_state \<Rightarrow> file_restore_action \<Rightarrow> restore_outcome \<times> 'h" where
  "restore_metadata ex h f action =
     (let path = file_path f;
          owner = show_radix 10 (file_owner_uid f) @ '':'' @ show_radix 10 (file_owner_gid f)
      in case restore_command_refusal ex h ''chmod'' [restore_mode_string f, path] path of
           (chmod_warn, h') \<Rightarrow>
             (case restore_command_refusal ex h' ''chown'' [owner, path] path of
                (chown_warn, h'') \<Rightarrow>
                  (let meta_result = (case (chmod_warn, chown_warn) of
                         (Some w, _) \<Rightarrow> Inl (ExecutorError w)
                       | (None, Some w) \<Rightarrow> Inl (ExecutorError w)
                       | (None, None) \<Rightarrow> Inr ())
                   in if is_ok meta_result \<and> file_content_absence f = Some ReadFailed then
                        ((action, Inl (ExecutorError (path
                          @ '': permissions and owner were restored, but its content was not, because the checkpoint could not read it when it was taken. The file's contents are whatever the apply left there.''))), h'')
                      else ((action, meta_result), h''))))"

definition restore_file_state_tracked ::
  "string list \<Rightarrow> ('h, 'z) executor_scheme \<Rightarrow> 'h \<Rightarrow> file_state \<Rightarrow> restore_outcome \<times> 'h" where
  "restore_file_state_tracked prefixes ex h f =
     (case rollback_target_refusal prefixes ex h f of
        (Some reason, h) \<Rightarrow> ((RestoreSkipped, Inl (ConfigError reason)), h)
      | (None, h) \<Rightarrow>
          (case file_link_target f of
             Some target \<Rightarrow> restore_symlink ex h (file_path f) target
           | None \<Rightarrow>
               (let path = file_path f;
                    action = (case file_content f of
                        Some _ \<Rightarrow> Restored
                      | None \<Rightarrow> if recorded_absent f then Removed else PermissionsRestored)
                in if action = Removed then remove_or_refuse ex h path
                   else (case (if file_permissions f AND FILE_TYPE_MASK = DIRECTORY_TYPE_BITS
                               then ensure_directory ex h path else (None, h)) of
                     (Some refusal, h) \<Rightarrow> ((action, Inl (ExecutorError refusal)), h)
                   | (None, h) \<Rightarrow>
                       (case file_content f of
                          None \<Rightarrow> restore_metadata ex h f action
                        | Some content \<Rightarrow>
                            (case write_file ex h path content of
                               (Inl e, h) \<Rightarrow> ((action, Inl (ExecutorError (''Failed to write '' @ path
                                   @ '': '' @ host_error_text e))), h)
                             | (Inr _, h) \<Rightarrow> restore_metadata ex h f action))))))"

subsection \<open>Rollback\<close>

fun split_refused ::
  "string list \<Rightarrow> ('h, 'z) executor_scheme \<Rightarrow> 'h \<Rightarrow> file_state list \<Rightarrow>
   file_restore_result list \<times> file_state list \<times> 'h" where
  "split_refused prefixes ex h [] = ([], [], h)"
| "split_refused prefixes ex h (f # fs) =
     (case rollback_target_refusal prefixes ex h f of
        (Some reason, h') \<Rightarrow>
          (case split_refused prefixes ex h' fs of
             (results, restorable, h'') \<Rightarrow>
               (\<lparr>restore_path = file_path f, restore_action = RestoreSkipped, restore_success = False,
                 restore_error = Some reason\<rparr> # results, restorable, h''))
      | (None, h') \<Rightarrow>
          (case split_refused prefixes ex h' fs of
             (results, restorable, h'') \<Rightarrow> (results, f # restorable, h'')))"

fun restore_all ::
  "string list \<Rightarrow> ('h, 'z) executor_scheme \<Rightarrow> 'h \<Rightarrow> file_state list \<Rightarrow> file_restore_result list \<times> 'h" where
  "restore_all prefixes ex h [] = ([], h)"
| "restore_all prefixes ex h (f # fs) =
     (case restore_file_state_tracked prefixes ex h f of
        ((action, r), h') \<Rightarrow>
          (case restore_all prefixes ex h' fs of
             (results, h'') \<Rightarrow>
               (\<lparr>restore_path = file_path f, restore_action = action, restore_success = is_ok r,
                 restore_error = map_option error_text (result_err r)\<rparr> # results, h'')))"

definition rollback ::
  "crypto \<Rightarrow> string list \<Rightarrow> moment \<Rightarrow> ('h, 'z) executor_scheme \<Rightarrow> 'h \<Rightarrow> database \<Rightarrow> string \<Rightarrow>
   (hardening_error, rollback_result) result \<times> 'h \<times> database" where
  "rollback c prefixes now ex h db cid =
     (case get_checkpoint db cid of
        Inl e \<Rightarrow> (Inl e, h, db)
      | Inr (checkpoint, states) \<Rightarrow>
          if host_key checkpoint \<noteq> host_key_for ex then
            (Inl (ConfigError (''Checkpoint '' @ cid @ '' belongs to host '' @ quoted (host_key checkpoint)
               @ '', but the current target is '' @ quoted (host_key_for ex)
               @ ''. Refusing to restore one host's state onto another.'')), h, db)
          else (case verify c (generate_digest c (checkpoint_id checkpoint) (checkpoint_name checkpoint)
                    (checkpoint_timestamp checkpoint) (checkpoint_username checkpoint) states)
                  (checkpoint_signature checkpoint) of
             Inl e \<Rightarrow> (Inl e, h, db)
           | Inr _ \<Rightarrow>
               (case split_refused prefixes ex h states of (refused, restorable, h) \<Rightarrow>
                  if restorable = [] then
                    (Inl (ConfigError (''Rollback aborted: no path in checkpoint '' @ cid
                       @ '' may be restored. '' @ join ''; '' (filter_map restore_error refused))), h, db)
                  else (case snapshot_current_state c now ex h db
                          (''Before rollback to '' @ quoted (checkpoint_name checkpoint)) restorable of
                     (Inl e, h, db) \<Rightarrow> (Inl e, h, db)
                   | (Inr _, h, db) \<Rightarrow>
                       (case restore_all prefixes ex h restorable of (results, h) \<Rightarrow>
                          (Inr \<lparr>rollback_checkpoint_id = cid,
                             rollback_checkpoint_name = checkpoint_name checkpoint,
                             rollback_success = (refused = [] \<and> list_all restore_success results),
                             rollback_files = refused @ results, rollback_reloads = [],
                             rollback_divergences = []\<rparr>, h, db))))))"

definition DEFAULT_ROLLBACK_PREFIXES :: "string list" where
  "DEFAULT_ROLLBACK_PREFIXES =
     [''/etc/ssh'', ''/etc/sysctl'', ''/etc/security'', ''/etc/pam.d'', ''/etc/audit'', ''/etc/apparmor'',
      ''/etc/selinux'', ''/etc/login.defs'', ''/etc/nftables'', ''/etc/linux-hardener/nftables'',
      ''/etc/sysconfig/nftables.conf'', ''/etc/firewalld'', ''/etc/ufw'', ''/etc/sudoers'', ''/etc/passwd'',
      ''/etc/group'', ''/etc/shadow'', ''/etc/gshadow'', ''/etc/systemd/system'', ''/root'', ''/boot'']"


subsection \<open>Where a rollback may act\<close>

definition path_admitted :: "string list \<Rightarrow> string \<Rightarrow> bool" where
  "path_admitted prefixes path =
     (starts_with ''/'' path \<and> ''..'' \<notin> set (path_names path) \<and> within_dirs prefixes path)"

text \<open>The commands of a rollback: each names its path last.\<close>

definition run_admitted :: "string list \<Rightarrow> string \<times> string list \<Rightarrow> bool" where
  "run_admitted prefixes run =
     (case run of (program, args) \<Rightarrow>
        if program = ''rm'' then
          length args = 2 \<and> hd args = ''-f'' \<and> path_admitted prefixes (last args)
            \<and> last args \<notin> set UNDELETABLE_ROLLBACK_PATHS
        else if program = ''ln'' then
          length args = 3 \<and> hd args = ''-sfn'' \<and> path_admitted prefixes (last args)
        else if program = ''mkdir'' then
          length args = 2 \<and> hd args = ''-p'' \<and> (path_admitted prefixes (last args)
            \<or> (\<exists>path. path_admitted prefixes path \<and> parent_path path = Some (last args)))
        else program \<in> {''chmod'', ''chown''} \<and> length args = 2 \<and> path_admitted prefixes (last args))"

lemma run_admitted_simps [simp]:
  "run_admitted prefixes (''rm'', [''-f'', path]) =
     (path_admitted prefixes path \<and> path \<notin> set UNDELETABLE_ROLLBACK_PATHS)"
  "run_admitted prefixes (''ln'', [''-sfn'', target, path]) = path_admitted prefixes path"
  "run_admitted prefixes (''chmod'', [m, path]) = path_admitted prefixes path"
  "run_admitted prefixes (''chown'', [m, path]) = path_admitted prefixes path"
  "run_admitted prefixes (''mkdir'', [''-p'', path]) =
     (path_admitted prefixes path \<or> (\<exists>p. path_admitted prefixes p \<and> parent_path p = Some path))"
  by (simp_all add: run_admitted_def)

definition write_admitted :: "string list \<Rightarrow> string \<times> string \<Rightarrow> bool" where
  "write_admitted prefixes w = path_admitted prefixes (fst w)"

lemma write_admitted_simp [simp]: "write_admitted prefixes (path, content) = path_admitted prefixes path"
  by (simp add: write_admitted_def)

lemma refusal_None_admits:
  "rollback_target_refusal prefixes ex h f = (None, h') \<Longrightarrow> path_admitted prefixes (file_path f)"
  by (auto simp: rollback_target_refusal_def path_admitted_def Let_def split: if_splits)

context recorded_effects
begin

lemma restore_command_confined:
  "restore_command_refusal ex h program args path = (r, h') \<Longrightarrow> R (program, args) \<Longrightarrow> confined W R h h'"
  by (auto simp: restore_command_refusal_def Let_def split: prod.splits sum.splits if_splits
      intro: run_confined)

lemma ensure_directory_confined:
  "ensure_directory ex h dir = (r, h') \<Longrightarrow> R (''mkdir'', [''-p'', dir]) \<Longrightarrow> confined W R h h'"
  by (auto simp: ensure_directory_def split: if_splits intro: restore_command_confined)

lemma refusal_confined: "rollback_target_refusal prefixes ex h f = (r, h') \<Longrightarrow> confined W R h h'"
  by (auto simp: rollback_target_refusal_def Let_def
      split: if_splits prod.splits sum.splits option.splits intro: link_target_confined)

lemma link_target_of_confined: "link_target_of ex h path = (r, h') \<Longrightarrow> confined W R h h'"
  by (auto simp: link_target_of_def split: prod.splits intro: read_link_confined)

lemma host_bind_confined:
  assumes "host_bind m f = (r, h')" and "confined W R h (snd m)"
    and "\<And>a h1. m = (Inr a, h1) \<Longrightarrow> confined W R h1 (snd (f a h1))"
  shows "confined W R h h'"
  using assms
  by (cases m; cases "fst m") (auto simp: host_bind_def intro: confined_trans)

lemma remove_confined:
  "remove_or_refuse ex h path = (r, h') \<Longrightarrow> path_admitted prefixes path
     \<Longrightarrow> confined W (run_admitted prefixes) h h'"
  by (auto simp: remove_or_refuse_def split: if_splits prod.splits sum.splits bool.splits
      intro: restore_command_confined)

lemma restore_symlink_confined:
  assumes "restore_symlink ex h path target = (r, h')" "path_admitted prefixes path"
  shows "confined W (run_admitted prefixes) h h'"
proof -
  obtain pr h1 where p: "(case parent_path path of Some parent \<Rightarrow> ensure_directory ex h parent
      | None \<Rightarrow> (None, h)) = (pr, h1)" by fastforce
  have 1: "confined W (run_admitted prefixes) h h1"
    using p assms(2) by (auto split: option.splits intro!: ensure_directory_confined)
  show ?thesis
  proof (cases pr)
    case None
    obtain lr h2 where l: "restore_command_refusal ex h1 ''ln'' [''-sfn'', target, path] path = (lr, h2)"
      by fastforce
    have "confined W (run_admitted prefixes) h1 h2"
      using restore_command_confined[OF l] assms(2) by simp
    with 1 show ?thesis
      using assms(1) by (auto simp: restore_symlink_def Let_def p None l intro: confined_trans)
  qed (use assms(1) 1 in \<open>simp add: restore_symlink_def p\<close>)
qed

lemma restore_metadata_confined:
  assumes "restore_metadata ex h f action = (r, h')" "path_admitted prefixes (file_path f)"
  shows "confined W (run_admitted prefixes) h h'"
proof -
  let ?owner = "show_radix 10 (file_owner_uid f) @ '':'' @ show_radix 10 (file_owner_gid f)"
  obtain w1 h1 where c1: "restore_command_refusal ex h ''chmod'' [restore_mode_string f, file_path f]
      (file_path f) = (w1, h1)" by fastforce
  obtain w2 h2 where c2: "restore_command_refusal ex h1 ''chown'' [?owner, file_path f]
      (file_path f) = (w2, h2)" by fastforce
  have "confined W (run_admitted prefixes) h h1" "confined W (run_admitted prefixes) h1 h2"
    using restore_command_confined[OF c1] restore_command_confined[OF c2] assms(2) by simp_all
  moreover have "h' = h2"
    using assms(1) by (auto simp: restore_metadata_def Let_def c1 c2[simplified] split: if_splits)
  ultimately show ?thesis by (auto intro: confined_trans)
qed

lemma restore_tracked_confined:
  assumes "restore_file_state_tracked prefixes ex h f = (r, h')"
  shows "confined (write_admitted prefixes) (run_admitted prefixes) h h'"
proof -
  let ?C = "confined (write_admitted prefixes) (run_admitted prefixes)"
  obtain rr h1 where r: "rollback_target_refusal prefixes ex h f = (rr, h1)" by fastforce
  have 1: "?C h h1" using refusal_confined[OF r] .
  show ?thesis
  proof (cases rr)
    case (Some reason)
    with assms r 1 show ?thesis by (simp add: restore_file_state_tracked_def)
  next
    case None
    note adm = refusal_None_admits[OF r[unfolded None]]
    have "?C h1 h'"
    proof (cases "file_link_target f")
      case (Some target)
      then show ?thesis
        using assms r None adm by (simp add: restore_file_state_tracked_def restore_symlink_confined)
    next
      case link: None
      define action where "action = (case file_content f of Some _ \<Rightarrow> Restored
          | None \<Rightarrow> if recorded_absent f then Removed else PermissionsRestored)"
      show ?thesis
      proof (cases "action = Removed")
        case True
        then show ?thesis
          using assms r None link adm
          by (simp add: restore_file_state_tracked_def action_def[symmetric] remove_confined)
      next
        case False
        obtain dr h2 where d: "(if file_permissions f AND FILE_TYPE_MASK = DIRECTORY_TYPE_BITS
            then ensure_directory ex h1 (file_path f) else (None, h1)) = (dr, h2)" by fastforce
        have 2: "?C h1 h2"
          using d adm by (auto split: if_splits intro!: ensure_directory_confined)
        note eq = assms[unfolded restore_file_state_tracked_def Let_def r None prod.case option.case link
            action_def[symmetric] if_not_P[OF False] d]
        have "?C h2 h'" if "dr = None"
        proof (cases "file_content f")
          case None
          with eq that adm show ?thesis by (simp add: restore_metadata_confined)
        next
          case (Some content)
          obtain wr h3 where w: "write_file ex h2 (file_path f) content = (wr, h3)" by fastforce
          have "?C h2 h3" using write_confined[OF w] adm by simp
          moreover have "h3 = h' \<or> ?C h3 h'"
            using eq that adm Some w by (cases wr) (auto intro: restore_metadata_confined)
          ultimately show ?thesis by (auto intro: confined_trans)
        qed
        moreover have "h2 = h'" if "dr \<noteq> None" using eq that by auto
        ultimately show ?thesis using 2 by (cases dr) (auto intro: confined_trans)
      qed
    qed
    with 1 show ?thesis by (rule confined_trans)
  qed
qed

lemma split_refused_confined: "split_refused prefixes ex h fs = (rs, keep, h') \<Longrightarrow> confined W R h h'"
proof (induction fs arbitrary: h rs keep h')
  case (Cons f fs)
  obtain r h1 where r: "rollback_target_refusal prefixes ex h f = (r, h1)" by fastforce
  obtain rs' keep' h2 where s: "split_refused prefixes ex h1 fs = (rs', keep', h2)" by (metis surj_pair)
  have "h2 = h'" using Cons.prems r s by (cases r) auto
  then show ?case using refusal_confined[OF r] Cons.IH[OF s] by (auto intro: confined_trans)
qed simp

lemma restore_all_confined:
  "restore_all prefixes ex h fs = (rs, h') \<Longrightarrow>
     confined (write_admitted prefixes) (run_admitted prefixes) h h'"
proof (induction fs arbitrary: h rs h')
  case (Cons f fs)
  obtain a r h1 where f: "restore_file_state_tracked prefixes ex h f = ((a, r), h1)" by (metis surj_pair)
  obtain rs' h2 where s: "restore_all prefixes ex h1 fs = (rs', h2)" by fastforce
  have "h2 = h'" using Cons.prems f s by auto
  then show ?case using restore_tracked_confined[OF f] Cons.IH[OF s] by (auto intro: confined_trans)
qed simp

lemma capture_entry_confined: "capture_directory_entry ex h path = (r, h') \<Longrightarrow> confined W R h h'"
  unfolding capture_directory_entry_def
  by (erule host_bind_confined)
     (auto simp: metadata_for_capture_def split_beta host_bind_def split: if_splits sum.splits
       intro: link_target_of_confined[OF surjective_pairing])

lemma snapshot_state_confined: "snapshot_state ex h f = (r, h') \<Longrightarrow> confined W R h h'"
  unfolding snapshot_state_def Let_def
  by (auto split: if_splits elim!: host_bind_confined intro: capture_entry_confined
      simp: host_bind_def split_beta split: sum.splits
      intro!: link_target_of_confined[OF surjective_pairing] capture_entry_confined[OF surjective_pairing])

lemma snapshot_states_confined: "snapshot_states ex h fs = (r, h') \<Longrightarrow> confined W R h h'"
proof (induction fs arbitrary: h r h')
  case (Cons f fs)
  obtain s h1 where s: "snapshot_state ex h f = (s, h1)" by fastforce
  obtain t h2 where t: "snapshot_states ex h1 fs = (t, h2)" by fastforce
  have "h' = h1 \<or> h' = h2" using Cons.prems s t by (cases s; cases t) (auto simp: host_bind_def)
  then show ?case
    using snapshot_state_confined[OF s, of W R] Cons.IH[OF t] by (auto intro: confined_trans)
qed simp


lemma snapshot_current_confined:
  "snapshot_current_state c now ex h db name refs = (r, h', db') \<Longrightarrow> confined W R h h'"
  by (auto simp: snapshot_current_state_def split: prod.splits sum.splits intro: snapshot_states_confined)

end

subsection \<open>The stages of a rollback\<close>

lemma persist_error: "persist_signed_checkpoint c now db host name states = (Inl e, db') \<Longrightarrow> db' = db"
  by (auto simp: persist_signed_checkpoint_def store_checkpoint_def split: sum.splits prod.splits if_splits)

lemma snapshot_current_error:
  "snapshot_current_state c now ex h db name refs = (Inl e, h', db') \<Longrightarrow> db' = db"
  by (auto simp: snapshot_current_state_def split: prod.splits sum.splits dest: persist_error)

lemma restore_all_paths: "restore_all prefixes ex h fs = (rs, h') \<Longrightarrow> map restore_path rs = map file_path fs"
  by (induction fs arbitrary: h rs h') (auto split: prod.splits)

lemma restore_all_errors:
  "restore_all prefixes ex h fs = (rs, h') \<Longrightarrow> list_all (\<lambda>r. restore_success r = (restore_error r = None)) rs"
  by (induction fs arbitrary: h rs h') (auto split: prod.splits sum.splits simp: is_ok_def result_err_def)

lemma split_refused_parts:
  "split_refused prefixes ex h fs = (rs, keep, h') \<Longrightarrow>
     mset (map restore_path rs) + mset (map file_path keep) = mset (map file_path fs)
   \<and> list_all (\<lambda>r. restore_action r = RestoreSkipped \<and> \<not> restore_success r \<and> restore_error r \<noteq> None) rs
   \<and> set keep \<subseteq> set fs \<and> (distinct (map file_path fs) \<longrightarrow> distinct (map file_path keep))
   \<and> list_all (\<lambda>f. path_admitted prefixes (file_path f)) keep"
  by (induction fs arbitrary: h rs keep h')
     (force split: prod.splits option.splits dest!: refusal_None_admits)+

lemma snapshot_current_stored:
  "snapshot_current_state c now ex h db name refs = (Inr sid, h', db') \<Longrightarrow>
     \<exists>s. checkpoints_table db' = checkpoints_table db @ [s] \<and> host_key s = host_key_for ex \<and> checkpoint_name s = name"
  by (auto simp: snapshot_current_state_def persist_signed_checkpoint_def store_checkpoint_def
      split: prod.splits sum.splits if_splits)

definition rollback_checks ::
  "crypto \<Rightarrow> ('h, 'z) executor_scheme \<Rightarrow> database \<Rightarrow> string \<Rightarrow> checkpoint \<Rightarrow> file_state list \<Rightarrow> bool" where
  "rollback_checks c ex db cid k states =
     (get_checkpoint db cid = Inr (k, states) \<and> host_key k = host_key_for ex
      \<and> verify_checkpoint c db cid = Inr ())"

lemma rollback_Ok:
  assumes "rollback c prefixes now ex h db cid = (Inr res, h', db')"
  obtains k states refused restorable h1 sid h2 results where
    "rollback_checks c ex db cid k states"
    "split_refused prefixes ex h states = (refused, restorable, h1)" "restorable \<noteq> []"
    "snapshot_current_state c now ex h1 db (''Before rollback to '' @ quoted (checkpoint_name k)) restorable
       = (Inr sid, h2, db')"
    "restore_all prefixes ex h2 restorable = (results, h')"
    "res = \<lparr>rollback_checkpoint_id = cid, rollback_checkpoint_name = checkpoint_name k,
        rollback_success = (refused = [] \<and> list_all restore_success results),
        rollback_files = refused @ results, rollback_reloads = [], rollback_divergences = []\<rparr>"
  using assms
  by (auto simp: rollback_def rollback_checks_def verify_checkpoint_def and_then_def
      split: sum.splits prod.splits if_splits)

lemma rollback_Err:
  assumes "rollback c prefixes now ex h db cid = (Inl e, h', db')"
  shows "db' = db \<and> (h' = h \<or> (\<exists>k states refused restorable h1.
      rollback_checks c ex db cid k states
    \<and> split_refused prefixes ex h states = (refused, restorable, h1)
    \<and> (h' = h1 \<or> (\<exists>name e. snapshot_current_state c now ex h1 db name restorable = (Inl e, h', db)))))"
proof -
  show ?thesis
    using assms
    by (simp add: rollback_def rollback_checks_def verify_checkpoint_def and_then_def
        split: sum.splits prod.splits if_splits)
       (auto dest: snapshot_current_error)
qed

lemma rollback_report_successes:
  assumes "rollback c prefixes now ex h db cid = (Inr res, h', db')"
  shows "rollback_success res = list_all restore_success (rollback_files res)"
  by (rule rollback_Ok[OF assms], drule split_refused_parts) (auto simp: list_all_iff neq_Nil_conv)

context recorded_effects
begin

lemma rollback_stays_confined:
  assumes "rollback c prefixes now ex h db cid = (r, h', db')"
  shows "confined (write_admitted prefixes) (run_admitted prefixes) h h'"
proof (cases r)
  case (Inl e)
  show ?thesis
    using rollback_Err[OF assms[unfolded Inl]]
    by (auto intro: confined_trans[OF split_refused_confined snapshot_current_confined] split_refused_confined)
next
  case (Inr res)
  show ?thesis
    by (rule rollback_Ok[OF assms[unfolded Inr]])
       (blast intro: confined_trans[OF split_refused_confined confined_trans[OF snapshot_current_confined restore_all_confined]])
qed

lemma confined_none: "confined (\<lambda>_. False) (\<lambda>_. False) h h' \<longleftrightarrow> writes h' = writes h \<and> runs h' = runs h"
proof -
  have *: "(\<forall>x\<in>set xs. False) \<longleftrightarrow> xs = []" for xs :: "'x list" by (cases xs) auto
  show ?thesis by (simp only: confined_def *) auto
qed

lemma failed_rollback_no_effects:
  assumes "rollback c prefixes now ex h db cid = (Inl e, h', db')"
  shows "db' = db \<and> writes h' = writes h \<and> runs h' = runs h"
proof -
  have "confined (\<lambda>_. False) (\<lambda>_. False) h h'"
    using rollback_Err[OF assms]
    by (auto intro: confined_trans[OF split_refused_confined snapshot_current_confined] split_refused_confined)
  then show ?thesis
    using rollback_Err[OF assms] by (simp only: confined_none simp_thms)
qed

end

text \<open>A checkpoint of one file with content, one path that was absent and one the tool never
  deletes, on a host where both files have since changed.\<close>

definition constant_crypto :: crypto where
  "constant_crypto = \<lparr>sha256 = (\<lambda>_. [7]), sign = (\<lambda>_. Inr [9]),
     verify = (\<lambda>_ s. if s = [9] then Inr () else Inl (ConfigError ''Signature verification failed''))\<rparr>"

definition sample_database :: database where
  "sample_database = snd (store_checkpoint empty_database
     (sample_checkpoint\<lparr>checkpoint_signature := [9]\<rparr>) sample_states)"

definition sample_now :: moment where
  "sample_now = \<lparr>fresh_id = ''cp_2'', now_seconds = 9, user_name = ''root''\<rparr>"

definition sample_host :: mock_host where
  "sample_host = (with_file ''/etc/ssh/sshd_config'' ''Port 23''
     (with_file ''/etc/login.defs'' ''UMASK 022'' new_mock))
     \<lparr>command_programs := (\<lambda>program. if program \<in> {''chmod'', ''chown'', ''rm''}
        then Some \<lparr>stdout = [], stderr = [], exit_code = 0\<rparr> else None)\<rparr>"

definition sample_rollback :: "bool \<Rightarrow> (hardening_error, rollback_result) result \<times> mock_host \<times> database" where
  "sample_rollback remote = rollback constant_crypto [''/etc/ssh'', ''/etc/login.defs''] sample_now
     (mock_executor remote ''server'') sample_host sample_database ''cp_1''"

lemma sample_rollback_remote:
  "\<exists>e h' db'. sample_rollback True = (Inl e, h', db')"
  by (simp add: sample_rollback_def rollback_def get_checkpoint_def sample_database_def store_checkpoint_def
      empty_database_def sample_checkpoint_def host_key_for_def)

lemma constant_crypto_simps [simp]:
  "generate_digest constant_crypto i n t u fs = [7]"
  "verify constant_crypto d [9] = Inr ()"
  "sign constant_crypto d = Inr [9]"
  by (simp_all add: generate_digest_def constant_crypto_def)

lemma sample_sorted: "sort_key file_path sample_states = rev sample_states"
  by (simp add: sample_states_def less_char_def)

lemma sample_get: "get_checkpoint sample_database ''cp_1'' =
    Inr (sample_checkpoint\<lparr>checkpoint_signature := [9]\<rparr>, rev sample_states)"
proof -
  have "store_checkpoint empty_database (sample_checkpoint\<lparr>checkpoint_signature := [9]\<rparr>) sample_states
      = (Inr (), sample_database)"
    by (simp add: sample_database_def store_checkpoint_def empty_database_def)
  from get_stored[OF this sample_facts] show ?thesis
    by (simp add: sample_sorted) (simp add: sample_checkpoint_def)
qed

lemma sample_host_fields [simp]:
  "symlinks sample_host = (\<lambda>_. None)" "unprobeable sample_host = []"
  "command_spawn_failure sample_host = []" "command_sequences sample_host key = []" "commands sample_host = []"
  "command_programs sample_host program = (if program \<in> {''chmod'', ''chown'', ''rm''}
        then Some \<lparr>stdout = [], stderr = [], exit_code = 0\<rparr> else None)"
  by (simp_all add: sample_host_def new_mock_def with_file_def)

lemma sample_split:
  "split_refused [''/etc/ssh'', ''/etc/login.defs''] (mock_executor False ''server'') sample_host
     (rev sample_states) = ([], rev sample_states, sample_host)"
  by (simp add: sample_states_def rollback_target_refusal_def path_names_def is_absolute_def starts_with_def
      within_dirs_def recorded_absent_def mock_link_target_as_writer_def)

lemma sample_reads:
  "mock_file_metadata sample_host ''/etc/login.defs'' = Inr (regular_metadata 9)"
  "mock_file_metadata sample_host ''/etc/ssh/sshd_config'' = Inr (regular_metadata 7)"
  "mock_read_file sample_host ''/etc/ssh/sshd_config'' = Inr ''Port 23''"
  by (simp_all add: mock_file_metadata_def mock_read_file_def sample_host_def new_mock_def with_file_def
      eval_nat_numeral)

lemma host_bind_simps [simp]:
  "host_bind (Inl e, h) f = (Inl e, h)" "host_bind (Inr a, h) f = f a h"
  by (simp_all add: host_bind_def)

lemma sample_snapshot:
  "\<exists>states. snapshot_states (mock_executor False ''server'') sample_host (rev sample_states) = (Inr states, sample_host)"
  by (simp add: sample_states_def snapshot_state_def capture_directory_entry_def Let_def
      metadata_for_capture_def link_target_of_def mock_read_link_def sample_reads regular_metadata_def)

lemma sample_snapshot_stored:
  "\<exists>db'. snapshot_current_state constant_crypto sample_now (mock_executor False ''server'') sample_host
      sample_database name (rev sample_states) = (Inr ''cp_2'', sample_host, db')"
proof -
  obtain states where "snapshot_states (mock_executor False ''server'') sample_host (rev sample_states)
      = (Inr states, sample_host)" using sample_snapshot by blast
  moreover have "checkpoints_table sample_database = [sample_checkpoint\<lparr>checkpoint_signature := [9]\<rparr>]"
    by (simp add: sample_database_def store_checkpoint_def empty_database_def)
  ultimately show ?thesis
    by (simp add: snapshot_current_state_def persist_signed_checkpoint_def generate_signature_def
        store_checkpoint_def sample_now_def sample_checkpoint_def)
qed

lemma sample_command:
  "program \<in> {''chmod'', ''chown'', ''rm''} \<Longrightarrow>
     command_programs h = command_programs sample_host \<Longrightarrow> command_spawn_failure h = [] \<Longrightarrow>
     command_sequences h (program, args) = [] \<Longrightarrow> commands h = [] \<Longrightarrow>
     restore_command_refusal (mock_executor r d) h program args path
       = (None, h\<lparr>commands_executed := commands_executed h @ [(program, args)]\<rparr>)"
  by (simp add: restore_command_refusal_def mock_execute_command_def Let_def command_success_def)

lemma sample_restore:
  "\<exists>h'. restore_all [''/etc/ssh'', ''/etc/login.defs''] (mock_executor False ''server'') sample_host (rev sample_states)
     = ([\<lparr>restore_path = ''/etc/login.defs'', restore_action = Removed, restore_success = True, restore_error = None\<rparr>,
         \<lparr>restore_path = ''/etc/ssh/sshd_config'', restore_action = Restored, restore_success = True, restore_error = None\<rparr>], h')"
proof -
  let ?ex = "mock_executor False ''server''" and ?p = "[''/etc/ssh'', ''/etc/login.defs'']"
  let ?h1 = "sample_host\<lparr>commands_executed := commands_executed sample_host @ [(''rm'', [''-f'', ''/etc/login.defs''])]\<rparr>"
  have refusal: "rollback_target_refusal ?p ?ex h f = (None, h)"
    if "f \<in> set sample_states" "symlinks h = (\<lambda>_. None)" "unprobeable h = []" for f h
    using that by (auto simp: sample_states_def rollback_target_refusal_def path_names_def
      is_absolute_def starts_with_def within_dirs_def recorded_absent_def mock_link_target_as_writer_def)
  have 1: "restore_file_state_tracked ?p ?ex sample_host (sample_states ! 1) = ((Removed, Inr ()), ?h1)"
    using refusal[of "sample_states ! 1" sample_host]
    by (simp add: restore_file_state_tracked_def sample_states_def remove_or_refuse_def recorded_absent_def
        UNDELETABLE_ROLLBACK_PATHS_def sample_command refusal_result_def Let_def)
  have 2: "\<exists>h2. restore_file_state_tracked ?p ?ex ?h1 (sample_states ! 0) = ((Restored, Inr ()), h2)"
    using refusal[of "sample_states ! 0" ?h1]
    by (simp add: restore_file_state_tracked_def sample_states_def mock_write_file_def with_file_def
        sample_command restore_metadata_def FILE_TYPE_MASK_def DIRECTORY_TYPE_BITS_def Let_def)
  from 1 2 show ?thesis by (auto simp: sample_states_def)
qed

lemma sample_rollback_local:
  "\<exists>res h' db'. sample_rollback False = (Inr res, h', db') \<and> rollback_success res
     \<and> map restore_path (rollback_files res) = [''/etc/login.defs'', ''/etc/ssh/sshd_config'']"
proof -
  let ?name = "''Before rollback to '' @ quoted (checkpoint_name (sample_checkpoint\<lparr>checkpoint_signature := [9]\<rparr>))"
  from sample_snapshot_stored[of ?name] sample_restore show ?thesis
    by (clarsimp simp: sample_rollback_def rollback_def sample_get sample_split)
     (auto simp: host_key_for_def sample_checkpoint_def sample_states_def)
qed

subsection \<open>What is written back\<close>

lemma mock_command_files:
  "restore_command_refusal (mock_executor r d) h program args path = (x, h') \<Longrightarrow> files h' = files h"
  by (auto simp: restore_command_refusal_def Let_def split: prod.splits sum.splits
      dest: mock_execute_records)

lemma mock_directory_files: "ensure_directory (mock_executor r d) h dir = (x, h') \<Longrightarrow> files h' = files h"
  by (auto simp: ensure_directory_def split: if_splits dest: mock_command_files)

lemma mock_refusal_files: "rollback_target_refusal prefixes (mock_executor r d) h f = (x, h') \<Longrightarrow> h' = h"
  by (auto simp: rollback_target_refusal_def mock_link_target_as_writer_def Let_def
      split: if_splits option.splits sum.splits)

lemma mock_metadata_files: "restore_metadata (mock_executor r d) h f a = (x, h') \<Longrightarrow> files h' = files h"
  by (auto simp: restore_metadata_def Let_def split: prod.splits if_splits dest!: mock_command_files)

lemma mock_symlink_files: "restore_symlink (mock_executor r d) h path target = (x, h') \<Longrightarrow> files h' = files h"
  by (auto simp: restore_symlink_def Let_def split: prod.splits option.splits
      dest!: mock_command_files mock_directory_files)

lemma mock_remove_files: "remove_or_refuse (mock_executor r d) h path = (x, h') \<Longrightarrow> files h' = files h"
  by (auto simp: remove_or_refuse_def split: prod.splits if_splits sum.splits bool.splits
      dest!: mock_command_files)

lemma mock_tracked_files:
  assumes "restore_file_state_tracked prefixes (mock_executor r d) h f = ((a, x), h')"
  shows "files h' = files h \<or> (\<exists>content. file_content f = Some content \<and> file_link_target f = None
            \<and> files h' = (files h)(file_path f \<mapsto> content))"
    and "is_ok x \<Longrightarrow> file_content f = Some content \<Longrightarrow> file_link_target f = None
            \<Longrightarrow> files h' (file_path f) = Some content"
  using assms
  by (auto simp: restore_file_state_tracked_def Let_def mock_write_file_def with_file_def
      split: prod.splits option.splits if_splits
      dest!: mock_refusal_files mock_symlink_files mock_remove_files mock_metadata_files mock_directory_files)

lemma mock_restore_all_other:
  "restore_all prefixes (mock_executor r d) h fs = (rs, h') \<Longrightarrow> p \<notin> set (map file_path fs)
     \<Longrightarrow> files h' p = files h p"
proof (induction fs arbitrary: h rs h')
  case (Cons f fs)
  obtain a x h1 where f: "restore_file_state_tracked prefixes (mock_executor r d) h f = ((a, x), h1)"
    by (metis surj_pair)
  obtain rs' h2 where s: "restore_all prefixes (mock_executor r d) h1 fs = (rs', h2)" by fastforce
  have "files h1 p = files h p" using mock_tracked_files(1)[OF f] Cons.prems(2) by auto
  moreover have "h' = h2" using Cons.prems(1) f s by auto
  ultimately show ?case using Cons.IH[OF s] Cons.prems(2) by simp
qed simp

lemma mock_restore_all_content:
  "restore_all prefixes (mock_executor r d) h fs = (rs, h') \<Longrightarrow> distinct (map file_path fs) \<Longrightarrow>
     f \<in> set fs \<Longrightarrow> file_content f = Some content \<Longrightarrow> file_link_target f = None \<Longrightarrow>
     e \<in> set rs \<Longrightarrow> restore_path e = file_path f \<Longrightarrow> restore_success e \<Longrightarrow>
     files h' (file_path f) = Some content"
proof (induction fs arbitrary: h rs h')
  case (Cons g fs)
  obtain a x h1 where g: "restore_file_state_tracked prefixes (mock_executor r d) h g = ((a, x), h1)"
    by (metis surj_pair)
  obtain rs' h2 where s: "restore_all prefixes (mock_executor r d) h1 fs = (rs', h2)" by fastforce
  have h': "h' = h2" and rs: "rs = \<lparr>restore_path = file_path g, restore_action = a, restore_success = is_ok x,
      restore_error = map_option error_text (result_err x)\<rparr> # rs'"
    using Cons.prems(1) g s by auto
  have paths: "map restore_path rs' = map file_path fs" using restore_all_paths[OF s] .
  show ?case
  proof (cases "f = g")
    case True
    then have "e \<notin> set rs'" using paths Cons.prems(2,7) by (metis distinct.simps(2) image_eqI list.set_map list.simps(9))
    with rs Cons.prems(6,8) have "is_ok x" by auto
    with mock_tracked_files(2)[OF g] Cons.prems(4,5) True have "files h1 (file_path f) = Some content" by simp
    then show ?thesis using mock_restore_all_other[OF s, of "file_path f"] Cons.prems(2) True h' by simp
  next
    case False
    then have "f \<in> set fs" "file_path f \<noteq> file_path g"
      using Cons.prems(2,3) by auto (metis image_eqI)
    then show ?thesis using Cons.IH[OF s] Cons.prems rs h' by auto
  qed
qed simp

subsection \<open>What a rollback promises\<close>

text \<open>C1. Whatever checkpoint it is given, and whether it succeeds or fails, a rollback writes only files
  whose path lies under an allowed prefix and has no parent component, and runs only \<open>chmod\<close>, \<open>chown\<close>,
  \<open>ln\<close> and \<open>rm\<close> on such paths and \<open>mkdir -p\<close> on such a path or the parent of one; \<open>rm\<close> never names a
  path of the undeletable list.\<close>

theorem rollback_confined:
  assumes "recorded_effects ex writes runs"
  shows "(case rollback c prefixes now ex h db cid of (r, h', db') \<Rightarrow>
     \<exists>ws rs. writes h' = writes h @ ws \<and> runs h' = runs h @ rs
       \<and> list_all (write_admitted prefixes) ws \<and> list_all (run_admitted prefixes) rs)"
proof -
  obtain r h' db' where e: "rollback c prefixes now ex h db cid = (r, h', db')" by (metis surj_pair)
  show ?thesis
    using recorded_effects.rollback_stays_confined[OF assms e]
    by (simp add: e recorded_effects.confined_def[OF assms] list_all_iff)
qed

theorem rollback_confined_witness:
  "(case sample_rollback False of (r, h', db') \<Rightarrow>
     \<exists>ws rs. files_written h' = files_written sample_host @ ws
       \<and> commands_executed h' = commands_executed sample_host @ rs
       \<and> list_all (write_admitted [''/etc/ssh'', ''/etc/login.defs'']) ws
       \<and> list_all (run_admitted [''/etc/ssh'', ''/etc/login.defs'']) rs)"
  unfolding sample_rollback_def by (rule rollback_confined[OF mock.recorded_effects_axioms])



text \<open>A rollback that returns a report restored a checkpoint that exists, belongs to the host the
  executor targets and verifies; the report names every path of the checkpoint once, calls the rollback
  a success exactly when every path was restored, gives a reason for each that was not; and the state
  before it was stored first, as a new signed checkpoint of the same host.\<close>

theorem rollback_report_complete:
  assumes "rollback c prefixes now ex h db cid = (Inr res, h', db')"
  shows "\<exists>k states snap. get_checkpoint db cid = Inr (k, states) \<and> host_key k = host_key_for ex
     \<and> verify_checkpoint c db cid = Inr ()
     \<and> mset (map restore_path (rollback_files res)) = mset (map file_path states)
     \<and> rollback_success res = list_all restore_success (rollback_files res)
     \<and> list_all (\<lambda>r. restore_success r = (restore_error r = None)) (rollback_files res)
     \<and> checkpoints_table db' = checkpoints_table db @ [snap]
     \<and> host_key snap = host_key_for ex
     \<and> checkpoint_name snap = ''Before rollback to '' @ quoted (checkpoint_name k)"
proof (rule rollback_Ok[OF assms])
  fix k states refused restorable h1 sid h2 results
  assume checks: "rollback_checks c ex db cid k states"
    and split: "split_refused prefixes ex h states = (refused, restorable, h1)"
    and snap: "snapshot_current_state c now ex h1 db (''Before rollback to '' @ quoted (checkpoint_name k))
        restorable = (Inr sid, h2, db')"
    and all: "restore_all prefixes ex h2 restorable = (results, h')"
    and res: "res = \<lparr>rollback_checkpoint_id = cid, rollback_checkpoint_name = checkpoint_name k,
        rollback_success = (refused = [] \<and> list_all restore_success results),
        rollback_files = refused @ results, rollback_reloads = [], rollback_divergences = []\<rparr>"
  note parts = split_refused_parts[OF split]
  obtain s where s: "checkpoints_table db' = checkpoints_table db @ [s]" "host_key s = host_key_for ex"
    "checkpoint_name s = ''Before rollback to '' @ quoted (checkpoint_name k)"
    using snapshot_current_stored[OF snap] by blast
  have "mset (map restore_path (rollback_files res)) = mset (map file_path states)"
    using parts restore_all_paths[OF all] by (simp add: res)
  moreover have "rollback_success res = list_all restore_success (rollback_files res)"
    using rollback_report_successes[OF assms] .
  moreover have "list_all (\<lambda>r. restore_success r = (restore_error r = None)) (rollback_files res)"
    using parts restore_all_errors[OF all] by (auto simp: res list_all_iff)
  ultimately show ?thesis
    using checks s unfolding rollback_checks_def by blast
qed

theorem rollback_report_complete_witness:
  "\<exists>res h' db'. sample_rollback False = (Inr res, h', db') \<and> rollback_success res
     \<and> length (checkpoints_table db') = 2"
proof -
  obtain res h' db' where r: "sample_rollback False = (Inr res, h', db')" "rollback_success res"
    using sample_rollback_local by blast
  have "length (checkpoints_table sample_database) = 1"
    by (simp add: sample_database_def store_checkpoint_def empty_database_def)
  with rollback_report_complete[OF r(1)[unfolded sample_rollback_def]] r show ?thesis by auto
qed



end
