(* ===== verification/Audit_Log.thy ===== *)
theory Audit_Log
  imports Checkpoint_Store
begin

text \<open>
  The tamper-evident audit log: \<open>crates/hardener-state/src/hash_chain.rs\<close> and \<open>audit.rs\<close>.

  SHA-256 and the JSON form of entries and of hashed tuples (\<open>serde_json\<close>) are parameters, the
  record \<open>log_format\<close>. A log file is its text; a write either appends the whole line or tears
  after some characters and reports an error. Timestamps are nanoseconds since the epoch. A
  details map is its list of pairs in the order the hash map happens to enumerate them.
\<close>

subsection \<open>The hash chain\<close>

record hash_chain =
  previous_hash :: bytes

definition new_chain :: hash_chain where
  "new_chain = \<lparr>previous_hash = replicate 32 0\<rparr>"

definition next_hash :: "(bytes \<Rightarrow> bytes) \<Rightarrow> hash_chain \<Rightarrow> bytes \<Rightarrow> bytes" where
  "next_hash digest chain data = digest (previous_hash chain @ data)"

definition advance_chain :: "bytes \<Rightarrow> hash_chain \<Rightarrow> hash_chain" where
  "advance_chain new_hash chain = chain\<lparr>previous_hash := new_hash\<rparr>"

definition verify_entry :: "(bytes \<Rightarrow> bytes) \<Rightarrow> bytes \<Rightarrow> bytes \<Rightarrow> bytes \<Rightarrow> bool" where
  "verify_entry digest previous data claimed = (digest (previous @ data) = claimed)"

definition current_hash :: "hash_chain \<Rightarrow> bytes" where
  "current_hash chain = previous_hash chain"

subsection \<open>Entries\<close>

datatype action_type =
  ScanAction | ApplyAction | RollbackAction | ConfigChange | CheckpointCreate | CheckpointDelete
| ScopeExclusionAction

datatype action_result = Success | Failure

type_synonym details = "(string \<times> string) list"

record audit_entry =
  entry_timestamp :: int
  entry_action_type :: action_type
  entry_user :: string
  entry_target :: string
  entry_result :: action_result
  entry_details :: details
  entry_hash :: bytes

definition new_entry :: "action_type \<Rightarrow> string \<Rightarrow> string \<Rightarrow> bytes \<Rightarrow> int \<Rightarrow> audit_entry" where
  "new_entry action user target hash timestamp =
     \<lparr>entry_timestamp = timestamp, entry_action_type = action, entry_user = user,
      entry_target = target, entry_result = Success, entry_details = [], entry_hash = hash\<rparr>"

definition new_failure ::
  "action_type \<Rightarrow> string \<Rightarrow> string \<Rightarrow> string \<Rightarrow> bytes \<Rightarrow> int \<Rightarrow> audit_entry" where
  "new_failure action user target message hash timestamp =
     \<lparr>entry_timestamp = timestamp, entry_action_type = action, entry_user = user,
      entry_target = target, entry_result = Failure, entry_details = [(''error'', message)],
      entry_hash = hash\<rparr>"

definition add_detail :: "string \<Rightarrow> string \<Rightarrow> audit_entry \<Rightarrow> audit_entry" where
  "add_detail key val e = e\<lparr>entry_details := AList.update key val (entry_details e)\<rparr>"

text \<open>\<open>DateTime::timestamp\<close>: whole seconds, rounded down.\<close>

definition seconds_of :: "int \<Rightarrow> int" where
  "seconds_of timestamp = timestamp div 1000000000"

text \<open>The tuples that are serialised and hashed.\<close>

datatype hashed_tuple =
  Plain int action_type string string action_result
| Detailed int action_type string string action_result details
| Failed int action_type string string action_result string

definition hashable ::
  "int \<Rightarrow> action_type \<Rightarrow> string \<Rightarrow> string \<Rightarrow> action_result \<Rightarrow> details \<Rightarrow> hashed_tuple" where
  "hashable timestamp action user target result details =
     (if details = [] then Plain (seconds_of timestamp) action user target result
      else Detailed (seconds_of timestamp) action user target result (sort_key fst details))"

record log_format =
  digest_of :: "bytes \<Rightarrow> bytes"
  tuple_bytes :: "hashed_tuple \<Rightarrow> (hardening_error, bytes) result"
  entry_text :: "audit_entry \<Rightarrow> (hardening_error, string) result"
  entry_parse :: "string \<Rightarrow> (hardening_error, audit_entry) result"

subsection \<open>Writing\<close>

record audit_logger =
  log_text :: string
  chain :: hash_chain

fun recover_lines :: "log_format \<Rightarrow> hash_chain \<Rightarrow> string list \<Rightarrow> hash_chain" where
  "recover_lines fmt ch [] = ch"
| "recover_lines fmt ch (line # rest) =
     (case entry_parse fmt line of
        Inl _ \<Rightarrow> recover_lines fmt ch rest
      | Inr e \<Rightarrow> recover_lines fmt (advance_chain (entry_hash e) ch) rest)"

text \<open>The file's text, or \<open>None\<close> where it cannot be read.\<close>

definition recover_chain :: "log_format \<Rightarrow> string option \<Rightarrow> hash_chain" where
  "recover_chain fmt content =
     (case content of None \<Rightarrow> new_chain | Some text \<Rightarrow> recover_lines fmt new_chain (str_lines text))"

text \<open>\<open>AuditLogger::new\<close> on a file whose text is \<open>existing\<close>, empty where there was none; \<open>opened\<close> is what
  opening it for appending gives.\<close>

definition open_logger ::
  "log_format \<Rightarrow> string \<Rightarrow> bool \<Rightarrow> (hardening_error, unit) result \<Rightarrow> (hardening_error, audit_logger) result" where
  "open_logger fmt existing readable opened =
     and_then opened (\<lambda>_. Inr \<lparr>log_text = existing,
        chain = recover_chain fmt (if readable then Some existing else None)\<rparr>)"

datatype write_outcome = Written | Torn nat hardening_error

definition append_line ::
  "write_outcome \<Rightarrow> string \<Rightarrow> audit_logger \<Rightarrow> (hardening_error, unit) result \<times> audit_logger" where
  "append_line w line lg =
     (case w of
        Written \<Rightarrow> (Inr (), lg\<lparr>log_text := log_text lg @ line\<rparr>)
      | Torn n e \<Rightarrow> (Inl e, lg\<lparr>log_text := log_text lg @ take n line\<rparr>))"

text \<open>The common end of the three writers: serialise, append, flush, move the chain.\<close>

definition write_entry ::
  "log_format \<Rightarrow> write_outcome \<Rightarrow> audit_logger \<Rightarrow> audit_entry \<Rightarrow> (hardening_error, unit) result \<times> audit_logger" where
  "write_entry fmt w lg e =
     (case entry_text fmt e of
        Inl err \<Rightarrow> (Inl err, lg)
      | Inr json \<Rightarrow>
          (case append_line w (json @ [nl]) lg of
             (Inl err, lg') \<Rightarrow> (Inl err, lg')
           | (Inr _, lg') \<Rightarrow> (Inr (), lg'\<lparr>chain := advance_chain (entry_hash e) (chain lg')\<rparr>)))"

definition log_action ::
  "log_format \<Rightarrow> int \<Rightarrow> write_outcome \<Rightarrow> audit_logger \<Rightarrow> action_type \<Rightarrow> string \<Rightarrow> string \<Rightarrow> action_result \<Rightarrow>
   (hardening_error, unit) result \<times> audit_logger" where
  "log_action fmt now w lg action user target result =
     (if result = Failure then
        (Inl (ValidationError ''a failed action cannot be logged through log_action: the entry would record Success while its hash covered Failure, so it could never verify. Use log_failure instead.''), lg)
      else case tuple_bytes fmt (hashable now action user target result []) of
             Inl e \<Rightarrow> (Inl e, lg)
           | Inr data \<Rightarrow>
               write_entry fmt w lg
                 (new_entry action user target (next_hash (digest_of fmt) (chain lg) data) now))"

definition log_action_with_details ::
  "log_format \<Rightarrow> int \<Rightarrow> write_outcome \<Rightarrow> audit_logger \<Rightarrow> action_type \<Rightarrow> string \<Rightarrow> string \<Rightarrow> action_result \<Rightarrow>
   details \<Rightarrow> (hardening_error, unit) result \<times> audit_logger" where
  "log_action_with_details fmt now w lg action user target result details =
     (if result = Failure then
        (Inl (ValidationError ''a failed action cannot be logged with structured details: verify_integrity hashes every Failure entry as the legacy six-tuple ending in the `error` string, so such an entry could never verify. Use log_failure instead.''), lg)
      else case tuple_bytes fmt (hashable now action user target result details) of
             Inl e \<Rightarrow> (Inl e, lg)
           | Inr data \<Rightarrow>
               write_entry fmt w lg
                 \<lparr>entry_timestamp = now, entry_action_type = action, entry_user = user,
                  entry_target = target, entry_result = result, entry_details = details,
                  entry_hash = next_hash (digest_of fmt) (chain lg) data\<rparr>)"

definition log_failure ::
  "log_format \<Rightarrow> int \<Rightarrow> write_outcome \<Rightarrow> audit_logger \<Rightarrow> action_type \<Rightarrow> string \<Rightarrow> string \<Rightarrow> string \<Rightarrow>
   (hardening_error, unit) result \<times> audit_logger" where
  "log_failure fmt now w lg action user target message =
     (case tuple_bytes fmt (Failed (seconds_of now) action user target Failure message) of
        Inl e \<Rightarrow> (Inl e, lg)
      | Inr data \<Rightarrow>
          write_entry fmt w lg
            (new_failure action user target message (next_hash (digest_of fmt) (chain lg) data) now))"

subsection \<open>Verifying and querying\<close>

definition entry_tuple :: "audit_entry \<Rightarrow> hashed_tuple option" where
  "entry_tuple e =
     (if entry_result e = Failure then
        (if list_ex (\<lambda>(k, _). k \<noteq> ''error'') (entry_details e) then None
         else Some (Failed (seconds_of (entry_timestamp e)) (entry_action_type e) (entry_user e)
           (entry_target e) (entry_result e)
           (case map_of (entry_details e) ''error'' of Some m \<Rightarrow> m | None \<Rightarrow> [])))
      else Some (hashable (entry_timestamp e) (entry_action_type e) (entry_user e) (entry_target e)
        (entry_result e) (entry_details e)))"

fun verify_lines :: "log_format \<Rightarrow> bytes \<Rightarrow> string list \<Rightarrow> (hardening_error, bool) result" where
  "verify_lines fmt previous [] = Inr True"
| "verify_lines fmt previous (line # rest) =
     (case entry_parse fmt line of
        Inl err \<Rightarrow> Inl err
      | Inr e \<Rightarrow>
          (case entry_tuple e of
             None \<Rightarrow> Inr False
           | Some tuple \<Rightarrow>
               (case tuple_bytes fmt tuple of
                  Inl err \<Rightarrow> Inl err
                | Inr data \<Rightarrow>
                    if verify_entry (digest_of fmt) previous data (entry_hash e)
                    then verify_lines fmt (entry_hash e) rest
                    else Inr False)))"

text \<open>The argument is what opening and reading the file gives.\<close>

definition verify_integrity ::
  "log_format \<Rightarrow> (hardening_error, string) result \<Rightarrow> (hardening_error, bool) result" where
  "verify_integrity fmt file =
     and_then file (\<lambda>text. verify_lines fmt (replicate 32 0) (str_lines text))"

record query_filter =
  filter_action_type :: "action_type option"
  filter_end_time :: "int option"
  filter_result :: "action_result option"
  filter_start_time :: "int option"
  filter_user :: "string option"

definition new_filter :: query_filter where
  "new_filter = \<lparr>filter_action_type = None, filter_end_time = None, filter_result = None,
     filter_start_time = None, filter_user = None\<rparr>"

definition filter_matches :: "query_filter \<Rightarrow> audit_entry \<Rightarrow> bool" where
  "filter_matches f e =
     ((case filter_action_type f of Some a \<Rightarrow> entry_action_type e = a | None \<Rightarrow> True)
    \<and> (case filter_user f of Some u \<Rightarrow> entry_user e = u | None \<Rightarrow> True)
    \<and> (case filter_start_time f of Some s \<Rightarrow> \<not> entry_timestamp e < s | None \<Rightarrow> True)
    \<and> (case filter_end_time f of Some t \<Rightarrow> \<not> entry_timestamp e > t | None \<Rightarrow> True)
    \<and> (case filter_result f of Some r \<Rightarrow> entry_result e = r | None \<Rightarrow> True))"

fun query_lines ::
  "log_format \<Rightarrow> query_filter \<Rightarrow> string list \<Rightarrow> (hardening_error, audit_entry list) result" where
  "query_lines fmt f [] = Inr []"
| "query_lines fmt f (line # rest) =
     and_then (entry_parse fmt line) (\<lambda>e.
       and_then (query_lines fmt f rest) (\<lambda>es.
         Inr (if filter_matches f e then e # es else es)))"

definition query_log ::
  "log_format \<Rightarrow> (hardening_error, string) result \<Rightarrow> query_filter \<Rightarrow> (hardening_error, audit_entry list) result" where
  "query_log fmt file f = and_then file (\<lambda>text. query_lines fmt f (str_lines text))"

subsection \<open>Chains of entries\<close>

text \<open>The hash a list of entries leads to from a previous hash, when each entry links.\<close>

fun chain_end :: "log_format \<Rightarrow> bytes \<Rightarrow> audit_entry list \<Rightarrow> bytes option" where
  "chain_end fmt previous [] = Some previous"
| "chain_end fmt previous (e # es) =
     (case entry_tuple e of
        None \<Rightarrow> None
      | Some tuple \<Rightarrow>
          (case tuple_bytes fmt tuple of
             Inl _ \<Rightarrow> None
           | Inr data \<Rightarrow>
               if verify_entry (digest_of fmt) previous data (entry_hash e)
               then chain_end fmt (entry_hash e) es else None))"

definition parses_to :: "log_format \<Rightarrow> string list \<Rightarrow> audit_entry list \<Rightarrow> bool" where
  "parses_to fmt lines es = list_all2 (\<lambda>line e. entry_parse fmt line = Inr e) lines es"

lemma parses_to_simps [simp]:
  "parses_to fmt [] es \<longleftrightarrow> es = []"
  "parses_to fmt (l # ls) (e # es) \<longleftrightarrow> entry_parse fmt l = Inr e \<and> parses_to fmt ls es"
  "parses_to fmt (l # ls) [] \<longleftrightarrow> False"
  by (simp_all add: parses_to_def)

lemma verify_lines_True:
  "verify_lines fmt previous lines = Inr True \<longleftrightarrow>
     (\<exists>es. parses_to fmt lines es \<and> chain_end fmt previous es \<noteq> None)"
proof (induction lines arbitrary: previous)
  case (Cons l ls)
  show ?case
  proof
    assume v: "verify_lines fmt previous (l # ls) = Inr True"
    then obtain e where e: "entry_parse fmt l = Inr e" by (auto split: sum.splits)
    from v e have "verify_lines fmt (entry_hash e) ls = Inr True"
      by (auto split: sum.splits option.splits if_splits)
    then obtain es where "parses_to fmt ls es" "chain_end fmt (entry_hash e) es \<noteq> None"
      using Cons.IH by blast
    with v e show "\<exists>es. parses_to fmt (l # ls) es \<and> chain_end fmt previous es \<noteq> None"
      by (intro exI[of _ "e # es"]) (auto split: sum.splits option.splits if_splits)
  next
    assume "\<exists>es. parses_to fmt (l # ls) es \<and> chain_end fmt previous es \<noteq> None"
    then obtain es where es: "parses_to fmt (l # ls) es" "chain_end fmt previous es \<noteq> None" by blast
    then obtain e es' where "es = e # es'" by (cases es) auto
    with es Cons.IH[of "entry_hash e"] show "verify_lines fmt previous (l # ls) = Inr True"
      by (auto split: sum.splits option.splits if_splits)
  qed
qed simp

lemma chain_end_append:
  "chain_end fmt previous (es @ fs) =
     (case chain_end fmt previous es of None \<Rightarrow> None | Some h \<Rightarrow> chain_end fmt h fs)"
  by (induction es arbitrary: previous) (auto split: option.splits sum.splits)

lemma parses_to_append:
  "parses_to fmt (ls @ ms) es \<longleftrightarrow> (\<exists>es1 es2. es = es1 @ es2 \<and> parses_to fmt ls es1 \<and> parses_to fmt ms es2)"
  by (auto simp: parses_to_def list_all2_append1 dest: list_all2_lengthD) (metis list_all2_lengthD)

lemma recover_parsed:
  "parses_to fmt lines es \<Longrightarrow> chain_end fmt (previous_hash ch) es = Some h \<Longrightarrow>
     previous_hash (recover_lines fmt ch lines) = h"
proof (induction lines arbitrary: ch es)
  case (Cons l ls)
  then obtain e es' where "es = e # es'" by (cases es) auto
  with Cons.prems Cons.IH[of es' "advance_chain (entry_hash e) ch"] show ?case
    by (auto simp: advance_chain_def split: option.splits sum.splits if_splits)
qed simp

subsection \<open>Logging keeps the chain\<close>

text \<open>What the JSON form must satisfy: an entry parses back to itself, its text is one line and does
  not end in a carriage return.\<close>

definition one_line :: "string \<Rightarrow> bool" where
  "one_line s = (nl \<notin> set s \<and> (s = [] \<or> last s \<noteq> cr))"

definition renders :: "log_format \<Rightarrow> audit_entry \<Rightarrow> bool" where
  "renders fmt e = (case entry_text fmt e of Inl _ \<Rightarrow> True | Inr s \<Rightarrow> one_line s \<and> entry_parse fmt s = Inr e)"

definition line_ended :: "string \<Rightarrow> bool" where
  "line_ended text = (text = [] \<or> last text = nl)"

lemma str_lines_snoc:
  assumes "line_ended text" "one_line s"
  shows "str_lines (text @ s @ [nl]) = str_lines text @ [s]"
proof -
  have line: "is_line (s @ [nl])" using assms(2) by (auto simp: is_line_def one_line_def butlast_append)
  have all: "\<forall>l\<in>set (split_inclusive text). terminated l"
  proof (cases "split_inclusive text" rule: rev_cases)
    case (snoc ls l)
    have wf: "wf_lines (ls @ [l])" using wf_split_inclusive[of "text"] snoc by simp
    have "text = concat (ls @ [l])" using concat_split_inclusive[of "text"] snoc by simp
    then have "last text = last l" "text \<noteq> []"
      using wf by (auto simp: wf_lines_append wf_lines_Cons is_line_def)
    with assms(1) wf snoc show ?thesis
      by (auto simp: line_ended_def terminated_def wf_lines_append wf_lines_Cons is_line_def)
  qed simp
  have wf: "wf_lines (split_inclusive text @ [s @ [nl]])"
    using line all by (simp add: wf_lines_append wf_lines_Cons)
  have "split_inclusive (text @ s @ [nl]) = split_inclusive text @ [s @ [nl]]"
    using split_inclusive_concat[OF wf] by simp
  moreover have "strip_terminator (s @ [nl]) = s"
    using assms(2) by (auto simp: strip_terminator_def one_line_def)
  ultimately show ?thesis by (simp add: str_lines_def)
qed

text \<open>A sound logger: its file verifies, ends with a line, and its chain stands at the last hash.\<close>

definition sound_logger :: "log_format \<Rightarrow> audit_logger \<Rightarrow> bool" where
  "sound_logger fmt lg =
     (line_ended (log_text lg) \<and> verify_integrity fmt (Inr (log_text lg)) = Inr True
      \<and> chain lg = recover_chain fmt (Some (log_text lg)))"

lemma sound_logger_iff:
  "sound_logger fmt lg \<longleftrightarrow> line_ended (log_text lg) \<and>
     (\<exists>es. parses_to fmt (str_lines (log_text lg)) es
        \<and> chain_end fmt (replicate 32 0) es = Some (previous_hash (chain lg)))"
proof -
  have "chain lg = recover_chain fmt (Some (log_text lg)) \<longleftrightarrow>
      previous_hash (chain lg) = previous_hash (recover_lines fmt new_chain (str_lines (log_text lg)))"
    by (cases "chain lg"; cases "recover_lines fmt new_chain (str_lines (log_text lg))")
       (auto simp: recover_chain_def)
  moreover have recovered: "previous_hash (recover_lines fmt new_chain (str_lines (log_text lg))) = h"
    if "parses_to fmt (str_lines (log_text lg)) es" "chain_end fmt (replicate 32 0) es = Some h" for es h
    by (rule recover_parsed[OF that(1)]) (simp add: new_chain_def that(2))
  ultimately show ?thesis
    unfolding sound_logger_def verify_integrity_def and_then_simps verify_lines_True
    by (metis recovered option.distinct(1) not_None_eq)
qed

lemma write_entry_sound:
  assumes "sound_logger fmt lg" "renders fmt e" "write_entry fmt Written lg e = (r, lg')"
    and "entry_tuple e = Some tuple" "tuple_bytes fmt tuple = Inr data"
    and "entry_hash e = next_hash (digest_of fmt) (chain lg) data"
  shows "sound_logger fmt lg'"
proof (cases "entry_text fmt e")
  case (Inl err)
  with assms(1,3) show ?thesis by (simp add: write_entry_def)
next
  case (Inr json)
  with assms(2) have j: "one_line json" "entry_parse fmt json = Inr e" by (simp_all add: renders_def)
  have lg': "lg' = lg\<lparr>log_text := log_text lg @ json @ [nl], chain := advance_chain (entry_hash e) (chain lg)\<rparr>"
    using assms(3) Inr by (simp add: write_entry_def append_line_def)
  from assms(1) obtain es where es: "parses_to fmt (str_lines (log_text lg)) es"
    "chain_end fmt (replicate 32 0) es = Some (previous_hash (chain lg))" and le: "line_ended (log_text lg)"
    by (auto simp: sound_logger_iff)
  have "chain_end fmt (replicate 32 0) (es @ [e]) = Some (entry_hash e)"
    using es(2) assms(4,5,6) by (simp add: chain_end_append verify_entry_def next_hash_def)
  moreover have "parses_to fmt (str_lines (log_text lg @ json @ [nl])) (es @ [e])"
    using es(1) j(2) by (simp add: str_lines_snoc[OF le j(1)] parses_to_def list_all2_appendI)
  ultimately show ?thesis
    unfolding sound_logger_iff lg' by (auto simp: advance_chain_def line_ended_def)
qed

text \<open>The three requests the callers make of a logger.\<close>

datatype log_request =
  RequestAction action_type string string action_result
| RequestDetails action_type string string action_result details
| RequestFailure action_type string string string

fun perform ::
  "log_format \<Rightarrow> int \<Rightarrow> write_outcome \<Rightarrow> audit_logger \<Rightarrow> log_request \<Rightarrow>
   (hardening_error, unit) result \<times> audit_logger" where
  "perform fmt now w lg (RequestAction action user target result) = log_action fmt now w lg action user target result"
| "perform fmt now w lg (RequestDetails action user target result details) =
     log_action_with_details fmt now w lg action user target result details"
| "perform fmt now w lg (RequestFailure action user target message) =
     log_failure fmt now w lg action user target message"

text \<open>A request either fails before it writes or writes an entry that links.\<close>

lemma perform_cases:
  assumes "perform fmt now w lg req = (r, lg')"
  obtains (refused) e where "r = Inl e" "lg' = lg"
  | (written) e tuple data where "write_entry fmt w lg e = (r, lg')" "entry_tuple e = Some tuple"
      "tuple_bytes fmt tuple = Inr data" "entry_hash e = next_hash (digest_of fmt) (chain lg) data"
proof (cases req)
  case (RequestAction a u t res)
  show ?thesis
  proof (cases "res = Failure \<or> (\<exists>e. tuple_bytes fmt (hashable now a u t res []) = Inl e)")
    case True
    then show ?thesis using assms RequestAction refused by (auto simp: log_action_def split: if_splits)
  next
    case False
    then obtain data where d: "tuple_bytes fmt (hashable now a u t Success []) = Inr data" and [simp]: "res = Success"
      by (cases "tuple_bytes fmt (hashable now a u t res [])"; cases res) auto
    show ?thesis
      by (rule written[of "new_entry a u t (next_hash (digest_of fmt) (chain lg) data) now"])
         (use assms RequestAction d in \<open>auto simp: log_action_def new_entry_def entry_tuple_def\<close>)
  qed
next
  case (RequestDetails a u t res ds)
  show ?thesis
  proof (cases "res = Failure \<or> (\<exists>e. tuple_bytes fmt (hashable now a u t res ds) = Inl e)")
    case True
    then show ?thesis using assms RequestDetails refused by (auto simp: log_action_with_details_def split: if_splits)
  next
    case False
    then obtain data where d: "tuple_bytes fmt (hashable now a u t Success ds) = Inr data" and [simp]: "res = Success"
      by (cases "tuple_bytes fmt (hashable now a u t res ds)"; cases res) auto
    show ?thesis
      by (rule written[of "\<lparr>entry_timestamp = now, entry_action_type = a, entry_user = u, entry_target = t,
            entry_result = res, entry_details = ds, entry_hash = next_hash (digest_of fmt) (chain lg) data\<rparr>"])
         (use assms RequestDetails d in \<open>auto simp: log_action_with_details_def entry_tuple_def\<close>)
  qed
next
  case (RequestFailure a u t m)
  show ?thesis
  proof (cases "tuple_bytes fmt (Failed (seconds_of now) a u t Failure m)")
    case (Inl e)
    then show ?thesis using assms RequestFailure refused by (auto simp: log_failure_def)
  next
    case (Inr data)
    show ?thesis
      by (rule written[of "new_failure a u t m (next_hash (digest_of fmt) (chain lg) data) now"])
         (use assms RequestFailure Inr in \<open>auto simp: log_failure_def new_failure_def entry_tuple_def\<close>)
  qed
qed

lemma perform_sound:
  assumes "sound_logger fmt lg" "\<And>e. renders fmt e" "perform fmt now Written lg req = (r, lg')"
  shows "sound_logger fmt lg'"
  using assms(3)
  by (cases rule: perform_cases) (use assms(1,2) in \<open>auto intro: write_entry_sound\<close>)

text \<open>A history: requests whose writes complete, and processes that end and open the log again.\<close>

inductive logging :: "log_format \<Rightarrow> audit_logger \<Rightarrow> audit_logger \<Rightarrow> bool" for fmt where
  start: "logging fmt lg lg"
| request: "logging fmt lg lg' \<Longrightarrow> perform fmt now Written lg' req = (r, lg'') \<Longrightarrow> logging fmt lg lg''"
| reopen: "logging fmt lg lg' \<Longrightarrow> open_logger fmt (log_text lg') True (Inr ()) = Inr lg'' \<Longrightarrow> logging fmt lg lg''"

lemma open_sound:
  assumes "open_logger fmt existing True opened = Inr lg" "line_ended existing"
    and "verify_integrity fmt (Inr existing) = Inr True"
  shows "sound_logger fmt lg"
  using assms by (cases opened) (auto simp: open_logger_def sound_logger_def)

lemma logging_sound:
  "logging fmt lg lg' \<Longrightarrow> (\<And>e. renders fmt e) \<Longrightarrow> sound_logger fmt lg \<Longrightarrow> sound_logger fmt lg'"
proof (induction rule: logging.induct)
  case (reopen lg lg' lg'')
  then have "line_ended (log_text lg')" "verify_integrity fmt (Inr (log_text lg')) = Inr True"
    by (simp_all add: sound_logger_def)
  with reopen.hyps(2) show ?case by (rule open_sound)
qed (auto intro: perform_sound)

lemma verify_lines_append:
  assumes "parses_to fmt ls es" "chain_end fmt previous es = Some h"
  shows "verify_lines fmt previous (ls @ ms) = verify_lines fmt h ms"
  using assms
proof (induction ls arbitrary: es previous)
  case (Cons l ls)
  then obtain e es' where "es = e # es'" by (cases es) auto
  with Cons show ?case by (auto split: option.splits sum.splits if_splits)
qed simp

lemma written_facts:
  assumes "renders fmt e" "line_ended (log_text lg)" "write_entry fmt Written lg e = (Inr u, lg')"
  obtains json where "entry_parse fmt json = Inr e" "str_lines (log_text lg') = str_lines (log_text lg) @ [json]"
    "line_ended (log_text lg')" "previous_hash (chain lg') = entry_hash e"
proof -
  obtain json where json: "entry_text fmt e = Inr json"
    using assms(3) by (auto simp: write_entry_def split: sum.splits)
  with assms(1) have j: "one_line json" "entry_parse fmt json = Inr e" by (simp_all add: renders_def)
  have "lg' = lg\<lparr>log_text := log_text lg @ json @ [nl], chain := advance_chain (entry_hash e) (chain lg)\<rparr>"
    using assms(3) json by (simp add: write_entry_def append_line_def)
  with that[OF j(2)] str_lines_snoc[OF assms(2) j(1)] show ?thesis
    by (simp add: line_ended_def advance_chain_def)
qed

subsection \<open>What the log promises\<close>


text \<open>Numbered entries: entry \<open>k\<close> of the sample is the text of \<open>k\<close> letters, and its hash holds \<open>k\<close>.\<close>

definition sample_entry :: "nat \<Rightarrow> audit_entry" where
  "sample_entry k = new_entry ScanAction ''root'' ''host'' (replicate 31 0 @ [k]) 5"

definition sample_format :: log_format where
  "sample_format =
     \<lparr>digest_of = (\<lambda>x. replicate 31 0 @ [Suc (x ! 31)]),
      tuple_bytes = (\<lambda>t. if t = Plain 0 ScanAction ''root'' ''host'' Success then Inr [1]
                        else Inl (SerialisationError [])),
      entry_text = (\<lambda>e. if e = sample_entry (last (entry_hash e)) then Inr (replicate (last (entry_hash e)) (CHR ''x''))
                       else Inl (SerialisationError [])),
      entry_parse = (\<lambda>s. Inr (sample_entry (length s)))\<rparr>"

lemma sample_renders: "renders sample_format e"
  by (auto simp: renders_def sample_format_def one_line_def last_replicate)

definition sample_log :: "nat \<Rightarrow> audit_logger" where
  "sample_log n = \<lparr>log_text = concat (map (\<lambda>k. replicate (Suc k) (CHR ''x'') @ [nl]) [0..<n]),
     chain = \<lparr>previous_hash = replicate 31 0 @ [n]\<rparr>\<rparr>"

lemma sample_perform:
  "perform sample_format 5 Written (lg\<lparr>chain := \<lparr>previous_hash = replicate 31 0 @ [n]\<rparr>\<rparr>)
     (RequestAction ScanAction ''root'' ''host'' Success)
   = (Inr (), lg\<lparr>log_text := log_text lg @ replicate (Suc n) (CHR ''x'') @ [nl],
        chain := \<lparr>previous_hash = replicate 31 0 @ [Suc n]\<rparr>\<rparr>)"
  by (simp add: log_action_def hashable_def sample_format_def seconds_of_def write_entry_def append_line_def
      next_hash_def nth_append new_entry_def sample_entry_def advance_chain_def)

lemma sample_step:
  "perform sample_format 5 Written (sample_log n) (RequestAction ScanAction ''root'' ''host'' Success)
     = (Inr (), sample_log (Suc n))"
  using sample_perform[where lg = "sample_log n" and n = n] by (simp add: sample_log_def)

lemma sample_open: "open_logger sample_format [] True (Inr ()) = Inr (sample_log 0)"
  by (simp add: open_logger_def sample_log_def recover_chain_def str_lines_def new_chain_def eval_nat_numeral)

lemma sample_empty: "verify_integrity sample_format (Inr []) = Inr True" "line_ended []"
  by (simp_all add: verify_integrity_def str_lines_def line_ended_def)


text \<open>Two processes that opened the same log before either wrote, and each logged one action: the
  log no longer verifies, unless the hash collides or maps onto its own predecessor.\<close>

theorem two_writers_break_chain:
  assumes "\<And>e. renders fmt e" "line_ended existing" "verify_integrity fmt (Inr existing) = Inr True"
    and "open_logger fmt existing True opened = Inr lg"
    and "perform fmt now Written lg req = (Inr (), lg1)"
    and "perform fmt now' Written (lg\<lparr>log_text := log_text lg1\<rparr>) req' = (Inr (), lg2)"
  shows "verify_integrity fmt (Inr (log_text lg2)) = Inr False
    \<or> (\<exists>x y. x \<noteq> y \<and> digest_of fmt x = digest_of fmt y)
    \<or> previous_hash (chain lg1) = previous_hash (chain lg)"
proof -
  have sound: "sound_logger fmt lg" by (rule open_sound[OF assms(4,2,3)])
  have sound1: "sound_logger fmt lg1" by (rule perform_sound[OF sound assms(1,5)])
  from assms(6) obtain e tuple data where w: "write_entry fmt Written (lg\<lparr>log_text := log_text lg1\<rparr>) e = (Inr (), lg2)"
    "entry_tuple e = Some tuple" "tuple_bytes fmt tuple = Inr data"
    and h: "entry_hash e = next_hash (digest_of fmt) (chain lg) data"
    by (cases rule: perform_cases) auto
  obtain json where json: "entry_parse fmt json = Inr e"
    "str_lines (log_text lg2) = str_lines (log_text lg1) @ [json]"
    using written_facts[OF assms(1) _ w(1)] sound1 by (auto simp: sound_logger_def)
  obtain es where "parses_to fmt (str_lines (log_text lg1)) es"
    "chain_end fmt (replicate 32 0) es = Some (previous_hash (chain lg1))"
    using sound1 by (auto simp: sound_logger_iff)
  from verify_lines_append[OF this, of "[json]"]
  have "verify_integrity fmt (Inr (log_text lg2))
      = (if verify_entry (digest_of fmt) (previous_hash (chain lg1)) data (entry_hash e) then Inr True else Inr False)"
    by (simp add: verify_integrity_def json w)
  moreover have "previous_hash (chain lg1) @ data \<noteq> previous_hash (chain lg) @ data"
    if "previous_hash (chain lg1) \<noteq> previous_hash (chain lg)" using that by simp
  ultimately show ?thesis
    unfolding verify_entry_def h next_hash_def by metis
qed

theorem two_writers_break_chain_witness:
  "\<exists>lg2. perform sample_format 5 Written ((sample_log 0)\<lparr>log_text := log_text (sample_log 1)\<rparr>)
       (RequestAction ScanAction ''root'' ''host'' Success) = (Inr (), lg2)
     \<and> (verify_integrity sample_format (Inr (log_text lg2)) = Inr False
        \<or> (\<exists>x y. x \<noteq> y \<and> digest_of sample_format x = digest_of sample_format y)
        \<or> previous_hash (chain (sample_log 1)) = previous_hash (chain (sample_log 0)))"
proof -
  obtain lg2 where p: "perform sample_format 5 Written ((sample_log 0)\<lparr>log_text := log_text (sample_log 1)\<rparr>)
       (RequestAction ScanAction ''root'' ''host'' Success) = (Inr (), lg2)"
    using sample_perform[where lg = "(sample_log 0)\<lparr>log_text := log_text (sample_log 1)\<rparr>" and n = 0]
    by (simp add: sample_log_def)
  show ?thesis
    using two_writers_break_chain[OF sample_renders sample_empty(2,1) sample_open
        sample_step[of 0, folded One_nat_def] p] p by blast
qed

text \<open>The tuples a log's entries hash, in order; what the chain says about the log.\<close>

definition covered :: "log_format \<Rightarrow> string \<Rightarrow> hashed_tuple option list" where
  "covered fmt text = map (\<lambda>line. case entry_parse fmt line of Inl _ \<Rightarrow> None | Inr e \<Rightarrow> entry_tuple e) (str_lines text)"

lemma chain_end_length:
  assumes "chain_end fmt previous es = Some h" "\<And>x. length (digest_of fmt x) = 32" "length previous = 32"
  shows "length h = 32"
  using assms(1,3)
proof (induction es arbitrary: previous)
  case (Cons e es)
  then obtain d where "digest_of fmt (previous @ d) = entry_hash e" "chain_end fmt (entry_hash e) es = Some h"
    by (auto simp: verify_entry_def split: option.splits sum.splits if_splits)
  then have "length (entry_hash e) = 32 \<and> chain_end fmt (entry_hash e) es = Some h"
    using assms(2) by metis
  with Cons.IH show ?case by blast
qed simp

lemma chain_end_last:
  assumes "chain_end fmt g (es @ [e]) = Some h"
  obtains p t d where "chain_end fmt g es = Some p" "entry_tuple e = Some t" "tuple_bytes fmt t = Inr d"
    "digest_of fmt (p @ d) = h"
  using assms by (auto simp: chain_end_append verify_entry_def split: option.splits sum.splits if_splits)

lemma chain_binds:
  assumes "length es = length fs" "chain_end fmt g es = Some h" "chain_end fmt g fs = Some h" "length g = 32"
    and len: "\<And>x. length (digest_of fmt x) = 32"
    and inj: "\<And>s t b. tuple_bytes fmt s = Inr b \<Longrightarrow> tuple_bytes fmt t = Inr b \<Longrightarrow> s = t"
    and free: "\<nexists>x y. x \<noteq> y \<and> digest_of fmt x = digest_of fmt y"
  shows "map entry_tuple es = map entry_tuple fs"
  using assms(1-3)
proof (induction es arbitrary: fs h rule: rev_induct)
  case (snoc e es)
  then obtain f fs' where fs: "fs = fs' @ [f]" "length es = length fs'"
    by (cases fs rule: rev_cases) auto
  obtain p t d where p: "chain_end fmt g es = Some p" "entry_tuple e = Some t" "tuple_bytes fmt t = Inr d"
    "digest_of fmt (p @ d) = h" using chain_end_last[OF snoc.prems(2)] .
  obtain q u c where q: "chain_end fmt g fs' = Some q" "entry_tuple f = Some u" "tuple_bytes fmt u = Inr c"
    "digest_of fmt (q @ c) = h" using chain_end_last[OF snoc.prems(3)[unfolded fs]] .
  have "digest_of fmt (p @ d) = digest_of fmt (q @ c)" using p(4) q(4) by simp
  then have "p @ d = q @ c" using free by metis
  moreover have "length p = length q"
    using chain_end_length[OF p(1) len assms(4)] chain_end_length[OF q(1) len assms(4)] by simp
  ultimately have "p = q" "d = c" by simp_all
  then have "t = u" using inj p(3) q(3) by blast
  have "map entry_tuple es = map entry_tuple fs'"
    by (rule snoc.IH[OF fs(2) p(1)]) (use q(1) \<open>p = q\<close> in simp)
  then show ?case using p(2) q(2) fs(1) \<open>t = u\<close> by (simp only: map_append list.map)
qed simp

lemma covered_parsed: "parses_to fmt (str_lines text) es \<Longrightarrow> covered fmt text = map entry_tuple es"
proof -
  have "parses_to fmt ls es \<Longrightarrow>
      map (\<lambda>line. case entry_parse fmt line of Inl _ \<Rightarrow> None | Inr e \<Rightarrow> entry_tuple e) ls = map entry_tuple es" for ls
    by (induction ls arbitrary: es) (auto simp: parses_to_def list_all2_Cons1)
  then show "parses_to fmt (str_lines text) es \<Longrightarrow> covered fmt text = map entry_tuple es"
    by (simp add: covered_def)
qed



text \<open>What verification does not show: any number of whole lines may be cut from the end of a log
  that verifies, and the time of an entry may be moved within its second, with the same result.\<close>

theorem verification_blind_spots:
  assumes "verify_integrity fmt (Inr text) = Inr True" "entry_parse fmt line = Inr e"
    and "entry_parse fmt line' = Inr (e\<lparr>entry_timestamp := seconds_of (entry_timestamp e) * 1000000000 + nanos\<rparr>)"
    and "0 \<le> nanos" "nanos < 1000000000"
  shows "verify_integrity fmt (Inr (concat (take n (split_inclusive text)))) = Inr True
    \<and> verify_lines fmt previous (before @ line # after) = verify_lines fmt previous (before @ line' # after)"
proof
  have prefix: "verify_lines fmt g (take n ls) = Inr True" if "verify_lines fmt g ls = Inr True" for g n ls
    using that
  proof (induction ls arbitrary: g n)
    case (Cons l ls)
    then show ?case by (cases n) (auto split: sum.splits option.splits if_splits)
  qed simp
  have "wf_lines (take n (split_inclusive text))"
    using wf_split_inclusive[of "text"] by (metis append_take_drop_id wf_lines_append)
  then have "str_lines (concat (take n (split_inclusive text))) = take n (str_lines text)"
    by (simp add: str_lines_def split_inclusive_concat take_map)
  then show "verify_integrity fmt (Inr (concat (take n (split_inclusive text)))) = Inr True"
    using prefix assms(1) by (simp add: verify_integrity_def)
  have "entry_tuple (e\<lparr>entry_timestamp := seconds_of (entry_timestamp e) * 1000000000 + nanos\<rparr>) = entry_tuple e"
    using assms(4,5) by (simp add: entry_tuple_def hashable_def seconds_of_def)
  then show "verify_lines fmt previous (before @ line # after) = verify_lines fmt previous (before @ line' # after)"
    using assms(2,3)
    by (induction before arbitrary: previous) (simp_all split: sum.splits option.splits)
qed

definition retimed_format :: log_format where
  "retimed_format = sample_format\<lparr>entry_parse := (\<lambda>s. Inr (if length s = 1 then sample_entry 1
     else (sample_entry 1)\<lparr>entry_timestamp := 7\<rparr>))\<rparr>"

theorem verification_blind_spots_witness:
  "verify_integrity retimed_format (Inr (concat (take 0 (split_inclusive (''x'' @ [nl]))))) = Inr True
   \<and> verify_lines retimed_format (replicate 32 0) ([] @ ''x'' # []) = verify_lines retimed_format (replicate 32 0) ([] @ ''xx'' # [])"
  by (rule verification_blind_spots[where e = "sample_entry 1" and nanos = 7])
     (simp_all add: retimed_format_def sample_format_def sample_entry_def new_entry_def seconds_of_def
       verify_integrity_def str_lines_def strip_terminator_def entry_tuple_def hashable_def verify_entry_def
       eval_nat_numeral)

end
