(* ===== verification/Distro.thy ===== *)
theory Distro
  imports Host_Executor
begin

text \<open>
  Distribution detection, \<open>crates/hardener-distro/src/lib.rs\<close>: the parser of \<open>/etc/os-release\<close>,
  the version's major number and the map from identifiers to families. The file's text, or the
  error reading it gives, is an argument.
\<close>

datatype distro_family = Debian | RedHat | Arch | Suse

record distribution =
  distro_family :: distro_family
  distro_name :: string
  distro_version :: string
  distro_codename :: "string option"

definition trim_quotes :: "string \<Rightarrow> string" where
  "trim_quotes s = trim_end_matches (CHR 0x22) (trim_start_matches (CHR 0x22) s)"

fun os_release_data :: "(string \<rightharpoonup> string) \<Rightarrow> string list \<Rightarrow> (string \<rightharpoonup> string)" where
  "os_release_data m [] = m"
| "os_release_data m (line # rest) =
     (case split_once (CHR ''='') line of
        None \<Rightarrow> os_release_data m rest
      | Some (key, val) \<Rightarrow> os_release_data (m(key \<mapsto> trim_quotes val)) rest)"

definition extract_field :: "(string \<rightharpoonup> string) \<Rightarrow> string \<Rightarrow> (hardening_error, string) result" where
  "extract_field m field =
     (case m field of
        Some v \<Rightarrow> Inr v
      | None \<Rightarrow> Inl (ConfigError (''Missing os-release field '' @ [CHR 0x27] @ field @ [CHR 0x27])))"

definition map_to_family :: "string \<Rightarrow> (hardening_error, distro_family) result" where
  "map_to_family distro_id =
     (if distro_id \<in> {''debian'', ''ubuntu'', ''linuxmint'', ''pop'', ''elementary''} then Inr Debian
      else if distro_id \<in> {''rhel'', ''fedora'', ''centos'', ''rocky'', ''almalinux'', ''ol''} then Inr RedHat
      else if distro_id \<in> {''arch'', ''manjaro'', ''endeavouros'', ''garuda''} then Inr Arch
      else if distro_id \<in> {''opensuse'', ''opensuse-leap'', ''opensuse-tumbleweed'', ''sles''} then Inr Suse
      else Inl (UnsupportedDistroError
        (''Distribution '' @ [CHR 0x27] @ distro_id @ [CHR 0x27] @ '' is not supported'')))"

definition from_os_release :: "string \<Rightarrow> (hardening_error, distribution) result" where
  "from_os_release content =
     (let m = os_release_data Map.empty (str_lines content) in
      and_then (extract_field m ''ID'') (\<lambda>name.
        and_then (map_to_family name) (\<lambda>family.
          Inr \<lparr>distro_family = family, distro_name = name,
            distro_version = (case extract_field m ''VERSION_ID'' of Inr v \<Rightarrow> v | Inl _ \<Rightarrow> ''rolling''),
            distro_codename = result_ok (extract_field m ''VERSION_CODENAME'')\<rparr>)))"

definition detect :: "(io_kind \<times> string, string) result \<Rightarrow> (hardening_error, distribution) result" where
  "detect file = and_then (map_err (\<lambda>(kind, message). SystemError kind message) file) from_os_release"

definition version_major :: "distribution \<Rightarrow> nat option" where
  "version_major d =
     (let version = distro_version d;
          major = (case split_once (CHR ''.'') version of None \<Rightarrow> version | Some (m, _) \<Rightarrow> m)
      in parse_unsigned 10 (2 ^ 32) major)"

subsection \<open>What detection relies on\<close>

text \<open>The value a field has: that of its last assignment, without quotes.\<close>

definition assignment :: "string \<Rightarrow> string \<Rightarrow> string option" where
  "assignment key line =
     (case split_once (CHR ''='') line of
        Some (k, val) \<Rightarrow> if k = key then Some (trim_quotes val) else None
      | None \<Rightarrow> None)"

lemma os_release_data_last:
  "os_release_data m ls key = (case filter_map (assignment key) ls of [] \<Rightarrow> m key | v # vs \<Rightarrow> Some (last (v # vs)))"
proof (induction ls arbitrary: m)
  case (Cons l ls)
  show ?case
    by (auto simp: assignment_def Cons.IH split: option.splits list.splits)
qed simp

lemma from_os_release_Inr:
  "from_os_release content = Inr d \<Longrightarrow>
     map_to_family (distro_name d) = Inr (distro_family d)
   \<and> filter_map (assignment ''ID'') (str_lines content) \<noteq> []
   \<and> distro_name d = last (filter_map (assignment ''ID'') (str_lines content))"
  by (auto simp: from_os_release_def Let_def and_then_eq_Inr extract_field_def os_release_data_last
      split: option.splits list.splits)

end
