(* ===== verification/Compliance_Tables.thy ===== *)
theory Compliance_Tables
  imports Distro Hardener_Types
begin

text \<open>
  The tables of \<open>crates/hardener-compliance\<close>: the sourced identifier translations of
  \<open>profiles.rs\<close> and the curated catalogues of \<open>frameworks/cis.rs\<close> and \<open>frameworks/iso27001.rs\<close>,
  row by row, with the translation functions over them.
\<close>

subsection \<open>Profile translation\<close>

type_synonym profile_row = "string \<times> string \<times> string \<times> string option"

definition RHEL10_STIG :: "profile_row list" where
  "RHEL10_STIG =
     [
      (''RHEL-08-010430'', ''RHEL-10-701130'', ''RHEL 10 must implement address space layout randomization (ASLR) to protect its memory from unauthorized code execution.'',
        None),
      (''RHEL-08-040283'', ''RHEL-10-701060'', ''RHEL 10 must restrict exposed kernel pointer address access.'',
        None),
      (''RHEL-08-010375'', ''RHEL-10-701030'', ''RHEL 10 must restrict access to the kernel message buffer.'',
        None),
      (''RHEL-08-040282'', ''RHEL-10-701140'', ''RHEL 10 must restrict usage of ptrace to descendant processes.'',
        None),
      (''RHEL-08-010374'', ''RHEL-10-701070'', ''RHEL 10 must enable kernel parameters to enforce discretionary access control (DAC) on hardlinks.'',
        None),
      (''RHEL-08-010374'', ''RHEL-10-701080'', ''RHEL 10 must enable kernel parameters to enforce discretionary access control (DAC) on symlinks.'',
        None),
      (''RHEL-08-040285'', ''RHEL-10-800130'', ''RHEL 10 must use reverse path filtering on all Internet Protocol version 4 (IPv4) interfaces.'',
        None),
      (''RHEL-08-040285'', ''RHEL-10-800160'', ''RHEL 10 must use a reverse-path filter for Internet Protocol version 4 (IPv4) network traffic when possible by default.'',
        None),
      (''RHEL-08-040239'', ''RHEL-10-800100'', ''RHEL 10 must not forward Internet Protocol version 4 (IPv4) source-routed packets.'',
        None),
      (''RHEL-08-040239'', ''RHEL-10-800150'', ''RHEL 10 must not forward Internet Protocol version 4 (IPv4) source-routed packets by default.'',
        None),
      (''RHEL-08-020230'', ''RHEL-10-600220'', ''RHEL 10 must enforce that passwords be created with a minimum of 15 characters.'',
        None),
      (''RHEL-08-020130'', ''RHEL-10-600310'', ''RHEL 10 must enforce password complexity by requiring that at least one numeric character be used.'',
        None),
      (''RHEL-08-020110'', ''RHEL-10-600250'', ''RHEL 10 must enforce password complexity by requiring that at least one uppercase character be used.'',
        None),
      (''RHEL-08-020120'', ''RHEL-10-600240'', ''RHEL 10 must enforce password complexity by requiring that at least one lowercase character be used.'',
        None),
      (''RHEL-08-020280'', ''RHEL-10-600230'', ''RHEL 10 must enforce password complexity by requiring at least one special character to be used.'',
        None),
      (''RHEL-08-020150'', ''RHEL-10-600290'', ''RHEL 10 must require that the maximum number of repeating characters be limited to three when passwords are changed.'',
        None),
      (''RHEL-08-020011'', ''RHEL-10-600410'', ''RHEL 10 must automatically lock an account when three unsuccessful login attempts occur.'',
        None),
      (''RHEL-08-020200'', ''RHEL-10-600100'', ''RHEL 10 must, for new users or password changes, have a 60-day maximum password lifetime restriction for user account passwords in '' @ [CHR 0x22] @ ''/etc/login.defs'' @ [CHR 0x22] @ ''.'',
        None),
      (''RHEL-08-020190'', ''RHEL-10-600210'', ''RHEL 10 must enforce a 24-hours minimum password lifetime restriction for passwords for new users or password changes in '' @ [CHR 0x22] @ ''/etc/login.defs'' @ [CHR 0x22] @ ''.'',
        None),
      (''RHEL-08-040101'', ''RHEL-10-200531'', ''RHEL 10 must have the '' @ [CHR 0x22] @ ''firewalld'' @ [CHR 0x22] @ '' service set to active.'',
        None),
      (''RHEL-08-010291'', ''RHEL-10-300040'', ''RHEL 10 must be configured so that Secure Shell (SSH) servers use only DOD-approved encryption ciphers employing FIPS 140-3-validated cryptographic hash algorithms to protect the confidentiality of SSH server connections.'',
        None),
      (''RHEL-08-010290'', ''RHEL-10-300060'', ''RHEL 10 must be configured so that Secure Shell (SSH) servers use only DOD-approved Message Authentication Codes (MACs) employing FIPS 140-3-validated cryptographic hash algorithms to protect the confidentiality of SSH server connections.'',
        None),
      (''OL08-00-030180'', ''RHEL-10-200660'', ''RHEL 10 must have the '' @ [CHR 0x22] @ ''audit'' @ [CHR 0x22] @ '' package installed.'',
        None),
      (''OL08-00-030181'', ''RHEL-10-200661'', ''RHEL 10 must enable the audit service.'',
        None),
      (''OL08-00-010170'', ''RHEL-10-700420'', ''RHEL 10 must use a Linux Security Module configured to enforce limits on system services.'',
        None)]"

definition RHEL10_CIS :: "profile_row list" where
  "RHEL10_CIS =
     [
      (''1.5.1'', ''1.5.8'', ''Ensure kernel.randomize_va_space is configured'',
        None),
      (''1.5.2'', ''1.5.7'', ''Ensure kernel.yama.ptrace_scope is configured'',
        None),
      (''1.5.3'', ''1.5.4'', ''Ensure fs.suid_dumpable is configured'',
        None),
      (''1.5.4'', ''1.5.5'', ''Ensure kernel.dmesg_restrict is configured'',
        None),
      (''1.5.4'', ''1.5.6'', ''Ensure kernel.kptr_restrict is configured'',
        None),
      (''1.6.1.1'', ''1.3.1.1'', ''Ensure SELinux is installed'',
        None),
      (''1.6.1.2'', ''1.3.1.2'', ''Ensure SELinux is not disabled in bootloader configuration'',
        None),
      (''1.6.1.3'', ''1.3.1.3'', ''Ensure SELinux policy is configured'',
        None),
      (''1.6.1.4'', ''1.3.1.5'', ''Ensure the SELinux mode is enforcing'',
        None),
      (''2.2.2'', ''2.1.20'', ''Ensure X window server services are not in use'',
        None),
      (''2.2.3'', ''2.1.2'', ''Ensure avahi daemon services are not in use'',
        None),
      (''2.2.4'', ''2.1.10'', ''Ensure print server services are not in use'',
        None),
      (''3.2.1'', ''3.3.1.14'', ''Ensure net.ipv4.conf.all.accept_source_route is configured'',
        None),
      (''3.2.1'', ''3.3.1.15'', ''Ensure net.ipv4.conf.default.accept_source_route is configured'',
        None),
      (''3.2.2'', ''3.3.1.8'', ''Ensure net.ipv4.conf.all.accept_redirects is configured'',
        None),
      (''3.2.2'', ''3.3.1.9'', ''Ensure net.ipv4.conf.default.accept_redirects is configured'',
        None),
      (''3.2.3'', ''3.3.1.10'', ''Ensure net.ipv4.conf.all.secure_redirects is configured'',
        None),
      (''3.2.3'', ''3.3.1.11'', ''Ensure net.ipv4.conf.default.secure_redirects is configured'',
        None),
      (''3.2.4'', ''3.3.1.16'', ''Ensure net.ipv4.conf.all.log_martians is configured'',
        None),
      (''3.2.4'', ''3.3.1.17'', ''Ensure net.ipv4.conf.default.log_martians is configured'',
        None),
      (''3.2.7'', ''3.3.1.12'', ''Ensure net.ipv4.conf.all.rp_filter is configured'',
        None),
      (''3.2.7'', ''3.3.1.13'', ''Ensure net.ipv4.conf.default.rp_filter is configured'',
        None),
      (''3.2.8'', ''3.3.1.18'', ''Ensure net.ipv4.tcp_syncookies is configured'',
        None),
      (''3.4.1.1'', ''4.1.1'', ''Ensure firewalld is installed'',
        None),
      (''3.4.1.2'', ''4.1.3'', ''Ensure firewalld.service is configured'',
        None),
      (''4.1.1.1'', ''6.3.1.1'', ''Ensure auditd packages are installed'',
        None),
      (''4.1.1.2'', ''6.3.1.4'', ''Ensure auditd service is enabled and active'',
        None),
      (''4.1.2.1'', ''6.3.2.1'', ''Ensure audit log storage size is configured'',
        None),
      (''5.1.8'', ''2.4.1.9'', ''Ensure access to crontab is configured'',
        None),
      (''5.2.1'', ''5.1.1'', ''Ensure access to /etc/ssh/sshd_config is configured'',
        None),
      (''5.2.6'', ''5.1.8'', ''Ensure sshd DisableForwarding is enabled'',
        None),
      (''5.2.7'', ''5.1.16'', ''Ensure sshd MaxAuthTries is configured'',
        None),
      (''5.2.10'', ''5.1.20'', ''Ensure sshd PermitRootLogin is disabled'',
        None),
      (''5.2.11'', ''5.1.19'', ''Ensure sshd PermitEmptyPasswords is disabled'',
        None),
      (''5.2.13'', ''5.1.7'', ''Ensure sshd ClientAliveInterval and ClientAliveCountMax are configured'',
        None),
      (''5.2.14'', ''5.1.12'', ''Ensure sshd KexAlgorithms is configured'',
        None),
      (''5.2.15'', ''5.1.6'', ''Ensure sshd Ciphers are configured'',
        None),
      (''5.2.16'', ''5.1.15'', ''Ensure sshd MACs are configured'',
        None),
      (''5.3.1'', ''5.3.2.2.2'', ''Ensure password length is configured'',
        None),
      (''5.3.1'', ''5.3.2.2.3'', ''Ensure password complexity is configured'',
        None),
      (''5.3.1'', ''5.3.2.2.4'', ''Ensure password same consecutive characters is configured'',
        None),
      (''5.3.2'', ''5.3.2.1.1'', ''Ensure password failed attempts lockout is configured'',
        None),
      (''5.3.2'', ''5.3.2.1.2'', ''Ensure password unlock time is configured'',
        None),
      (''5.3.3'', ''5.3.2.3.1'', ''Ensure password history remember is configured'',
        None),
      (''5.4.1.1'', ''5.4.1.1'', ''Ensure password expiration is configured'',
        None),
      (''5.4.1.2'', ''5.4.1.2'', ''Ensure minimum password days is configured'',
        None),
      (''5.4.1.3'', ''5.4.1.3'', ''Ensure password expiration warning days is configured'',
        None),
      (''6.1.2'', ''7.1.1'', ''Ensure access to /etc/passwd is configured'',
        None),
      (''6.1.3'', ''7.1.5'', ''Ensure access to /etc/shadow is configured'',
        None),
      (''6.1.4'', ''7.1.3'', ''Ensure access to /etc/group is configured'',
        None),
      (''6.1.5'', ''7.1.7'', ''Ensure access to /etc/gshadow is configured'',
        None)]"

definition translate_rows ::
  "profile_row list \<Rightarrow> compliance_mapping \<Rightarrow> compliance_mapping list" where
  "translate_rows rows m =
     map (\<lambda>(_, cid, title, section). \<lparr>compliance_framework = compliance_framework m,
            compliance_control_id = cid, compliance_control_title = title,
            compliance_section = (case section of Some s \<Rightarrow> Some s | None \<Rightarrow> compliance_section m)\<rparr>)
       (filter (\<lambda>(canonical, _). canonical = compliance_control_id m) rows)"

definition translate :: "compliance_profile \<Rightarrow> compliance_mapping \<Rightarrow> compliance_mapping list" where
  "translate profile m =
     (case (profile, compliance_framework m) of
        (Rhel10, STIG) \<Rightarrow> translate_rows RHEL10_STIG m
      | (Rhel10, CIS) \<Rightarrow> translate_rows RHEL10_CIS m
      | _ \<Rightarrow> [m])"

definition translate_all :: "compliance_profile \<Rightarrow> compliance_mapping list \<Rightarrow> compliance_mapping list" where
  "translate_all profile ms = concat (map (translate profile) ms)"

definition resolve_profile :: "distribution \<Rightarrow> compliance_profile" where
  "resolve_profile d =
     (if distro_family d = RedHat \<and> version_major d = Some 10 then Rhel10 else Generic)"


subsection \<open>Curated catalogues\<close>

definition cis_controls :: "compliance_mapping list" where
  "cis_controls =
     map (\<lambda>(cid, title, section). \<lparr>compliance_framework = CIS, compliance_control_id = cid,
            compliance_control_title = title, compliance_section = Some section\<rparr>)
     [(''1.5.1'', ''Ensure address space layout randomisation (ASLR)'', ''Initial Setup''),
      (''1.5.2'', ''Ensure ptrace_scope is restricted'', ''Initial Setup''),
      (''1.5.3'', ''Ensure core dumps are restricted'', ''Initial Setup''),
      (''1.5.4'', ''Ensure kernel pointers are restricted'', ''Initial Setup''),
      (''3.2.1'', ''Ensure source routed packets are not accepted'', ''Network Configuration''),
      (''3.2.2'', ''Ensure ICMP redirects are not accepted'', ''Network Configuration''),
      (''3.2.3'', ''Ensure secure ICMP redirects are not accepted'', ''Network Configuration''),
      (''3.2.4'', ''Ensure suspicious packets are logged'', ''Network Configuration''),
      (''3.2.7'', ''Ensure reverse path filtering is enabled'', ''Network Configuration''),
      (''3.2.8'', ''Ensure TCP SYN cookies is enabled'', ''Network Configuration''),
      (''3.4.1.1'', ''Ensure firewall is installed'', ''Network Configuration''),
      (''3.4.1.2'', ''Ensure firewall service is enabled and running'', ''Network Configuration''),
      (''4.1.1.1'', ''Ensure auditd is installed'', ''Logging and Auditing''),
      (''4.1.1.2'', ''Ensure auditd service is enabled and running'', ''Logging and Auditing''),
      (''4.1.2.1'', ''Ensure audit log storage size is configured'', ''Logging and Auditing''),
      (''5.1.8'', ''Ensure cron is restricted to authorised users'', ''Access Control''),
      (''5.2.1'', ''Ensure permissions on /etc/ssh/sshd_config are configured'', ''Access Control''),
      (''5.2.4'', ''Ensure SSH Protocol is set to 2'', ''Access Control''),
      (''5.2.6'', ''Ensure SSH X11 forwarding is disabled'', ''Access Control''),
      (''5.2.7'', ''Ensure SSH MaxAuthTries is set to 4 or less'', ''Access Control''),
      (''5.2.10'', ''Ensure SSH root login is disabled'', ''Access Control''),
      (''5.2.11'', ''Ensure SSH PermitEmptyPasswords is disabled'', ''Access Control''),
      (''5.2.13'', ''Ensure SSH Idle Timeout Interval is configured'', ''Access Control''),
      (''5.2.14'', ''Ensure only strong Key Exchange algorithms are used'', ''Access Control''),
      (''5.2.15'', ''Ensure only strong Ciphers are used'', ''Access Control''),
      (''5.2.16'', ''Ensure only strong MAC algorithms are used'', ''Access Control''),
      (''5.3.1'', ''Ensure password creation requirements are configured'', ''Access Control''),
      (''5.3.2'', ''Ensure lockout for failed password attempts is configured'', ''Access Control''),
      (''5.3.3'', ''Ensure password reuse is limited'', ''Access Control''),
      (''6.1.2'', ''Ensure permissions on /etc/passwd are configured'', ''System Maintenance''),
      (''6.1.3'', ''Ensure permissions on /etc/shadow are configured'', ''System Maintenance''),
      (''6.1.4'', ''Ensure permissions on /etc/group are configured'', ''System Maintenance''),
      (''6.1.5'', ''Ensure permissions on /etc/gshadow are configured'', ''System Maintenance''),
      (''2.1.1'', ''Ensure xinetd is not installed'', ''Services''),
      (''2.2.2'', ''Ensure X Window System is not installed'', ''Services''),
      (''2.2.3'', ''Ensure Avahi Server is not installed'', ''Services''),
      (''2.2.4'', ''Ensure CUPS is not installed'', ''Services''),
      (''1.6.1.1'', ''Ensure SELinux or AppArmor is installed'', ''Mandatory Access Control''),
      (''1.6.1.2'', ''Ensure SELinux is not disabled in bootloader configuration'', ''Mandatory Access Control''),
      (''1.6.1.3'', ''Ensure SELinux policy is configured'', ''Mandatory Access Control''),
      (''1.6.1.4'', ''Ensure the SELinux mode is enforcing or AppArmor is enabled'', ''Mandatory Access Control'')]"

definition iso_control :: "string \<Rightarrow> string \<Rightarrow> string \<Rightarrow> compliance_mapping" where
  "iso_control cid title theme = \<lparr>compliance_framework = ISO27001, compliance_control_id = cid,
     compliance_control_title = title, compliance_section = Some theme\<rparr>"

definition iso27001_controls :: "compliance_mapping list" where
  "iso27001_controls =
     [iso_control ''5.1'' ''Policies for information security'' ''Organizational'',
      iso_control ''5.2'' ''Information security roles and responsibilities'' ''Organizational'',
      iso_control ''5.3'' ''Segregation of duties'' ''Organizational'',
      iso_control ''5.4'' ''Management responsibilities'' ''Organizational'',
      iso_control ''5.5'' ''Contact with authorities'' ''Organizational'',
      iso_control ''5.6'' ''Contact with special interest groups'' ''Organizational'',
      iso_control ''5.7'' ''Threat intelligence'' ''Organizational'',
      iso_control ''5.8'' ''Information security in project management'' ''Organizational'',
      iso_control ''5.9'' ''Inventory of information and other associated assets'' ''Organizational'',
      iso_control ''5.10'' ''Acceptable use of information and other associated assets'' ''Organizational'',
      iso_control ''5.11'' ''Return of assets'' ''Organizational'',
      iso_control ''5.12'' ''Classification of information'' ''Organizational'',
      iso_control ''5.13'' ''Labelling of information'' ''Organizational'',
      iso_control ''5.14'' ''Information transfer'' ''Organizational'',
      iso_control ''5.15'' ''Access control'' ''Organizational'',
      iso_control ''5.16'' ''Identity management'' ''Organizational'',
      iso_control ''5.17'' ''Authentication information'' ''Organizational'',
      iso_control ''5.18'' ''Access rights'' ''Organizational'',
      iso_control ''5.19'' ''Information security in supplier relationships'' ''Organizational'',
      iso_control ''5.20'' ''Addressing information security within supplier agreements'' ''Organizational'',
      iso_control ''5.21'' ''Managing information security in the ICT supply chain'' ''Organizational'',
      iso_control ''5.22'' ''Monitoring, review and change management of supplier services'' ''Organizational'',
      iso_control ''5.23'' ''Information security for use of cloud services'' ''Organizational'',
      iso_control ''5.24'' ''Information security incident management planning and preparation'' ''Organizational'',
      iso_control ''5.25'' ''Assessment and decision on information security events'' ''Organizational'',
      iso_control ''5.26'' ''Response to information security incidents'' ''Organizational'',
      iso_control ''5.27'' ''Learning from information security incidents'' ''Organizational'',
      iso_control ''5.28'' ''Collection of evidence'' ''Organizational'',
      iso_control ''5.29'' ''Information security during disruption'' ''Organizational'',
      iso_control ''5.30'' ''ICT readiness for business continuity'' ''Organizational'',
      iso_control ''5.31'' ''Legal, statutory, regulatory and contractual requirements'' ''Organizational'',
      iso_control ''5.32'' ''Intellectual property rights'' ''Organizational'',
      iso_control ''5.33'' ''Protection of records'' ''Organizational'',
      iso_control ''5.34'' ''Privacy and protection of PII'' ''Organizational'',
      iso_control ''5.35'' ''Independent review of information security'' ''Organizational'',
      iso_control ''5.36'' ''Compliance with policies, rules and standards for information security'' ''Organizational'',
      iso_control ''5.37'' ''Documented operating procedures'' ''Organizational'',
      iso_control ''6.1'' ''Screening'' ''People'',
      iso_control ''6.2'' ''Terms and conditions of employment'' ''People'',
      iso_control ''6.3'' ''Information security awareness, education and training'' ''People'',
      iso_control ''6.4'' ''Disciplinary process'' ''People'',
      iso_control ''6.5'' ''Responsibilities after termination or change of employment'' ''People'',
      iso_control ''6.6'' ''Confidentiality or non-disclosure agreements'' ''People'',
      iso_control ''6.7'' ''Remote working'' ''People'',
      iso_control ''6.8'' ''Information security event reporting'' ''People'',
      iso_control ''7.1'' ''Physical security perimeters'' ''Physical'',
      iso_control ''7.2'' ''Physical entry'' ''Physical'',
      iso_control ''7.3'' ''Securing offices, rooms and facilities'' ''Physical'',
      iso_control ''7.4'' ''Physical security monitoring'' ''Physical'',
      iso_control ''7.5'' ''Protecting against physical and environmental threats'' ''Physical'',
      iso_control ''7.6'' ''Working in secure areas'' ''Physical'',
      iso_control ''7.7'' ''Clear desk and clear screen'' ''Physical'',
      iso_control ''7.8'' ''Equipment siting and protection'' ''Physical'',
      iso_control ''7.9'' ''Security of assets off-premises'' ''Physical'',
      iso_control ''7.10'' ''Storage media'' ''Physical'',
      iso_control ''7.11'' ''Supporting utilities'' ''Physical'',
      iso_control ''7.12'' ''Cabling security'' ''Physical'',
      iso_control ''7.13'' ''Equipment maintenance'' ''Physical'',
      iso_control ''7.14'' ''Secure disposal or re-use of equipment'' ''Physical'',
      iso_control ''8.1'' ''User endpoint devices'' ''Technological'',
      iso_control ''8.2'' ''Privileged access rights'' ''Technological'',
      iso_control ''8.3'' ''Information access restriction'' ''Technological'',
      iso_control ''8.4'' ''Access to source code'' ''Technological'',
      iso_control ''8.5'' ''Secure authentication'' ''Technological'',
      iso_control ''8.6'' ''Capacity management'' ''Technological'',
      iso_control ''8.7'' ''Protection against malware'' ''Technological'',
      iso_control ''8.8'' ''Management of technical vulnerabilities'' ''Technological'',
      iso_control ''8.9'' ''Configuration management'' ''Technological'',
      iso_control ''8.10'' ''Information deletion'' ''Technological'',
      iso_control ''8.11'' ''Data masking'' ''Technological'',
      iso_control ''8.12'' ''Data leakage prevention'' ''Technological'',
      iso_control ''8.13'' ''Information backup'' ''Technological'',
      iso_control ''8.14'' ''Redundancy of information processing facilities'' ''Technological'',
      iso_control ''8.15'' ''Logging'' ''Technological'',
      iso_control ''8.16'' ''Monitoring activities'' ''Technological'',
      iso_control ''8.17'' ''Clock synchronization'' ''Technological'',
      iso_control ''8.18'' ''Use of privileged utility programs'' ''Technological'',
      iso_control ''8.19'' ''Installation of software on operational systems'' ''Technological'',
      iso_control ''8.20'' ''Networks security'' ''Technological'',
      iso_control ''8.21'' ''Security of network services'' ''Technological'',
      iso_control ''8.22'' ''Segregation of networks'' ''Technological'',
      iso_control ''8.23'' ''Web filtering'' ''Technological'',
      iso_control ''8.24'' ''Use of cryptography'' ''Technological'',
      iso_control ''8.25'' ''Secure development life cycle'' ''Technological'',
      iso_control ''8.26'' ''Application security requirements'' ''Technological'',
      iso_control ''8.27'' ''Secure system architecture and engineering principles'' ''Technological'',
      iso_control ''8.28'' ''Secure coding'' ''Technological'',
      iso_control ''8.29'' ''Security testing in development and acceptance'' ''Technological'',
      iso_control ''8.30'' ''Outsourced development'' ''Technological'',
      iso_control ''8.31'' ''Separation of development, test and production environments'' ''Technological'',
      iso_control ''8.32'' ''Change management'' ''Technological'',
      iso_control ''8.33'' ''Test information'' ''Technological'',
      iso_control ''8.34'' ''Protection of information systems during audit testing'' ''Technological'']"

definition curated_controls :: "compliance_framework \<Rightarrow> compliance_mapping list option" where
  "curated_controls framework =
     (case framework of
        CIS \<Rightarrow> Some cis_controls
      | ISO27001 \<Rightarrow> Some iso27001_controls
      | _ \<Rightarrow> None)"

subsection \<open>Facts about translation\<close>

lemma translate_framework: "m' \<in> set (translate profile m) \<Longrightarrow> compliance_framework m' = compliance_framework m"
  by (auto simp: translate_def translate_rows_def split: compliance_profile.splits compliance_framework.splits)

lemma translate_all_Nil [simp]: "translate_all profile [] = []"
  by (simp add: translate_all_def)

lemma set_translate_all: "set (translate_all profile ms) = (\<Union>m\<in>set ms. set (translate profile m))"
  by (auto simp: translate_all_def)

lemma translate_generic [simp]: "translate Generic m = [m]"
  by (simp add: translate_def)

text \<open>A translation depends on the framework and the identifier only: two mappings that agree on them
  have the same translated identifiers.\<close>

lemma translate_key:
  assumes "compliance_framework a = compliance_framework b" "compliance_control_id a = compliance_control_id b"
  shows "map compliance_control_id (translate profile a) = map compliance_control_id (translate profile b)"
proof -
  have "map compliance_control_id (translate_rows rows a) = map compliance_control_id (translate_rows rows b)" for rows
    using assms by (simp add: translate_rows_def comp_def case_prod_beta)
  then show ?thesis
    using assms by (simp add: translate_def split: compliance_profile.splits compliance_framework.splits)
qed

end
