(* ===== verification/Compliance_Report.thy ===== *)
theory Compliance_Report
  imports Compliance_Tables Policy_Config
begin

text \<open>
  Compliance reports from scan results: \<open>crates/hardener-compliance/src/scan_evidence.rs\<close> (what a
  run without a plugin's evidence leaves unchecked), \<open>config.rs\<close> (scenarios and formats) and
  \<open>generator.rs\<close> (the status of every control).

  Hash sets are lists consulted by membership. The clock is an argument: the day exclusions are
  measured against and the time stamped on the report. The order in which the hash map of
  exclusions enumerates its keys is an argument too, because the generator's merge depends on it.
\<close>

subsection \<open>Configuration\<close>

datatype scenario =
  Server | Workstation | Government | Healthcare | Financial | Gdpr | All_Frameworks
| Custom "compliance_framework list"

fun scenario_frameworks :: "scenario \<Rightarrow> compliance_framework list" where
  "scenario_frameworks Server = [CIS, STIG]"
| "scenario_frameworks Workstation = [CIS]"
| "scenario_frameworks Government = [STIG, NIST, NIST800171, FedRAMP]"
| "scenario_frameworks Healthcare = [HIPAA, NIST]"
| "scenario_frameworks Financial = [PCIDSS, CIS]"
| "scenario_frameworks Gdpr = [GDPR]"
| "scenario_frameworks All_Frameworks = ALL_FRAMEWORKS"
| "scenario_frameworks (Custom frameworks) = frameworks"

fun scenario_name :: "scenario \<Rightarrow> string" where
  "scenario_name Server = ''Server''"
| "scenario_name Workstation = ''Workstation''"
| "scenario_name Government = ''Government''"
| "scenario_name Healthcare = ''Healthcare''"
| "scenario_name Financial = ''Financial''"
| "scenario_name Gdpr = ''Gdpr''"
| "scenario_name All_Frameworks = ''All Frameworks''"
| "scenario_name (Custom _) = ''Custom''"

datatype output_format = TextFormat | JsonFormat | CsvFormat | HtmlFormat | PdfFormat

fun format_extension :: "output_format \<Rightarrow> string" where
  "format_extension TextFormat = ''txt''"
| "format_extension JsonFormat = ''json''"
| "format_extension CsvFormat = ''csv''"
| "format_extension HtmlFormat = ''html''"
| "format_extension PdfFormat = ''pdf''"

definition format_from_extension :: "string \<Rightarrow> output_format option" where
  "format_from_extension extension =
     (let e = map ascii_lower extension in
      if e = ''txt'' then Some TextFormat
      else if e = ''json'' then Some JsonFormat
      else if e = ''csv'' then Some CsvFormat
      else if e = ''htm'' \<or> e = ''html'' then Some HtmlFormat
      else if e = ''pdf'' then Some PdfFormat
      else None)"

text \<open>\<open>Path::extension\<close>: what follows the last dot of the file name, unless the name starts with it.\<close>

definition path_extension :: "string \<Rightarrow> string option" where
  "path_extension path =
     (case file_name path of
        None \<Rightarrow> None
      | Some name \<Rightarrow>
          (case rsplit_once (CHR ''.'') name of
             None \<Rightarrow> None
           | Some (before, after) \<Rightarrow> if before = [] then None else Some after))"

definition contradicted_by :: "output_format \<Rightarrow> string \<Rightarrow> output_format option" where
  "contradicted_by format path =
     (case path_extension path of
        None \<Rightarrow> None
      | Some e \<Rightarrow>
          (case format_from_extension e of
             None \<Rightarrow> None
           | Some named \<Rightarrow> if named \<noteq> format then Some named else None))"

record report_config =
  config_scenario :: scenario
  config_formats :: "output_format list"
  config_output_dir :: "string option"
  config_profile :: compliance_profile

definition default_report_config :: report_config where
  "default_report_config = \<lparr>config_scenario = Server, config_formats = [TextFormat],
     config_output_dir = None, config_profile = Generic\<rparr>"

subsection \<open>Scan evidence\<close>

datatype unassessed = ScanIncomplete "string option" | NotRunByConfig | NotCovered

definition unassessed_check :: "plugin_coverage \<Rightarrow> unassessed \<Rightarrow> unchecked_check" where
  "unassessed_check plugin why =
     (let meta = coverage_metadata plugin;
          (suffix, title, cause) = (case why of
              ScanIncomplete error \<Rightarrow> (''scan-incomplete'', plugin_name meta @ '' scan did not complete'',
                (case error of Some e \<Rightarrow> e | None \<Rightarrow> ''reason not reported''))
            | NotRunByConfig \<Rightarrow> (''not-assessed'', plugin_name meta @ '' did not run'',
                ''disabled by configuration, so the controls it covers were not assessed'')
            | NotCovered \<Rightarrow> (''not-assessed'', plugin_name meta @ '' did not run'',
                ''this scan did not cover it, so the controls it covers were not assessed''))
      in \<lparr>unchecked_check_id = metadata_plugin_id meta @ ''-'' @ suffix, unchecked_title = title,
          unchecked_category = plugin_category meta, unchecked_reason = cause,
          unchecked_blocker = (case why of ScanIncomplete _ \<Rightarrow> Unknown | _ \<Rightarrow> Environment),
          unchecked_compliance = coverage plugin\<rparr>)"

definition registry_unavailable_check :: "string \<Rightarrow> unchecked_check" where
  "registry_unavailable_check cause =
     \<lparr>unchecked_check_id = ''plugin-registry-unavailable'',
      unchecked_title = ''Plugin registry could not be enumerated'',
      unchecked_category = Audit,
      unchecked_reason = ''the plugins this run would have assessed could not be listed ('' @ cause
        @ ''), so no control may be reported as satisfied'',
      unchecked_blocker = Environment, unchecked_compliance = []\<rparr>"

definition plugin_named :: "plugin_coverage list \<Rightarrow> plugin_id \<Rightarrow> plugin_coverage option" where
  "plugin_named plugins pid = find (\<lambda>p. metadata_plugin_id (coverage_metadata p) = pid) plugins"

text \<open>What one result contributes.\<close>

definition result_evidence :: "plugin_coverage list \<Rightarrow> scan_result \<Rightarrow> finding list \<times> unchecked_check list" where
  "result_evidence plugins r =
     (case scan_skipped r of
        Some DisabledByConfig \<Rightarrow>
          ([], case plugin_named plugins (scan_plugin_id r) of
                 Some p \<Rightarrow> [unassessed_check p NotRunByConfig] | None \<Rightarrow> [])
      | None \<Rightarrow>
          (scan_findings r,
           scan_unchecked r
           @ (if scan_success r then []
              else case plugin_named plugins (scan_plugin_id r) of
                     Some p \<Rightarrow> [unassessed_check p (ScanIncomplete (scan_error r))] | None \<Rightarrow> [])))"

definition missing_plugins ::
  "plugin_coverage list \<Rightarrow> scan_result list \<Rightarrow> plugin_id list \<Rightarrow> unchecked_check list" where
  "missing_plugins plugins results skipped =
     map (\<lambda>p. unassessed_check p
            (if metadata_plugin_id (coverage_metadata p) \<in> set skipped then NotRunByConfig else NotCovered))
       (filter (\<lambda>p. \<not> list_ex (\<lambda>r. scan_plugin_id r = metadata_plugin_id (coverage_metadata p)) results) plugins)"

definition flatten ::
  "plugin_inventory \<Rightarrow> scan_result list \<Rightarrow> plugin_id list \<Rightarrow> finding list \<times> unchecked_check list" where
  "flatten inventory results skipped =
     (let plugins = inventory_plugins inventory;
          before = (case inventory of Known _ \<Rightarrow> [] | Unavailable cause \<Rightarrow> [registry_unavailable_check cause]);
          evidence = map (result_evidence plugins) results
      in (concat (map fst evidence),
          before @ concat (map snd evidence) @ missing_plugins plugins results skipped))"

subsection \<open>The generator\<close>

record report_generator =
  gen_config :: report_config
  gen_coverage :: "compliance_mapping list"
  gen_inventory :: plugin_inventory
  gen_exclusions :: compliance_config
  gen_host :: "(string \<times> string \<times> string) option"

definition new_generator ::
  "report_config \<Rightarrow> plugin_inventory \<Rightarrow> compliance_config \<Rightarrow> report_generator" where
  "new_generator config inventory exclusions =
     \<lparr>gen_config = config, gen_coverage = assessed_controls inventory, gen_inventory = inventory,
      gen_exclusions = exclusions, gen_host = None\<rparr>"

definition for_host :: "string \<Rightarrow> string \<Rightarrow> string \<Rightarrow> report_generator \<Rightarrow> report_generator" where
  "for_host host_target hostname name g = g\<lparr>gen_host := Some (host_target, hostname, name)\<rparr>"

record compliance_report =
  report_framework :: compliance_framework
  report_profile :: compliance_profile
  report_generated_at :: int
  report_controls :: "control_result list"
  report_summary :: compliance_summary
  report_coverage_note :: "string option"

definition related_findings :: "finding list \<Rightarrow> compliance_framework \<Rightarrow> string \<Rightarrow> finding list" where
  "related_findings findings framework cid =
     filter (\<lambda>f. list_ex (\<lambda>c. compliance_framework c = framework \<and> compliance_control_id c = cid)
                  (finding_compliance f)) findings"

definition has_live_finding :: "finding list \<Rightarrow> bool" where
  "has_live_finding findings =
     list_ex (\<lambda>f. case finding_exception f of Applied _ \<Rightarrow> False | _ \<Rightarrow> True) findings"

definition covers_this_host :: "report_generator \<Rightarrow> scope_exclusion \<Rightarrow> bool" where
  "covers_this_host g e =
     (case gen_host g of
        Some (host_target, hostname, name) \<Rightarrow> covers_host e host_target hostname name
      | None \<Rightarrow> hosts e = [])"

definition control_ids_for :: "compliance_framework \<Rightarrow> compliance_mapping list \<Rightarrow> string list" where
  "control_ids_for framework ms =
     map compliance_control_id (filter (\<lambda>m. compliance_framework m = framework) ms)"

fun dedup_by_id :: "string list \<Rightarrow> compliance_mapping list \<Rightarrow> compliance_mapping list" where
  "dedup_by_id seen [] = []"
| "dedup_by_id seen (m # ms) =
     (if compliance_control_id m \<in> set seen then dedup_by_id seen ms
      else m # dedup_by_id (compliance_control_id m # seen) ms)"

definition catalogue_for ::
  "compliance_profile \<Rightarrow> compliance_framework \<Rightarrow> compliance_mapping list \<Rightarrow> compliance_mapping list" where
  "catalogue_for profile framework cov =
     dedup_by_id []
       (translate_all profile (case curated_controls framework of Some cs \<Rightarrow> cs | None \<Rightarrow> [])
        @ filter (\<lambda>m. compliance_framework m = framework) cov)"

text \<open>Later keys of the hash map's order overwrite earlier ones where both name a control.\<close>

definition excluded_controls ::
  "string list \<Rightarrow> compliance_config \<Rightarrow> compliance_framework \<Rightarrow> (string \<rightharpoonup> scope_exclusion)" where
  "excluded_controls key_order exclusions framework =
     foldl (\<lambda>m key. case exclusions key of
              Some controls \<Rightarrow> if framework_from_id key = Some framework then m ++ controls else m
            | None \<Rightarrow> m)
       Map.empty key_order"

definition control_status_of ::
  "'d::linorder calendar \<Rightarrow> 'd \<Rightarrow> string list \<Rightarrow> report_generator \<Rightarrow> compliance_framework \<Rightarrow> finding list \<Rightarrow>
   unchecked_check list \<Rightarrow> compliance_mapping list \<Rightarrow> string \<Rightarrow> control_status" where
  "control_status_of cal today key_order g framework findings unchecked cov cid =
     (if has_live_finding (related_findings findings framework cid) then Fail
      else if cid \<in> set (control_ids_for framework (concat (map unchecked_compliance unchecked))) then ManualReview
      else if cid \<in> set (control_ids_for framework cov) then Pass
      else case excluded_controls key_order (gen_exclusions g) framework cid of
             Some e \<Rightarrow>
               (if is_valid_on cal e (framework_id framework) today \<and> covers_this_host g e
                then NotApplicable else ManualReview)
           | None \<Rightarrow> ManualReview)"

definition section_of :: "compliance_mapping \<Rightarrow> string" where
  "section_of m = (case compliance_section m of Some s \<Rightarrow> s | None \<Rightarrow> ''General'')"

definition control_of :: "compliance_mapping \<Rightarrow> control_status \<Rightarrow> finding list \<Rightarrow> control_result" where
  "control_of m status related =
     \<lparr>control_id = compliance_control_id m, control_title = compliance_control_title m,
      control_section = section_of m, control_status = status, control_findings = related\<rparr>"

text \<open>The safe-failure net: controls of findings that the catalogue lacks.\<close>

fun extra_controls ::
  "compliance_framework \<Rightarrow> finding list \<Rightarrow> string list \<Rightarrow> compliance_mapping list \<Rightarrow> control_result list" where
  "extra_controls framework findings seen [] = []"
| "extra_controls framework findings seen (m # ms) =
     (if compliance_framework m \<noteq> framework \<or> compliance_control_id m \<in> set seen
      then extra_controls framework findings seen ms
      else let cid = compliance_control_id m; related = related_findings findings framework cid in
        if \<not> has_live_finding related then extra_controls framework findings (cid # seen) ms
        else control_of m Fail related # extra_controls framework findings (cid # seen) ms)"

definition generate_for_framework ::
  "'d::linorder calendar \<Rightarrow> 'd \<Rightarrow> int \<Rightarrow> string list \<Rightarrow> report_generator \<Rightarrow> compliance_framework \<Rightarrow>
   finding list \<Rightarrow> unchecked_check list \<Rightarrow> compliance_mapping list \<Rightarrow> compliance_report" where
  "generate_for_framework cal today generated_at key_order g framework findings unchecked cov =
     (let profile = config_profile (gen_config g);
          catalogued = map (\<lambda>m. let cid = compliance_control_id m in
              control_of m (control_status_of cal today key_order g framework findings unchecked cov cid)
                (related_findings findings framework cid))
            (catalogue_for profile framework cov);
          controls = catalogued @ extra_controls framework findings (map control_id catalogued)
            (concat (map finding_compliance findings))
      in \<lparr>report_framework = framework, report_profile = profile, report_generated_at = generated_at,
          report_controls = controls, report_summary = summary_from_controls controls,
          report_coverage_note = unchecked_summary unchecked\<rparr>)"

definition translate_finding :: "compliance_profile \<Rightarrow> finding \<Rightarrow> finding" where
  "translate_finding profile f = f\<lparr>finding_compliance := translate_all profile (finding_compliance f)\<rparr>"

definition translate_unchecked :: "compliance_profile \<Rightarrow> unchecked_check \<Rightarrow> unchecked_check" where
  "translate_unchecked profile u = u\<lparr>unchecked_compliance := translate_all profile (unchecked_compliance u)\<rparr>"

definition score ::
  "'d::linorder calendar \<Rightarrow> 'd \<Rightarrow> int \<Rightarrow> string list \<Rightarrow> report_generator \<Rightarrow> finding list \<Rightarrow>
   unchecked_check list \<Rightarrow> compliance_report list" where
  "score cal today generated_at key_order g findings unchecked =
     (let profile = config_profile (gen_config g) in
      map (\<lambda>framework. generate_for_framework cal today generated_at key_order g framework
             (map (translate_finding profile) findings) (map (translate_unchecked profile) unchecked)
             (translate_all profile (gen_coverage g)))
        (scenario_frameworks (config_scenario (gen_config g))))"

definition generate ::
  "'d::linorder calendar \<Rightarrow> 'd \<Rightarrow> int \<Rightarrow> string list \<Rightarrow> report_generator \<Rightarrow> scan_result list \<Rightarrow>
   plugin_id list \<Rightarrow> compliance_report list" where
  "generate cal today generated_at key_order g results skipped =
     (case flatten (gen_inventory g) results skipped of
        (findings, unchecked) \<Rightarrow> score cal today generated_at key_order g findings unchecked)"

subsection \<open>Catalogues and controls\<close>

lemma dedup_by_id_ids:
  "distinct (map compliance_control_id (dedup_by_id seen ms))"
  "set (map compliance_control_id (dedup_by_id seen ms)) = set (map compliance_control_id ms) - set seen"
  by (induction seen ms rule: dedup_by_id.induct) auto

lemma dedup_by_id_subset: "set (dedup_by_id seen ms) \<subseteq> set ms"
  by (induction seen ms rule: dedup_by_id.induct) auto

lemma extra_controls_ids:
  "distinct (map control_id (extra_controls fw fs seen ms))"
  "set (map control_id (extra_controls fw fs seen ms)) \<inter> set seen = {}"
  by (induction fw fs seen ms rule: extra_controls.induct) (auto simp: Let_def control_of_def)

lemma extra_controls_sound:
  "c \<in> set (extra_controls fw fs seen ms) \<Longrightarrow>
     control_status c = Fail \<and> control_findings c = related_findings fs fw (control_id c)"
  by (induction fw fs seen ms rule: extra_controls.induct) (auto simp: Let_def control_of_def split: if_splits)

lemma extra_controls_complete:
  "m \<in> set ms \<Longrightarrow> compliance_framework m = fw \<Longrightarrow> compliance_control_id m \<notin> set seen \<Longrightarrow>
     has_live_finding (related_findings fs fw (compliance_control_id m)) \<Longrightarrow>
     compliance_control_id m \<in> control_id ` set (extra_controls fw fs seen ms)"
proof (induction fw fs seen ms rule: extra_controls.induct)
  case (2 fw fs seen m' ms)
  then show ?case
    by (cases "compliance_control_id m = compliance_control_id m'") (auto simp: Let_def control_of_def)
qed simp

lemma control_of_simps [simp]:
  "control_id (control_of m s r) = compliance_control_id m" "control_status (control_of m s r) = s"
  "control_findings (control_of m s r) = r"
  by (simp_all add: control_of_def)

lemma map_comp_control_id [simp]:
  "control_id \<circ> (\<lambda>m. control_of m (s m) (r m)) = compliance_control_id"
  by (auto simp: comp_def)

lemma assessed_in_catalogue:
  "set (control_ids_for fw cov) \<subseteq> compliance_control_id ` set (catalogue_for profile fw cov)"
proof -
  have "set (map compliance_control_id (catalogue_for profile fw cov))
      = set (map compliance_control_id (translate_all profile (case curated_controls fw of Some cs \<Rightarrow> cs | None \<Rightarrow> [])
          @ filter (\<lambda>m. compliance_framework m = fw) cov)) - set []"
    unfolding catalogue_for_def by (rule dedup_by_id_ids(2))
  then show ?thesis by (auto simp: control_ids_for_def)
qed

text \<open>A report's controls carry the status rule, each control once.\<close>

lemma report_control_cases:
  assumes "c \<in> set (report_controls (generate_for_framework cal today stamp order g fw fs us cov))"
  shows "control_status c = control_status_of cal today order g fw fs us cov (control_id c) \<or>
         control_status c = Fail"
    and "control_findings c = related_findings fs fw (control_id c)"
  using assms
  by (auto simp: generate_for_framework_def Let_def dest: extra_controls_sound)

lemma report_controls_distinct:
  "distinct (map control_id (report_controls (generate_for_framework cal today stamp order g fw fs us cov)))"
proof -
  have "distinct (map compliance_control_id (catalogue_for profile fw cov))" for profile
    unfolding catalogue_for_def by (rule dedup_by_id_ids(1))
  moreover have "compliance_control_id ` set ms
      \<inter> control_id ` set (extra_controls fw fs (map compliance_control_id ms) ns) = {}" for ms ns
    using extra_controls_ids(2)[of fw fs "map compliance_control_id ms" ns] by auto
  ultimately show ?thesis
    using extra_controls_ids(1)
    by (simp add: generate_for_framework_def Let_def comp_def)
qed

lemma status_Pass:
  "control_status_of cal today order g fw fs us cov cid = Pass \<longleftrightarrow>
     \<not> has_live_finding (related_findings fs fw cid)
   \<and> cid \<notin> set (control_ids_for fw (concat (map unchecked_compliance us)))
   \<and> cid \<in> set (control_ids_for fw cov)"
  by (auto simp: control_status_of_def split: option.splits)

subsection \<open>Evidence\<close>

definition covers_control ::
  "compliance_profile \<Rightarrow> compliance_framework \<Rightarrow> string \<Rightarrow> compliance_mapping list \<Rightarrow> bool" where
  "covers_control profile fw cid ms = (cid \<in> set (control_ids_for fw (translate_all profile ms)))"

lemma covers_control_iff:
  "covers_control profile fw cid ms \<longleftrightarrow>
     (\<exists>m\<in>set ms. \<exists>m'\<in>set (translate profile m). compliance_framework m' = fw \<and> compliance_control_id m' = cid)"
  by (auto simp: covers_control_def control_ids_for_def set_translate_all)

lemma first_seen_names:
  "\<lbrakk>m \<in> set ms; (compliance_framework m, compliance_control_id m) \<notin> seen\<rbrakk> \<Longrightarrow>
     \<exists>n\<in>set (first_seen seen ms). compliance_framework n = compliance_framework m
        \<and> compliance_control_id n = compliance_control_id m"
proof (induction ms arbitrary: seen)
  case (Cons x xs)
  let ?key = "(compliance_framework x, compliance_control_id x)"
  show ?case
  proof (cases "(compliance_framework m, compliance_control_id m) = ?key")
    case True
    with Cons.prems show ?thesis by (auto simp: Let_def)
  next
    case False
    with Cons.prems have "m \<in> set xs" by auto
    with Cons.IH[OF this, of seen] Cons.IH[OF this, of "insert ?key seen"] Cons.prems False show ?thesis
      by (auto simp: Let_def)
  qed
qed simp

lemma covers_first_seen: "covers_control profile fw cid (first_seen {} ms) = covers_control profile fw cid ms"
proof
  assume "covers_control profile fw cid ms"
  then obtain m m' where m: "m \<in> set ms" "m' \<in> set (translate profile m)" "compliance_framework m' = fw"
    "compliance_control_id m' = cid" by (auto simp: covers_control_iff)
  obtain n where n: "n \<in> set (first_seen {} ms)" "compliance_framework n = compliance_framework m"
    "compliance_control_id n = compliance_control_id m" using first_seen_names[OF m(1)] by auto
  have "cid \<in> set (map compliance_control_id (translate profile n))"
    unfolding translate_key[OF n(2,3)] using m(2,4) by auto
  then show "covers_control profile fw cid (first_seen {} ms)"
    using n m(2,3) translate_framework unfolding covers_control_iff by fastforce
qed (use first_seen_subset in \<open>auto simp: covers_control_iff\<close>)

lemma covers_concat: "covers_control profile fw cid (concat mss) \<longleftrightarrow> (\<exists>ms\<in>set mss. covers_control profile fw cid ms)"
  by (auto simp: covers_control_iff)

lemma covers_assessed:
  "covers_control profile fw cid (assessed_controls inventory) \<longleftrightarrow>
     (\<exists>p\<in>set (inventory_plugins inventory). covers_control profile fw cid (coverage p))"
proof (cases inventory)
  case (Known plugins)
  then show ?thesis by (simp add: covers_first_seen covers_concat)
qed (simp add: covers_control_iff)

lemma unchecked_ids_translated:
  "cid \<in> set (control_ids_for fw (concat (map unchecked_compliance (map (translate_unchecked profile) us)))) \<longleftrightarrow>
     (\<exists>u\<in>set us. covers_control profile fw cid (unchecked_compliance u))"
  by (auto simp: control_ids_for_def covers_control_def translate_unchecked_def)

text \<open>A plugin whose identifier is its own produced evidence: a result that is not a skip marker and
  succeeded, and no result that is a marker or failed.\<close>

definition assessed_cleanly :: "scan_result list \<Rightarrow> plugin_id \<Rightarrow> bool" where
  "assessed_cleanly results pid =
     (list_ex (\<lambda>r. scan_plugin_id r = pid) results
      \<and> list_all (\<lambda>r. scan_plugin_id r \<noteq> pid \<or> (scan_skipped r = None \<and> scan_success r)) results)"

lemma plugin_named_distinct:
  "distinct (map (\<lambda>p. metadata_plugin_id (coverage_metadata p)) plugins) \<Longrightarrow> p \<in> set plugins \<Longrightarrow>
     plugin_named plugins (metadata_plugin_id (coverage_metadata p)) = Some p"
  by (induction plugins) (auto simp: plugin_named_def)

lemma unassessed_compliance [simp]: "unchecked_compliance (unassessed_check p why) = coverage p"
  by (simp add: unassessed_check_def Let_def split: unassessed.splits prod.splits)

lemma silent_plugin_unchecked:
  assumes "p \<in> set (inventory_plugins inventory)"
    and "distinct (map (\<lambda>p. metadata_plugin_id (coverage_metadata p)) (inventory_plugins inventory))"
    and "\<not> assessed_cleanly results (metadata_plugin_id (coverage_metadata p))"
  shows "\<exists>u\<in>set (snd (flatten inventory results skipped)). unchecked_compliance u = coverage p"
proof -
  let ?pid = "metadata_plugin_id (coverage_metadata p)" and ?ps = "inventory_plugins inventory"
  consider "\<not> list_ex (\<lambda>r. scan_plugin_id r = ?pid) results"
    | r where "r \<in> set results" "scan_plugin_id r = ?pid" "scan_skipped r \<noteq> None \<or> \<not> scan_success r"
    using assms(3) by (auto simp: assessed_cleanly_def list_all_iff)
  then show ?thesis
  proof cases
    case 1
    let ?why = "if ?pid \<in> set skipped then NotRunByConfig else NotCovered"
    have "unassessed_check p ?why \<in> set (missing_plugins ?ps results skipped)"
      using 1 assms(1) by (force simp: missing_plugins_def)
    then have "unassessed_check p ?why \<in> set (snd (flatten inventory results skipped))"
      by (simp add: flatten_def Let_def)
    then show ?thesis by (rule bexI[rotated]) simp
  next
    case 2
    have "\<exists>u\<in>set (snd (result_evidence ?ps r)). unchecked_compliance u = coverage p"
      using 2 plugin_named_distinct[OF assms(2,1)]
      by (auto simp: result_evidence_def split: option.splits skip_reason.splits)
    then show ?thesis using 2(1) by (fastforce simp: flatten_def Let_def)
  qed
qed

subsection \<open>What a report promises\<close>

lemma generate_reports:
  assumes "rep \<in> set (generate cal today stamp order g results skipped)"
  obtains fw where "fw \<in> set (scenario_frameworks (config_scenario (gen_config g)))"
    "rep = generate_for_framework cal today stamp order g fw
       (map (translate_finding (config_profile (gen_config g))) (fst (flatten (gen_inventory g) results skipped)))
       (map (translate_unchecked (config_profile (gen_config g))) (snd (flatten (gen_inventory g) results skipped)))
       (translate_all (config_profile (gen_config g)) (gen_coverage g))"
  using assms by (auto simp: generate_def score_def Let_def case_prod_beta)

lemma report_framework_eq [simp]:
  "report_framework (generate_for_framework cal today stamp order g fw fs us cov) = fw"
  by (simp add: generate_for_framework_def Let_def)

lemma run_finding_in_flatten:
  "r \<in> set results \<Longrightarrow> scan_skipped r = None \<Longrightarrow> f \<in> set (scan_findings r) \<Longrightarrow>
     f \<in> set (fst (flatten inventory results skipped))"
  by (force simp: flatten_def Let_def result_evidence_def)

lemma run_unchecked_in_flatten:
  "r \<in> set results \<Longrightarrow> scan_skipped r = None \<Longrightarrow> u \<in> set (scan_unchecked r) \<Longrightarrow>
     u \<in> set (snd (flatten inventory results skipped))"
  by (force simp: flatten_def Let_def result_evidence_def)


text \<open>One plugin covering one control, scanned once.\<close>

definition sample_mapping :: compliance_mapping where
  "sample_mapping = \<lparr>compliance_framework = GDPR, compliance_control_id = ''32.1'',
     compliance_control_title = ''Encryption'', compliance_section = None\<rparr>"

definition sample_inventory :: plugin_inventory where
  "sample_inventory = Known [\<lparr>coverage_metadata = \<lparr>plugin_category = Network, plugin_description = [],
      metadata_plugin_id = ''ssh-hardening'', plugin_name = ''SSH'', plugin_version = ''1''\<rparr>,
      coverage = [sample_mapping]\<rparr>]"

definition sample_finding :: finding where
  "sample_finding = \<lparr>finding_category = Network, finding_current_value = [], finding_description = [],
     finding_explanation = [], finding_id = ''f'', finding_impact = [], finding_recommended_value = [],
     finding_remediation_steps = [], finding_severity = High, finding_title = [],
     finding_compliance = [sample_mapping], finding_exception = NotConfigured, finding_exception_key = None\<rparr>"

definition sample_result :: "finding list \<Rightarrow> scan_result" where
  "sample_result fs = \<lparr>scan_plugin_id = ''ssh-hardening'', scan_success = True, scan_findings = fs,
     scan_unchecked = [], scan_duration_us = 1, scan_error = None, scan_skipped = None\<rparr>"

definition sample_generator :: report_generator where
  "sample_generator = new_generator (default_report_config\<lparr>config_scenario := Gdpr\<rparr>) sample_inventory Map.empty"

definition sample_calendar :: "nat calendar" where
  "sample_calendar = \<lparr>parse_iso_date = (\<lambda>_. None), checked_add_months = (\<lambda>_ _. None)\<rparr>"

lemmas sample_report_defs =
  sample_mapping_def sample_inventory_def sample_finding_def sample_result_def sample_generator_def
  new_generator_def default_report_config_def generate_def score_def flatten_def generate_for_framework_def
  catalogue_for_def curated_controls_def control_status_of_def related_findings_def has_live_finding_def
  control_ids_for_def result_evidence_def missing_plugins_def translate_finding_def translate_unchecked_def
  translate_all_def control_of_def section_of_def

lemma sample_report:
  "\<exists>rep c. generate sample_calendar 3 0 [] sample_generator [sample_result fs] [] = [rep]
     \<and> report_controls rep = [c] \<and> control_id c = ''32.1'' \<and> report_framework rep = GDPR
     \<and> control_status c = (if fs = [] then Pass else Fail)" if "fs = [] \<or> fs = [sample_finding]"
  using that by (auto simp: sample_report_defs Let_def)

lemma sample_generator_facts:
  "gen_coverage sample_generator = assessed_controls (gen_inventory sample_generator)"
  "distinct (map (\<lambda>p. metadata_plugin_id (coverage_metadata p)) (inventory_plugins (gen_inventory sample_generator)))"
  "config_profile (gen_config sample_generator) = Generic"
  by (simp_all add: sample_generator_def new_generator_def sample_inventory_def default_report_config_def)


text \<open>A declaration of non-applicability only ever turns a control awaiting manual review into a
  control that does not apply: whatever exclusions replace the configured ones, every report lists
  the same controls with the same findings, and every other status is unchanged.\<close>

definition only_waived :: "control_result \<Rightarrow> control_result \<Rightarrow> bool" where
  "only_waived a b =
     (control_id a = control_id b \<and> control_title a = control_title b \<and> control_findings a = control_findings b
      \<and> (control_status a = control_status b
         \<or> {control_status a, control_status b} = {ManualReview, NotApplicable}))"

lemma status_only_waived:
  "control_status_of cal today order g fw fs us cov cid
       = control_status_of cal today order' (g\<lparr>gen_exclusions := ex\<rparr>) fw fs us cov cid
   \<or> {control_status_of cal today order g fw fs us cov cid,
      control_status_of cal today order' (g\<lparr>gen_exclusions := ex\<rparr>) fw fs us cov cid} = {ManualReview, NotApplicable}"
  by (auto simp: control_status_of_def split: option.splits)

lemma only_waived_refl [simp]: "only_waived c c"
  by (simp add: only_waived_def)

lemma framework_only_waived:
  "list_all2 only_waived
     (report_controls (generate_for_framework cal today stamp order g fw fs us cov))
     (report_controls (generate_for_framework cal today stamp order' (g\<lparr>gen_exclusions := ex\<rparr>) fw fs us cov))"
proof -
  let ?st = "control_status_of cal today order g fw fs us cov"
    and ?st' = "control_status_of cal today order' (g\<lparr>gen_exclusions := ex\<rparr>) fw fs us cov"
  have ow: "only_waived (control_of m (?st cid) r) (control_of m (?st' cid) r)" for m cid r
    using status_only_waived[of cal today order g fw fs us cov cid order' ex] by (simp add: only_waived_def control_of_def)
  have "list_all2 only_waived
      (map (\<lambda>m. control_of m (?st (compliance_control_id m)) (r m)) ms)
      (map (\<lambda>m. control_of m (?st' (compliance_control_id m)) (r m)) ms)" for ms r
    by (induction ms) (simp_all add: ow)
  then show ?thesis
    by (simp add: generate_for_framework_def Let_def comp_def list_all2_appendI list.rel_refl)
qed

theorem exclusions_only_waive:
  "list_all2 (\<lambda>a b. report_framework a = report_framework b
        \<and> list_all2 only_waived (report_controls a) (report_controls b))
     (generate cal today stamp order g results skipped)
     (generate cal today stamp order' (g\<lparr>gen_exclusions := ex\<rparr>) results skipped)"
proof -
  have "list_all2 (\<lambda>a b. report_framework a = report_framework b
        \<and> list_all2 only_waived (report_controls a) (report_controls b))
      (map (\<lambda>fw. generate_for_framework cal today stamp order g fw fs us cov) fws)
      (map (\<lambda>fw. generate_for_framework cal today stamp order' (g\<lparr>gen_exclusions := ex\<rparr>) fw fs us cov) fws)" for fws fs us cov
    by (induction fws) (simp_all add: framework_only_waived)
  then show ?thesis by (simp add: generate_def score_def Let_def case_prod_beta)
qed

text \<open>C23. No live finding is lost: every control that a finding without an applied exception maps to, in the identifiers
  of the active profile, is listed as failing in the report of its framework, with the finding
  among its evidence, and a report lists each control once.\<close>

theorem live_findings_fail:
  assumes "rep \<in> set (generate cal today stamp order g results skipped)"
    and "r \<in> set results" "scan_skipped r = None" "f \<in> set (scan_findings r)"
    and "\<forall>d. finding_exception f \<noteq> Applied d"
    and "m \<in> set (translate_all (config_profile (gen_config g)) (finding_compliance f))"
    and "compliance_framework m = report_framework rep"
  shows "(\<exists>c\<in>set (report_controls rep). control_id c = compliance_control_id m \<and> control_status c = Fail
        \<and> translate_finding (config_profile (gen_config g)) f \<in> set (control_findings c))
      \<and> distinct (map control_id (report_controls rep))"
proof (rule conjI)
  let ?prof = "config_profile (gen_config g)" and ?fl = "flatten (gen_inventory g) results skipped"
  let ?fs = "map (translate_finding ?prof) (fst ?fl)" and ?us = "map (translate_unchecked ?prof) (snd ?fl)"
  let ?cov = "translate_all ?prof (gen_coverage g)" and ?f = "translate_finding ?prof f"
  obtain fw where rep: "rep = generate_for_framework cal today stamp order g fw ?fs ?us ?cov"
    using generate_reports[OF assms(1)] by metis
  have f: "?f \<in> set ?fs" using run_finding_in_flatten[OF assms(2,3,4)] by simp
  have m: "m \<in> set (finding_compliance ?f)" "compliance_framework m = fw"
    using assms(6,7) rep by (simp_all add: translate_finding_def)
  let ?cid = "compliance_control_id m"
  have related: "?f \<in> set (related_findings ?fs fw ?cid)"
    using f m by (auto simp: related_findings_def list_ex_iff)
  have live: "has_live_finding (related_findings ?fs fw ?cid)"
    using related assms(5) unfolding has_live_finding_def list_ex_iff
    by (intro bexI[of _ ?f]) (auto simp: translate_finding_def split: exception_outcome.splits)
  let ?cat = "catalogue_for ?prof fw ?cov"
  have "\<exists>c\<in>set (report_controls rep). control_id c = ?cid \<and> control_status c = Fail
      \<and> control_findings c = related_findings ?fs fw ?cid"
  proof (cases "?cid \<in> compliance_control_id ` set ?cat")
    case True
    then obtain n where n: "n \<in> set ?cat" "compliance_control_id n = ?cid" by auto
    have "control_status_of cal today order g fw ?fs ?us ?cov ?cid = Fail"
      using live by (simp add: control_status_of_def)
    with n show ?thesis
      unfolding rep generate_for_framework_def Let_def
      by (intro bexI[of _ "control_of n Fail (related_findings ?fs fw ?cid)"]) (auto intro!: image_eqI[of _ _ n])
  next
    case False
    have "m \<in> set (concat (map finding_compliance ?fs))" using m(1) f by auto
    from extra_controls_complete[OF this m(2) _ live, of "map compliance_control_id ?cat"] False
    obtain c where c: "c \<in> set (extra_controls fw ?fs (map compliance_control_id ?cat) (concat (map finding_compliance ?fs)))"
      "control_id c = ?cid" by auto
    from extra_controls_sound[OF c(1)] c show ?thesis
      unfolding rep generate_for_framework_def Let_def by (intro bexI[of _ c]) (auto simp: comp_def)
  qed
  then show "\<exists>c\<in>set (report_controls rep). control_id c = ?cid \<and> control_status c = Fail
      \<and> ?f \<in> set (control_findings c)"
    using related by metis
  show "distinct (map control_id (report_controls rep))"
    unfolding rep by (rule report_controls_distinct)
qed

theorem live_findings_fail_witness:
  "\<exists>rep. generate sample_calendar 3 0 [] sample_generator [sample_result [sample_finding]] [] = [rep]
     \<and> (\<exists>c\<in>set (report_controls rep). control_id c = ''32.1'' \<and> control_status c = Fail)"
proof -
  obtain rep where r: "generate sample_calendar 3 0 [] sample_generator [sample_result [sample_finding]] [] = [rep]"
    "report_framework rep = GDPR" using sample_report[of "[sample_finding]"] by auto
  show ?thesis
    using live_findings_fail[of rep sample_calendar 3 0 "[]" sample_generator "[sample_result [sample_finding]]" "[]"
        "sample_result [sample_finding]" sample_finding sample_mapping] r sample_generator_facts
    by (auto simp: sample_result_def sample_finding_def sample_mapping_def has_live_finding_def translate_all_def)
qed

end
