(* ===== verification/Plugin_Engine.thy ===== *)
theory Plugin_Engine
  imports Policy_Config Host_Executor "HOL-Library.Multiset"
begin

text \<open>
  The plugin registry and the plugin manager: \<open>crates/hardener-core/src/plugin.rs\<close> (the trait),
  \<open>registry.rs\<close> and \<open>plugin_manager.rs\<close>.

  A plugin is a record of its trait methods over a state \<open>'h\<close>, the context and the host behind it;
  each method that runs returns the next state. The graph algorithms are \<open>petgraph\<close>'s, parameters of
  the model. The registry's hash map is the list of its entries; a poisoned lock is a flag.
\<close>

subsection \<open>Plugins and the registry\<close>

record 'h hardening_plugin =
  plugin_metadata_of :: plugin_metadata
  plugin_dependencies :: "plugin_id list"
  plugin_scan :: "'h \<Rightarrow> plugin_config \<Rightarrow> (hardening_error, scan_result) result \<times> 'h"
  plugin_apply :: "'h \<Rightarrow> plugin_config \<Rightarrow> (hardening_error, apply_result) result \<times> 'h"
  reloads_for_path :: "string \<Rightarrow> bool"
  reload_after_rollback :: "'h \<Rightarrow> (hardening_error, string option) result \<times> 'h"
  divergences_after_rollback :: "'h \<Rightarrow> string list \<Rightarrow> rollback_divergence list \<times> 'h"

definition id_of :: "'h hardening_plugin \<Rightarrow> plugin_id" where
  "id_of p = metadata_plugin_id (plugin_metadata_of p)"

record 'h plugin_registry =
  registered :: "(plugin_id \<times> 'h hardening_plugin) list"
  lock_poisoned :: bool

definition new_registry :: "'h plugin_registry" where
  "new_registry = \<lparr>registered = [], lock_poisoned = False\<rparr>"

definition lock_error :: "string \<Rightarrow> string \<Rightarrow> hardening_error" where
  "lock_error kind e = PluginError (''Failed to acquire '' @ kind @ '' lock: '' @ e)"

definition POISONED :: string where
  "POISONED = ''poisoned lock: another task failed inside''"

definition read_plugins ::
  "'h plugin_registry \<Rightarrow> (hardening_error, (plugin_id \<times> 'h hardening_plugin) list) result" where
  "read_plugins reg = (if lock_poisoned reg then Inl (lock_error ''read'' POISONED) else Inr (registered reg))"

definition registry_register ::
  "'h plugin_registry \<Rightarrow> 'h hardening_plugin \<Rightarrow> (hardening_error, unit) result \<times> 'h plugin_registry" where
  "registry_register reg p =
     (if lock_poisoned reg then (Inl (lock_error ''write'' POISONED), reg)
      else if id_of p \<in> set (map fst (registered reg)) then
        (Inl (PluginError (''Plugin '' @ quoted (id_of p) @ '' is already registered'')), reg)
      else (Inr (), reg\<lparr>registered := registered reg @ [(id_of p, p)]\<rparr>))"

definition registry_get ::
  "'h plugin_registry \<Rightarrow> plugin_id \<Rightarrow> (hardening_error, 'h hardening_plugin option) result" where
  "registry_get reg pid = and_then (read_plugins reg) (\<lambda>ps. Inr (map_of ps pid))"

definition registry_list :: "'h plugin_registry \<Rightarrow> (hardening_error, plugin_metadata list) result" where
  "registry_list reg =
     and_then (read_plugins reg)
       (\<lambda>ps. Inr (sort_key metadata_plugin_id (map (\<lambda>(_, p). plugin_metadata_of p) ps)))"

definition registry_count :: "'h plugin_registry \<Rightarrow> (hardening_error, nat) result" where
  "registry_count reg = and_then (read_plugins reg) (\<lambda>ps. Inr (length ps))"

definition registry_contains :: "'h plugin_registry \<Rightarrow> plugin_id \<Rightarrow> (hardening_error, bool) result" where
  "registry_contains reg pid = and_then (read_plugins reg) (\<lambda>ps. Inr (pid \<in> set (map fst ps)))"

subsection \<open>The plugin manager\<close>

record digraph =
  graph_nodes :: "plugin_id list"
  graph_edges :: "(nat \<times> nat) list"

record petgraph =
  is_cyclic_directed :: "digraph \<Rightarrow> bool"
  topo :: "digraph \<Rightarrow> nat list"

record 'h plugin_manager =
  manager_registry :: "'h plugin_registry"
  dependency_graph :: digraph
  node_indices :: "(plugin_id \<times> nat) list"

definition empty_graph :: digraph where
  "empty_graph = \<lparr>graph_nodes = [], graph_edges = []\<rparr>"

definition new_manager :: "'h plugin_registry \<Rightarrow> 'h plugin_manager" where
  "new_manager reg = \<lparr>manager_registry = reg, dependency_graph = empty_graph, node_indices = []\<rparr>"

fun add_nodes :: "digraph \<Rightarrow> (plugin_id \<times> nat) list \<Rightarrow> plugin_metadata list \<Rightarrow> digraph \<times> (plugin_id \<times> nat) list" where
  "add_nodes g indices [] = (g, indices)"
| "add_nodes g indices (m # ms) =
     add_nodes (g\<lparr>graph_nodes := graph_nodes g @ [metadata_plugin_id m]\<rparr>)
       (AList.update (metadata_plugin_id m) (length (graph_nodes g)) indices) ms"

fun add_dependencies ::
  "(plugin_id \<times> nat) list \<Rightarrow> plugin_id \<Rightarrow> nat \<Rightarrow> digraph \<Rightarrow> plugin_id list \<Rightarrow> (string, unit) result \<times> digraph" where
  "add_dependencies indices pid dst g [] = (Inr (), g)"
| "add_dependencies indices pid dst g (d # ds) =
     (case map_of indices d of
        None \<Rightarrow> (Inl (''Plugin '' @ quoted pid @ '' depends on '' @ quoted d @ '', which is not registered''), g)
      | Some i \<Rightarrow> add_dependencies indices pid dst (g\<lparr>graph_edges := graph_edges g @ [(i, dst)]\<rparr>) ds)"

fun add_edges ::
  "'h plugin_registry \<Rightarrow> (plugin_id \<times> nat) list \<Rightarrow> digraph \<Rightarrow> plugin_metadata list \<Rightarrow> (string, unit) result \<times> digraph" where
  "add_edges reg indices g [] = (Inr (), g)"
| "add_edges reg indices g (m # ms) =
     (case registry_get reg (metadata_plugin_id m) of
        Inl e \<Rightarrow> (Inl (error_text e), g)
      | Inr None \<Rightarrow> (Inl (''Plugin not found in registry: '' @ metadata_plugin_id m), g)
      | Inr (Some p) \<Rightarrow>
          (case add_dependencies indices (metadata_plugin_id m) (the (map_of indices (metadata_plugin_id m)))
                  g (plugin_dependencies p) of
             (Inl e, g') \<Rightarrow> (Inl e, g')
           | (Inr _, g') \<Rightarrow> add_edges reg indices g' ms))"

definition resolve_dependencies ::
  "petgraph \<Rightarrow> 'h plugin_manager \<Rightarrow> (string, unit) result \<times> 'h plugin_manager" where
  "resolve_dependencies lib m =
     (let m = m\<lparr>dependency_graph := empty_graph, node_indices := []\<rparr> in
      case registry_list (manager_registry m) of
        Inl e \<Rightarrow> (Inl (error_text e), m)
      | Inr metadata \<Rightarrow>
          (case add_nodes empty_graph [] metadata of (g, indices) \<Rightarrow>
             (case add_edges (manager_registry m) indices g metadata of
                (Inl e, g) \<Rightarrow> (Inl e, m\<lparr>dependency_graph := g, node_indices := indices\<rparr>)
              | (Inr _, g) \<Rightarrow>
                  (let m = m\<lparr>dependency_graph := g, node_indices := indices\<rparr> in
                   if is_cyclic_directed lib g then (Inl ''Circular dependency detected in plugin graph'', m)
                   else (Inr (), m)))))"

definition execution_order :: "petgraph \<Rightarrow> 'h plugin_manager \<Rightarrow> (string, plugin_id list) result" where
  "execution_order lib m =
     (if node_indices m = [] then Inl ''Dependencies not resolved. Call resolve_dependencies() first.''
      else Inr (map (\<lambda>i. graph_nodes (dependency_graph m) ! i) (topo lib (dependency_graph m))))"

definition failed_scan :: "plugin_id \<Rightarrow> string \<Rightarrow> scan_result" where
  "failed_scan pid e = \<lparr>scan_plugin_id = pid, scan_success = False, scan_findings = [],
     scan_unchecked = [], scan_duration_us = 0, scan_error = Some e, scan_skipped = None\<rparr>"

fun scan_plugins ::
  "'h plugin_registry \<Rightarrow> hardener_config \<Rightarrow> plugin_id list \<Rightarrow> 'h \<Rightarrow> plugin_id list \<Rightarrow>
   (string, scan_result list) result \<times> 'h" where
  "scan_plugins reg config selection h [] = (Inr [], h)"
| "scan_plugins reg config selection h (pid # pids) =
     (if selection \<noteq> [] \<and> pid \<notin> set selection then scan_plugins reg config selection h pids
      else if \<not> is_plugin_enabled config pid then scan_plugins reg config selection h pids
      else case registry_get reg pid of
             Inl e \<Rightarrow> (Inl (error_text e), h)
           | Inr None \<Rightarrow> (Inl (''Plugin not found: '' @ pid), h)
           | Inr (Some p) \<Rightarrow>
               (case plugin_scan p h (get_plugin_config config pid) of (r, h') \<Rightarrow>
                  (let entry = (case r of Inr result \<Rightarrow> result | Inl e \<Rightarrow> failed_scan pid (error_text e)) in
                   case scan_plugins reg config selection h' pids of
                     (Inl e, h'') \<Rightarrow> (Inl e, h'')
                   | (Inr rest, h'') \<Rightarrow> (Inr (entry # rest), h''))))"

definition execute_scan ::
  "petgraph \<Rightarrow> 'h plugin_manager \<Rightarrow> 'h \<Rightarrow> hardener_config \<Rightarrow> plugin_id list \<Rightarrow>
   (string, scan_result list) result \<times> 'h" where
  "execute_scan lib m h config selection =
     (case execution_order lib m of
        Inl e \<Rightarrow> (Inl e, h)
      | Inr order \<Rightarrow> scan_plugins (manager_registry m) config selection h order)"

definition failed_apply :: "plugin_id \<Rightarrow> string \<Rightarrow> apply_result" where
  "failed_apply pid e = \<lparr>apply_plugin_id = pid, apply_success = False, apply_changes = [],
     apply_checkpoint_id = None, apply_error = Some e\<rparr>"

fun apply_plugins ::
  "'h plugin_registry \<Rightarrow> hardener_config \<Rightarrow> 'h \<Rightarrow> plugin_id list \<Rightarrow> (string, apply_result list) result \<times> 'h" where
  "apply_plugins reg config h [] = (Inr [], h)"
| "apply_plugins reg config h (pid # pids) =
     (case registry_get reg pid of
        Inl e \<Rightarrow> (Inl (error_text e), h)
      | Inr None \<Rightarrow> (Inl (''Plugin not found: '' @ pid), h)
      | Inr (Some p) \<Rightarrow>
          (case plugin_apply p h (get_plugin_config config pid) of (r, h') \<Rightarrow>
             (let entry = (case r of Inr result \<Rightarrow> result | Inl e \<Rightarrow> failed_apply pid (error_text e)) in
              case apply_plugins reg config h' pids of
                (Inl e, h'') \<Rightarrow> (Inl e, h'')
              | (Inr rest, h'') \<Rightarrow> (Inr (entry # rest), h''))))"

definition execute_apply ::
  "petgraph \<Rightarrow> 'h plugin_manager \<Rightarrow> 'h \<Rightarrow> hardener_config \<Rightarrow> plugin_id list \<Rightarrow>
   (string, apply_result list) result \<times> 'h" where
  "execute_apply lib m h config plugin_ids =
     (case execution_order lib m of
        Inl e \<Rightarrow> (Inl e, h)
      | Inr order \<Rightarrow>
          (let plugins_to_apply = (if plugin_ids = [] then order else filter (\<lambda>pid. pid \<in> set plugin_ids) order)
           in if plugins_to_apply = [] then (Inl ''No plugins to apply'', h)
              else apply_plugins (manager_registry m) config h plugins_to_apply))"

subsection \<open>The registry's invariant\<close>

definition registry_ok :: "'h plugin_registry \<Rightarrow> bool" where
  "registry_ok reg =
     (\<not> lock_poisoned reg \<and> distinct (map fst (registered reg)) \<and> list_all (\<lambda>(k, p). k = id_of p) (registered reg))"

lemma new_registry_ok: "registry_ok new_registry"
  by (simp add: registry_ok_def new_registry_def)

lemma register_keeps_ok: "registry_ok reg \<Longrightarrow> registry_register reg p = (r, reg') \<Longrightarrow> registry_ok reg'"
  by (auto simp: registry_ok_def registry_register_def split: if_splits)

lemma registry_ok_facts:
  assumes "registry_ok reg"
  shows "registry_get reg pid = Inr (map_of (registered reg) pid)"
    and "registry_list reg = Inr (sort_key metadata_plugin_id (map (\<lambda>(_, p). plugin_metadata_of p) (registered reg)))"
    and "map metadata_plugin_id (map (\<lambda>(_, p). plugin_metadata_of p) (registered reg)) = map fst (registered reg)"
  using assms
  by (auto simp: registry_ok_def registry_get_def registry_list_def read_plugins_def id_of_def list_all_iff)

subsection \<open>The graph that is built\<close>

definition index_of_nodes :: "plugin_id list \<Rightarrow> (plugin_id \<times> nat) list \<Rightarrow> bool" where
  "index_of_nodes nodes indices =
     (\<forall>pid i. map_of indices pid = Some i \<longleftrightarrow> i < length nodes \<and> nodes ! i = pid)"

lemma add_nodes_result:
  "add_nodes g indices ms = (g', indices') \<Longrightarrow> distinct (graph_nodes g @ map metadata_plugin_id ms) \<Longrightarrow>
     index_of_nodes (graph_nodes g) indices \<Longrightarrow>
     graph_nodes g' = graph_nodes g @ map metadata_plugin_id ms \<and> graph_edges g' = graph_edges g
     \<and> index_of_nodes (graph_nodes g') indices'"
proof (induction ms arbitrary: g indices)
  case (Cons m ms)
  let ?g = "g\<lparr>graph_nodes := graph_nodes g @ [metadata_plugin_id m]\<rparr>"
  let ?ind = "AList.update (metadata_plugin_id m) (length (graph_nodes g)) indices"
  have new: "metadata_plugin_id m \<notin> set (graph_nodes g)" using Cons.prems(2) by simp
  have "index_of_nodes (graph_nodes ?g) ?ind"
    using Cons.prems(3) new
    by (auto simp: index_of_nodes_def update_conv nth_append less_Suc_eq) (metis nth_mem)
  then have "graph_nodes g' = graph_nodes ?g @ map metadata_plugin_id ms \<and> graph_edges g' = graph_edges ?g
      \<and> index_of_nodes (graph_nodes g') indices'"
    using Cons.prems(1,2) by (intro Cons.IH[of ?g ?ind]) simp_all
  then show ?case by auto
qed simp

lemma add_dependencies_result:
  "add_dependencies indices pid dst g ds = (r, g') \<Longrightarrow>
     graph_nodes g' = graph_nodes g
   \<and> (is_ok r \<longleftrightarrow> set ds \<subseteq> dom (map_of indices))
   \<and> (is_ok r \<longrightarrow> graph_edges g' = graph_edges g @ map (\<lambda>d. (the (map_of indices d), dst)) ds)"
proof (induction ds arbitrary: g)
  case (Cons d ds)
  then show ?case by (cases "map_of indices d") (auto simp: domIff)
qed auto

text \<open>The dependencies of the plugin a listing names.\<close>

definition dependencies_of :: "'h plugin_registry \<Rightarrow> plugin_id \<Rightarrow> plugin_id list" where
  "dependencies_of reg pid = (case map_of (registered reg) pid of Some p \<Rightarrow> plugin_dependencies p | None \<Rightarrow> [])"

lemma add_edges_result:
  assumes "registry_ok reg"
  shows "add_edges reg indices g ms = (r, g') \<Longrightarrow>
     set (map metadata_plugin_id ms) \<subseteq> set (map fst (registered reg)) \<Longrightarrow>
     graph_nodes g' = graph_nodes g
   \<and> (is_ok r \<longleftrightarrow> (\<forall>m\<in>set ms. set (dependencies_of reg (metadata_plugin_id m)) \<subseteq> dom (map_of indices)))
   \<and> (is_ok r \<longrightarrow> graph_edges g' = graph_edges g
        @ concat (map (\<lambda>m. map (\<lambda>d. (the (map_of indices d), the (map_of indices (metadata_plugin_id m))))
                          (dependencies_of reg (metadata_plugin_id m))) ms))"
proof (induction ms arbitrary: g)
  case (Cons m ms)
  let ?pid = "metadata_plugin_id m"
  obtain p where p: "map_of (registered reg) ?pid = Some p"
    using Cons.prems(2) by (metis list.set_intros(1) list.simps(9) map_of_eq_None_iff not_Some_eq set_map subsetD)
  then have deps: "dependencies_of reg ?pid = plugin_dependencies p" by (simp add: dependencies_of_def)
  obtain r1 g1 where d: "add_dependencies indices ?pid (the (map_of indices ?pid)) g (plugin_dependencies p) = (r1, g1)"
    by fastforce
  note d' = add_dependencies_result[OF d]
  show ?case
  proof (cases r1)
    case (Inl e)
    then show ?thesis using Cons.prems(1) d d' p deps by (auto simp: registry_ok_facts[OF assms])
  next
    case (Inr u)
    then have "add_edges reg indices g1 ms = (r, g')"
      using Cons.prems(1) d p by (simp add: registry_ok_facts[OF assms])
    from Cons.IH[OF this] Cons.prems(2) d' Inr deps show ?thesis by auto
  qed
qed auto

definition plugin_ids :: "'h plugin_registry \<Rightarrow> plugin_id list" where
  "plugin_ids reg = map fst (registered reg)"

definition dependency_edges :: "'h plugin_registry \<Rightarrow> (plugin_id \<times> plugin_id) set" where
  "dependency_edges reg = {(d, pid). pid \<in> set (plugin_ids reg) \<and> d \<in> set (dependencies_of reg pid)}"

text \<open>What resolving does on a registry in order: every node, and either a missing dependency or every edge.\<close>

lemma resolve_graph:
  assumes "registry_ok reg" "manager_registry m = reg"
  obtains nodes indices where
    "distinct nodes" "set nodes = set (plugin_ids reg)" "index_of_nodes nodes indices"
    "node_indices (snd (resolve_dependencies lib m)) = indices"
    "graph_nodes (dependency_graph (snd (resolve_dependencies lib m))) = nodes"
    "manager_registry (snd (resolve_dependencies lib m)) = reg"
    "if (\<forall>pid\<in>set (plugin_ids reg). set (dependencies_of reg pid) \<subseteq> set (plugin_ids reg)) then
       set (graph_edges (dependency_graph (snd (resolve_dependencies lib m))))
         = {(i, j). i < length nodes \<and> j < length nodes \<and> (nodes ! i, nodes ! j) \<in> dependency_edges reg}
       \<and> is_ok (fst (resolve_dependencies lib m))
           = (\<not> is_cyclic_directed lib (dependency_graph (snd (resolve_dependencies lib m))))
     else \<not> is_ok (fst (resolve_dependencies lib m))"
proof -
  define ms where "ms = sort_key metadata_plugin_id (map (\<lambda>(_, p). plugin_metadata_of p) (registered reg))"
  define nodes where "nodes = map metadata_plugin_id ms"
  have ids: "mset nodes = mset (plugin_ids reg)"
  proof -
    have "mset nodes = mset (map metadata_plugin_id (map (\<lambda>(_, p). plugin_metadata_of p) (registered reg)))"
      by (simp only: nodes_def ms_def mset_map mset_sort)
    then show ?thesis by (simp only: registry_ok_facts(3)[OF assms(1)] plugin_ids_def)
  qed
  have dist: "distinct nodes" and set_nodes: "set nodes = set (plugin_ids reg)"
    using ids assms(1) mset_eq_imp_distinct_iff[OF ids] mset_eq_setD[OF ids]
    by (simp_all add: registry_ok_def plugin_ids_def)
  obtain g0 indices where n: "add_nodes empty_graph [] ms = (g0, indices)" by fastforce
  have g0: "graph_nodes g0 = nodes" "graph_edges g0 = []" and ind: "index_of_nodes nodes indices"
    using add_nodes_result[OF n] dist by (auto simp: empty_graph_def nodes_def index_of_nodes_def)
  obtain r g where e: "add_edges reg indices g0 ms = (r, g)" by fastforce
  have "dom (map_of indices) = set nodes"
    using ind unfolding index_of_nodes_def by (auto simp: dom_def in_set_conv_nth)
  then have dom: "dom (map_of indices) = set (plugin_ids reg)" by (simp only: set_nodes)
  have sub: "set (map metadata_plugin_id ms) \<subseteq> set (map fst (registered reg))"
    using set_nodes by (simp add: nodes_def plugin_ids_def)
  note er = add_edges_result[OF assms(1) e sub]
  let ?res = "resolve_dependencies lib m"
  have res: "?res = (case r of Inl err \<Rightarrow> (Inl err, m\<lparr>dependency_graph := g, node_indices := indices\<rparr>)
      | Inr _ \<Rightarrow> if is_cyclic_directed lib g
          then (Inl ''Circular dependency detected in plugin graph'', m\<lparr>dependency_graph := g, node_indices := indices\<rparr>)
          else (Inr (), m\<lparr>dependency_graph := g, node_indices := indices\<rparr>))"
    using assms n e
    by (cases r) (simp_all add: resolve_dependencies_def registry_ok_facts(2)[OF assms(1)] ms_def[symmetric] Let_def)
  have ok: "is_ok r = (\<forall>pid\<in>set (plugin_ids reg). set (dependencies_of reg pid) \<subseteq> set (plugin_ids reg))"
  proof -
    have image: "set (plugin_ids reg) = metadata_plugin_id ` set ms"
      using set_nodes by (simp add: nodes_def)
    show ?thesis unfolding image ball_simps(9) using er by (simp only: dom image)
  qed
  have edges: "set (graph_edges g) = {(i, j). i < length nodes \<and> j < length nodes
        \<and> (nodes ! i, nodes ! j) \<in> dependency_edges reg}" if "is_ok r"
  proof -
    have idx: "map_of indices pid = Some i \<longleftrightarrow> i < length nodes \<and> nodes ! i = pid" for pid i
      using ind by (simp add: index_of_nodes_def)
    have "set (graph_edges g) = {(the (map_of indices d), the (map_of indices pid)) | d pid.
        pid \<in> set nodes \<and> d \<in> set (dependencies_of reg pid)}"
      using er that g0(2) by (auto simp: nodes_def)
    moreover have "{(the (map_of indices d), the (map_of indices pid)) | d pid.
        pid \<in> set nodes \<and> d \<in> set (dependencies_of reg pid)}
      = {(i, j). i < length nodes \<and> j < length nodes \<and> (nodes ! i, nodes ! j) \<in> dependency_edges reg}" (is "?L = ?R")
    proof
      show "?L \<subseteq> ?R"
      proof clarify
        fix d pid assume dp: "pid \<in> set nodes" "d \<in> set (dependencies_of reg pid)"
        with ok that set_nodes have "d \<in> set nodes" by auto
        then obtain i where "i < length nodes" "nodes ! i = d" unfolding in_set_conv_nth by blast
        moreover obtain j where "j < length nodes" "nodes ! j = pid" using dp(1) unfolding in_set_conv_nth by blast
        moreover from calculation have "map_of indices d = Some i" "map_of indices pid = Some j"
          unfolding idx by simp_all
        ultimately show "the (map_of indices d) < length nodes \<and> the (map_of indices pid) < length nodes
            \<and> (nodes ! the (map_of indices d), nodes ! the (map_of indices pid)) \<in> dependency_edges reg"
          using dp set_nodes by (simp add: dependency_edges_def)
      qed
      show "?R \<subseteq> ?L"
      proof clarify
        fix i j assume ij: "i < length nodes" "j < length nodes" "(nodes ! i, nodes ! j) \<in> dependency_edges reg"
        then have "map_of indices (nodes ! i) = Some i" "map_of indices (nodes ! j) = Some j"
          unfolding idx by simp_all
        with ij show "\<exists>d pid. (i, j) = (the (map_of indices d), the (map_of indices pid))
            \<and> pid \<in> set nodes \<and> d \<in> set (dependencies_of reg pid)"
          by (intro exI[of _ "nodes ! i"] exI[of _ "nodes ! j"]) (simp add: dependency_edges_def)
      qed
    qed
    ultimately show ?thesis by simp
  qed
  have "dependency_graph (snd ?res) = g" "node_indices (snd ?res) = indices" "manager_registry (snd ?res) = reg"
    "is_ok (fst ?res) = (is_ok r \<and> \<not> is_cyclic_directed lib g)"
    using assms(2) by (simp_all add: res split: sum.splits)
  then show thesis
    using that[OF dist set_nodes ind] er g0 ok edges by simp
qed

text \<open>A relation whose image is acyclic is acyclic.\<close>

lemma trancl_along:
  assumes "(a, b) \<in> R\<^sup>+" "\<And>x y. (x, y) \<in> R \<Longrightarrow> (f x, f y) \<in> S"
  shows "(f a, f b) \<in> S\<^sup>+"
  using assms(1) by induction (auto dest: assms(2) intro: trancl_into_trancl)

lemma acyclic_along: "acyclic S \<Longrightarrow> (\<And>x y. (x, y) \<in> R \<Longrightarrow> (f x, f y) \<in> S) \<Longrightarrow> acyclic R"
  unfolding acyclic_def using trancl_along[of _ _ R f S] by blast

text \<open>Numbering the nodes keeps the cycles.\<close>

lemma acyclic_indices:
  assumes "D \<subseteq> set nodes \<times> set nodes"
  shows "acyclic {(i, j). i < length nodes \<and> j < length nodes \<and> (nodes ! i, nodes ! j) \<in> D} \<longleftrightarrow> acyclic D"
    (is "acyclic ?E \<longleftrightarrow> _")
proof
  assume "acyclic D"
  then show "acyclic ?E" by (rule acyclic_along[where f = "\<lambda>i. nodes ! i"]) simp
next
  define place where "place x = (LEAST i. i < length nodes \<and> nodes ! i = x)" for x
  have place: "place x < length nodes \<and> nodes ! place x = x" if "x \<in> set nodes" for x
    using that unfolding place_def in_set_conv_nth by (metis (mono_tags, lifting) LeastI)
  assume "acyclic ?E"
  then show "acyclic D"
  proof (rule acyclic_along[where f = place])
    fix x y assume "(x, y) \<in> D"
    then show "(place x, place y) \<in> ?E" using assms place[of x] place[of y] by auto
  qed
qed

text \<open>
  What the manager relies on of \<open>petgraph\<close>, for one graph: the cycle test is right, and the
  order of a graph without cycles has each node once, after the sources of its edges.
\<close>

definition petgraph_laws :: "petgraph \<Rightarrow> digraph \<Rightarrow> bool" where
  "petgraph_laws lib g =
     (is_cyclic_directed lib g = (\<not> acyclic (set (graph_edges g)))
      \<and> (acyclic (set (graph_edges g)) \<longrightarrow>
           distinct (topo lib g) \<and> set (topo lib g) = {..<length (graph_nodes g)}
           \<and> (\<forall>k<length (topo lib g). \<forall>i. (i, topo lib g ! k) \<in> set (graph_edges g) \<longrightarrow> i \<in> set (take k (topo lib g)))))"

lemma dependency_edges_within:
  "\<forall>pid\<in>set (plugin_ids reg). set (dependencies_of reg pid) \<subseteq> set (plugin_ids reg) \<Longrightarrow>
     dependency_edges reg \<subseteq> set (plugin_ids reg) \<times> set (plugin_ids reg)"
  by (auto simp: dependency_edges_def)

text \<open>One pass over a list, each element running on the state the one before it left.\<close>

fun run_each :: "('a \<Rightarrow> 'h \<Rightarrow> 'b \<times> 'h) \<Rightarrow> 'h \<Rightarrow> 'a list \<Rightarrow> 'b list \<times> 'h" where
  "run_each step h [] = ([], h)"
| "run_each step h (x # xs) =
     (case step x h of (y, h') \<Rightarrow> (case run_each step h' xs of (ys, h'') \<Rightarrow> (y # ys, h'')))"

lemma run_each_length: "length (fst (run_each step h xs)) = length xs"
  by (induction xs arbitrary: h) (auto split: prod.splits, metis fst_conv)

text \<open>One plugin's turn, its error written into its own entry.\<close>

definition scan_turn :: "'h plugin_registry \<Rightarrow> hardener_config \<Rightarrow> plugin_id \<Rightarrow> 'h \<Rightarrow> scan_result \<times> 'h" where
  "scan_turn reg config pid h =
     (case plugin_scan (the (map_of (registered reg) pid)) h (get_plugin_config config pid) of
        (Inr result, h') \<Rightarrow> (result, h') | (Inl e, h') \<Rightarrow> (failed_scan pid (error_text e), h'))"

definition apply_turn :: "'h plugin_registry \<Rightarrow> hardener_config \<Rightarrow> plugin_id \<Rightarrow> 'h \<Rightarrow> apply_result \<times> 'h" where
  "apply_turn reg config pid h =
     (case plugin_apply (the (map_of (registered reg) pid)) h (get_plugin_config config pid) of
        (Inr result, h') \<Rightarrow> (result, h') | (Inl e, h') \<Rightarrow> (failed_apply pid (error_text e), h'))"

definition wanted :: "hardener_config \<Rightarrow> plugin_id list \<Rightarrow> plugin_id \<Rightarrow> bool" where
  "wanted config selection pid = ((selection = [] \<or> pid \<in> set selection) \<and> is_plugin_enabled config pid)"

lemma registered_Some: "pid \<in> set (plugin_ids reg) \<Longrightarrow> \<exists>p. map_of (registered reg) pid = Some p"
  unfolding plugin_ids_def by (metis map_of_eq_None_iff not_Some_eq set_map)

lemma scan_plugins_runs_each:
  assumes "registry_ok reg"
  shows "set order \<subseteq> set (plugin_ids reg) \<Longrightarrow> scan_plugins reg config selection h order =
     (case run_each (scan_turn reg config) h (filter (wanted config selection) order) of (rs, h') \<Rightarrow> (Inr rs, h'))"
proof (induction order arbitrary: h)
  case (Cons pid order)
  obtain p where p: "map_of (registered reg) pid = Some p" using registered_Some[of pid reg] Cons.prems by auto
  obtain r h' where r: "plugin_scan p h (get_plugin_config config pid) = (r, h')" by fastforce
  have turn: "scan_turn reg config pid h
      = ((case r of Inr result \<Rightarrow> result | Inl e \<Rightarrow> failed_scan pid (error_text e)), h')"
    using p r by (simp add: scan_turn_def split: sum.splits)
  show ?case
  proof (cases "wanted config selection pid")
    case True
    then show ?thesis using Cons p r turn
      by (auto simp: wanted_def registry_ok_facts(1)[OF assms] Let_def split: prod.splits)
  next
    case False
    then show ?thesis using Cons by (auto simp: wanted_def)
  qed
qed simp

lemma apply_plugins_runs_each:
  assumes "registry_ok reg"
  shows "set order \<subseteq> set (plugin_ids reg) \<Longrightarrow> apply_plugins reg config h order =
     (case run_each (apply_turn reg config) h order of (rs, h') \<Rightarrow> (Inr rs, h'))"
proof (induction order arbitrary: h)
  case (Cons pid order)
  obtain p where p: "map_of (registered reg) pid = Some p" using registered_Some[of pid reg] Cons.prems by auto
  obtain r h' where r: "plugin_apply p h (get_plugin_config config pid) = (r, h')" by fastforce
  have turn: "apply_turn reg config pid h
      = ((case r of Inr result \<Rightarrow> result | Inl e \<Rightarrow> failed_apply pid (error_text e)), h')"
    using p r by (simp add: apply_turn_def split: sum.splits)
  show ?case using Cons p r turn
    by (auto simp: registry_ok_facts(1)[OF assms] Let_def split: prod.splits)
qed simp

text \<open>After a successful resolution of a registry with plugins, the order is there and follows the edges.\<close>

lemma resolved_order:
  assumes "registry_ok (manager_registry m)" "plugin_ids (manager_registry m) \<noteq> []"
    and "resolve_dependencies lib m = (Inr (), m')" "petgraph_laws lib (dependency_graph m')"
  obtains order where "execution_order lib m' = Inr order" "distinct order"
    "set order = set (plugin_ids (manager_registry m))" "manager_registry m' = manager_registry m"
    "\<forall>k<length order. set (dependencies_of (manager_registry m) (order ! k)) \<subseteq> set (take k order)"
proof -
  let ?reg = "manager_registry m"
  let ?g = "dependency_graph m'"
  obtain nodes indices where g: "distinct nodes" "set nodes = set (plugin_ids ?reg)" "index_of_nodes nodes indices"
    "node_indices m' = indices" "graph_nodes ?g = nodes" "manager_registry m' = ?reg"
    "if (\<forall>pid\<in>set (plugin_ids ?reg). set (dependencies_of ?reg pid) \<subseteq> set (plugin_ids ?reg)) then
       set (graph_edges ?g)
         = {(i, j). i < length nodes \<and> j < length nodes \<and> (nodes ! i, nodes ! j) \<in> dependency_edges ?reg}
       \<and> is_ok (Inr () :: (string, unit) result) = (\<not> is_cyclic_directed lib ?g)
     else \<not> is_ok (Inr () :: (string, unit) result)"
    by (rule resolve_graph[OF assms(1) refl, of lib, unfolded assms(3) fst_conv snd_conv])
  have closed: "\<forall>pid\<in>set (plugin_ids ?reg). set (dependencies_of ?reg pid) \<subseteq> set (plugin_ids ?reg)"
    and edges: "set (graph_edges ?g)
         = {(i, j). i < length nodes \<and> j < length nodes \<and> (nodes ! i, nodes ! j) \<in> dependency_edges ?reg}"
    and "\<not> is_cyclic_directed lib ?g"
    using g(7) by (simp_all split: if_splits)
  then have t: "distinct (topo lib ?g)" "set (topo lib ?g) = {..<length nodes}"
    "\<And>k i. k < length (topo lib ?g) \<Longrightarrow> (i, topo lib ?g ! k) \<in> set (graph_edges ?g) \<Longrightarrow> i \<in> set (take k (topo lib ?g))"
    using assms(4) g(5) by (simp_all add: petgraph_laws_def)
  let ?order = "map (\<lambda>i. nodes ! i) (topo lib ?g)"
  have "nodes \<noteq> []" using g(2) assms(2) by auto
  then have "indices \<noteq> []" using g(3) unfolding index_of_nodes_def by (metis length_greater_0_conv map_of.simps(1) option.distinct(1))
  then have order: "execution_order lib m' = Inr ?order" using g(4,5) by (simp add: execution_order_def)
  have "distinct ?order" using t(1,2) g(1) by (simp add: distinct_map inj_on_def nth_eq_iff_index_eq)
  moreover have "set ?order = set (plugin_ids ?reg)"
    unfolding g(2)[symmetric] set_map t(2) by (auto simp: set_conv_nth)
  moreover have "set (dependencies_of ?reg (?order ! k)) \<subseteq> set (take k ?order)" if k: "k < length ?order" for k
  proof
    fix d assume d: "d \<in> set (dependencies_of ?reg (?order ! k))"
    let ?j = "topo lib ?g ! k"
    have j: "?j < length nodes" using k t(2) nth_mem[of k "topo lib ?g"] by auto
    then have pid: "nodes ! ?j \<in> set (plugin_ids ?reg)" using g(2) by (metis nth_mem)
    have "d \<in> set nodes" using closed pid d k g(2) by auto
    then obtain i where i: "i < length nodes" "nodes ! i = d" unfolding in_set_conv_nth by blast
    have "(i, ?j) \<in> set (graph_edges ?g)"
      unfolding edges using i j pid d k by (simp add: dependency_edges_def)
    then have "i \<in> set (take k (topo lib ?g))" using t(3) k by simp
    then show "d \<in> set (take k ?order)" using i(2) by (auto simp: take_map)
  qed
  ultimately show thesis using that[OF order _ _ g(6)] by simp
qed

text \<open>Two plugins, the second the dependency of the first; every scan and apply of them fails.\<close>

definition sample_plugin :: "plugin_id \<Rightarrow> plugin_id list \<Rightarrow> nat hardening_plugin" where
  "sample_plugin pid deps =
     \<lparr>plugin_metadata_of = \<lparr>plugin_category = Kernel, plugin_description = [], metadata_plugin_id = pid,
        plugin_name = pid, plugin_version = ''1''\<rparr>,
      plugin_dependencies = deps,
      plugin_scan = (\<lambda>h _. (Inl (PluginError ''no''), Suc h)),
      plugin_apply = (\<lambda>h _. (Inl (PluginError ''no''), Suc h)),
      reloads_for_path = (\<lambda>_. False),
      reload_after_rollback = (\<lambda>h. (Inr None, h)),
      divergences_after_rollback = (\<lambda>h _. ([], h))\<rparr>"

definition sample_manager :: "nat plugin_manager" where
  "sample_manager = new_manager
     \<lparr>registered = [(''a'', sample_plugin ''a'' [''b'']), (''b'', sample_plugin ''b'' [])], lock_poisoned = False\<rparr>"

definition sample_graph :: petgraph where
  "sample_graph = \<lparr>is_cyclic_directed = (\<lambda>_. False), topo = (\<lambda>_. [1, 0])\<rparr>"

definition sample_resolved :: "nat plugin_manager" where
  "sample_resolved = sample_manager
     \<lparr>dependency_graph := \<lparr>graph_nodes = [''a'', ''b''], graph_edges = [(1, 0)]\<rparr>,
      node_indices := [(''a'', 0), (''b'', 1)]\<rparr>"

definition sample_config :: hardener_config where
  "sample_config = (let d = default_plugin_config in
     \<lparr>global = \<lparr>enabled_plugins = [], disabled_plugins = []\<rparr>, ssh = d, kernel = d, firewall = d, pam = d, audit = d,
      mac = d, permissions = d, services = d, compliance = Map.empty\<rparr>)"

lemma acyclic_empty: "acyclic {}"
  by (simp add: acyclic_def)

lemma sample_resolves:
  "registry_ok (manager_registry sample_manager)"
  "plugin_ids (manager_registry sample_manager) = [''a'', ''b'']"
  "resolve_dependencies sample_graph sample_manager = (Inr (), sample_resolved)"
  "petgraph_laws sample_graph (dependency_graph sample_resolved)"
  subgoal by code_simp
  subgoal by (simp add: sample_manager_def new_manager_def plugin_ids_def)
  subgoal by (simp add: sample_manager_def sample_resolved_def new_manager_def resolve_dependencies_def
      registry_list_def and_then_def read_plugins_def sample_plugin_def empty_graph_def registry_get_def
      sample_graph_def Let_def)
  subgoal by (auto simp: petgraph_laws_def sample_graph_def sample_resolved_def less_Suc_eq acyclic_insert
      acyclic_empty)
  done

lemma sample_runs:
  "execution_order sample_graph sample_resolved = Inr [''b'', ''a'']"
  "wanted sample_config [] pid"
  "snd (scan_turn (manager_registry sample_manager) sample_config ''a'' h) = Suc h"
  "snd (scan_turn (manager_registry sample_manager) sample_config ''b'' h) = Suc h"
  "snd (apply_turn (manager_registry sample_manager) sample_config ''a'' h) = Suc h"
  by (simp_all add: execution_order_def sample_graph_def sample_resolved_def wanted_def is_plugin_enabled_def
      get_plugin_config_def plugin_is_enabled_def default_plugin_config_def sample_config_def Let_def
      scan_turn_def apply_turn_def sample_manager_def new_manager_def sample_plugin_def)

subsection \<open>Properties\<close>

text \<open>
  C33. Resolution is exact: it succeeds on a registry exactly when every dependency a registered
  plugin names is itself registered and the dependencies have no cycle.
\<close>

lemma resolution_is_exact:
  assumes "registry_ok (manager_registry m)"
    and "petgraph_laws lib (dependency_graph (snd (resolve_dependencies lib m)))"
  shows "is_ok (fst (resolve_dependencies lib m)) \<longleftrightarrow>
     (\<forall>pid\<in>set (plugin_ids (manager_registry m)).
        set (dependencies_of (manager_registry m) pid) \<subseteq> set (plugin_ids (manager_registry m)))
     \<and> acyclic (dependency_edges (manager_registry m))"
proof -
  let ?reg = "manager_registry m"
  obtain nodes indices where g: "set nodes = set (plugin_ids ?reg)"
    "if (\<forall>pid\<in>set (plugin_ids ?reg). set (dependencies_of ?reg pid) \<subseteq> set (plugin_ids ?reg)) then
       set (graph_edges (dependency_graph (snd (resolve_dependencies lib m))))
         = {(i, j). i < length nodes \<and> j < length nodes \<and> (nodes ! i, nodes ! j) \<in> dependency_edges ?reg}
       \<and> is_ok (fst (resolve_dependencies lib m))
           = (\<not> is_cyclic_directed lib (dependency_graph (snd (resolve_dependencies lib m))))
     else \<not> is_ok (fst (resolve_dependencies lib m))"
    by (rule resolve_graph[OF assms(1) refl, of lib])
  show ?thesis
  proof (cases "\<forall>pid\<in>set (plugin_ids ?reg). set (dependencies_of ?reg pid) \<subseteq> set (plugin_ids ?reg)")
    case True
    have "acyclic (set (graph_edges (dependency_graph (snd (resolve_dependencies lib m)))))
        \<longleftrightarrow> acyclic (dependency_edges ?reg)"
      using g(2) True acyclic_indices[of "dependency_edges ?reg" nodes] dependency_edges_within[OF True] g(1)
      by simp
    then show ?thesis using g(2) True assms(2) by (simp add: petgraph_laws_def)
  next
    case False
    then show ?thesis using g(2) by simp
  qed
qed

theorem resolution_is_exact_witness:
  "is_ok (fst (resolve_dependencies sample_graph sample_manager))
   \<and> acyclic (dependency_edges (manager_registry sample_manager))"
  using resolution_is_exact[of sample_manager sample_graph] by (simp add: sample_resolves)

text \<open>Plugins run after what they depend on: once resolution has succeeded on a registry with plugins,
  the execution order has every registered plugin exactly once, and every dependency of a plugin stands
  before it.
\<close>

lemma order_respects_dependencies:
  assumes "registry_ok (manager_registry m)" "plugin_ids (manager_registry m) \<noteq> []"
    and "resolve_dependencies lib m = (Inr (), m')" "petgraph_laws lib (dependency_graph m')"
  shows "\<exists>order. execution_order lib m' = Inr order \<and> distinct order
     \<and> set order = set (plugin_ids (manager_registry m))
     \<and> (\<forall>k<length order. set (dependencies_of (manager_registry m) (order ! k)) \<subseteq> set (take k order))"
  by (rule resolved_order[OF assms]) blast

theorem order_respects_dependencies_witness:
  "\<exists>order. execution_order sample_graph sample_resolved = Inr order \<and> distinct order \<and> set order = {''a'', ''b''}
     \<and> (\<forall>k<length order. set (dependencies_of (manager_registry sample_manager) (order ! k)) \<subseteq> set (take k order))"
  using order_respects_dependencies[OF sample_resolves(1) _ sample_resolves(3,4)]
  by (simp add: sample_resolves(2))



text \<open>An apply run goes on past failures: on a resolved manager it runs every named plugin (every plugin
  when none is named) in execution order, on the state the one before it left, and returns one entry
  each; it is an error only when no named plugin is registered.
\<close>

lemma apply_runs_every_named_plugin:
  assumes "registry_ok (manager_registry m)" "plugin_ids (manager_registry m) \<noteq> []"
    and "resolve_dependencies lib m = (Inr (), m')" "petgraph_laws lib (dependency_graph m')"
  shows "\<exists>order. execution_order lib m' = Inr order
     \<and> (let named = filter (\<lambda>pid. ids = [] \<or> pid \<in> set ids) order;
            run = run_each (apply_turn (manager_registry m) config) h named in
        execute_apply lib m' h config ids
          = (if \<exists>pid\<in>set (plugin_ids (manager_registry m)). ids = [] \<or> pid \<in> set ids
             then (Inr (fst run), snd run) else (Inl ''No plugins to apply'', h)))"
proof -
  obtain order where o: "execution_order lib m' = Inr order"
    "set order = set (plugin_ids (manager_registry m))" "manager_registry m' = manager_registry m"
    by (rule resolved_order[OF assms])
  let ?named = "filter (\<lambda>pid. ids = [] \<or> pid \<in> set ids) order"
  have "(if ids = [] then order else filter (\<lambda>pid. pid \<in> set ids) order) = ?named" by simp
  moreover have "?named = [] \<longleftrightarrow> \<not> (\<exists>pid\<in>set (plugin_ids (manager_registry m)). ids = [] \<or> pid \<in> set ids)"
    unfolding o(2)[symmetric] by (auto simp: filter_empty_conv)
  moreover have "set ?named \<subseteq> set (plugin_ids (manager_registry m))" using o(2) by auto
  ultimately show ?thesis using o
    by (simp add: execute_apply_def apply_plugins_runs_each[OF assms(1)] Let_def split: prod.splits)
qed

theorem apply_runs_every_named_plugin_witness:
  "\<exists>rs. execute_apply sample_graph sample_resolved 0 sample_config [''a''] = (Inr rs, 1)"
proof -
  have run: "snd (run_each (apply_turn (manager_registry sample_manager) sample_config) 0 [''a'']) = 1"
    by (simp add: sample_runs split_beta)
  show ?thesis
    using apply_runs_every_named_plugin[OF sample_resolves(1) _ sample_resolves(3,4),
        of "[''a'']" sample_config 0] run
    by (simp add: sample_resolves(2) sample_runs split_beta Let_def)
qed

end
