(* ===== verification/Plugin_Mappings.thy ===== *)
theory Plugin_Mappings
  imports Hardener_Types Host_Executor
begin

text \<open>
  The compliance mappings of the kernel, SSH and PAM plugins: the \<open>get_*_compliance_mappings\<close> functions of
  \<open>crates/hardener-plugins/src/{kernel,ssh,pam}/mod.rs\<close> and their builders, row by row. Each plugin has
  builders of its own, since the section a builder derives differs between plugins.
\<close>

definition mapping_of ::
  "compliance_framework \<Rightarrow> string \<Rightarrow> string \<Rightarrow> string option \<Rightarrow> compliance_mapping" where
  "mapping_of framework cid title sec = \<lparr>compliance_framework = framework, compliance_control_id = cid,
     compliance_control_title = title, compliance_section = sec\<rparr>"


subsection \<open>Kernel\<close>

definition kernel_nist :: "string \<Rightarrow> string \<Rightarrow> string \<Rightarrow> compliance_mapping" where
  "kernel_nist cid title sec = mapping_of NIST (cid) (title) (Some (sec))"

definition kernel_stig :: "string \<Rightarrow> string \<Rightarrow> compliance_mapping" where
  "kernel_stig cid title = mapping_of STIG (cid) (title) (Some ''DISA STIG'')"

definition kernel_pcidss :: "string \<Rightarrow> string \<Rightarrow> string \<Rightarrow> compliance_mapping" where
  "kernel_pcidss cid title sec = mapping_of PCIDSS (cid) (title) (Some (sec))"

definition kernel_hipaa :: "string \<Rightarrow> string \<Rightarrow> compliance_mapping" where
  "kernel_hipaa cid title = mapping_of HIPAA (cid) (title) (Some ''Technical Safeguards'')"

definition kernel_gdpr :: "string \<Rightarrow> string \<Rightarrow> compliance_mapping" where
  "kernel_gdpr cid title = mapping_of GDPR (cid) (title) (Some ''Article 32 - Security of Processing'')"

definition kernel_iso :: "string \<Rightarrow> string \<Rightarrow> string \<Rightarrow> compliance_mapping" where
  "kernel_iso cid title theme = mapping_of ISO27001 (cid) (title) (Some (theme))"

definition kernel_soc2 :: "string \<Rightarrow> string \<Rightarrow> compliance_mapping" where
  "kernel_soc2 cid title = mapping_of SOC2 (cid) (title) (Some ((if starts_with ''CC7'' cid then ''System Operations''
        else ''Logical and Physical Access Controls'')))"

definition kernel_nist171 :: "string \<Rightarrow> string \<Rightarrow> compliance_mapping" where
  "kernel_nist171 cid title = mapping_of NIST800171 (cid) (title) (Some ((let parts = split_on (CHR ''.'') cid in
        if length parts > 1 \<and> parts ! 1 = ''1'' then ''Access Control''
        else if length parts > 1 \<and> parts ! 1 = ''4'' then ''Configuration Management''
        else if length parts > 1 \<and> parts ! 1 = ''13'' then ''System and Communications Protection''
        else ''System and Information Integrity'')))"

definition kernel_fedramp :: "string \<Rightarrow> string \<Rightarrow> compliance_mapping" where
  "kernel_fedramp cid title = mapping_of FedRAMP (cid) (title) (Some ((let first = hd (split_on (CHR ''-'') cid) in
        if first = ''AC'' then ''Access Control''
        else if first = ''CM'' then ''Configuration Management''
        else if first = ''SC'' then ''System and Communications Protection''
        else ''System and Information Integrity'')))"

definition kernel_compliance_mappings :: "string \<Rightarrow> compliance_mapping list" where
  "kernel_compliance_mappings param =
     (if param = ''kernel.randomize_va_space'' then
        [mapping_of CIS ''1.5.1'' ''Ensure address space layout randomisation (ASLR) is enabled'' (Some ''Initial Setup''),
         kernel_stig ''RHEL-08-010430'' ''Implement address space layout randomization'',
         kernel_nist ''SI-16'' ''Memory Protection'' ''System and Information Integrity'',
         kernel_nist ''CM-6'' ''Configuration Settings'' ''Configuration Management'',
         kernel_pcidss ''2.2.6'' ''System security parameters are configured to prevent misuse'' ''Secure Configurations'',
         kernel_hipaa ''164.312(a)(1)'' ''Access control'',
         kernel_gdpr ''TM-SH'' ''System hardening of processing systems'',
         kernel_iso ''8.9'' ''Configuration management'' ''Technological'',
         kernel_soc2 ''CC6.8'' ''Prevent or detect the introduction of unauthorized or malicious software'',
         kernel_nist171 ''3.4.2'' ''Configuration Settings'',
         kernel_fedramp ''SI-16'' ''Memory Protection'',
         kernel_fedramp ''CM-6'' ''Configuration Settings'']
      else (if param = ''kernel.kptr_restrict'' then
        [mapping_of CIS ''1.5.4'' ''Ensure kernel pointers are restricted'' (Some ''Initial Setup''),
         kernel_stig ''RHEL-08-040283'' ''Restrict exposed kernel pointer addresses access'',
         kernel_nist ''CM-6'' ''Configuration Settings'' ''Configuration Management'',
         kernel_gdpr ''TM-SH'' ''System hardening of processing systems'',
         kernel_iso ''8.9'' ''Configuration management'' ''Technological'',
         kernel_soc2 ''CC6.1'' ''Logical access security software, infrastructure, and architectures'',
         kernel_nist171 ''3.4.2'' ''Configuration Settings'',
         kernel_fedramp ''CM-6'' ''Configuration Settings'']
      else (if param = ''kernel.dmesg_restrict'' then
        [mapping_of CIS ''1.5.4'' ''Ensure kernel pointers are restricted'' (Some ''Initial Setup''),
         kernel_stig ''RHEL-08-010375'' ''Restrict access to the kernel message buffer'',
         kernel_nist ''SI-11'' ''Error Handling'' ''System and Information Integrity'',
         kernel_hipaa ''164.312(a)(1)'' ''Access control'',
         kernel_gdpr ''TM-SH'' ''System hardening of processing systems'',
         kernel_iso ''8.9'' ''Configuration management'' ''Technological'',
         kernel_soc2 ''CC6.1'' ''Logical access security software, infrastructure, and architectures'',
         kernel_fedramp ''SI-11'' ''Error Handling'']
      else (if param = ''kernel.yama.ptrace_scope'' then
        [mapping_of CIS ''1.5.2'' ''Ensure ptrace_scope is restricted'' (Some ''Initial Setup''),
         kernel_stig ''RHEL-08-040282'' ''Restrict usage of ptrace to descendant processes'',
         kernel_nist ''SC-7'' ''Boundary Protection'' ''System and Communications Protection'',
         kernel_gdpr ''TM-SH'' ''System hardening of processing systems'',
         kernel_iso ''8.9'' ''Configuration management'' ''Technological'',
         kernel_soc2 ''CC6.1'' ''Logical access security software, infrastructure, and architectures'',
         kernel_nist171 ''3.13.1'' ''Boundary Protection'',
         kernel_fedramp ''SC-7'' ''Boundary Protection'']
      else (if param = ''fs.suid_dumpable'' then
        [mapping_of CIS ''1.5.3'' ''Ensure core dumps are restricted'' (Some ''Initial Setup''),
         kernel_nist ''SI-11'' ''Error Handling'' ''System and Information Integrity'',
         kernel_hipaa ''164.312(a)(1)'' ''Access control'',
         kernel_gdpr ''TM-SH'' ''System hardening of processing systems'',
         kernel_iso ''8.9'' ''Configuration management'' ''Technological'',
         kernel_soc2 ''CC6.1'' ''Logical access security software, infrastructure, and architectures'',
         kernel_fedramp ''SI-11'' ''Error Handling'']
      else (if param \<in> {''fs.protected_hardlinks'', ''fs.protected_symlinks''} then
        [kernel_stig ''RHEL-08-010374'' ''Enforce DAC on hardlinks and symlinks'',
         kernel_nist ''CM-6'' ''Configuration Settings'' ''Configuration Management'',
         kernel_nist ''AC-6'' ''Least Privilege'' ''Access Control'',
         kernel_gdpr ''TM-SH'' ''System hardening of processing systems'',
         kernel_iso ''8.9'' ''Configuration management'' ''Technological'',
         kernel_soc2 ''CC6.1'' ''Logical access security software, infrastructure, and architectures'',
         kernel_nist171 ''3.4.2'' ''Configuration Settings'',
         kernel_nist171 ''3.1.5'' ''Least Privilege'',
         kernel_fedramp ''CM-6'' ''Configuration Settings'',
         kernel_fedramp ''AC-6'' ''Least Privilege'']
      else (if param \<in> {''net.ipv4.conf.all.rp_filter'', ''net.ipv4.conf.default.rp_filter''} then
        [mapping_of CIS ''3.2.7'' ''Ensure reverse path filtering is enabled'' (Some ''Network Configuration''),
         kernel_stig ''RHEL-08-040285'' ''Use reverse path filtering on all IPv4 interfaces'',
         kernel_nist ''CM-7'' ''Least Functionality'' ''Configuration Management'',
         kernel_nist ''SC-7'' ''Boundary Protection'' ''System and Communications Protection'',
         kernel_pcidss ''1.4.1'' ''NSCs are implemented between trusted and untrusted networks'' ''Network Security Controls'',
         kernel_hipaa ''164.312(e)(1)'' ''Transmission security'',
         kernel_gdpr ''TM-SH'' ''System hardening of processing systems'',
         kernel_gdpr ''TM-NW'' ''Network-level protection of processing systems'',
         kernel_iso ''8.20'' ''Networks security'' ''Technological'',
         kernel_soc2 ''CC6.6'' ''Protect against threats from sources outside system boundaries'',
         kernel_nist171 ''3.4.6'' ''Least Functionality'',
         kernel_nist171 ''3.13.1'' ''Boundary Protection'',
         kernel_fedramp ''CM-7'' ''Least Functionality'',
         kernel_fedramp ''SC-7'' ''Boundary Protection'']
      else (if param = ''net.ipv4.tcp_syncookies'' then
        [mapping_of CIS ''3.2.8'' ''Ensure TCP SYN cookies is enabled'' (Some ''Network Configuration''),
         kernel_nist ''SC-5'' ''Denial-of-Service Protection'' ''System and Communications Protection'',
         kernel_pcidss ''1.4.1'' ''NSCs are implemented between trusted and untrusted networks'' ''Network Security Controls'',
         kernel_hipaa ''164.312(e)(1)'' ''Transmission security'',
         kernel_gdpr ''TM-SH'' ''System hardening of processing systems'',
         kernel_gdpr ''TM-NW'' ''Network-level protection of processing systems'',
         kernel_iso ''8.20'' ''Networks security'' ''Technological'',
         kernel_soc2 ''CC6.6'' ''Protect against threats from sources outside system boundaries'',
         kernel_fedramp ''SC-5'' ''Denial-of-Service Protection'']
      else (if param \<in> {''net.ipv4.conf.all.accept_source_route'', ''net.ipv4.conf.default.accept_source_route''} then
        [mapping_of CIS ''3.2.1'' ''Ensure source routed packets are not accepted'' (Some ''Network Configuration''),
         kernel_stig ''RHEL-08-040239'' ''Do not accept source-routed IPv4 packets'',
         kernel_nist ''CM-7'' ''Least Functionality'' ''Configuration Management'',
         kernel_nist ''SC-7'' ''Boundary Protection'' ''System and Communications Protection'',
         kernel_hipaa ''164.312(e)(1)'' ''Transmission security'',
         kernel_gdpr ''TM-SH'' ''System hardening of processing systems'',
         kernel_gdpr ''TM-NW'' ''Network-level protection of processing systems'',
         kernel_iso ''8.20'' ''Networks security'' ''Technological'',
         kernel_soc2 ''CC6.6'' ''Protect against threats from sources outside system boundaries'',
         kernel_nist171 ''3.4.6'' ''Least Functionality'',
         kernel_nist171 ''3.13.1'' ''Boundary Protection'',
         kernel_fedramp ''CM-7'' ''Least Functionality'',
         kernel_fedramp ''SC-7'' ''Boundary Protection'']
      else (if contains ''accept_redirects'' param then
        [mapping_of CIS ''3.2.2'' ''Ensure ICMP redirects are not accepted'' (Some ''Network Configuration''),
         kernel_nist ''SI-4'' ''System Monitoring'' ''System and Information Integrity'',
         kernel_iso ''8.20'' ''Networks security'' ''Technological'',
         kernel_soc2 ''CC6.6'' ''Protect against threats from sources outside system boundaries'',
         kernel_nist171 ''3.14.6'' ''System Monitoring'',
         kernel_fedramp ''SI-4'' ''System Monitoring'']
      else (if contains ''secure_redirects'' param then
        [mapping_of CIS ''3.2.3'' ''Ensure secure ICMP redirects are not accepted'' (Some ''Network Configuration''),
         kernel_nist ''SI-4'' ''System Monitoring'' ''System and Information Integrity'',
         kernel_iso ''8.20'' ''Networks security'' ''Technological'',
         kernel_soc2 ''CC6.6'' ''Protect against threats from sources outside system boundaries'',
         kernel_nist171 ''3.14.6'' ''System Monitoring'',
         kernel_fedramp ''SI-4'' ''System Monitoring'']
      else (if contains ''log_martians'' param then
        [mapping_of CIS ''3.2.4'' ''Ensure suspicious packets are logged'' (Some ''Network Configuration''),
         kernel_nist ''SI-4'' ''System Monitoring'' ''System and Information Integrity'',
         kernel_iso ''8.15'' ''Logging'' ''Technological'',
         kernel_soc2 ''CC7.2'' ''Monitor system components for anomalies indicative of malicious acts or errors'',
         kernel_nist171 ''3.14.6'' ''System Monitoring'',
         kernel_fedramp ''SI-4'' ''System Monitoring'']
      else []))))))))))))"


subsection \<open>SSH\<close>

definition ssh_soc2 :: "string \<Rightarrow> string \<Rightarrow> compliance_mapping" where
  "ssh_soc2 cid title = mapping_of SOC2 (cid) (title) (Some ((if starts_with ''CC7'' cid then ''System Operations''
        else ''Logical and Physical Access Controls'')))"

definition ssh_nist171 :: "string \<Rightarrow> string \<Rightarrow> compliance_mapping" where
  "ssh_nist171 cid title = mapping_of NIST800171 (cid) (title) (Some ''System and Communications Protection'')"

definition ssh_fedramp :: "string \<Rightarrow> string \<Rightarrow> compliance_mapping" where
  "ssh_fedramp cid title = mapping_of FedRAMP (cid) (title) (Some ''System and Communications Protection'')"

definition ssh_compliance_mappings :: "string \<Rightarrow> compliance_mapping list" where
  "ssh_compliance_mappings name =
     (if name = ''PermitRootLogin'' then
        [mapping_of CIS ''5.2.10'' ''Ensure SSH root login is disabled'' (Some ''Access Control''),
         mapping_of HIPAA ''164.312(a)(1)'' ''Implement technical policies for access to ePHI'' (Some ''Access Control''),
         mapping_of HIPAA ''164.312(d)'' ''Implement procedures to verify person or entity identity'' (Some ''Authentication''),
         mapping_of GDPR ''TM-AUTH'' ''Authentication - Verify user identity'' (Some ''Technical Measures''),
         mapping_of GDPR ''TM-SH'' ''System Hardening - Reduce attack surface'' (Some ''Technical Measures''),
         mapping_of ISO27001 ''8.5'' ''Secure authentication'' (Some ''Technological''),
         mapping_of NIST ''AC-17(a)'' ''Remote Access - Usage Restrictions and Configuration'' (Some ''Access Control''),
         mapping_of ISO27001 ''8.2'' ''Privileged access rights'' (Some ''Technological''),
         ssh_nist171 ''3.1.12'' ''Remote Access'',
         ssh_fedramp ''AC-17(a)'' ''Remote Access - Usage Restrictions and Configuration'',
         ssh_soc2 ''CC6.1'' ''Logical access security software, infrastructure, and architectures'']
      else (if name = ''PasswordAuthentication'' then
        [mapping_of CIS ''5.2.11'' ''Ensure SSH PasswordAuthentication is disabled'' (Some ''Access Control''),
         mapping_of HIPAA ''164.312(d)'' ''Implement procedures to verify person or entity identity'' (Some ''Authentication''),
         mapping_of HIPAA ''164.308(a)(5)(ii)(D)'' ''Password Management'' (Some ''Administrative Safeguards''),
         mapping_of GDPR ''TM-AUTH'' ''Authentication - Verify user identity'' (Some ''Technical Measures''),
         mapping_of GDPR ''TM-SH'' ''System Hardening - Reduce attack surface'' (Some ''Technical Measures''),
         mapping_of ISO27001 ''8.5'' ''Secure authentication'' (Some ''Technological''),
         ssh_soc2 ''CC6.1'' ''Logical access security software, infrastructure, and architectures'']
      else (if name = ''PermitEmptyPasswords'' then
        [mapping_of CIS ''5.2.11'' ''Ensure SSH PermitEmptyPasswords is disabled'' (Some ''Access Control''),
         mapping_of HIPAA ''164.312(d)'' ''Implement procedures to verify person or entity identity'' (Some ''Authentication''),
         mapping_of HIPAA ''164.308(a)(5)(ii)(D)'' ''Password Management'' (Some ''Administrative Safeguards''),
         mapping_of GDPR ''TM-AUTH'' ''Authentication - Verify user identity'' (Some ''Technical Measures''),
         mapping_of GDPR ''TM-SH'' ''System Hardening - Reduce attack surface'' (Some ''Technical Measures''),
         mapping_of ISO27001 ''8.5'' ''Secure authentication'' (Some ''Technological''),
         ssh_soc2 ''CC6.1'' ''Logical access security software, infrastructure, and architectures'']
      else (if name = ''MaxAuthTries'' then
        [mapping_of CIS ''5.2.7'' ''Ensure SSH MaxAuthTries is set to 4 or less'' (Some ''Access Control''),
         mapping_of HIPAA ''164.312(d)'' ''Implement procedures to verify person or entity identity'' (Some ''Authentication''),
         mapping_of GDPR ''TM-AUTH'' ''Authentication - Verify user identity'' (Some ''Technical Measures''),
         mapping_of GDPR ''TM-SH'' ''System Hardening - Reduce attack surface'' (Some ''Technical Measures''),
         mapping_of ISO27001 ''8.5'' ''Secure authentication'' (Some ''Technological''),
         ssh_soc2 ''CC6.1'' ''Logical access security software, infrastructure, and architectures'']
      else (if name = ''X11Forwarding'' then
        [mapping_of CIS ''5.2.6'' ''Ensure SSH X11 forwarding is disabled'' (Some ''Access Control''),
         mapping_of GDPR ''TM-SH'' ''System Hardening - Reduce attack surface'' (Some ''Technical Measures''),
         mapping_of ISO27001 ''8.20'' ''Networks security'' (Some ''Technological''),
         ssh_soc2 ''CC6.6'' ''Protect against threats from sources outside system boundaries'']
      else (if name \<in> {''ClientAliveInterval'', ''ClientAliveCountMax''} then
        [mapping_of CIS ''5.2.13'' ''Ensure SSH Idle Timeout Interval is configured'' (Some ''Access Control''),
         mapping_of HIPAA ''164.312(a)(2)(iii)'' ''Automatic Logoff'' (Some ''Access Control''),
         mapping_of GDPR ''TM-SH'' ''System Hardening - Reduce attack surface'' (Some ''Technical Measures''),
         mapping_of ISO27001 ''8.20'' ''Networks security'' (Some ''Technological''),
         mapping_of NIST ''AC-17(a)'' ''Remote Access - Usage Restrictions and Configuration'' (Some ''Access Control''),
         ssh_nist171 ''3.1.12'' ''Remote Access'',
         ssh_fedramp ''AC-17(a)'' ''Remote Access - Usage Restrictions and Configuration'',
         ssh_soc2 ''CC6.1'' ''Logical access security software, infrastructure, and architectures'']
      else (if name = ''KexAlgorithms'' then
        [mapping_of CIS ''5.2.14'' ''Ensure only strong Key Exchange algorithms are used'' (Some ''Cryptography''),
         mapping_of NIST ''SC-13'' ''Cryptographic Protection'' (Some ''System and Communications Protection''),
         mapping_of HIPAA ''164.312(e)(1)'' ''Implement technical security measures for ePHI transmission'' (Some ''Transmission Security''),
         mapping_of HIPAA ''164.312(e)(2)(ii)'' ''Encryption for transmission'' (Some ''Transmission Security''),
         mapping_of GDPR ''Art.32(1)(a)'' ''Pseudonymisation and encryption of personal data'' (Some ''Security of Processing''),
         mapping_of GDPR ''TM-NW'' ''Network Security - Protect data in transit'' (Some ''Technical Measures''),
         mapping_of ISO27001 ''8.24'' ''Use of cryptography'' (Some ''Technological''),
         ssh_soc2 ''CC6.6'' ''Protect against threats from sources outside system boundaries'',
         ssh_nist171 ''3.13.11'' ''Cryptographic Protection'',
         ssh_fedramp ''SC-13'' ''Cryptographic Protection'']
      else (if name = ''Ciphers'' then
        [mapping_of CIS ''5.2.15'' ''Ensure only strong Ciphers are used'' (Some ''Cryptography''),
         mapping_of STIG ''RHEL-08-010291'' ''The RHEL 8 SSH server must be configured to use only DOD-approved encryption ciphers employing FIPS 140-3-validated cryptographic hash algorithms to protect the confidentiality of SSH server connections.'' (Some ''Cryptography''),
         mapping_of NIST ''SC-8'' ''Transmission Confidentiality and Integrity'' (Some ''System and Communications Protection''),
         mapping_of HIPAA ''164.312(e)(1)'' ''Implement technical security measures for ePHI transmission'' (Some ''Transmission Security''),
         mapping_of HIPAA ''164.312(e)(2)(ii)'' ''Encryption for transmission'' (Some ''Transmission Security''),
         mapping_of GDPR ''Art.32(1)(a)'' ''Pseudonymisation and encryption of personal data'' (Some ''Security of Processing''),
         mapping_of GDPR ''TM-NW'' ''Network Security - Protect data in transit'' (Some ''Technical Measures''),
         mapping_of ISO27001 ''8.24'' ''Use of cryptography'' (Some ''Technological''),
         ssh_soc2 ''CC6.6'' ''Protect against threats from sources outside system boundaries'',
         ssh_nist171 ''3.13.8'' ''Transmission and Storage Confidentiality'',
         ssh_fedramp ''SC-8'' ''Transmission Confidentiality and Integrity'']
      else (if name = ''MACs'' then
        [mapping_of CIS ''5.2.16'' ''Ensure only strong MAC algorithms are used'' (Some ''Cryptography''),
         mapping_of STIG ''RHEL-08-010290'' ''The RHEL 8 SSH server must be configured to use only Message Authentication Codes (MACs) employing FIPS 140-3-validated cryptographic hash algorithms to protect the confidentiality of SSH server connections.'' (Some ''Cryptography''),
         mapping_of NIST ''SC-8'' ''Transmission Confidentiality and Integrity'' (Some ''System and Communications Protection''),
         mapping_of HIPAA ''164.312(e)(1)'' ''Implement technical security measures for ePHI transmission'' (Some ''Transmission Security''),
         mapping_of HIPAA ''164.312(e)(2)(ii)'' ''Encryption for transmission'' (Some ''Transmission Security''),
         mapping_of GDPR ''Art.32(1)(a)'' ''Pseudonymisation and encryption of personal data'' (Some ''Security of Processing''),
         mapping_of GDPR ''TM-NW'' ''Network Security - Protect data in transit'' (Some ''Technical Measures''),
         mapping_of ISO27001 ''8.24'' ''Use of cryptography'' (Some ''Technological''),
         ssh_soc2 ''CC6.6'' ''Protect against threats from sources outside system boundaries'',
         ssh_nist171 ''3.13.8'' ''Transmission and Storage Confidentiality'',
         ssh_fedramp ''SC-8'' ''Transmission Confidentiality and Integrity'']
      else [])))))))))"


subsection \<open>PAM\<close>

definition pam_mapping_in :: "compliance_framework \<Rightarrow> string \<Rightarrow> string \<Rightarrow> string \<Rightarrow> compliance_mapping" where
  "pam_mapping_in framework cid title sec = mapping_of framework cid title (Some sec)"

definition pam_mapping :: "compliance_framework \<Rightarrow> string \<Rightarrow> string \<Rightarrow> compliance_mapping" where
  "pam_mapping framework cid title = pam_mapping_in framework cid title ''Access Control''"

definition pam_hipaa_password_mgmt :: compliance_mapping where
  "pam_hipaa_password_mgmt = pam_mapping HIPAA ''164.308(a)(5)(ii)(D)'' ''Password Management''"

definition pam_gdpr_auth :: compliance_mapping where
  "pam_gdpr_auth = pam_mapping GDPR ''TM-AUTH'' ''Technical measure: authentication strength''"

definition pam_iso_secure_auth :: compliance_mapping where
  "pam_iso_secure_auth = pam_mapping_in ISO27001 ''8.5'' ''Secure authentication'' ''Technological''"

definition pam_soc2_logical_access :: compliance_mapping where
  "pam_soc2_logical_access = pam_mapping_in SOC2 ''CC6.1'' ''Logical access security software, infrastructure, and architectures'' ''Logical and Physical Access Controls''"

definition pam_nist171_password_mgmt :: compliance_mapping where
  "pam_nist171_password_mgmt = pam_mapping_in NIST800171 ''3.5.7'' ''Password Management'' ''Identification and Authentication''"

definition pam_nist171_unsuccessful_logons :: compliance_mapping where
  "pam_nist171_unsuccessful_logons = pam_mapping NIST800171 ''3.1.8'' ''Unsuccessful Logon Attempts''"

definition pam_fedramp_password_quality :: compliance_mapping where
  "pam_fedramp_password_quality = pam_mapping_in FedRAMP ''IA-5(1)(a)'' ''Authenticator Management | Password-Based Authentication'' ''Identification and Authentication''"

definition pam_fedramp_password_ageing :: compliance_mapping where
  "pam_fedramp_password_ageing = pam_mapping_in FedRAMP ''IA-5(1)(d)'' ''Authenticator Management | Password-Based Authentication'' ''Identification and Authentication''"

definition pam_fedramp_unsuccessful_logons :: compliance_mapping where
  "pam_fedramp_unsuccessful_logons = pam_mapping FedRAMP ''AC-7(a)'' ''Unsuccessful Logon Attempts''"

definition pam_compliance_mappings :: "string \<Rightarrow> compliance_mapping list" where
  "pam_compliance_mappings name =
     (if contains ''minlen'' name \<or> contains ''complexity'' name then
        [pam_mapping CIS ''5.3.1'' ''Ensure password creation requirements are configured'',
         pam_mapping STIG ''RHEL-08-020230'' ''RHEL 8 passwords must have a minimum of 15 characters'',
         pam_mapping NIST ''IA-5(1)(a)'' ''Authenticator Management | Password-Based Authentication'',
         pam_nist171_password_mgmt,
         pam_fedramp_password_quality,
         pam_mapping PCIDSS ''8.2.3'' ''Strong passwords and passphrases'',
         pam_hipaa_password_mgmt,
         pam_gdpr_auth,
         pam_iso_secure_auth,
         pam_soc2_logical_access]
      else (if contains ''dcredit'' name then
        [pam_mapping CIS ''5.3.1'' ''Ensure password creation requirements are configured'',
         pam_mapping STIG ''RHEL-08-020130'' ''RHEL 8 must enforce password complexity by requiring at least one numeric character'',
         pam_mapping NIST ''IA-5(1)(a)'' ''Authenticator Management | Password-Based Authentication'',
         pam_nist171_password_mgmt,
         pam_fedramp_password_quality,
         pam_mapping PCIDSS ''8.2.3'' ''Strong passwords and passphrases'',
         pam_hipaa_password_mgmt,
         pam_gdpr_auth,
         pam_iso_secure_auth,
         pam_soc2_logical_access]
      else (if contains ''ucredit'' name then
        [pam_mapping CIS ''5.3.1'' ''Ensure password creation requirements are configured'',
         pam_mapping STIG ''RHEL-08-020110'' ''RHEL 8 must enforce password complexity by requiring at least one uppercase character'',
         pam_mapping NIST ''IA-5(1)(a)'' ''Authenticator Management | Password-Based Authentication'',
         pam_nist171_password_mgmt,
         pam_fedramp_password_quality,
         pam_mapping PCIDSS ''8.2.3'' ''Strong passwords and passphrases'',
         pam_hipaa_password_mgmt,
         pam_gdpr_auth,
         pam_iso_secure_auth,
         pam_soc2_logical_access]
      else (if contains ''lcredit'' name then
        [pam_mapping CIS ''5.3.1'' ''Ensure password creation requirements are configured'',
         pam_mapping STIG ''RHEL-08-020120'' ''RHEL 8 must enforce password complexity by requiring at least one lowercase character'',
         pam_mapping NIST ''IA-5(1)(a)'' ''Authenticator Management | Password-Based Authentication'',
         pam_nist171_password_mgmt,
         pam_fedramp_password_quality,
         pam_mapping PCIDSS ''8.2.3'' ''Strong passwords and passphrases'',
         pam_hipaa_password_mgmt,
         pam_gdpr_auth,
         pam_iso_secure_auth,
         pam_soc2_logical_access]
      else (if contains ''ocredit'' name then
        [pam_mapping CIS ''5.3.1'' ''Ensure password creation requirements are configured'',
         pam_mapping STIG ''RHEL-08-020280'' ''RHEL 8 must enforce password complexity by requiring at least one special character'',
         pam_mapping NIST ''IA-5(1)(a)'' ''Authenticator Management | Password-Based Authentication'',
         pam_nist171_password_mgmt,
         pam_fedramp_password_quality,
         pam_hipaa_password_mgmt,
         pam_gdpr_auth,
         pam_iso_secure_auth,
         pam_soc2_logical_access]
      else (if contains ''maxrepeat'' name then
        [pam_mapping CIS ''5.3.1'' ''Ensure password creation requirements are configured'',
         pam_mapping STIG ''RHEL-08-020150'' ''RHEL 8 passwords must not contain more than three consecutive repeating characters'',
         pam_mapping NIST ''IA-5(1)(a)'' ''Authenticator Management | Password-Based Authentication'',
         pam_nist171_password_mgmt,
         pam_fedramp_password_quality,
         pam_hipaa_password_mgmt,
         pam_gdpr_auth,
         pam_iso_secure_auth,
         pam_soc2_logical_access]
      else (if contains ''lockout'' name \<or> contains ''deny'' name then
        [pam_mapping CIS ''5.3.2'' ''Ensure lockout for failed password attempts is configured'',
         pam_mapping STIG ''RHEL-08-020011'' ''RHEL 8 must automatically lock an account when three unsuccessful logon attempts occur'',
         pam_mapping NIST ''AC-7(a)'' ''Unsuccessful Logon Attempts'',
         pam_nist171_unsuccessful_logons,
         pam_fedramp_unsuccessful_logons,
         pam_mapping PCIDSS ''8.1.6'' ''Limit repeated access attempts by locking out the user ID'',
         pam_hipaa_password_mgmt,
         pam_gdpr_auth,
         pam_iso_secure_auth,
         pam_soc2_logical_access]
      else (if contains ''remember'' name \<or> contains ''reuse'' name then
        [pam_mapping CIS ''5.3.3'' ''Ensure password reuse is limited'',
         pam_hipaa_password_mgmt,
         pam_gdpr_auth,
         pam_iso_secure_auth,
         pam_soc2_logical_access]
      else (if contains ''PASS_MAX_DAYS'' name then
        [pam_mapping CIS ''5.4.1.1'' ''Ensure password expiration is 365 days or less'',
         pam_mapping STIG ''RHEL-08-020200'' ''RHEL 8 user account passwords must have a 60-day maximum password lifetime restriction'',
         pam_mapping NIST ''IA-5(1)(d)'' ''Authenticator Management | Password-Based Authentication'',
         pam_nist171_password_mgmt,
         pam_fedramp_password_ageing,
         pam_mapping PCIDSS ''8.2.4'' ''Change user passwords/passphrases at least once every 90 days'',
         pam_hipaa_password_mgmt,
         pam_gdpr_auth,
         pam_iso_secure_auth,
         pam_soc2_logical_access]
      else (if contains ''PASS_MIN_DAYS'' name then
        [pam_mapping CIS ''5.4.1.2'' ''Ensure minimum days between password changes is configured'',
         pam_mapping STIG ''RHEL-08-020190'' ''RHEL 8 passwords for new users must have a minimum of 24 hours between password changes'',
         pam_mapping NIST ''IA-5(1)(d)'' ''Authenticator Management | Password-Based Authentication'',
         pam_nist171_password_mgmt,
         pam_fedramp_password_ageing,
         pam_hipaa_password_mgmt,
         pam_gdpr_auth,
         pam_iso_secure_auth,
         pam_soc2_logical_access]
      else (if contains ''PASS_WARN_AGE'' name then
        [pam_mapping CIS ''5.4.1.3'' ''Ensure password expiration warning days is 7 or more'',
         pam_mapping NIST ''IA-5(1)(d)'' ''Authenticator Management | Password-Based Authentication'',
         pam_nist171_password_mgmt,
         pam_fedramp_password_ageing,
         pam_mapping PCIDSS ''8.2.4'' ''Change user passwords/passphrases at least once every 90 days'',
         pam_hipaa_password_mgmt,
         pam_gdpr_auth,
         pam_iso_secure_auth,
         pam_soc2_logical_access]
      else [pam_mapping CIS ''5.3.1'' ''Ensure password creation requirements are configured'',
         pam_hipaa_password_mgmt,
         pam_gdpr_auth,
         pam_iso_secure_auth,
         pam_soc2_logical_access])))))))))))"

end
