(* ===== verification/Plugin_Coverage.thy ===== *)
theory Plugin_Coverage
  imports "HOL-Library.Word" Plugin_Mappings Strictness
begin

text \<open>
  The compliance mappings of the firewall, audit, MAC, permissions and services plugins (each
  \<open>mod.rs\<close>), the tables their scans walk, and the coverage each plugin declares
  (\<open>coverage\<close> of each module, \<open>coverage_table\<close>, \<open>compliance_coverage\<close> and \<open>coverage_for\<close> of
  \<open>crates/hardener-plugins/src/lib.rs\<close>).
\<close>


subsection \<open>Firewall\<close>

definition firewall_hipaa :: "string \<Rightarrow> string \<Rightarrow> compliance_mapping" where
  "firewall_hipaa cid title = mapping_of HIPAA (cid) (title) (Some ''Technical Safeguards'')"

definition firewall_gdpr :: "string \<Rightarrow> string \<Rightarrow> compliance_mapping" where
  "firewall_gdpr cid title = mapping_of GDPR (cid) (title) (Some ''Article 32 - Security of Processing'')"

definition firewall_iso :: "string \<Rightarrow> string \<Rightarrow> string \<Rightarrow> compliance_mapping" where
  "firewall_iso cid title theme = mapping_of ISO27001 (cid) (title) (Some (theme))"

definition firewall_soc2 :: "string \<Rightarrow> string \<Rightarrow> compliance_mapping" where
  "firewall_soc2 cid title = mapping_of SOC2 (cid) (title) (Some ((if starts_with ''CC7'' cid then ''System Operations''
        else ''Logical and Physical Access Controls'')))"

definition firewall_nist171 :: "string \<Rightarrow> string \<Rightarrow> compliance_mapping" where
  "firewall_nist171 cid title = mapping_of NIST800171 (cid) (title) (Some ((if starts_with ''3.13.'' cid then ''System and Communications Protection''
        else ''Configuration Management'')))"

definition firewall_fedramp :: "string \<Rightarrow> string \<Rightarrow> compliance_mapping" where
  "firewall_fedramp cid title = mapping_of FedRAMP (cid) (title) (Some ((if starts_with ''SC-'' cid then ''System and Communications Protection''
        else ''Configuration Management'')))"

definition firewall_compliance_mappings :: "compliance_mapping list" where
  "firewall_compliance_mappings =
     [mapping_of CIS ''3.4.1.1'' ''Ensure firewall is installed'' (Some ''Network Configuration''),
      mapping_of CIS ''3.4.1.2'' ''Ensure firewall service is enabled and running'' (Some ''Network Configuration''),
      mapping_of STIG ''RHEL-08-040101'' ''A firewall must be enabled and active'' (Some ''DISA STIG''),
      mapping_of NIST ''SC-7'' ''Boundary Protection'' (Some ''System and Communications Protection''),
      mapping_of NIST ''CM-7'' ''Least Functionality'' (Some ''Configuration Management''),
      mapping_of PCIDSS ''1.4.1'' ''NSCs are implemented between trusted and untrusted networks'' (Some ''Network Security Controls''),
      firewall_hipaa ''164.312(e)(1)'' ''Transmission security'',
      firewall_gdpr ''TM-SH'' ''System hardening of processing systems'',
      firewall_gdpr ''TM-NW'' ''Network-level protection of processing systems'',
      firewall_iso ''8.20'' ''Networks security'' ''Technological'',
      firewall_iso ''8.21'' ''Security of network services'' ''Technological'',
      firewall_soc2 ''CC6.6'' ''Protect against threats from sources outside system boundaries'',
      firewall_nist171 ''3.13.1'' ''Boundary Protection'',
      firewall_nist171 ''3.4.6'' ''Least Functionality'',
      firewall_fedramp ''SC-7'' ''Boundary Protection'',
      firewall_fedramp ''CM-7'' ''Least Functionality'']"


subsection \<open>Audit\<close>

definition audit_soc2 :: "string \<Rightarrow> string \<Rightarrow> compliance_mapping" where
  "audit_soc2 cid title = mapping_of SOC2 (cid) (title) (Some ((if starts_with ''CC7'' cid then ''System Operations''
        else ''Logical and Physical Access Controls'')))"

definition audit_nist171 :: "string \<Rightarrow> string \<Rightarrow> compliance_mapping" where
  "audit_nist171 cid title = mapping_of NIST800171 (cid) (title) (Some ''Audit and Accountability'')"

definition audit_fedramp :: "string \<Rightarrow> string \<Rightarrow> compliance_mapping" where
  "audit_fedramp cid title = mapping_of FedRAMP (cid) (title) (Some ''Audit and Accountability'')"

definition audit_compliance_mappings :: "string \<Rightarrow> compliance_mapping list" where
  "audit_compliance_mappings finding_kind =
     (if finding_kind = ''not_installed'' then
        [mapping_of CIS ''4.1.1.1'' ''Ensure auditd is installed'' (Some ''Logging and Auditing''),
         mapping_of NIST ''AU-2(a)'' ''Event Logging'' (Some ''Audit and Accountability''),
         mapping_of STIG ''OL08-00-030180'' ''The audit package must be installed'' (Some ''Audit and Accountability''),
         mapping_of PCIDSS ''10.1'' ''Implement audit trails to link access to system components'' (Some ''Track and Monitor Access''),
         mapping_of HIPAA ''164.312(b)'' ''Audit Controls'' (Some ''Technical Safeguards''),
         mapping_of HIPAA ''164.308(a)(1)(ii)(D)'' ''Information System Activity Review'' (Some ''Administrative Safeguards''),
         mapping_of GDPR ''TM-AU'' ''Audit Logging'' (Some ''Technical Measures''),
         mapping_of ISO27001 ''8.15'' ''Logging'' (Some ''Technological''),
         audit_soc2 ''CC7.2'' ''Monitor system components for anomalies indicative of malicious acts or errors'',
         audit_nist171 ''3.3.1'' ''Event Logging'',
         audit_fedramp ''AU-2(a)'' ''Event Logging'']
      else (if finding_kind \<in> {''not_enabled'', ''not_running''} then
        [mapping_of CIS ''4.1.1.2'' ''Ensure auditd service is enabled and running'' (Some ''Logging and Auditing''),
         mapping_of NIST ''AU-12(c)'' ''Audit Record Generation'' (Some ''Audit and Accountability''),
         mapping_of STIG ''OL08-00-030181'' ''The auditd service must be enabled and running'' (Some ''Audit and Accountability''),
         mapping_of PCIDSS ''10.1'' ''Implement audit trails to link access to system components'' (Some ''Track and Monitor Access''),
         mapping_of HIPAA ''164.312(b)'' ''Audit Controls'' (Some ''Technical Safeguards''),
         mapping_of HIPAA ''164.308(a)(1)(ii)(D)'' ''Information System Activity Review'' (Some ''Administrative Safeguards''),
         mapping_of GDPR ''TM-AU'' ''Audit Logging'' (Some ''Technical Measures''),
         mapping_of ISO27001 ''8.15'' ''Logging'' (Some ''Technological''),
         audit_soc2 ''CC7.2'' ''Monitor system components for anomalies indicative of malicious acts or errors'',
         audit_nist171 ''3.3.3'' ''Audit Record Generation'',
         audit_fedramp ''AU-12(c)'' ''Audit Record Generation'']
      else (if finding_kind \<in> {''config'', ''rules''} then
        [mapping_of CIS ''4.1.2.1'' ''Ensure audit log storage size is configured'' (Some ''Logging and Auditing''),
         mapping_of NIST ''AU-12(c)'' ''Audit Record Generation'' (Some ''Audit and Accountability''),
         mapping_of PCIDSS ''10.2.7'' ''Record audit trail entries for security-relevant events'' (Some ''Track and Monitor Access''),
         mapping_of HIPAA ''164.312(b)'' ''Audit Controls'' (Some ''Technical Safeguards''),
         mapping_of HIPAA ''164.308(a)(1)(ii)(D)'' ''Information System Activity Review'' (Some ''Administrative Safeguards''),
         mapping_of GDPR ''TM-AU'' ''Audit Logging'' (Some ''Technical Measures''),
         mapping_of ISO27001 ''8.15'' ''Logging'' (Some ''Technological''),
         mapping_of ISO27001 ''8.16'' ''Monitoring activities'' (Some ''Technological''),
         audit_soc2 ''CC7.1'' ''Detection and monitoring of configuration changes and new vulnerabilities'',
         audit_soc2 ''CC7.2'' ''Monitor system components for anomalies indicative of malicious acts or errors'',
         audit_nist171 ''3.3.3'' ''Audit Record Generation'',
         audit_fedramp ''AU-12(c)'' ''Audit Record Generation'']
      else [])))"


subsection \<open>Mandatory access control\<close>

definition mac_soc2 :: "string \<Rightarrow> string \<Rightarrow> compliance_mapping" where
  "mac_soc2 cid title = mapping_of SOC2 (cid) (title) (Some ((if starts_with ''CC7'' cid then ''System Operations''
        else ''Logical and Physical Access Controls'')))"

definition mac_nist171 :: "string \<Rightarrow> string \<Rightarrow> compliance_mapping" where
  "mac_nist171 cid title = mapping_of NIST800171 (cid) (title) (Some ''Access Control'')"

definition mac_fedramp :: "string \<Rightarrow> string \<Rightarrow> compliance_mapping" where
  "mac_fedramp cid title = mapping_of FedRAMP (cid) (title) (Some ''Access Control'')"

definition mac_compliance_mappings :: "string \<Rightarrow> compliance_mapping list" where
  "mac_compliance_mappings finding_kind =
     (if finding_kind = ''no-mac-system'' then
        [mapping_of CIS ''1.6.1.1'' ''Ensure SELinux or AppArmor is installed'' (Some ''Mandatory Access Control''),
         mapping_of NIST ''AC-3'' ''Access Enforcement'' (Some ''Access Control''),
         mapping_of HIPAA ''164.312(a)(1)'' ''Access Control'' (Some ''Technical Safeguards''),
         mapping_of GDPR ''TM-AC'' ''Access Control'' (Some ''Technical Measures''),
         mapping_of GDPR ''TM-SH'' ''System Hardening'' (Some ''Technical Measures''),
         mapping_of ISO27001 ''8.3'' ''Information access restriction'' (Some ''Technological''),
         mapping_of ISO27001 ''5.15'' ''Access control'' (Some ''Organizational''),
         mac_soc2 ''CC6.8'' ''Prevent or detect the introduction of unauthorized or malicious software'',
         mac_nist171 ''3.1.2'' ''Access Enforcement'',
         mac_fedramp ''AC-3'' ''Access Enforcement'']
      else (if finding_kind = ''selinux-not-enforcing'' then
        [mapping_of CIS ''1.6.1.4'' ''Ensure the SELinux mode is enforcing or AppArmor is enabled'' (Some ''Mandatory Access Control''),
         mapping_of NIST ''AC-3'' ''Access Enforcement'' (Some ''Access Control''),
         mapping_of STIG ''OL08-00-010170'' ''SELinux must be in enforcing mode'' (Some ''Access Control''),
         mapping_of HIPAA ''164.312(a)(1)'' ''Access Control'' (Some ''Technical Safeguards''),
         mapping_of GDPR ''TM-AC'' ''Access Control'' (Some ''Technical Measures''),
         mapping_of GDPR ''TM-SH'' ''System Hardening'' (Some ''Technical Measures''),
         mapping_of ISO27001 ''8.3'' ''Information access restriction'' (Some ''Technological''),
         mapping_of ISO27001 ''5.15'' ''Access control'' (Some ''Organizational''),
         mac_soc2 ''CC6.8'' ''Prevent or detect the introduction of unauthorized or malicious software'',
         mac_nist171 ''3.1.2'' ''Access Enforcement'',
         mac_fedramp ''AC-3'' ''Access Enforcement'']
      else (if finding_kind \<in> {''apparmor-complain-mode'', ''apparmor-no-profiles''} then
        [mapping_of CIS ''1.6.1.4'' ''Ensure the SELinux mode is enforcing or AppArmor is enabled'' (Some ''Mandatory Access Control''),
         mapping_of NIST ''AC-3'' ''Access Enforcement'' (Some ''Access Control''),
         mapping_of HIPAA ''164.312(a)(1)'' ''Access Control'' (Some ''Technical Safeguards''),
         mapping_of GDPR ''TM-AC'' ''Access Control'' (Some ''Technical Measures''),
         mapping_of GDPR ''TM-SH'' ''System Hardening'' (Some ''Technical Measures''),
         mapping_of ISO27001 ''8.3'' ''Information access restriction'' (Some ''Technological''),
         mapping_of ISO27001 ''5.15'' ''Access control'' (Some ''Organizational''),
         mac_soc2 ''CC6.8'' ''Prevent or detect the introduction of unauthorized or malicious software'',
         mac_nist171 ''3.1.2'' ''Access Enforcement'',
         mac_fedramp ''AC-3'' ''Access Enforcement'']
      else [])))"


subsection \<open>Permissions\<close>

definition permissions_soc2 :: "string \<Rightarrow> string \<Rightarrow> compliance_mapping" where
  "permissions_soc2 cid title = mapping_of SOC2 (cid) (title) (Some ((if starts_with ''CC7'' cid then ''System Operations''
        else ''Logical and Physical Access Controls'')))"

definition permissions_nist171 :: "string \<Rightarrow> string \<Rightarrow> compliance_mapping" where
  "permissions_nist171 cid title = mapping_of NIST800171 (cid) (title) (Some ''Access Control'')"

definition permissions_fedramp :: "string \<Rightarrow> string \<Rightarrow> compliance_mapping" where
  "permissions_fedramp cid title = mapping_of FedRAMP (cid) (title) (Some ''Access Control'')"

definition permissions_compliance_mappings :: "string \<Rightarrow> compliance_mapping list" where
  "permissions_compliance_mappings path =
     (if path = ''/etc/passwd'' then
        [mapping_of CIS ''6.1.2'' ''Ensure permissions on /etc/passwd are configured'' (Some ''System Maintenance''),
         mapping_of NIST ''AC-6(1)'' ''Least Privilege - Authorize Access to Security Functions'' (Some ''Access Control''),
         mapping_of PCIDSS ''8.7.c'' ''Restrict access to system component databases and files'' (Some ''Identify and Authenticate Access''),
         mapping_of HIPAA ''164.312(a)(1)'' ''Access Control'' (Some ''Technical Safeguards''),
         mapping_of GDPR ''TM-AC'' ''Access Control'' (Some ''Technical Measures''),
         mapping_of ISO27001 ''8.3'' ''Information access restriction'' (Some ''Technological''),
         permissions_soc2 ''CC6.1'' ''Logical access security software, infrastructure, and architectures'',
         permissions_nist171 ''3.1.5'' ''Least Privilege'',
         permissions_fedramp ''AC-6(1)'' ''Least Privilege - Authorize Access to Security Functions'']
      else (if path = ''/etc/shadow'' then
        [mapping_of CIS ''6.1.3'' ''Ensure permissions on /etc/shadow are configured'' (Some ''System Maintenance''),
         mapping_of NIST ''AC-6(1)'' ''Least Privilege - Authorize Access to Security Functions'' (Some ''Access Control''),
         mapping_of PCIDSS ''8.7.c'' ''Restrict access to system component databases and files'' (Some ''Identify and Authenticate Access''),
         mapping_of HIPAA ''164.312(a)(1)'' ''Access Control'' (Some ''Technical Safeguards''),
         mapping_of GDPR ''TM-AC'' ''Access Control'' (Some ''Technical Measures''),
         mapping_of ISO27001 ''8.3'' ''Information access restriction'' (Some ''Technological''),
         permissions_soc2 ''CC6.1'' ''Logical access security software, infrastructure, and architectures'',
         permissions_nist171 ''3.1.5'' ''Least Privilege'',
         permissions_fedramp ''AC-6(1)'' ''Least Privilege - Authorize Access to Security Functions'']
      else (if path = ''/etc/group'' then
        [mapping_of CIS ''6.1.4'' ''Ensure permissions on /etc/group are configured'' (Some ''System Maintenance''),
         mapping_of NIST ''AC-6(1)'' ''Least Privilege - Authorize Access to Security Functions'' (Some ''Access Control''),
         mapping_of PCIDSS ''8.7.c'' ''Restrict access to system component databases and files'' (Some ''Identify and Authenticate Access''),
         mapping_of HIPAA ''164.312(a)(1)'' ''Access Control'' (Some ''Technical Safeguards''),
         mapping_of GDPR ''TM-AC'' ''Access Control'' (Some ''Technical Measures''),
         mapping_of ISO27001 ''8.3'' ''Information access restriction'' (Some ''Technological''),
         permissions_soc2 ''CC6.1'' ''Logical access security software, infrastructure, and architectures'',
         permissions_nist171 ''3.1.5'' ''Least Privilege'',
         permissions_fedramp ''AC-6(1)'' ''Least Privilege - Authorize Access to Security Functions'']
      else (if path = ''/etc/gshadow'' then
        [mapping_of CIS ''6.1.5'' ''Ensure permissions on /etc/gshadow are configured'' (Some ''System Maintenance''),
         mapping_of NIST ''AC-6(1)'' ''Least Privilege - Authorize Access to Security Functions'' (Some ''Access Control''),
         mapping_of HIPAA ''164.312(a)(1)'' ''Access Control'' (Some ''Technical Safeguards''),
         mapping_of GDPR ''TM-AC'' ''Access Control'' (Some ''Technical Measures''),
         mapping_of ISO27001 ''8.3'' ''Information access restriction'' (Some ''Technological''),
         permissions_soc2 ''CC6.1'' ''Logical access security software, infrastructure, and architectures'',
         permissions_nist171 ''3.1.5'' ''Least Privilege'',
         permissions_fedramp ''AC-6(1)'' ''Least Privilege - Authorize Access to Security Functions'']
      else (if path = ''/etc/ssh'' then
        [mapping_of NIST ''AC-17(a)'' ''Remote Access - Usage Restrictions and Configuration'' (Some ''Access Control''),
         mapping_of HIPAA ''164.312(a)(1)'' ''Access Control'' (Some ''Technical Safeguards''),
         mapping_of GDPR ''TM-AC'' ''Access Control'' (Some ''Technical Measures''),
         mapping_of ISO27001 ''8.2'' ''Privileged access rights'' (Some ''Technological''),
         permissions_soc2 ''CC6.1'' ''Logical access security software, infrastructure, and architectures'',
         permissions_nist171 ''3.1.12'' ''Remote Access'',
         permissions_fedramp ''AC-17(a)'' ''Remote Access - Usage Restrictions and Configuration'']
      else (if path \<in> {''/etc/sudoers'', ''/etc/sudoers.d''} then
        [mapping_of NIST ''AC-6(1)'' ''Least Privilege - Authorize Access to Security Functions'' (Some ''Access Control''),
         mapping_of HIPAA ''164.312(a)(1)'' ''Access Control'' (Some ''Technical Safeguards''),
         mapping_of GDPR ''TM-AC'' ''Access Control'' (Some ''Technical Measures''),
         mapping_of ISO27001 ''8.3'' ''Information access restriction'' (Some ''Technological''),
         permissions_soc2 ''CC6.1'' ''Logical access security software, infrastructure, and architectures'',
         permissions_nist171 ''3.1.5'' ''Least Privilege'',
         permissions_fedramp ''AC-6(1)'' ''Least Privilege - Authorize Access to Security Functions'']
      else []))))))"


subsection \<open>Services\<close>

definition service_mapping_in :: "compliance_framework \<Rightarrow> string \<Rightarrow> string \<Rightarrow> string \<Rightarrow> compliance_mapping" where
  "service_mapping_in framework cid title sec = mapping_of framework cid title (Some sec)"

definition service_mapping :: "compliance_framework \<Rightarrow> string \<Rightarrow> string \<Rightarrow> compliance_mapping" where
  "service_mapping framework cid title = service_mapping_in framework cid title ''Services''"

definition service_gdpr_hardening :: compliance_mapping where
  "service_gdpr_hardening = service_mapping GDPR ''TM-SH'' ''Technical measure: system hardening''"

definition service_iso_networks :: compliance_mapping where
  "service_iso_networks = service_mapping_in ISO27001 ''8.20'' ''Networks security'' ''Technological''"

definition service_soc2_unauthorised_software :: compliance_mapping where
  "service_soc2_unauthorised_software = service_mapping_in SOC2 ''CC6.8'' ''Prevent or detect the introduction of unauthorized or malicious software'' ''Logical and Physical Access Controls''"

definition service_nist171_least_functionality :: compliance_mapping where
  "service_nist171_least_functionality = service_mapping_in NIST800171 ''3.4.6'' ''Least Functionality'' ''Configuration Management''"

definition service_nist171_wireless_access :: compliance_mapping where
  "service_nist171_wireless_access = service_mapping_in NIST800171 ''3.1.16'' ''Wireless Access'' ''Access Control''"

definition service_fedramp_least_functionality :: compliance_mapping where
  "service_fedramp_least_functionality = service_mapping_in FedRAMP ''CM-7'' ''Least Functionality'' ''Configuration Management''"

definition service_fedramp_wireless_access :: compliance_mapping where
  "service_fedramp_wireless_access = service_mapping_in FedRAMP ''AC-18'' ''Wireless Access'' ''Access Control''"

definition service_iso_minimisation :: "compliance_mapping list" where
  "service_iso_minimisation =
     [service_mapping_in ISO27001 ''8.19'' ''Installation of software on operational systems'' ''Technological'',
      service_mapping_in ISO27001 ''8.9'' ''Configuration management'' ''Technological'']"

definition service_compliance_mappings :: "string \<Rightarrow> compliance_mapping list" where
  "service_compliance_mappings name =
     (if name = ''xinetd'' then
        [service_mapping CIS ''2.1.1'' ''Ensure xinetd is not installed'',
         service_mapping NIST ''CM-7'' ''Least Functionality'',
         service_nist171_least_functionality,
         service_fedramp_least_functionality,
         service_gdpr_hardening,
         service_soc2_unauthorised_software]
        @ service_iso_minimisation
      else (if name \<in> {''avahi-daemon'', ''avahi''} then
        [service_mapping CIS ''2.2.3'' ''Ensure Avahi Server is not installed'',
         service_mapping NIST ''CM-7'' ''Least Functionality'',
         service_nist171_least_functionality,
         service_fedramp_least_functionality,
         service_gdpr_hardening,
         service_iso_networks,
         service_soc2_unauthorised_software]
        @ service_iso_minimisation
      else (if name \<in> {''cups'', ''cupsd''} then
        [service_mapping CIS ''2.2.4'' ''Ensure CUPS is not installed'',
         service_mapping NIST ''CM-7'' ''Least Functionality'',
         service_nist171_least_functionality,
         service_fedramp_least_functionality,
         service_gdpr_hardening,
         service_soc2_unauthorised_software]
        @ service_iso_minimisation
      else (if name = ''bluetooth'' then
        [service_mapping NIST ''AC-18'' ''Wireless Access'',
         service_nist171_wireless_access,
         service_fedramp_wireless_access,
         service_mapping NIST ''CM-7'' ''Least Functionality'',
         service_nist171_least_functionality,
         service_fedramp_least_functionality,
         service_gdpr_hardening,
         service_iso_networks,
         service_soc2_unauthorised_software]
        @ service_iso_minimisation
      else []))))"

subsection \<open>The tables\<close>

definition SSH_DESIRED_KEX :: "string list" where
  "SSH_DESIRED_KEX = [''mlkem768x25519-sha256'', ''sntrup761x25519-sha512'', ''curve25519-sha256'', ''curve25519-sha256@libssh.org'', ''diffie-hellman-group16-sha512'', ''diffie-hellman-group18-sha512'']"

definition SSH_DESIRED_CIPHERS :: "string list" where
  "SSH_DESIRED_CIPHERS = [''chacha20-poly1305@openssh.com'', ''aes256-gcm@openssh.com'', ''aes128-gcm@openssh.com'']"

definition SSH_DESIRED_MACS :: "string list" where
  "SSH_DESIRED_MACS = [''hmac-sha2-512-etm@openssh.com'', ''hmac-sha2-256-etm@openssh.com'', ''umac-128-etm@openssh.com'']"

record ssh_crypto_directive =
  crypto_directive_name :: string
  crypto_query_arg :: string
  crypto_desired :: "string list"
  crypto_description :: string
  crypto_severity :: severity

definition SSH_CRYPTO_DIRECTIVES :: "ssh_crypto_directive list" where
  "SSH_CRYPTO_DIRECTIVES =
     [\<lparr>crypto_directive_name = ''KexAlgorithms'', crypto_query_arg = ''kex'', crypto_desired = SSH_DESIRED_KEX, crypto_description = ''Restrict SSH key exchange to strong (PQ/curve25519) algorithms'', crypto_severity = High\<rparr>,
      \<lparr>crypto_directive_name = ''Ciphers'', crypto_query_arg = ''cipher'', crypto_desired = SSH_DESIRED_CIPHERS, crypto_description = ''Restrict SSH ciphers to AEAD (ChaCha20-Poly1305 / AES-GCM)'', crypto_severity = High\<rparr>,
      \<lparr>crypto_directive_name = ''MACs'', crypto_query_arg = ''mac'', crypto_desired = SSH_DESIRED_MACS, crypto_description = ''Restrict SSH MACs to strong encrypt-then-MAC algorithms'', crypto_severity = Medium\<rparr>]"

definition AUDIT_FINDING_TYPES :: "string list" where
  "AUDIT_FINDING_TYPES = [''not_installed'', ''not_enabled'', ''not_running'', ''config'', ''rules'']"

definition AUDIT_POST_INSTALL_FINDING_TYPES :: "string list" where
  "AUDIT_POST_INSTALL_FINDING_TYPES = [''not_enabled'', ''not_running'', ''config'', ''rules'']"

definition MAC_FINDING_TYPES :: "string list" where
  "MAC_FINDING_TYPES = [''no-mac-system'', ''selinux-not-enforcing'', ''apparmor-complain-mode'', ''apparmor-no-profiles'']"

definition MAC_ENFORCEMENT_FINDING_TYPES :: "string list" where
  "MAC_ENFORCEMENT_FINDING_TYPES = [''selinux-not-enforcing'', ''apparmor-complain-mode'', ''apparmor-no-profiles'']"

record permission_directive =
  permission_description :: string
  permission_path :: string
  permission_mode :: "32 word"
  permission_owner :: string
  permission_group :: string
  permission_severity :: severity
  permission_max_mask :: bool

definition CRITICAL_PERMISSIONS :: "permission_directive list" where
  "CRITICAL_PERMISSIONS =
     [\<lparr>permission_description = ''Root home directory must be restricted to root only'', permission_path = ''/root'', permission_mode = 448, permission_owner = ''root'', permission_group = ''root'', permission_severity = High, permission_max_mask = False\<rparr>,
      \<lparr>permission_description = ''Boot directory must be protected from unauthorised modification'', permission_path = ''/boot'', permission_mode = 448, permission_owner = ''root'', permission_group = ''root'', permission_severity = High, permission_max_mask = False\<rparr>,
      \<lparr>permission_description = ''SSH configuration directory must be restricted'', permission_path = ''/etc/ssh'', permission_mode = 493, permission_owner = ''root'', permission_group = ''root'', permission_severity = High, permission_max_mask = False\<rparr>,
      \<lparr>permission_description = ''Sudoers file must be read-only for root group'', permission_path = ''/etc/sudoers'', permission_mode = 288, permission_owner = ''root'', permission_group = ''root'', permission_severity = Critical, permission_max_mask = False\<rparr>,
      \<lparr>permission_description = ''Sudoers directory must be restricted'', permission_path = ''/etc/sudoers.d'', permission_mode = 488, permission_owner = ''root'', permission_group = ''root'', permission_severity = Critical, permission_max_mask = False\<rparr>,
      \<lparr>permission_description = ''World-readable account file must not be writable by others'', permission_path = ''/etc/passwd'', permission_mode = 420, permission_owner = ''root'', permission_group = ''root'', permission_severity = High, permission_max_mask = False\<rparr>,
      \<lparr>permission_description = ''Group file must not be writable by others'', permission_path = ''/etc/group'', permission_mode = 420, permission_owner = ''root'', permission_group = ''root'', permission_severity = High, permission_max_mask = False\<rparr>,
      \<lparr>permission_description = ''Shadow file must not be readable/writable by group or others'', permission_path = ''/etc/shadow'', permission_mode = 416, permission_owner = ''root'', permission_group = ''root'', permission_severity = Critical, permission_max_mask = True\<rparr>,
      \<lparr>permission_description = ''Group shadow file must not be readable/writable by group or others'', permission_path = ''/etc/gshadow'', permission_mode = 416, permission_owner = ''root'', permission_group = ''root'', permission_severity = Critical, permission_max_mask = True\<rparr>]"

record service_directive =
  service_description :: string
  service_name :: string
  service_severity :: severity

definition UNNECESSARY_SERVICES :: "service_directive list" where
  "UNNECESSARY_SERVICES =
     [\<lparr>service_description = ''Bluetooth service - rarely needed on servers'', service_name = ''bluetooth'', service_severity = High\<rparr>,
      \<lparr>service_description = ''Printing service - not needed on most servers'', service_name = ''cups'', service_severity = Medium\<rparr>,
      \<lparr>service_description = ''Network discovery service - potential information disclosure'', service_name = ''avahi-daemon'', service_severity = Medium\<rparr>,
      \<lparr>service_description = ''Modem management - not needed without mobile broadband'', service_name = ''ModemManager'', service_severity = Low\<rparr>,
      \<lparr>service_description = ''Legacy inetd super-server - obsolete, expands attack surface'', service_name = ''xinetd'', service_severity = Medium\<rparr>]"

subsection \<open>Coverage\<close>

definition kernel_coverage :: "compliance_mapping list" where
  "kernel_coverage = concat (map (\<lambda>p. kernel_compliance_mappings (directive_name p)) KERNEL_PARAMS)"

definition ssh_coverage :: "compliance_mapping list" where
  "ssh_coverage = concat (map ssh_compliance_mappings
     (map directive_name SSH_DIRECTIVES @ map crypto_directive_name SSH_CRYPTO_DIRECTIVES))"

definition pam_coverage :: "compliance_mapping list" where
  "pam_coverage = concat (map (\<lambda>d. pam_compliance_mappings (directive_name d)) PAM_DIRECTIVES)"

definition firewall_coverage :: "compliance_mapping list" where
  "firewall_coverage = firewall_compliance_mappings"

definition audit_coverage :: "compliance_mapping list" where
  "audit_coverage = concat (map audit_compliance_mappings AUDIT_FINDING_TYPES)"

definition audit_post_install_mappings :: "compliance_mapping list" where
  "audit_post_install_mappings = first_seen {} (concat (map audit_compliance_mappings AUDIT_POST_INSTALL_FINDING_TYPES))"

definition mac_coverage :: "compliance_mapping list" where
  "mac_coverage = concat (map mac_compliance_mappings MAC_FINDING_TYPES)"

definition mac_enforcement_mappings :: "compliance_mapping list" where
  "mac_enforcement_mappings = first_seen {} (concat (map mac_compliance_mappings MAC_ENFORCEMENT_FINDING_TYPES))"

definition permissions_coverage :: "compliance_mapping list" where
  "permissions_coverage = concat (map (\<lambda>p. permissions_compliance_mappings (permission_path p)) CRITICAL_PERMISSIONS)"

definition services_coverage :: "compliance_mapping list" where
  "services_coverage = concat (map (\<lambda>s. service_compliance_mappings (service_name s)) UNNECESSARY_SERVICES)"

type_synonym coverage_table = "(plugin_id \<times> compliance_mapping list) list"

definition COVERAGE_TABLE :: coverage_table where
  "COVERAGE_TABLE =
     [(''audit-hardening'', audit_coverage), (''firewall-hardening'', firewall_coverage),
      (''kernel-hardening'', kernel_coverage), (''mac-hardening'', mac_coverage),
      (''pam-hardening'', pam_coverage), (''permissions-hardening'', permissions_coverage),
      (''service-minimisation'', services_coverage), (''ssh-hardening'', ssh_coverage)]"

definition compliance_coverage :: "compliance_mapping list" where
  "compliance_coverage = first_seen {} (concat (map snd COVERAGE_TABLE))"

definition coverage_for :: "plugin_id \<Rightarrow> compliance_mapping list option" where
  "coverage_for pid = map_option snd (find (\<lambda>(i, _). i = pid) COVERAGE_TABLE)"

end
