(* ===== verification/Kernel_Persistence.thy ===== *)
theory Kernel_Persistence
  imports Plugin_Coverage Wildcard
begin

text \<open>
  Whether the kernel parameters survive the next boot: \<open>crates/hardener-plugins/src/kernel/persistence.rs\<close>
  and the reader of shell-sourced files in \<open>shell_config.rs\<close>.

  A file's assignments are a map, since the order of its \<open>BTreeMap\<close> never shows; the drop-ins chosen
  are a list of names with paths, sorted by name when they are read. The calendar and today's date are
  those of the exception lookup.
\<close>

subsection \<open>Shell-sourced files\<close>

definition is_shell_quote :: "char \<Rightarrow> bool" where
  "is_shell_quote c = (c = CHR 0x22 \<or> c = CHR 0x27)"

definition trim_shell_quotes :: "string \<Rightarrow> string" where
  "trim_shell_quotes s = rev (dropWhile is_shell_quote (rev (dropWhile is_shell_quote s)))"

definition shell_assignment :: "string \<Rightarrow> string \<Rightarrow> string option" where
  "shell_assignment key raw =
     (let line = trim raw;
          line = (case strip_prefix ''export '' line of Some l \<Rightarrow> l | None \<Rightarrow> line)
      in case split_once (CHR ''='') line of
           Some (name, val) \<Rightarrow> if trim name = key then Some (trim_shell_quotes (trim val)) else None
         | None \<Rightarrow> None)"

definition shell_value :: "string \<Rightarrow> string \<Rightarrow> string option" where
  "shell_value content key =
     (case rev (filter_map (shell_assignment key) (str_lines content)) of [] \<Rightarrow> None | v # _ \<Rightarrow> Some v)"

subsection \<open>The files and their syntax\<close>

definition SYSCTL_DROPIN_DIR :: string where "SYSCTL_DROPIN_DIR = ''/etc/sysctl.d''"
definition SYSCTL_HARDENER_CONF :: string where "SYSCTL_HARDENER_CONF = ''/etc/sysctl.d/99-hardener.conf''"
definition SYSCTL_DROPIN_DIRS :: "string list" where
  "SYSCTL_DROPIN_DIRS = [SYSCTL_DROPIN_DIR, ''/run/sysctl.d'', ''/usr/local/lib/sysctl.d'', ''/usr/lib/sysctl.d'']"
definition UFW_DEFAULTS :: string where "UFW_DEFAULTS = ''/etc/default/ufw''"
definition UFW_CONF :: string where "UFW_CONF = ''/etc/ufw/ufw.conf''"
definition LEGACY_SYSCTL_CONF :: string where "LEGACY_SYSCTL_CONF = ''/etc/sysctl.conf''"
definition SYSTEMD_SYSCTL :: string where "SYSTEMD_SYSCTL = ''/usr/lib/systemd/systemd-sysctl''"

definition swap_separator :: "char \<Rightarrow> char" where
  "swap_separator c = (if c = CHR ''.'' then CHR ''/'' else if c = CHR ''/'' then CHR ''.'' else c)"

definition procfs_key :: "string \<Rightarrow> string" where
  "procfs_key key =
     (case dropWhile (\<lambda>c. c \<noteq> CHR ''.'' \<and> c \<noteq> CHR ''/'') key of
        [] \<Rightarrow> key
      | c # _ \<Rightarrow> if c = CHR ''/'' then key else map swap_separator key)"

record sysctl_assignments =
  sysctl_values :: "string \<rightharpoonup> string"
  glob_patterns :: "string list"

definition no_assignments :: sysctl_assignments where
  "no_assignments = \<lparr>sysctl_values = Map.empty, glob_patterns = []\<rparr>"

definition is_glob_key :: "string \<Rightarrow> bool" where
  "is_glob_key key = (CHR ''*'' \<in> set key \<or> CHR ''?'' \<in> set key \<or> CHR ''['' \<in> set key)"

definition parse_sysctl_line :: "sysctl_assignments \<Rightarrow> string \<Rightarrow> sysctl_assignments" where
  "parse_sysctl_line parsed raw =
     (let line = trim raw in
      if line = [] \<or> starts_with ''#'' line \<or> starts_with '';'' line then parsed
      else case split_once (CHR ''='') line of
             None \<Rightarrow> parsed
           | Some (key, val) \<Rightarrow>
               (let key = trim (case strip_prefix ''-'' (trim key) of Some k \<Rightarrow> k | None \<Rightarrow> trim key) in
                if is_glob_key key then parsed\<lparr>glob_patterns := glob_patterns parsed @ [procfs_key key]\<rparr>
                else parsed\<lparr>sysctl_values := (sysctl_values parsed)(procfs_key key \<mapsto> trim val)\<rparr>))"

definition parse_sysctl :: "string \<Rightarrow> sysctl_assignments" where
  "parse_sysctl content = foldl parse_sysctl_line no_assignments (str_lines content)"

subsection \<open>Could a pattern name a key\<close>

datatype glob_token = Lit char | AnyChar | Star

lemma length_tl_dropWhile: "length (dropWhile P xs) - Suc 0 < Suc (length xs)"
  using length_dropWhile_le[of P xs] by linarith

function glob_tokens :: "string \<Rightarrow> glob_token list" where
  "glob_tokens [] = []"
| "glob_tokens (c # cs) =
     (if c = CHR ''*'' then Star # glob_tokens cs
      else if c = CHR ''?'' then AnyChar # glob_tokens cs
      else if c = CHR ''['' then
        (if CHR '']'' \<in> set cs then AnyChar # glob_tokens (tl (dropWhile (\<lambda>d. d \<noteq> CHR '']'') cs))
         else Lit (CHR ''['') # glob_tokens cs)
      else Lit c # glob_tokens cs)"
  by pat_completeness auto

termination by (relation "measure length") (simp_all add: length_tl_dropWhile)

fun token_hit :: "glob_token \<Rightarrow> char \<Rightarrow> bool" where
  "token_hit (Lit c) d = (c = d)"
| "token_hit AnyChar d = True"
| "token_hit Star d = False"

definition glob_could_match :: "string \<Rightarrow> string \<Rightarrow> bool" where
  "glob_could_match pattern key =
     (wildcard_loop token_hit (\<lambda>t. t = Star) (glob_tokens pattern) key 0 0 None 0 = Some True)"

subsection \<open>Reading the boot files\<close>

datatype file_read = BootContent string | BootAbsent | BootUnreadable string bool

definition read_boot_file :: "('h, 'z) executor_scheme \<Rightarrow> 'h \<Rightarrow> string \<Rightarrow> file_read" where
  "read_boot_file ex h path =
     (case path_exists ex h path of
        Inr False \<Rightarrow> BootAbsent
      | Inl e \<Rightarrow> BootUnreadable (''could not determine whether '' @ path @ '' exists: '' @ host_error_text e)
                   (is_permission_denied e)
      | Inr True \<Rightarrow>
          (case read_file ex h path of
             Inr content \<Rightarrow> BootContent content
           | Inl e \<Rightarrow> BootUnreadable (path @ '' could not be read: '' @ host_error_text e) (is_permission_denied e)))"

record later_file =
  later_path :: string
  ordering :: string
  assigned :: sysctl_assignments

definition replace_chars :: "char list \<Rightarrow> char \<Rightarrow> string \<Rightarrow> string" where
  "replace_chars cs d s = map (\<lambda>c. if c \<in> set cs then d else c) s"

definition persistence_check_id :: "string \<Rightarrow> string" where
  "persistence_check_id path = ''kernel_boot_persistence'' @ replace_chars [CHR ''/'', CHR ''.'', CHR ''-''] (CHR ''_'') path"

definition unchecked_persistence :: "string \<Rightarrow> string \<Rightarrow> bool \<Rightarrow> unchecked_check" where
  "unchecked_persistence path cause needs_privilege =
     \<lparr>unchecked_check_id = persistence_check_id path, unchecked_title = ''Kernel parameters survive a reboot'',
      unchecked_category = Kernel, unchecked_reason = cause,
      unchecked_blocker = (if needs_privilege then Privilege else Environment),
      unchecked_compliance = kernel_coverage\<rparr>"


datatype dropin_scope = AfterOurs | AllDropins

record dropin_sweep =
  sweep_files :: "later_file list"
  sweep_unchecked :: "unchecked_check list"
  unreadable_last_name :: "string option"
  dir_unlisted :: bool

definition OUR_DROPIN :: string where
  "OUR_DROPIN = ''99-hardener.conf''"

definition selects :: "dropin_scope \<Rightarrow> string \<Rightarrow> bool" where
  "selects scope name = (ends_with ''.conf'' name \<and> (case scope of AfterOurs \<Rightarrow> name > OUR_DROPIN | AllDropins \<Rightarrow> True))"

definition unlisted_reason :: "dropin_scope \<Rightarrow> string \<Rightarrow> string \<Rightarrow> string" where
  "unlisted_reason scope dir e =
     (case scope of
        AfterOurs \<Rightarrow> dir @ '' could not be listed, so a drop-in overriding '' @ SYSCTL_HARDENER_CONF
          @ '' cannot be ruled out: '' @ e
      | AllDropins \<Rightarrow> dir @ '' could not be listed, so whether a surviving file in it names a parameter this rollback restored is unknown: '' @ e)"

text \<open>The first copy of a name, in the directory of highest precedence, is the one in force.\<close>

fun choose_entries ::
  "dropin_scope \<Rightarrow> (string \<times> string) list \<Rightarrow> string list \<Rightarrow> (string \<times> string) list" where
  "choose_entries scope chosen [] = chosen"
| "choose_entries scope chosen (entry # entries) =
     choose_entries scope
       (case file_name entry of
          None \<Rightarrow> chosen
        | Some name \<Rightarrow> if \<not> selects scope name \<or> name \<in> fst ` set chosen then chosen else chosen @ [(name, entry)])
       entries"

fun choose_dropins ::
  "('h, 'z) executor_scheme \<Rightarrow> 'h \<Rightarrow> dropin_scope \<Rightarrow> (string \<times> string) list \<Rightarrow> string list \<Rightarrow>
   (string \<times> string) list \<times> unchecked_check list" where
  "choose_dropins ex h scope chosen [] = (chosen, [])"
| "choose_dropins ex h scope chosen (dir # dirs) =
     (case read_dir ex h dir of
        Inl e \<Rightarrow>
          (case choose_dropins ex h scope chosen dirs of
             (chosen, us) \<Rightarrow> (chosen,
               unchecked_persistence dir (unlisted_reason scope dir (host_error_text e)) (is_permission_denied e) # us))
      | Inr entries \<Rightarrow> choose_dropins ex h scope (choose_entries scope chosen entries) dirs)"

definition dropin_ordering :: string where
  "dropin_ordering = ''its name sorts after '' @ OUR_DROPIN
     @ '', and systemd-sysctl lets the lexicographically last drop-in decide the value''"

definition unread_reason :: "dropin_scope \<Rightarrow> string \<Rightarrow> string \<Rightarrow> string" where
  "unread_reason scope name cause =
     (case scope of
        AfterOurs \<Rightarrow> cause @ '', and '' @ name @ '' sorts after '' @ OUR_DROPIN
      | AllDropins \<Rightarrow> cause @ '', so whether it names a parameter this rollback restored is unknown'')"

fun read_dropins ::
  "('h, 'z) executor_scheme \<Rightarrow> 'h \<Rightarrow> dropin_scope \<Rightarrow> string option \<Rightarrow> (string \<times> string) list \<Rightarrow>
   later_file list \<times> unchecked_check list \<times> string option" where
  "read_dropins ex h scope unread [] = ([], [], unread)"
| "read_dropins ex h scope unread ((name, path) # chosen) =
     (case read_boot_file ex h path of
        BootContent content \<Rightarrow>
          (case read_dropins ex h scope unread chosen of
             (fs, us, unread) \<Rightarrow>
               (\<lparr>later_path = path, ordering = dropin_ordering, assigned = parse_sysctl content\<rparr> # fs, us, unread))
      | BootAbsent \<Rightarrow> read_dropins ex h scope unread chosen
      | BootUnreadable cause needs_privilege \<Rightarrow>
          (case read_dropins ex h scope
                  (if (case unread of None \<Rightarrow> True | Some l \<Rightarrow> name > l) then Some name else unread) chosen of
             (fs, us, unread) \<Rightarrow>
               (fs, unchecked_persistence path (unread_reason scope name cause) needs_privilege # us, unread)))"

definition dropins :: "('h, 'z) executor_scheme \<Rightarrow> 'h \<Rightarrow> dropin_scope \<Rightarrow> dropin_sweep" where
  "dropins ex h scope =
     (case choose_dropins ex h scope [] SYSCTL_DROPIN_DIRS of
        (chosen, unlisted) \<Rightarrow>
          (case read_dropins ex h scope None (sort_key fst chosen) of
             (fs, us, unread) \<Rightarrow> \<lparr>sweep_files = fs, sweep_unchecked = unlisted @ us,
                unreadable_last_name = unread, dir_unlisted = (unlisted \<noteq> [])\<rparr>))"

definition ufw_applied_file :: "('h, 'z) executor_scheme \<Rightarrow> 'h \<Rightarrow> later_file list \<times> unchecked_check list" where
  "ufw_applied_file ex h =
     (case read_boot_file ex h UFW_CONF of
        BootAbsent \<Rightarrow> ([], [])
      | BootUnreadable cause np \<Rightarrow>
          ([], [unchecked_persistence UFW_CONF
                  (cause @ '', so whether ufw applies its own sysctl file is unknown'') np])
      | BootContent content \<Rightarrow>
          (let enabled = (case shell_value content ''ENABLED'' of Some v \<Rightarrow> v | None \<Rightarrow> []) in
           if enabled \<noteq> ''yes'' \<and> enabled \<noteq> ''YES'' then ([], [])
           else case read_boot_file ex h UFW_DEFAULTS of
                  BootAbsent \<Rightarrow> ([], [])
                | BootUnreadable cause np \<Rightarrow>
                    ([], [unchecked_persistence UFW_DEFAULTS
                            (cause @ '', so the sysctl file ufw applies at boot is unknown'') np])
                | BootContent defaults \<Rightarrow>
                    (let path = (case shell_value defaults ''IPT_SYSCTL'' of Some v \<Rightarrow> v | None \<Rightarrow> []) in
                     if path = [] then ([], [])
                     else case read_boot_file ex h path of
                            BootContent c \<Rightarrow>
                              ([\<lparr>later_path = path,
                                 ordering = ''ufw applies it from ufw.service, which is ordered after systemd-sysctl.service'',
                                 assigned = parse_sysctl c\<rparr>], [])
                          | BootAbsent \<Rightarrow> ([], [])
                          | BootUnreadable cause np \<Rightarrow>
                              ([], [unchecked_persistence path (cause
                                 @ '', and ufw applies it at every start (IPT_SYSCTL in '' @ UFW_DEFAULTS @ '')'') np]))))"

subsection \<open>What decides each parameter\<close>

text \<open>
  The \<open>expect\<close> inside \<open>clamp_target\<close> and \<open>violated_by\<close> cannot fail on the entries of the table
  (\<open>kernel_never_panics\<close> below), so the two are read here without their option.
\<close>

definition kernel_target :: "secure_directive \<Rightarrow> plugin_config \<Rightarrow> string" where
  "kernel_target p config =
     (case resolved_target (compare p) config (directive_name p) (secure_value p) of Some t \<Rightarrow> t | None \<Rightarrow> [])"

definition kernel_violates :: "secure_directive \<Rightarrow> string \<Rightarrow> string option \<Rightarrow> bool" where
  "kernel_violates p target current = (violated_by (compare p) target current = Some True)"

definition overridden_finding ::
  "'d::linorder calendar \<Rightarrow> 'd \<Rightarrow> secure_directive \<Rightarrow> plugin_config \<Rightarrow> later_file \<Rightarrow> string \<Rightarrow> string \<Rightarrow> finding" where
  "overridden_finding cal today p config file val target =
     (let name = directive_name p; path = later_path file in
      \<lparr>finding_category = Kernel, finding_current_value = val, finding_description = directive_description p,
       finding_explanation = path @ '' sets '' @ name @ '' to '' @ quoted val @ '' after '' @ SYSCTL_HARDENER_CONF
         @ '' has been applied, because '' @ ordering file @ ''. From the next boot the host runs '' @ quoted val
         @ '' rather than the '' @ quoted target @ '' this tool persists'',
       finding_id = ''kernel_boot_override_'' @ replace_chars [CHR ''.''] (CHR ''_'') name,
       finding_impact = ''Hardening of '' @ name @ '' does not survive a reboot, so a host that reports compliant today is not compliant after the next restart'',
       finding_recommended_value = target,
       finding_remediation_steps =
         [''Set '' @ name @ '' to '' @ quoted target @ '' in '' @ path @ '', or remove that line so ''
            @ SYSCTL_HARDENER_CONF @ '' decides it'',
          ''This tool does not edit another package's configuration file, so it cannot correct this for you; run `sysctl -n ''
            @ procfs_key name @ ''` after the change to confirm it''],
       finding_severity = directive_severity p,
       finding_title = name @ '' is overridden after boot by '' @ path,
       finding_compliance = kernel_compliance_mappings name,
       finding_exception = exception_outcome_for_value cal today config name val,
       finding_exception_key = Some name\<rparr>)"

definition unchecked_glob :: "later_file \<Rightarrow> unchecked_check" where
  "unchecked_glob file = unchecked_persistence (later_path file)
     (later_path file @ '' assigns sysctls through glob patterns, which this scan does not resolve, and ''
        @ ordering file @ '', so whether it overrides these settings is unknown'') False"

definition merge_effective :: "later_file list \<Rightarrow> (string \<rightharpoonup> later_file \<times> string)" where
  "merge_effective ordered =
     foldl (\<lambda>m file. m ++ (\<lambda>key. map_option (Pair file) (sysctl_values (assigned file) key))) Map.empty ordered"

definition boot_persistence ::
  "'d::linorder calendar \<Rightarrow> 'd \<Rightarrow> ('h, 'z) executor_scheme \<Rightarrow> 'h \<Rightarrow> plugin_config \<Rightarrow> finding list \<times> unchecked_check list" where
  "boot_persistence cal today ex h config =
     (let sweep = dropins ex h AfterOurs; (ufw, ufw_unchecked) = ufw_applied_file ex h;
          ordered = sweep_files sweep @ ufw; effective = merge_effective ordered
      in (filter_map (\<lambda>p. case effective (procfs_key (directive_name p)) of
              None \<Rightarrow> None
            | Some (file, val) \<Rightarrow>
                (let target = kernel_target p config in
                 if kernel_violates p target (Some val)
                 then Some (overridden_finding cal today p config file val target) else None)) KERNEL_PARAMS,
          sweep_unchecked sweep @ ufw_unchecked
            @ map unchecked_glob (filter (\<lambda>f. glob_patterns (assigned f) \<noteq> []) ordered)))"

record effective_boot =
  boot_values :: "string \<rightharpoonup> string"
  boot_sources :: "string \<rightharpoonup> string"
  unresolved :: "string list"
  boot_globs :: "string list"
  blocks_all :: bool
  boot_unread_name :: "string option"

definition decided_after :: "string option \<Rightarrow> string option \<Rightarrow> bool" where
  "decided_after unread_name source =
     (case unread_name of
        None \<Rightarrow> False
      | Some unread \<Rightarrow>
          (case source of
             None \<Rightarrow> True
           | Some path \<Rightarrow> unread \<ge> (case file_name path of Some name \<Rightarrow> name | None \<Rightarrow> [])))"

definition effective_boot_values :: "('h, 'z) executor_scheme \<Rightarrow> 'h \<Rightarrow> dropin_scope \<Rightarrow> effective_boot" where
  "effective_boot_values ex h scope =
     (let sweep = dropins ex h scope; (ufw, ufw_unchecked) = ufw_applied_file ex h;
          ordered = sweep_files sweep @ ufw; effective = merge_effective ordered
      in \<lparr>boot_values = (\<lambda>k. map_option snd (effective k)),
          boot_sources = (\<lambda>k. map_option (later_path \<circ> fst) (effective k)),
          unresolved = map (\<lambda>f. later_path f @ '' assigns sysctls through glob patterns, which this scan does not resolve'')
              (filter (\<lambda>f. glob_patterns (assigned f) \<noteq> []) ordered)
            @ map unchecked_reason (sweep_unchecked sweep @ ufw_unchecked),
          boot_globs = concat (map (glob_patterns \<circ> assigned) ordered),
          blocks_all = (dir_unlisted sweep \<or> ufw_unchecked \<noteq> []),
          boot_unread_name = unreadable_last_name sweep\<rparr>)"

record legacy_conf =
  legacy_values :: "string \<rightharpoonup> string"
  legacy_globs :: "string list"
  legacy_unreadable :: "string option"

datatype boot_reach = DoesNotRead | ReachUnknown

definition legacy_sysctl_conf :: "('h, 'z) executor_scheme \<Rightarrow> 'h \<Rightarrow> legacy_conf" where
  "legacy_sysctl_conf ex h =
     (case read_boot_file ex h LEGACY_SYSCTL_CONF of
        BootContent content \<Rightarrow> (let parsed = parse_sysctl content in
          \<lparr>legacy_values = sysctl_values parsed, legacy_globs = glob_patterns parsed, legacy_unreadable = None\<rparr>)
      | BootAbsent \<Rightarrow> \<lparr>legacy_values = Map.empty, legacy_globs = [], legacy_unreadable = None\<rparr>
      | BootUnreadable cause _ \<Rightarrow> \<lparr>legacy_values = Map.empty, legacy_globs = [], legacy_unreadable = Some cause\<rparr>)"

definition boot_reads_legacy_conf :: "('h, 'z) executor_scheme \<Rightarrow> 'h \<Rightarrow> boot_reach" where
  "boot_reads_legacy_conf ex h = (if path_exists ex h SYSTEMD_SYSCTL = Inr True then DoesNotRead else ReachUnknown)"

end
