(* ===== verification/Plugin_Support.thy ===== *)
theory Plugin_Support
  imports Plugin_Engine Plugin_Coverage Checkpoint_Rollback
begin

text \<open>
  What the hardening plugins share: \<open>crates/hardener-plugins/src/lib.rs\<close> and \<open>scan_outcome.rs\<close>.

  The context of an apply is the executor and, when there is one, the checkpoint manager: its key, its
  clock and user, and the fuel of its directory capture. The eight plugins are arguments of the registry;
  the coverage they declare is that of Plugin_Coverage.
\<close>

subsection \<open>Probes and checkpoints\<close>

definition refusal_blocker :: "('h, 'z) executor_scheme \<Rightarrow> 'h \<Rightarrow> unchecked_blocker \<times> 'h" where
  "refusal_blocker ex h =
     (case session_is_root ex h of (True, h') \<Rightarrow> (Environment, h') | (False, h') \<Rightarrow> (Privilege, h'))"

record 'h apply_context =
  ctx_executor :: "'h executor"
  ctx_manager :: "(crypto \<times> moment \<times> nat) option"

text \<open>\<open>None\<close> is a capture whose recursion the fuel did not cover.\<close>

definition create_checkpoint_for_apply ::
  "'h apply_context \<Rightarrow> 'h \<Rightarrow> database \<Rightarrow> string \<Rightarrow> string list \<Rightarrow>
   ((hardening_error, string option) result \<times> 'h \<times> database) option" where
  "create_checkpoint_for_apply ctx h db name paths =
     (case ctx_manager ctx of
        None \<Rightarrow> Some (Inr None, h, db)
      | Some (c, now, fuel) \<Rightarrow>
          (case create_checkpoint fuel c now (ctx_executor ctx) h db name paths of
             None \<Rightarrow> None
           | Some (Inl e, h, db) \<Rightarrow> Some (Inl e, h, db)
           | Some (Inr cid, h, db) \<Rightarrow> Some (Inr (Some cid), h, db)))"

definition create_checkpoint_metadata_only_for_apply ::
  "'h apply_context \<Rightarrow> 'h \<Rightarrow> database \<Rightarrow> string \<Rightarrow> string list \<Rightarrow>
   (hardening_error, string option) result \<times> 'h \<times> database" where
  "create_checkpoint_metadata_only_for_apply ctx h db name paths =
     (case ctx_manager ctx of
        None \<Rightarrow> (Inr None, h, db)
      | Some (c, now, _) \<Rightarrow>
          (case create_checkpoint_metadata_only c now (ctx_executor ctx) h db name paths of
             (Inl e, h, db) \<Rightarrow> (Inl e, h, db)
           | (Inr cid, h, db) \<Rightarrow> (Inr (Some cid), h, db)))"

definition checkpoint_change :: "string option \<Rightarrow> change option" where
  "checkpoint_change cid =
     map_option (\<lambda>_. \<lparr>change_description = ''Created checkpoint for rollback'', change_type = Checkpoint,
        change_success = True, change_error = None\<rparr>) cid"

definition ensure_plugin_directory ::
  "('h, 'z) executor_scheme \<Rightarrow> 'h \<Rightarrow> string \<Rightarrow> string option \<times> 'h" where
  "ensure_plugin_directory ex h dir =
     (if path_exists ex h dir = Inr True then (None, h)
      else (case execute_command ex h ''mkdir'' [''-p'', dir] of
              (Inr out, h') \<Rightarrow>
                (if command_success out then None
                 else Some (''Failed to create '' @ dir @ '': mkdir exited '' @ show_int (exit_code out)
                   @ '' ('' @ trim (stderr out) @ '')''), h')
            | (Inl e, h') \<Rightarrow> (Some (''Failed to create '' @ dir @ '': '' @ host_error_text e), h')))"

subsection \<open>Pruning backups\<close>

definition BACKUPS_KEPT :: nat where
  "BACKUPS_KEPT = 3"

definition prune_timestamped_backups :: "('h, 'z) executor_scheme \<Rightarrow> 'h \<Rightarrow> string \<Rightarrow> nat \<Rightarrow> 'h" where
  "prune_timestamped_backups ex h pre keep =
     (case parent_path pre of
        None \<Rightarrow> h
      | Some directory \<Rightarrow>
          (case read_dir ex h directory of
             Inl _ \<Rightarrow> h
           | Inr entries \<Rightarrow>
               (let backups = filter (starts_with pre) entries in
                if length backups \<le> keep then h
                else snd (execute_command ex h ''rm''
                  (''-f'' # ''--'' # take (length backups - keep) (sort backups))))))"

subsection \<open>The registry and its coverage\<close>

definition create_plugin_registry :: "'h hardening_plugin list \<Rightarrow> 'h plugin_registry option" where
  "create_plugin_registry plugins =
     foldl (\<lambda>reg p. case reg of None \<Rightarrow> None
              | Some r \<Rightarrow> (case registry_register r p of (Inr _, r') \<Rightarrow> Some r' | (Inl _, _) \<Rightarrow> None))
       (Some new_registry) plugins"

definition registered_inventory :: "'h plugin_registry \<Rightarrow> plugin_inventory" where
  "registered_inventory reg =
     (case registry_list reg of
        Inr ms \<Rightarrow> Known (map (\<lambda>m. \<lparr>coverage_metadata = m,
            coverage = (case coverage_for (metadata_plugin_id m) of Some ms \<Rightarrow> ms | None \<Rightarrow> [])\<rparr>) ms)
      | Inl e \<Rightarrow> Unavailable (error_text e))"

subsection \<open>Reconciling after a rollback\<close>

record rollback_reconciliation =
  reconciled_reloads :: "reload_result list"
  reconciled_divergences :: "rollback_divergence list"

definition plugins_or_reload_failure ::
  "(hardening_error, plugin_metadata list) result \<Rightarrow> (reload_result, plugin_metadata list) result" where
  "plugins_or_reload_failure listed =
     map_err (\<lambda>e. \<lparr>reload_plugin_id = ''plugin-registry'', reload_action = ''reload skipped'',
        reload_success = False,
        reload_error = Some (''plugin registry could not be enumerated: '' @ error_text e)\<rparr>) listed"

definition plugin_or_reload_failure ::
  "(hardening_error, 'h hardening_plugin option) result \<Rightarrow> plugin_id \<Rightarrow> (reload_result, 'h hardening_plugin) result" where
  "plugin_or_reload_failure fetched pid =
     (let failure = (\<lambda>cause. \<lparr>reload_plugin_id = pid, reload_action = ''reload skipped'',
        reload_success = False, reload_error = Some cause\<rparr>) in
      case fetched of
        Inr (Some p) \<Rightarrow> Inr p
      | Inr None \<Rightarrow> Inl (failure ''plugin was listed but could not be found'')
      | Inl e \<Rightarrow> Inl (failure (error_text e)))"

definition reload_rows ::
  "'h hardening_plugin \<Rightarrow> plugin_id \<Rightarrow> string list \<Rightarrow> 'h \<Rightarrow> reload_result list \<times> 'h" where
  "reload_rows p pid restored h =
     (if list_ex (reloads_for_path p) restored then
        (case reload_after_rollback p h of
           (Inr None, h') \<Rightarrow> ([], h')
         | (Inr (Some action), h') \<Rightarrow>
             ([\<lparr>reload_plugin_id = pid, reload_action = action, reload_success = True, reload_error = None\<rparr>], h')
         | (Inl e, h') \<Rightarrow>
             ([\<lparr>reload_plugin_id = pid, reload_action = ''reload failed'', reload_success = False,
                reload_error = Some (error_text e)\<rparr>], h'))
      else ([], h))"

fun reconcile_each ::
  "'h plugin_registry \<Rightarrow> string list \<Rightarrow> 'h \<Rightarrow> plugin_metadata list \<Rightarrow> rollback_reconciliation \<times> 'h" where
  "reconcile_each reg restored h [] = (\<lparr>reconciled_reloads = [], reconciled_divergences = []\<rparr>, h)"
| "reconcile_each reg restored h (m # ms) =
     (case plugin_or_reload_failure (registry_get reg (metadata_plugin_id m)) (metadata_plugin_id m) of
        Inl failure \<Rightarrow>
          (case reconcile_each reg restored h ms of
             (r, h') \<Rightarrow> (r\<lparr>reconciled_reloads := failure # reconciled_reloads r\<rparr>, h'))
      | Inr p \<Rightarrow>
          (case reload_rows p (metadata_plugin_id m) restored h of
             (rows, h1) \<Rightarrow>
               (case divergences_after_rollback p h1 restored of
                  (ds, h2) \<Rightarrow>
                    (case reconcile_each reg restored h2 ms of
                       (r, h3) \<Rightarrow> (\<lparr>reconciled_reloads = rows @ reconciled_reloads r,
                          reconciled_divergences = ds @ reconciled_divergences r\<rparr>, h3)))))"

definition reconcile_plugins_after_rollback ::
  "'h plugin_registry \<Rightarrow> string list \<Rightarrow> 'h \<Rightarrow> rollback_reconciliation \<times> 'h" where
  "reconcile_plugins_after_rollback reg restored h =
     (case plugins_or_reload_failure (registry_list reg) of
        Inl failure \<Rightarrow> (\<lparr>reconciled_reloads = [failure], reconciled_divergences = []\<rparr>, h)
      | Inr ms \<Rightarrow> reconcile_each reg restored h ms)"

subsection \<open>Facts about pruning\<close>

text \<open>Taking the first of a sorted list leaves what is no smaller.\<close>

lemma take_sorted:
  assumes "sorted s" "x \<in> set (take n s)" "y \<in> set (drop n s)" shows "x \<le> y"
proof -
  have "sorted (take n s @ drop n s)" using assms(1) by simp
  then show ?thesis using assms(2,3) unfolding sorted_append by blast
qed

text \<open>Pruning is bounded and cannot reach anything else: on every host it either does nothing or runs
  one command, the forced removal of entries of the backup directory that carry the prefix; exactly
  \<open>keep\<close> of the copies listed are not named, and each of these is at least as new as each one named.
\<close>

lemma pruning_is_bounded:
  "prune_timestamped_backups ex h pre keep = h
   \<or> (\<exists>directory entries victims kept.
        parent_path pre = Some directory \<and> read_dir ex h directory = Inr entries
        \<and> prune_timestamped_backups ex h pre keep
            = snd (execute_command ex h ''rm'' (''-f'' # ''--'' # victims))
        \<and> mset (victims @ kept) = mset (filter (starts_with pre) entries)
        \<and> victims \<noteq> [] \<and> length kept = keep
        \<and> (\<forall>v\<in>set victims. \<forall>k\<in>set kept. v \<le> k))"
proof (cases "parent_path pre")
  case (Some directory)
  show ?thesis
  proof (cases "read_dir ex h directory")
    case (Inr entries)
    let ?backups = "filter (starts_with pre) entries"
    let ?sorted = "sort ?backups" and ?n = "length ?backups - keep"
    show ?thesis
    proof (cases "length ?backups \<le> keep")
      case False
      have "prune_timestamped_backups ex h pre keep
          = snd (execute_command ex h ''rm'' (''-f'' # ''--'' # take ?n ?sorted))"
        using Some Inr False by (simp add: prune_timestamped_backups_def Let_def)
      moreover have "mset (take ?n ?sorted @ drop ?n ?sorted) = mset ?backups" by (simp only: append_take_drop_id mset_sort)
      moreover have "length (take ?n ?sorted) > 0" "length (drop ?n ?sorted) = keep" using False by simp_all
      ultimately show ?thesis using Some Inr take_sorted[of ?sorted _ ?n] by (metis length_greater_0_conv sorted_sort)
    qed (use Some Inr in \<open>simp add: prune_timestamped_backups_def Let_def\<close>)
  qed (use Some in \<open>simp add: prune_timestamped_backups_def\<close>)
qed (simp add: prune_timestamped_backups_def)

definition sample_backup_host :: mock_host where
  "sample_backup_host = with_file ''/b/conf.2'' [] (with_file ''/b/conf.1'' [] new_mock)"

theorem pruning_is_bounded_witness:
  "length (commands_executed (prune_timestamped_backups (mock_executor False ''sample'') sample_backup_host ''/b/conf.'' 1)) \<le> 1
   \<and> parent_path ''/b/conf.'' = Some ''/b''"
proof -
  have fresh: "commands_executed sample_backup_host = []"
    by (simp add: sample_backup_host_def with_file_def new_mock_def)
  have dir: "parent_path ''/b/conf.'' = Some ''/b''" by code_simp
  have "length (commands_executed (snd (mock_execute_command h program args))) \<le> Suc (length (commands_executed h))"
    for h program args
    by (auto simp: mock_execute_command_def Let_def split: list.splits option.splits)
  from this[of sample_backup_host] fresh
    pruning_is_bounded[of "mock_executor False ''sample''" sample_backup_host "''/b/conf.''" 1]
  show ?thesis using dir by auto
qed

end
