(* ===== verification/Kernel_Plugin.thy ===== *)
theory Kernel_Plugin
  imports Kernel_Persistence Plugin_Support
begin

text \<open>
  The kernel hardening plugin, \<open>crates/hardener-plugins/src/kernel/mod.rs\<close>: scan, apply and preview of the
  sysctl parameters of \<open>KERNEL_PARAMS\<close>. The duration of a scan is an argument; log lines are left out.
\<close>

subsection \<open>One parameter\<close>

definition KERNEL_PLUGIN_ID :: plugin_id where
  "KERNEL_PLUGIN_ID = ''kernel-hardening''"

definition proc_path :: "string \<Rightarrow> string" where
  "proc_path param = ''/proc/sys/'' @ procfs_key param"

definition read_sysctl :: "('h, 'z) executor_scheme \<Rightarrow> 'h \<Rightarrow> string \<Rightarrow> string host_result" where
  "read_sysctl ex h param = and_then (read_file ex h (proc_path param)) (\<lambda>content. Inr (trim content))"

text \<open>\<open>option.trim() == "ro"\<close> for one of the comma separated mount options.\<close>

definition mount_is_read_only :: "('h, 'z) executor_scheme \<Rightarrow> 'h \<Rightarrow> string \<Rightarrow> bool option \<times> 'h" where
  "mount_is_read_only ex h path =
     (case execute_command ex h ''findmnt'' [''-T'', path, ''-no'', ''VFS-OPTIONS''] of
        (Inl _, h') \<Rightarrow> (None, h')
      | (Inr out, h') \<Rightarrow>
          (let opts = trim (stdout out) in
           (if \<not> command_success out \<or> opts = [] then None
            else Some (list_ex (\<lambda>x. trim x = ''ro'') (split_on (CHR '','') opts)), h')))"

datatype planned_parameter = Excepted string string | Setting string

definition clamp_to_host :: "secure_directive \<Rightarrow> string \<Rightarrow> string option \<Rightarrow> string" where
  "clamp_to_host p target observed =
     (case clamp_target (compare p) target observed of Some t \<Rightarrow> t | None \<Rightarrow> [])"

definition plan_parameter ::
  "'d::linorder calendar \<Rightarrow> 'd \<Rightarrow> secure_directive \<Rightarrow> plugin_config \<Rightarrow> string option \<Rightarrow> planned_parameter" where
  "plan_parameter cal today p config observed =
     (case Option.bind observed (\<lambda>v. map_option (Pair v) (matching_exception cal today config (directive_name p) v)) of
        Some (v, e) \<Rightarrow> Excepted v (reason e)
      | None \<Rightarrow> Setting (clamp_to_host p (kernel_target p config) observed))"

definition parameter_section :: "secure_directive \<Rightarrow> planned_parameter \<Rightarrow> string" where
  "parameter_section p planned =
     (case planned of
        Excepted _ why \<Rightarrow> ''# '' @ directive_name p @ '': SKIPPED (exception: '' @ why @ '')'' @ [nl, nl]
      | Setting target \<Rightarrow> ''# '' @ directive_description p @ [nl] @ directive_name p @ '' = '' @ target @ [nl, nl])"

definition SYSCTL_CONFIG_HEADER :: string where
  "SYSCTL_CONFIG_HEADER = ''# Kernel hardening settings applied by Linux Hardener'' @ [nl]
     @ ''# This file is managed automatically - manual edits will be overwritten'' @ [nl, nl]"

definition unchecked_parameter :: "string \<Rightarrow> string \<Rightarrow> bool \<Rightarrow> unchecked_check" where
  "unchecked_parameter param cause needs_privilege =
     \<lparr>unchecked_check_id = ''kernel_'' @ replace_chars [CHR ''.''] (CHR ''_'') param,
      unchecked_title = ''Kernel parameter '' @ param, unchecked_category = Kernel, unchecked_reason = cause,
      unchecked_blocker = (if needs_privilege then Privilege else Environment),
      unchecked_compliance = kernel_compliance_mappings param\<rparr>"

subsection \<open>Scan\<close>

definition insecure_finding ::
  "'d::linorder calendar \<Rightarrow> 'd \<Rightarrow> secure_directive \<Rightarrow> plugin_config \<Rightarrow> string \<Rightarrow> string \<Rightarrow> finding" where
  "insecure_finding cal today p config target actual =
     (let name = directive_name p in
      \<lparr>finding_category = Kernel, finding_current_value = actual, finding_description = directive_description p,
       finding_explanation = ''This parameter should be set to '' @ quoted target @ '' for security hardening'',
       finding_id = ''kernel_'' @ replace_chars [CHR ''.''] (CHR ''_'') name,
       finding_impact = ''Insecure '' @ name @ '' weakens system defences against exploitation'',
       finding_recommended_value = target,
       finding_remediation_steps = [''Set '' @ name @ '' = '' @ target],
       finding_severity = directive_severity p,
       finding_title = ''Insecure value for '' @ name,
       finding_compliance = kernel_compliance_mappings name,
       finding_exception = exception_outcome_for_value cal today config name actual,
       finding_exception_key = Some name\<rparr>)"

definition assess_parameter ::
  "'d::linorder calendar \<Rightarrow> 'd \<Rightarrow> ('h, 'z) executor_scheme \<Rightarrow> 'h \<Rightarrow> plugin_config \<Rightarrow> secure_directive \<Rightarrow>
   finding list \<times> unchecked_check list" where
  "assess_parameter cal today ex h config p =
     (let name = directive_name p in
      case read_sysctl ex h name of
        Inr actual \<Rightarrow>
          (let target = kernel_target p config in
           if kernel_violates p target (Some actual) then ([insecure_finding cal today p config target actual], [])
           else ([], []))
      | Inl e \<Rightarrow>
          ([], [unchecked_parameter name
                  (''could not read '' @ proc_path name @ '': '' @ error_text (hardening_of e))
                  (message_indicates_permission_denied (error_text (hardening_of e)))]))"

definition kernel_scan ::
  "'d::linorder calendar \<Rightarrow> 'd \<Rightarrow> nat \<Rightarrow> ('h, 'z) executor_scheme \<Rightarrow> 'h \<Rightarrow> plugin_config \<Rightarrow> scan_result" where
  "kernel_scan cal today duration ex h config =
     (let assessed = map (assess_parameter cal today ex h config) KERNEL_PARAMS;
          (overridden, boot_unchecked) = boot_persistence cal today ex h config
      in \<lparr>scan_plugin_id = KERNEL_PLUGIN_ID, scan_success = True,
          scan_findings = concat (map fst assessed) @ overridden,
          scan_unchecked = concat (map snd assessed) @ boot_unchecked,
          scan_duration_us = duration, scan_error = None, scan_skipped = None\<rparr>)"

subsection \<open>Apply\<close>

definition change_of :: "string \<Rightarrow> change_type \<Rightarrow> string option \<Rightarrow> change" where
  "change_of what kind error =
     \<lparr>change_description = what, change_type = kind, change_success = (error = None), change_error = error\<rparr>"

record apply_progress =
  progress_content :: string
  progress_changes :: "change list"
  runtime_changed :: bool
  compliant_count :: nat

fun apply_parameters ::
  "'d::linorder calendar \<Rightarrow> 'd \<Rightarrow> ('h, 'z) executor_scheme \<Rightarrow> plugin_config \<Rightarrow> apply_progress \<Rightarrow> 'h \<Rightarrow>
   secure_directive list \<Rightarrow> apply_progress \<times> 'h" where
  "apply_parameters cal today ex config acc h [] = (acc, h)"
| "apply_parameters cal today ex config acc h (p # ps) =
     (let name = directive_name p; about = directive_description p;
          observed = result_ok (read_sysctl ex h name);
          planned = plan_parameter cal today p config observed;
          acc = acc\<lparr>progress_content := progress_content acc @ parameter_section p planned\<rparr>
      in case planned of
           Excepted _ why \<Rightarrow>
             apply_parameters cal today ex config
               (acc\<lparr>progress_changes := progress_changes acc
                  @ [change_of (about @ '': skipped (exception: '' @ why @ '')'') Skipped None]\<rparr>) h ps
         | Setting target \<Rightarrow>
             if \<not> kernel_violates p target observed then
               apply_parameters cal today ex config (acc\<lparr>compliant_count := compliant_count acc + 1\<rparr>) h ps
             else (case write_file ex h (proc_path name) target of
                     (Inr _, h') \<Rightarrow>
                       apply_parameters cal today ex config
                         (acc\<lparr>runtime_changed := True, progress_changes := progress_changes acc
                            @ [change_of (about @ '': set to '' @ target) KernelParameter None]\<rparr>) h' ps
                   | (Inl e, h') \<Rightarrow>
                       apply_parameters cal today ex config
                         (acc\<lparr>progress_changes := progress_changes acc
                            @ [change_of (name @ '': failed to set'') KernelParameter (Some (host_error_text e))]\<rparr>)
                         h' ps))"

definition start_progress :: "change list \<Rightarrow> apply_progress" where
  "start_progress changes = \<lparr>progress_content = SYSCTL_CONFIG_HEADER, progress_changes = changes,
     runtime_changed = False, compliant_count = 0\<rparr>"

definition persist_parameters ::
  "('h, 'z) executor_scheme \<Rightarrow> 'h \<Rightarrow> string option \<Rightarrow> apply_progress \<Rightarrow> change list \<times> 'h" where
  "persist_parameters ex h dir_error acc =
     (if runtime_changed acc \<or> result_ok (read_file ex h SYSCTL_HARDENER_CONF) \<noteq> Some (progress_content acc) then
        (case (case dir_error of
                 Some why \<Rightarrow> (Inl why, h)
               | None \<Rightarrow> (case write_file ex h SYSCTL_HARDENER_CONF (progress_content acc) of
                            (r, h') \<Rightarrow> (map_err host_error_text r, h'))) of
           (Inr _, h') \<Rightarrow> ([change_of ''Created persistent sysctl config'' ConfigFile None], h')
         | (Inl e, h') \<Rightarrow> ([change_of ''Failed to create persistent sysctl config'' ConfigFile (Some e)], h'))
      else ([change_of ''Persistent sysctl config already up to date'' Skipped None], h))"

definition kernel_apply ::
  "'d::linorder calendar \<Rightarrow> 'd \<Rightarrow> 'h apply_context \<Rightarrow> 'h \<Rightarrow> database \<Rightarrow> plugin_config \<Rightarrow>
   ((hardening_error, apply_result) result \<times> 'h \<times> database) option" where
  "kernel_apply cal today ctx h db config =
     (let ex = ctx_executor ctx in
      case ensure_plugin_directory ex h SYSCTL_DROPIN_DIR of (dir_error, h) \<Rightarrow>
      (case create_checkpoint_for_apply ctx h db ''kernel-hardening-pre-apply''
              [LEGACY_SYSCTL_CONF, SYSCTL_DROPIN_DIR, SYSCTL_HARDENER_CONF] of
         None \<Rightarrow> None
       | Some (Inl e, h, db) \<Rightarrow> Some (Inl e, h, db)
       | Some (Inr cid, h, db) \<Rightarrow>
           (case apply_parameters cal today ex config
                   (start_progress (case checkpoint_change cid of Some c \<Rightarrow> [c] | None \<Rightarrow> [])) h KERNEL_PARAMS of
              (acc, h) \<Rightarrow>
                (case persist_parameters ex h dir_error acc of
                   (persisted, h) \<Rightarrow>
                     (let changes = progress_changes acc
                        @ (if compliant_count acc > 0
                           then [change_of (show_radix 10 (compliant_count acc)
                                   @ '' sysctl(s) already compliant - unchanged'') Skipped None] else [])
                        @ persisted
                      in Some (Inr \<lparr>apply_plugin_id = KERNEL_PLUGIN_ID, apply_success = list_all change_success changes,
                           apply_changes = changes, apply_checkpoint_id = cid, apply_error = None\<rparr>, h, db))))))"

subsection \<open>Rollback hooks\<close>

definition kernel_reloads_for_path :: "string \<Rightarrow> bool" where
  "kernel_reloads_for_path path =
     (path_components path = path_components LEGACY_SYSCTL_CONF \<or> path_starts_with path SYSCTL_DROPIN_DIR)"

definition kernel_reload_after_rollback ::
  "('h, 'z) executor_scheme \<Rightarrow> 'h \<Rightarrow> (hardening_error, string option) result \<times> 'h" where
  "kernel_reload_after_rollback ex h =
     (case execute_command ex h ''sysctl'' [''--system''] of
        (Inl e, h') \<Rightarrow> (Inl (hardening_of e), h')
      | (Inr _, h') \<Rightarrow> (Inr (Some ''sysctl --system''), h'))"

subsection \<open>Preview\<close>

record preview_progress =
  preview_content :: string
  preview_issues :: "validation_issue list"
  preview_changes :: "string list"
  preview_exceptions :: "string list"
  preview_compliant :: nat
  runtime_will_change :: bool

definition issue_of :: "severity \<Rightarrow> string \<Rightarrow> string \<Rightarrow> validation_issue" where
  "issue_of sev message key = \<lparr>validation_issue_severity = sev, validation_issue_message = message,
     validation_issue_config_key = Some key\<rparr>"

fun preview_parameters ::
  "'d::linorder calendar \<Rightarrow> 'd \<Rightarrow> ('h, 'z) executor_scheme \<Rightarrow> plugin_config \<Rightarrow> preview_progress \<Rightarrow> 'h \<Rightarrow>
   secure_directive list \<Rightarrow> preview_progress \<times> 'h" where
  "preview_parameters cal today ex config acc h [] = (acc, h)"
| "preview_parameters cal today ex config acc h (p # ps) =
     (let name = directive_name p; path = proc_path name;
          observed = result_ok (read_sysctl ex h name);
          planned = plan_parameter cal today p config observed;
          acc = acc\<lparr>preview_content := preview_content acc @ parameter_section p planned\<rparr>
      in case planned of
           Excepted val why \<Rightarrow>
             preview_parameters cal today ex config
               (acc\<lparr>preview_exceptions := preview_exceptions acc @ [exception_preview_line name val why]\<rparr>) h ps
         | Setting target \<Rightarrow>
             (let issue = (\<lambda>i. acc\<lparr>preview_issues := preview_issues acc @ [i]\<rparr>) in
              case metadata_of ex h path of
                Inl e \<Rightarrow>
                  preview_parameters cal today ex config
                    (issue (issue_of High (name @ '': could not determine whether the parameter exists (''
                       @ host_error_text e @ ''), so this preview cannot say what apply would do to it'') name)) h ps
              | Inr m \<Rightarrow>
                  if \<not> exists m then
                    preview_parameters cal today ex config
                      (issue (issue_of Low (name @ '' does not exist on this kernel'') name)) h ps
                  else if \<not> bit (mode m) 7 then
                    preview_parameters cal today ex config (issue (issue_of High (name @ '' is read-only'') name)) h ps
                  else if \<not> kernel_violates p target observed then
                    preview_parameters cal today ex config
                      (acc\<lparr>preview_compliant := preview_compliant acc + 1\<rparr>) h ps
                  else (case mount_is_read_only ex h path of
                          (read_only, h') \<Rightarrow>
                            if read_only = Some True then
                              preview_parameters cal today ex config
                                (issue (issue_of High (name @ '' cannot be set: '' @ path
                                   @ '' is on a read-only mount, so apply would fail here however it is run'') name)) h' ps
                            else
                              preview_parameters cal today ex config
                                (acc\<lparr>runtime_will_change := True, preview_changes := preview_changes acc
                                   @ [case observed of
                                        Some current \<Rightarrow> name @ '' will change: '' @ current @ '' -> '' @ target
                                      | None \<Rightarrow> name @ '' will be set to '' @ target]\<rparr>) h' ps)))"

definition start_preview :: preview_progress where
  "start_preview = \<lparr>preview_content = SYSCTL_CONFIG_HEADER, preview_issues = [], preview_changes = [],
     preview_exceptions = [], preview_compliant = 0, runtime_will_change = False\<rparr>"

definition kernel_validate ::
  "'d::linorder calendar \<Rightarrow> 'd \<Rightarrow> ('h, 'z) executor_scheme \<Rightarrow> 'h \<Rightarrow> plugin_config \<Rightarrow> validation_report \<times> 'h" where
  "kernel_validate cal today ex h config =
     (case preview_parameters cal today ex config start_preview h KERNEL_PARAMS of
        (acc, h) \<Rightarrow>
          (let changes = preview_changes acc
             @ (if runtime_will_change acc
                   \<or> result_ok (read_file ex h SYSCTL_HARDENER_CONF) \<noteq> Some (preview_content acc)
                then [''Create persistent sysctl config''] else [])
           in (\<lparr>validation_report_plugin_id = KERNEL_PLUGIN_ID,
                validation_report_is_valid = list_all (\<lambda>i. validation_issue_severity i \<noteq> High) (preview_issues acc),
                validation_report_issues = preview_issues acc,
                validation_report_estimated_changes = changes,
                validation_report_compliant_count = preview_compliant acc,
                validation_report_exceptions = preview_exceptions acc\<rparr>, h)))"

subsection \<open>Values and targets\<close>

lemma kernel_sound: "p \<in> set KERNEL_PARAMS \<Longrightarrow> sound_entry p"
  using shipped_placeable by (auto simp: shipped_directives_def list_all_iff)

lemma kernel_compare:
  "p \<in> set KERNEL_PARAMS \<Longrightarrow> compare p \<in> {AtLeast, AtMost, Ranked SUID_DUMPABLE_ORDER, Ranked RP_FILTER_ORDER}"
  by (auto simp: KERNEL_PARAMS_def secure_directive_of_def)

text \<open>A spelling that survives trimming and stays on its line.\<close>

definition plain :: "string \<Rightarrow> bool" where
  "plain w = (w \<noteq> [] \<and> (\<forall>c\<in>set w. \<not> is_ws c))"

lemma plain_trim: "plain w \<Longrightarrow> trim w = w"
  by (intro trim_eq_self) (auto simp: plain_def)

lemma digit_char_plain: "d < 10 \<Longrightarrow> \<not> is_ws (digit_char d)"
  by (simp add: digit_char_def is_ws_def Let_def)

lemma show_radix_plain: "plain (show_radix 10 n)"
proof (induction n rule: less_induct)
  case (less n)
  show ?case
  proof (cases "n < 10")
    case True
    then show ?thesis by (subst show_radix.simps) (simp add: plain_def digit_char_plain)
  next
    case False
    then have "n div 10 < n" by simp
    from less[OF this] False show ?thesis by (subst show_radix.simps) (auto simp: plain_def digit_char_plain)
  qed
qed

lemma show_int_plain: "plain (show_int n)"
  using show_radix_plain by (auto simp: show_int_def plain_def is_ws_def)

lemma kernel_spelling_plain:
  assumes "p \<in> set KERNEL_PARAMS" "place (compare p) v = Some (n, w)" shows "plain w"
proof -
  have ranked: "plain w" if "rank_from 0 order v = Some (n, w)" "list_all (\<lambda>g. plain (hd g)) order" for order
    using rank_from_Some[OF that(1)] that(2) by (auto simp: list_all_length)
  have "list_all (\<lambda>g. plain (hd g)) SUID_DUMPABLE_ORDER" "list_all (\<lambda>g. plain (hd g)) RP_FILTER_ORDER"
    by (simp_all add: SUID_DUMPABLE_ORDER_def RP_FILTER_ORDER_def plain_def is_ws_def)
  then show ?thesis using kernel_compare[OF assms(1)] assms(2) ranked show_int_plain by auto
qed


lemma kernel_violates_iff:
  "place (compare p) t = Some (n, w) \<Longrightarrow>
     kernel_violates p t current \<longleftrightarrow> (\<forall>m u. Option.bind current (place (compare p)) = Some (m, u) \<longrightarrow> m < n)"
  by (auto simp: kernel_violates_def violated_by_def split: option.splits)

text \<open>The two \<open>expect\<close>s of the source cannot fail on a table entry: both targets can be placed.\<close>

lemma clamp_to_host_placed:
  assumes "p \<in> set KERNEL_PARAMS" "place (compare p) target = Some (b, u)"
  obtains n where "place (compare p) (clamp_to_host p target observed) = Some (n, clamp_to_host p target observed)"
    "b \<le> n" "\<And>v m w. observed = Some v \<Longrightarrow> place (compare p) v = Some (m, w) \<Longrightarrow> m \<le> n"
proof -
  have "wf_strictness (compare p)" using kernel_sound[OF assms(1)] by simp
  then obtain t n where "clamp_target (compare p) target observed = Some t" "place (compare p) t = Some (n, t)" "b \<le> n"
    "\<And>v m w. observed = Some v \<Longrightarrow> place (compare p) v = Some (m, w) \<Longrightarrow> m \<le> n"
    using assms(2) by (rule clamp_target_placed) blast
  then show thesis using that[of n] by (simp add: clamp_to_host_def)
qed

lemma kernel_target_placed:
  assumes "p \<in> set KERNEL_PARAMS"
  obtains n where "place (compare p) (kernel_target p config) = Some (n, kernel_target p config)"
  using resolved_target_placed[OF kernel_sound[OF assms], of config] by (metis kernel_target_def option.simps(5))

lemma kernel_never_panics:
  assumes "p \<in> set KERNEL_PARAMS"
  shows "resolved_target (compare p) config (directive_name p) (secure_value p) \<noteq> None"
    and "clamp_target (compare p) (kernel_target p config) observed \<noteq> None"
    and "violated_by (compare p) (clamp_to_host p (kernel_target p config) observed) current \<noteq> None"
proof -
  obtain n where t: "place (compare p) (kernel_target p config) = Some (n, kernel_target p config)"
    using kernel_target_placed[OF assms] .
  show "resolved_target (compare p) config (directive_name p) (secure_value p) \<noteq> None"
    using kernel_sound[OF assms] by (auto simp: resolved_target_def clamp_target_def split: prod.splits)
  show "clamp_target (compare p) (kernel_target p config) observed \<noteq> None"
    using t by (simp add: clamp_target_def)
  show "violated_by (compare p) (clamp_to_host p (kernel_target p config) observed) current \<noteq> None"
    by (rule clamp_to_host_placed[OF assms t, of observed]) (simp add: violated_by_def)
qed

lemma plan_Setting:
  assumes "p \<in> set KERNEL_PARAMS" "plan_parameter cal today p config observed = Setting t"
  obtains b n where "place (compare p) (kernel_target p config) = Some (b, kernel_target p config)"
    "place (compare p) t = Some (n, t)" "plain t" "b \<le> n"
    "\<And>v m w. observed = Some v \<Longrightarrow> place (compare p) v = Some (m, w) \<Longrightarrow> m \<le> n"
proof -
  obtain b where b: "place (compare p) (kernel_target p config) = Some (b, kernel_target p config)"
    using kernel_target_placed[OF assms(1)] .
  have "t = clamp_to_host p (kernel_target p config) observed"
    using assms(2) by (auto simp: plan_parameter_def split: option.splits)
  with clamp_to_host_placed[OF assms(1) b, of observed] kernel_spelling_plain[OF assms(1)] b that
  show thesis by metis
qed

subsection \<open>What an apply does to each parameter\<close>

lemma apply_parameters_changes:
  "apply_parameters cal today ex config acc h ps = (acc', h') \<Longrightarrow>
     \<exists>cs. progress_changes acc' = progress_changes acc @ cs"
proof (induction ps arbitrary: acc h)
  case (Cons p ps)
  then show ?case
    by (auto simp: Let_def split: planned_parameter.splits if_splits prod.splits sum.splits) fastforce+
qed simp

text \<open>
  The effect on one parameter: excepted or at its target already, it is as before; otherwise it reads
  as the planned value, unless its write failed, which \<open>ok\<close> excludes.
\<close>

definition parameter_effect ::
  "'d::linorder calendar \<Rightarrow> 'd \<Rightarrow> 'h executor \<Rightarrow> plugin_config \<Rightarrow> bool \<Rightarrow> 'h \<Rightarrow> 'h \<Rightarrow> secure_directive \<Rightarrow> bool" where
  "parameter_effect cal today ex config ok h h' p =
     (let path = proc_path (directive_name p); observed = result_ok (read_sysctl ex h (directive_name p));
          same = (read_file ex h' path = read_file ex h path)
      in case plan_parameter cal today p config observed of
           Excepted _ _ \<Rightarrow> same
         | Setting t \<Rightarrow>
             if kernel_violates p t observed
             then (\<forall>c. read_file ex h' path = Inr c \<longrightarrow> trim c = trim t) \<or> (\<not> ok \<and> same) else same)"

lemma parameter_effect_cong:
  assumes "read_file ex h (proc_path (directive_name p)) = read_file ex k (proc_path (directive_name p))"
    "read_file ex h' (proc_path (directive_name p)) = read_file ex k' (proc_path (directive_name p))"
  shows "parameter_effect cal today ex config ok h h' p = parameter_effect cal today ex config ok k k' p"
  unfolding parameter_effect_def read_sysctl_def Let_def assms ..

context file_store begin

lemma apply_parameters_effect:
  assumes "distinct (map (\<lambda>p. proc_path (directive_name p)) ps)"
    and "apply_parameters cal today ex config acc h ps = (acc', h')"
  shows "(\<forall>path. path \<notin> (\<lambda>p. proc_path (directive_name p)) ` set ps \<longrightarrow> read_file ex h' path = read_file ex h path)
     \<and> (\<forall>p\<in>set ps. parameter_effect cal today ex config (list_all change_success (progress_changes acc')) h h' p)"
  using assms
proof (induction ps arbitrary: acc h)
  case (Cons p ps)
  let ?name = "directive_name p"
  let ?path = "proc_path ?name" and ?obs = "result_ok (read_sysctl ex h ?name)"
  let ?ok = "list_all change_success (progress_changes acc')"
  have new: "?path \<notin> (\<lambda>p. proc_path (directive_name p)) ` set ps" and dist: "distinct (map (\<lambda>p. proc_path (directive_name p)) ps)"
    using Cons.prems(1) by auto
  obtain acc1 h1 where rest: "apply_parameters cal today ex config acc1 h1 ps = (acc', h')"
    and others: "\<And>path. path \<noteq> ?path \<Longrightarrow> read_file ex h1 path = read_file ex h path"
    and here: "parameter_effect cal today ex config ?ok h h1 p"
  proof (cases "plan_parameter cal today p config ?obs")
    case (Excepted v why)
    then show thesis using Cons.prems(2) by (intro that) (auto simp: Let_def parameter_effect_def)
  next
    case (Setting t)
    show thesis
    proof (cases "kernel_violates p t ?obs")
      case False
      then show thesis using Setting Cons.prems(2) by (intro that) (auto simp: Let_def parameter_effect_def)
    next
      case True
      obtain r h1 where w: "write_file ex h ?path t = (r, h1)" by fastforce
      show thesis
      proof (cases r)
        case (Inr u)
        let ?acc1 = "acc\<lparr>progress_content := progress_content acc @ parameter_section p (Setting t), runtime_changed := True,
            progress_changes := progress_changes acc
              @ [change_of (directive_description p @ '': set to '' @ t) KernelParameter None]\<rparr>"
        have rest: "apply_parameters cal today ex config ?acc1 h1 ps = (acc', h')"
          using True Setting Cons.prems(2) w Inr by (simp add: Let_def)
        show thesis
          using True Setting w Inr write_reads write_others[OF w]
          by (intro that[OF rest]) (auto simp: Let_def parameter_effect_def)
      next
        case (Inl e)
        let ?acc1 = "acc\<lparr>progress_content := progress_content acc @ parameter_section p (Setting t),
            progress_changes := progress_changes acc
              @ [change_of (?name @ '': failed to set'') KernelParameter (Some (host_error_text e))]\<rparr>"
        have rest: "apply_parameters cal today ex config ?acc1 h1 ps = (acc', h')"
          using True Setting Cons.prems(2) w Inl by (simp add: Let_def)
        from apply_parameters_changes[OF rest] have "\<not> ?ok" by (auto simp: change_of_def)
        then show thesis
          using True Setting w Inl write_fails write_others[OF w]
          by (intro that[OF rest]) (auto simp: Let_def parameter_effect_def)
      qed
    qed
  qed
  note IH = Cons.IH[OF dist rest]
  have after: "read_file ex h' ?path = read_file ex h1 ?path" using IH new by blast
  have "parameter_effect cal today ex config ?ok h h' p"
    using here parameter_effect_cong[of ex h p h h1 h' cal today config ?ok] after by simp
  moreover have "parameter_effect cal today ex config ?ok h h' q" if q: "q \<in> set ps" for q
  proof -
    have "proc_path (directive_name q) \<in> (\<lambda>p. proc_path (directive_name p)) ` set ps" using q by (rule imageI)
    then have "proc_path (directive_name q) \<noteq> ?path" using new by metis
    then have "read_file ex h (proc_path (directive_name q)) = read_file ex h1 (proc_path (directive_name q))"
      using others by simp
    from parameter_effect_cong[OF this, of h' h' cal today config ?ok] show ?thesis using IH q by simp
  qed
  moreover have "read_file ex h' path = read_file ex h path"
    if "path \<notin> (\<lambda>p. proc_path (directive_name p)) ` set (p # ps)" for path
    using that IH others by simp
  ultimately show ?case by simp
qed simp

end


text \<open>Every parameter has a file of its own, and the persistent file is none of them.\<close>

lemma kernel_paths_distinct: "distinct (map (\<lambda>p. proc_path (directive_name p)) KERNEL_PARAMS)"
  by code_simp

lemma proc_path_not_conf: "proc_path name \<noteq> SYSCTL_HARDENER_CONF"
  by (simp add: proc_path_def SYSCTL_HARDENER_CONF_def)

text \<open>A parameter the run had an effect on is no longer a live finding.\<close>

lemma effect_clean:
  assumes p: "p \<in> set KERNEL_PARAMS" and e: "parameter_effect cal today ex config True h h' p"
    and f: "f \<in> set (fst (assess_parameter cal today ex h' config p))"
  shows "is_policy_excepted f"
proof -
  let ?name = "directive_name p" and ?target = "kernel_target p config"
  let ?path = "proc_path ?name" and ?obs = "result_ok (read_sysctl ex h ?name)"
  obtain c where c: "read_file ex h' ?path = Inr c" and v: "kernel_violates p ?target (Some (trim c))"
    and fe: "finding_exception f = exception_outcome_for_value cal today config ?name (trim c)"
    using f by (auto simp: assess_parameter_def read_sysctl_def Let_def insecure_finding_def and_then_def
        split: sum.splits if_splits)
  show ?thesis
  proof (cases "plan_parameter cal today p config ?obs")
    case (Excepted u why)
    then have "read_file ex h ?path = Inr c" using e c by (simp add: parameter_effect_def Let_def)
    then have "\<exists>x. has_valid_exception cal today config ?name = Some x \<and> documented_value x = trim c"
      using Excepted by (auto simp: plan_parameter_def read_sysctl_def matching_exception_def split: option.splits if_splits)
    then show ?thesis
      using exception_outcome_with_applied[of cal today config ?name "Some (trim c)" "\<lambda>v observed. v = observed"]
      by (auto simp: is_policy_excepted_def fe exception_outcome_for_value_def split: exception_outcome.splits)
  next
    case (Setting t)
    obtain b n where t: "place (compare p) ?target = Some (b, ?target)" "place (compare p) t = Some (n, t)" "plain t" "b \<le> n"
      "\<And>v m w. ?obs = Some v \<Longrightarrow> place (compare p) v = Some (m, w) \<Longrightarrow> m \<le> n"
      using plan_Setting[OF p Setting] by metis
    have "\<exists>m w. place (compare p) (trim c) = Some (m, w) \<and> n \<le> m"
    proof (cases "kernel_violates p t ?obs")
      case True
      then have "trim c = trim t" using e c Setting by (simp add: parameter_effect_def Let_def)
      then show ?thesis using t(2) plain_trim[OF t(3)] by simp
    next
      case False
      then have "read_file ex h ?path = Inr c" using e c Setting by (simp add: parameter_effect_def Let_def)
      then have "?obs = Some (trim c)" by (simp add: read_sysctl_def)
      with False show ?thesis unfolding kernel_violates_iff[OF t(2)] by auto
    qed
    then have "\<not> kernel_violates p ?target (Some (trim c))" unfolding kernel_violates_iff[OF t(1)] using t(4) by auto
    with v show ?thesis by simp
  qed
qed

lemma kernel_apply_Inr:
  assumes "kernel_apply cal today ctx h db config = Some (Inr r, h', db')"
  obtains h0 acc h1 dir_error changes where
    "apply_parameters cal today (ctx_executor ctx) config (start_progress changes) h0 KERNEL_PARAMS = (acc, h1)"
    "snd (persist_parameters (ctx_executor ctx) h1 dir_error acc) = h'"
    "apply_success r \<Longrightarrow> list_all change_success (progress_changes acc)"
proof -
  let ?ex = "ctx_executor ctx"
  obtain dir_error ha where d: "ensure_plugin_directory ?ex h SYSCTL_DROPIN_DIR = (dir_error, ha)" by fastforce
  from assms d obtain cid hb where c: "create_checkpoint_for_apply ctx ha db ''kernel-hardening-pre-apply''
      [LEGACY_SYSCTL_CONF, SYSCTL_DROPIN_DIR, SYSCTL_HARDENER_CONF] = Some (Inr cid, hb, db')"
    by (auto simp: kernel_apply_def Let_def split: option.splits sum.splits prod.splits)
  let ?cs = "case checkpoint_change cid of Some c \<Rightarrow> [c] | None \<Rightarrow> []"
  obtain acc h1 where a: "apply_parameters cal today ?ex config (start_progress ?cs) hb KERNEL_PARAMS = (acc, h1)" by fastforce
  obtain persisted h2 where p: "persist_parameters ?ex h1 dir_error acc = (persisted, h2)" by fastforce
  from assms d c a p have "h2 = h'" "apply_success r \<Longrightarrow> list_all change_success (progress_changes acc)"
    by (auto simp: kernel_apply_def Let_def)
  then show thesis using that[OF a, of dir_error] p by simp
qed


context file_store begin

lemma persist_leaves_others:
  assumes "path \<noteq> SYSCTL_HARDENER_CONF"
  shows "read_file ex (snd (persist_parameters ex h dir_error acc)) path = read_file ex h path"
  using write_others[of h SYSCTL_HARDENER_CONF "progress_content acc" _ _ path] assms
  by (auto simp: persist_parameters_def map_err_def split: option.splits prod.splits sum.splits)

end

subsection \<open>Properties of apply\<close>

text \<open>On the mock host every write succeeds, and no file that could be read stops being readable.\<close>

lemma mock_apply:
  "apply_parameters cal today (mock_executor r d) config acc h ps = (acc', h') \<Longrightarrow>
     (list_all change_success (progress_changes acc) \<longrightarrow> list_all change_success (progress_changes acc'))
     \<and> read_permission_denied h' = read_permission_denied h \<and> (\<forall>path. files h path \<noteq> None \<longrightarrow> files h' path \<noteq> None)"
proof (induction ps arbitrary: acc h)
  case (Cons p ps)
  from Cons.prems show ?case
    by (auto simp: Let_def mock_write_file_def with_file_def change_of_def split: planned_parameter.splits if_splits
        dest!: Cons.IH)
qed simp

definition sample_calendar :: "nat calendar" where
  "sample_calendar = \<lparr>parse_iso_date = (\<lambda>_. None), checked_add_months = (\<lambda>d n. Some (d + n))\<rparr>"

definition sample_kernel_host :: mock_host where
  "sample_kernel_host = with_file ''/proc/sys/kernel/kptr_restrict'' ''1'' (with_directory SYSCTL_DROPIN_DIR new_mock)"

lemma sample_kernel_apply:
  "\<exists>r h' db'. kernel_apply sample_calendar 0 \<lparr>ctx_executor = mock_executor False ''sample'', ctx_manager = None\<rparr>
      sample_kernel_host empty_database default_plugin_config = Some (Inr r, h', db') \<and> apply_success r"
proof -
  let ?ex = "mock_executor False ''sample''"
  have dir: "ensure_plugin_directory ?ex sample_kernel_host SYSCTL_DROPIN_DIR = (None, sample_kernel_host)"
    by (simp add: ensure_plugin_directory_def sample_kernel_host_def mock_path_exists_def new_mock_def with_file_def
        with_directory_def directory_metadata_def SYSCTL_DROPIN_DIR_def update_conv')
  obtain acc h' where a: "apply_parameters sample_calendar 0 ?ex default_plugin_config (start_progress [])
      sample_kernel_host KERNEL_PARAMS = (acc, h')" by fastforce
  have "list_all change_success (progress_changes acc)"
    using mock_apply[OF a] by (simp add: start_progress_def)
  then show ?thesis using a
    by (auto simp: kernel_apply_def Let_def dir create_checkpoint_for_apply_def checkpoint_change_def
        persist_parameters_def mock_write_file_def change_of_def map_err_def)
qed



text \<open>
  C5. An apply never loosens: whatever a run does and however it ends, a parameter that held a value the
  comparison understands and can still be read holds one at least as strict.
\<close>

theorem apply_never_loosens:
  assumes "file_store ex" "apply_parameters cal today ex config acc h KERNEL_PARAMS = (acc', h')"
    and "p \<in> set KERNEL_PARAMS" "read_sysctl ex h (directive_name p) = Inr before"
    and "place (compare p) before \<noteq> None" "read_sysctl ex h' (directive_name p) = Inr now"
  shows "violated_by (compare p) before (Some now) = Some False"
proof -
  let ?path = "proc_path (directive_name p)"
  obtain m u where m: "place (compare p) before = Some (m, u)" using assms(5) by auto
  obtain c where c: "read_file ex h' ?path = Inr c" "now = trim c"
    using assms(6) by (auto simp: read_sysctl_def and_then_eq_Inr)
  obtain c0 where c0: "read_file ex h ?path = Inr c0" "before = trim c0"
    using assms(4) by (auto simp: read_sysctl_def and_then_eq_Inr)
  have obs: "result_ok (read_sysctl ex h (directive_name p)) = Some before" using assms(4) by simp
  have e: "parameter_effect cal today ex config (list_all change_success (progress_changes acc')) h h' p"
    using file_store.apply_parameters_effect[OF assms(1) kernel_paths_distinct assms(2)] assms(3) by blast
  have "\<exists>n w. place (compare p) now = Some (n, w) \<and> m \<le> n"
  proof (cases "read_file ex h' ?path = read_file ex h ?path")
    case True
    then show ?thesis using c c0 m by simp
  next
    case False
    then obtain t where t: "plan_parameter cal today p config (Some before) = Setting t" "trim c = trim t"
      using e c obs by (auto simp: parameter_effect_def Let_def split: planned_parameter.splits if_splits)
    obtain b n where "place (compare p) t = Some (n, t)" "plain t" "m \<le> n"
      using plan_Setting[OF assms(3) t(1)] m by metis
    then show ?thesis using c(2) t(2) plain_trim by auto
  qed
  then show ?thesis using m by (auto simp: violated_by_def)
qed

theorem apply_never_loosens_witness:
  "\<exists>h' now. read_sysctl (mock_executor False ''sample'') h' ''kernel.kptr_restrict'' = Inr now
     \<and> violated_by AtLeast ''1'' (Some now) = Some False"
proof -
  let ?ex = "mock_executor False ''sample''" and ?name = "''kernel.kptr_restrict''"
  obtain acc h' where a: "apply_parameters sample_calendar 0 ?ex default_plugin_config (start_progress [])
      sample_kernel_host KERNEL_PARAMS = (acc, h')" by fastforce
  have path: "proc_path ?name = ''/proc/sys/kernel/kptr_restrict''"
    by code_simp
  have before: "read_sysctl ?ex sample_kernel_host ?name = Inr ''1''"
    by (simp add: read_sysctl_def path sample_kernel_host_def mock_read_file_def with_file_def with_directory_def
        new_mock_def and_then_def trim_eq_self is_ws_def)
  have "files h' ''/proc/sys/kernel/kptr_restrict'' \<noteq> None" "read_permission_denied h' = []"
    using mock_apply[OF a] by (auto simp: sample_kernel_host_def with_file_def with_directory_def new_mock_def)
  then obtain now where now: "read_sysctl ?ex h' ?name = Inr now"
    by (auto simp: read_sysctl_def path mock_read_file_def and_then_def)
  have p: "KERNEL_PARAMS ! 1 \<in> set KERNEL_PARAMS" "directive_name (KERNEL_PARAMS ! 1) = ?name"
    "compare (KERNEL_PARAMS ! 1) = AtLeast"
    by (simp_all add: KERNEL_PARAMS_def secure_directive_of_def)
  have placed: "place AtLeast ''1'' \<noteq> None"
    by (simp add: parse_i64_def parse_unsigned_def digit_value_def i64_min_def)
  have "violated_by AtLeast ''1'' (Some now) = Some False"
    using apply_never_loosens[OF mock_file_store a p(1), of "''1''" now] unfolding p(2,3) using before now placed by simp
  with now show ?thesis by (intro exI conjI)
qed

end
