(* ===== verification/Kernel_Boot.thy ===== *)
theory Kernel_Boot
  imports Kernel_Plugin Text_Lines
begin

text \<open>
  What the kernel plugin persists and what the next boot reads: the file \<open>apply\<close> writes is read back by
  the same parser the boot scan uses, \<open>validate\<close> predicts that file, and the glob test is exact.
\<close>

subsection \<open>Reading line by line\<close>

definition parse_from :: "sysctl_assignments \<Rightarrow> string \<Rightarrow> sysctl_assignments" where
  "parse_from st s = foldl parse_sysctl_line st (split_inclusive s)"

lemma parse_sysctl_line_trim: "parse_sysctl_line st (trim l) = parse_sysctl_line st l"
  by (simp add: parse_sysctl_line_def)

lemma foldl_trim: "foldl parse_sysctl_line st (map trim ls) = foldl parse_sysctl_line st ls"
  by (induction ls arbitrary: st) (simp_all add: parse_sysctl_line_trim)

lemma parse_sysctl_from: "parse_sysctl s = parse_from no_assignments s"
  unfolding parse_sysctl_def parse_from_def
  by (subst (1 2) foldl_trim[symmetric]) (simp add: map_trim_str_lines)

lemma parse_from_Nil [simp]: "parse_from st [] = st"
  by (simp add: parse_from_def)

lemma parse_from_line:
  assumes "nl \<notin> set l"
  shows "parse_from st (l @ nl # r) = parse_from (parse_sysctl_line st l) r"
proof -
  have "split_inclusive ((l @ [nl]) @ r) = (l @ [nl]) # split_inclusive r"
    by (rule split_inclusive_line) (use assms in \<open>auto simp: is_line_def terminated_def\<close>)
  moreover have "parse_sysctl_line st (l @ [nl]) = parse_sysctl_line st l"
    using trim_append_ws[of "[nl]" l] by (simp add: parse_sysctl_line_def is_ws_def)
  ultimately show ?thesis by (simp add: parse_from_def)
qed

lemma trim_hash: "\<exists>r. trim (CHR ''#'' # s) = CHR ''#'' # r"
proof -
  have "trim_start (CHR ''#'' # s) = CHR ''#'' # s" by (rule trim_start_eq_self) (simp add: is_ws_def)
  moreover have "trim_end (CHR ''#'' # s) \<noteq> []" by (auto simp: trim_end_Nil_iff is_ws_def)
  ultimately show ?thesis
    using trim_end_hd[of "CHR ''#'' # s"] by (cases "trim_end (CHR ''#'' # s)") (auto simp: trim_def)
qed

lemma comment_line: "parse_sysctl_line st (CHR ''#'' # s) = st"
proof -
  obtain r where "trim (CHR ''#'' # s) = CHR ''#'' # r" using trim_hash by metis
  then show ?thesis by (simp add: parse_sysctl_line_def starts_with_def)
qed

lemma blank_line: "parse_sysctl_line st [] = st"
  by (simp add: parse_sysctl_line_def trim_def trim_start_def trim_end_def)

text \<open>A name the file may set.\<close>

definition sysctl_name :: "string \<Rightarrow> bool" where
  "sysctl_name k = (plain k \<and> hd k \<notin> {CHR ''#'', CHR '';'', CHR ''-''} \<and> CHR ''='' \<notin> set k \<and> \<not> is_glob_key k)"

lemma kernel_names: "p \<in> set KERNEL_PARAMS \<Longrightarrow> sysctl_name (directive_name p) \<and> nl \<notin> set (directive_description p)"
proof -
  have "list_all (\<lambda>p. sysctl_name (directive_name p) \<and> nl \<notin> set (directive_description p)) KERNEL_PARAMS"
    by (simp add: KERNEL_PARAMS_def secure_directive_of_def sysctl_name_def plain_def is_glob_key_def is_ws_def)
  then show "p \<in> set KERNEL_PARAMS \<Longrightarrow> sysctl_name (directive_name p) \<and> nl \<notin> set (directive_description p)"
    by (simp add: list_all_iff)
qed

lemma split_once_here: "c \<notin> set k \<Longrightarrow> split_once c (k @ c # v) = Some (k, v)"
proof -
  assume "c \<notin> set k"
  then have "dropWhile (\<lambda>x. x \<noteq> c) (k @ c # v) = c # v" "takeWhile (\<lambda>x. x \<noteq> c) (k @ c # v) = k"
    by (auto simp: dropWhile_append takeWhile_append)
  then show ?thesis by (simp add: split_once_def)
qed

lemma plain_ends: "plain k \<Longrightarrow> k \<noteq> [] \<and> \<not> is_ws (hd k) \<and> \<not> is_ws (last k)"
  by (auto simp: plain_def)

lemma starts_with_single: "starts_with [c] s \<longleftrightarrow> s \<noteq> [] \<and> hd s = c"
  by (cases s) (auto simp: starts_with_def)

lemma setting_line:
  assumes k: "sysctl_name k" and v: "plain v"
  shows "parse_sysctl_line st (k @ '' = '' @ v) = st\<lparr>sysctl_values := (sysctl_values st)(procfs_key k \<mapsto> v)\<rparr>"
proof -
  have pk: "plain k" using k by (simp add: sysctl_name_def)
  have line: "trim (k @ '' = '' @ v) = k @ '' = '' @ v"
    using plain_ends[OF pk] plain_ends[OF v] by (intro trim_eq_self) auto
  have eq: "split_once (CHR ''='') (k @ '' = '' @ v) = Some (k @ '' '', CHR '' '' # v)"
    using split_once_here[of "CHR ''=''" "k @ '' ''" "CHR '' '' # v"] k by (simp add: sysctl_name_def)
  have key: "trim (k @ '' '') = k"
    using trim_append_ws[of "'' ''" k] plain_trim[OF pk] by (simp add: is_ws_def)
  have val: "trim (CHR '' '' # v) = v"
    using plain_trim[OF v] by (simp add: trim_def trim_start_def is_ws_def)
  have dash: "strip_prefix ''-'' k = None"
    using k by (auto simp: strip_prefix_def starts_with_single sysctl_name_def)
  have "k \<noteq> []" "hd k \<noteq> CHR ''#''" "hd k \<noteq> CHR '';''" "\<not> is_glob_key k"
    using k plain_ends[OF pk] by (auto simp: sysctl_name_def)
  then show ?thesis
    by (simp add: parse_sysctl_line_def line[simplified] starts_with_single eq[simplified] key val dash plain_trim[OF pk])
qed

lemma plain_one_line: "plain w \<Longrightarrow> nl \<notin> set w"
  by (auto simp: plain_def is_ws_def)

text \<open>What one section of the file assigns.\<close>

lemma parse_section:
  assumes "sysctl_name (directive_name p)" "nl \<notin> set (directive_description p)"
    and "\<And>v why. planned = Excepted v why \<Longrightarrow> nl \<notin> set why" "\<And>t. planned = Setting t \<Longrightarrow> plain t"
  shows "parse_from st (parameter_section p planned @ r) = parse_from
     (case planned of Excepted _ _ \<Rightarrow> st
      | Setting t \<Rightarrow> st\<lparr>sysctl_values := (sysctl_values st)(procfs_key (directive_name p) \<mapsto> t)\<rparr>) r"
proof -
  have name: "nl \<notin> set (directive_name p)"
    using assms(1) plain_one_line by (auto simp: sysctl_name_def)
  have blank: "parse_from st (nl # r) = parse_from st r" for st r
    using parse_from_line[of "[]" st r] by (simp add: blank_line)
  show ?thesis
  proof (cases planned)
    case (Excepted v why)
    let ?l = "''# '' @ directive_name p @ '': SKIPPED (exception: '' @ why @ '')''"
    have "nl \<notin> set ?l" using name assms(3)[OF Excepted] by simp
    from parse_from_line[OF this, of st "nl # r"] Excepted show ?thesis
      by (simp add: parameter_section_def comment_line blank)
  next
    case (Setting t)
    let ?c = "''# '' @ directive_description p" and ?l = "directive_name p @ '' = '' @ t"
    have c: "nl \<notin> set ?c" using assms(2) by simp
    have l: "nl \<notin> set ?l" using name plain_one_line[OF assms(4)[OF Setting]] by simp
    from parse_from_line[OF c, of st "?l @ nl # nl # r"] parse_from_line[OF l, of st "nl # r"] Setting
      setting_line[OF assms(1) assms(4)[OF Setting], of st]
    show ?thesis by (simp add: parameter_section_def comment_line blank)
  qed
qed

lemma parse_header: "parse_from st (SYSCTL_CONFIG_HEADER @ r) = parse_from st r"
  using parse_from_line[of "''# Kernel hardening settings applied by Linux Hardener''" st
      "''# This file is managed automatically - manual edits will be overwritten'' @ nl # nl # r"]
    parse_from_line[of "''# This file is managed automatically - manual edits will be overwritten''" st "nl # r"]
    parse_from_line[of "[]" st r]
  by (simp add: SYSCTL_CONFIG_HEADER_def comment_line blank_line)

definition planned_assignment ::
  "(secure_directive \<Rightarrow> planned_parameter) \<Rightarrow> secure_directive \<Rightarrow> string option" where
  "planned_assignment plan p = (case plan p of Excepted _ _ \<Rightarrow> None | Setting t \<Rightarrow> Some t)"

lemma parse_sections:
  assumes "\<forall>p\<in>set ps. sysctl_name (directive_name p) \<and> nl \<notin> set (directive_description p)
       \<and> (\<forall>v why. plan p = Excepted v why \<longrightarrow> nl \<notin> set why) \<and> (\<forall>t. plan p = Setting t \<longrightarrow> plain t)"
    and "distinct (map (\<lambda>p. procfs_key (directive_name p)) ps)"
  shows "glob_patterns (parse_from st (concat (map (\<lambda>p. parameter_section p (plan p)) ps))) = glob_patterns st
     \<and> (\<forall>p\<in>set ps. planned_assignment plan p \<noteq> None \<or> sysctl_values st (procfs_key (directive_name p)) = None \<longrightarrow>
          sysctl_values (parse_from st (concat (map (\<lambda>p. parameter_section p (plan p)) ps))) (procfs_key (directive_name p))
            = planned_assignment plan p)
     \<and> (\<forall>k. k \<notin> (\<lambda>p. procfs_key (directive_name p)) ` set ps \<longrightarrow>
          sysctl_values (parse_from st (concat (map (\<lambda>p. parameter_section p (plan p)) ps))) k = sysctl_values st k)"
  using assms
proof (induction ps arbitrary: st)
  case (Cons p ps)
  let ?k = "procfs_key (directive_name p)"
  let ?st = "case plan p of Excepted _ _ \<Rightarrow> st
      | Setting t \<Rightarrow> st\<lparr>sysctl_values := (sysctl_values st)(?k \<mapsto> t)\<rparr>"
  have step: "parse_from st (concat (map (\<lambda>p. parameter_section p (plan p)) (p # ps)))
      = parse_from ?st (concat (map (\<lambda>p. parameter_section p (plan p)) ps))"
    using parse_section[of p "plan p" st] Cons.prems(1) by simp
  have new: "?k \<notin> (\<lambda>p. procfs_key (directive_name p)) ` set ps" using Cons.prems(2) by simp
  have dist: "distinct (map (\<lambda>p. procfs_key (directive_name p)) ps)" using Cons.prems(2) by simp
  have "\<forall>p\<in>set ps. sysctl_name (directive_name p) \<and> nl \<notin> set (directive_description p)
       \<and> (\<forall>v why. plan p = Excepted v why \<longrightarrow> nl \<notin> set why) \<and> (\<forall>t. plan p = Setting t \<longrightarrow> plain t)"
    using Cons.prems(1) by simp
  note IH = Cons.IH[OF this dist, of ?st]
  have g: "glob_patterns ?st = glob_patterns st" by (simp split: planned_parameter.splits)
  have same: "k \<noteq> ?k \<Longrightarrow> sysctl_values ?st k = sysctl_values st k" for k
    by (simp split: planned_parameter.splits)
  have here: "planned_assignment plan p \<noteq> None \<or> sysctl_values st ?k = None \<Longrightarrow> sysctl_values ?st ?k = planned_assignment plan p"
    by (auto simp: planned_assignment_def split: planned_parameter.splits)
  have others: "procfs_key (directive_name q) \<noteq> ?k" if "q \<in> set ps" for q
    using new that by (metis imageI)
  show ?case
    unfolding step using IH g same here new others by (intro conjI ballI allI impI) (auto split: if_splits)
qed simp

subsection \<open>The content of the persistent file\<close>

text \<open>The plan of a run, from the values the host held when it began.\<close>

definition kernel_plan ::
  "'d::linorder calendar \<Rightarrow> 'd \<Rightarrow> ('h, 'z) executor_scheme \<Rightarrow> 'h \<Rightarrow> plugin_config \<Rightarrow> secure_directive \<Rightarrow> planned_parameter" where
  "kernel_plan cal today ex h config p =
     plan_parameter cal today p config (result_ok (read_sysctl ex h (directive_name p)))"

definition kernel_content ::
  "'d::linorder calendar \<Rightarrow> 'd \<Rightarrow> ('h, 'z) executor_scheme \<Rightarrow> 'h \<Rightarrow> plugin_config \<Rightarrow> secure_directive list \<Rightarrow> string" where
  "kernel_content cal today ex h config ps = concat (map (\<lambda>p. parameter_section p (kernel_plan cal today ex h config p)) ps)"

lemma kernel_content_cong:
  assumes "\<And>p. p \<in> set ps \<Longrightarrow> read_file ex h (proc_path (directive_name p)) = read_file ex h' (proc_path (directive_name p))"
  shows "kernel_content cal today ex h config ps = kernel_content cal today ex h' config ps"
  unfolding kernel_content_def kernel_plan_def read_sysctl_def using assms by (simp cong: map_cong)

context file_store begin

lemma apply_content:
  assumes "distinct (map (\<lambda>p. proc_path (directive_name p)) ps)"
    and "apply_parameters cal today ex config acc h ps = (acc', h')"
  shows "progress_content acc' = progress_content acc @ kernel_content cal today ex h config ps"
  using assms
proof (induction ps arbitrary: acc h)
  case (Cons p ps)
  let ?path = "proc_path (directive_name p)" and ?plan = "kernel_plan cal today ex h config p"
  have dist: "distinct (map (\<lambda>p. proc_path (directive_name p)) ps)"
    and new: "\<And>q. q \<in> set ps \<Longrightarrow> proc_path (directive_name q) \<noteq> ?path"
    using Cons.prems(1) by (auto simp: image_iff)
  obtain acc1 h1 where rest: "apply_parameters cal today ex config acc1 h1 ps = (acc', h')"
    and c: "progress_content acc1 = progress_content acc @ parameter_section p ?plan"
    and others: "\<And>path. path \<noteq> ?path \<Longrightarrow> read_file ex h1 path = read_file ex h path"
    using Cons.prems(2)
    by (auto simp: Let_def kernel_plan_def write_others split: planned_parameter.splits if_splits prod.splits sum.splits)
  have "kernel_content cal today ex h1 config ps = kernel_content cal today ex h config ps"
    by (rule kernel_content_cong) (use others new in auto)
  with Cons.IH[OF dist rest] c show ?case by (simp add: kernel_content_def)
qed (simp add: kernel_content_def)

end

text \<open>Probing a mount (the only command a preview runs) changes no file.\<close>

definition quiet_commands :: "('h, 'z) executor_scheme \<Rightarrow> bool" where
  "quiet_commands ex = (\<forall>program args h. read_file ex (snd (execute_command ex h program args)) = read_file ex h)"

lemma quiet_mount: "quiet_commands ex \<Longrightarrow> mount_is_read_only ex h path = (b, h1) \<Longrightarrow> read_file ex h1 = read_file ex h"
  unfolding quiet_commands_def mount_is_read_only_def Let_def
  by (auto split: prod.splits sum.splits) (metis snd_conv)+

lemma preview_content:
  assumes "quiet_commands ex"
    and "preview_parameters cal today ex config acc h ps = (acc', h')"
  shows "preview_content acc' = preview_content acc @ kernel_content cal today ex h config ps \<and> read_file ex h' = read_file ex h"
  using assms(2)
proof (induction ps arbitrary: acc h)
  case (Cons p ps)
  note mount = quiet_mount[OF assms(1), of h]
  obtain acc1 h1 where rest: "preview_parameters cal today ex config acc1 h1 ps = (acc', h')"
    and c: "preview_content acc1 = preview_content acc @ parameter_section p (kernel_plan cal today ex h config p)"
    and same: "read_file ex h1 = read_file ex h"
    using Cons.prems mount
    by (auto simp: Let_def kernel_plan_def split: planned_parameter.splits if_splits prod.splits sum.splits)
  have "kernel_content cal today ex h1 config ps = kernel_content cal today ex h config ps"
    by (rule kernel_content_cong) (simp add: same)
  with Cons.IH[OF rest] c same show ?case by (simp add: kernel_content_def)
qed (simp add: kernel_content_def)

text \<open>A parameter the run leaves alone: excepted, or at its target already.\<close>

definition settled ::
  "'d::linorder calendar \<Rightarrow> 'd \<Rightarrow> ('h, 'z) executor_scheme \<Rightarrow> 'h \<Rightarrow> plugin_config \<Rightarrow> secure_directive \<Rightarrow> bool" where
  "settled cal today ex h config p =
     (case kernel_plan cal today ex h config p of
        Excepted _ _ \<Rightarrow> True
      | Setting t \<Rightarrow> \<not> kernel_violates p t (result_ok (read_sysctl ex h (directive_name p))))"

lemma settled_cong:
  assumes "read_file ex h = read_file ex h'"
  shows "settled cal today ex h config p = settled cal today ex h' config p"
  unfolding settled_def kernel_plan_def read_sysctl_def assms ..

lemma preview_quiet:
  assumes "preview_parameters cal today ex config acc h ps = (acc', h')" "preview_issues acc' = []" "\<not> runtime_will_change acc'"
  shows "preview_issues acc = [] \<and> \<not> runtime_will_change acc"
  using assms
proof (induction ps arbitrary: acc h)
  case (Cons p ps)
  note IH = Cons.IH[OF _ Cons.prems(2,3)]
  from Cons.prems(1) show ?case
    by (auto simp: Let_def split: planned_parameter.splits if_splits prod.splits sum.splits dest!: IH)
qed simp

lemma preview_settled:
  assumes "quiet_commands ex"
    and "preview_parameters cal today ex config acc h ps = (acc', h')" "preview_issues acc' = []" "\<not> runtime_will_change acc'"
  shows "preview_issues acc = [] \<and> \<not> runtime_will_change acc \<and> preview_changes acc' = preview_changes acc
     \<and> (\<forall>p\<in>set ps. settled cal today ex h config p)"
  using assms(2)
proof (induction ps arbitrary: acc h)
  case (Cons p ps)
  note quiet = preview_quiet[OF Cons.prems assms(3,4)]
  note mount = quiet_mount[OF assms(1), of h]
  obtain acc1 h1 where rest: "preview_parameters cal today ex config acc1 h1 ps = (acc', h')"
    and same: "read_file ex h1 = read_file ex h"
    and here: "preview_changes acc1 = preview_changes acc" "settled cal today ex h config p"
    using Cons.prems mount quiet
    by (auto simp: Let_def settled_def kernel_plan_def split: planned_parameter.splits if_splits prod.splits sum.splits
        dest!: preview_quiet[OF _ assms(3,4)] dest: that)
  note IH = Cons.IH[OF rest]
  have "settled cal today ex h1 config q = settled cal today ex h config q" for q
    by (rule settled_cong[OF same])
  then show ?case using IH here quiet by auto
qed (use assms(3,4) in auto)

lemma apply_settled:
  assumes "\<forall>p\<in>set ps. settled cal today ex h config p" "apply_parameters cal today ex config acc h ps = (acc', h')"
  shows "h' = h \<and> runtime_changed acc' = runtime_changed acc"
  using assms
proof (induction ps arbitrary: acc)
  case (Cons p ps)
  show ?case
  proof (cases "kernel_plan cal today ex h config p")
    case (Excepted v why)
    with Cons show ?thesis by (auto simp: kernel_plan_def Let_def)
  next
    case (Setting t)
    moreover have "\<not> kernel_violates p t (result_ok (read_sysctl ex h (directive_name p)))"
      using Cons.prems(1) Setting by (simp add: settled_def)
    ultimately show ?thesis using Cons by (auto simp: kernel_plan_def Let_def)
  qed
qed simp

text \<open>The glob test is the shared wildcard loop on tokens.\<close>

interpretation sysctl_glob: wildcard token_hit "\<lambda>t. t = Star" "\<lambda>_. True"
  by unfold_locales (auto elim: token_hit.elims)

subsection \<open>Properties\<close>

text \<open>
  C31. What is persisted is what was planned: reading the file an apply builds back with the boot scan's
  own parser gives each parameter exactly the value the plan sets, nothing for an excepted one, and no
  other key or pattern, provided no exception's reason holds a line break.
\<close>

theorem persisted_file_reads_back:
  assumes "file_store ex" "apply_parameters cal today ex config (start_progress changes) h KERNEL_PARAMS = (acc, h')"
    and "\<forall>key e. exceptions config key = Some e \<longrightarrow> nl \<notin> set (reason e)"
  shows "sysctl_values (parse_sysctl (progress_content acc)) =
      (\<lambda>k. case find (\<lambda>p. procfs_key (directive_name p) = k) KERNEL_PARAMS of
             None \<Rightarrow> None
           | Some p \<Rightarrow> planned_assignment (kernel_plan cal today ex h config) p)
     \<and> glob_patterns (parse_sysctl (progress_content acc)) = []"
proof -
  let ?plan = "kernel_plan cal today ex h config" and ?key = "\<lambda>p. procfs_key (directive_name p)"
  have content: "progress_content acc = SYSCTL_CONFIG_HEADER @ concat (map (\<lambda>p. parameter_section p (?plan p)) KERNEL_PARAMS)"
    using file_store.apply_content[OF assms(1) kernel_paths_distinct assms(2)]
    by (simp add: start_progress_def kernel_content_def)
  have "nl \<notin> set why" if "?plan p = Excepted v why" for p v why
    using that assms(3)
    by (auto simp: kernel_plan_def plan_parameter_def matching_exception_def has_valid_exception_def
        bind_eq_Some_conv split: option.splits if_splits)
  moreover have "plain t" if "p \<in> set KERNEL_PARAMS" "?plan p = Setting t" for p t
    using plan_Setting[OF that[unfolded kernel_plan_def]] by metis
  ultimately have ok: "\<forall>p\<in>set KERNEL_PARAMS. sysctl_name (directive_name p) \<and> nl \<notin> set (directive_description p)
       \<and> (\<forall>v why. ?plan p = Excepted v why \<longrightarrow> nl \<notin> set why) \<and> (\<forall>t. ?plan p = Setting t \<longrightarrow> plain t)"
    using kernel_names by blast
  have dist: "distinct (map ?key KERNEL_PARAMS)"
    using kernel_paths_distinct by (simp add: proc_path_def distinct_map inj_on_def)
  note sections = parse_sections[OF ok dist, of no_assignments]
  have parsed: "parse_sysctl (progress_content acc) =
      parse_from no_assignments (concat (map (\<lambda>p. parameter_section p (?plan p)) KERNEL_PARAMS))"
    unfolding content by (simp add: parse_sysctl_from parse_header)
  show ?thesis
  proof (rule conjI[OF ext])
    fix k
    show "sysctl_values (parse_sysctl (progress_content acc)) k = (case find (\<lambda>p. ?key p = k) KERNEL_PARAMS of
             None \<Rightarrow> None | Some p \<Rightarrow> planned_assignment ?plan p)"
    proof (cases "find (\<lambda>p. ?key p = k) KERNEL_PARAMS")
      case None
      then have "k \<notin> ?key ` set KERNEL_PARAMS" by (auto simp: find_None_iff)
      with None sections parsed show ?thesis by (simp add: no_assignments_def)
    next
      case (Some p)
      then have "p \<in> set KERNEL_PARAMS" "?key p = k" by (auto simp: find_Some_iff)
      with Some sections parsed show ?thesis by (auto simp: no_assignments_def)
    qed
  qed (use sections parsed in \<open>simp add: no_assignments_def\<close>)
qed

theorem persisted_file_reads_back_witness:
  "\<exists>acc h'. apply_parameters sample_calendar 0 (mock_executor False ''sample'') default_plugin_config
       (start_progress []) sample_kernel_host KERNEL_PARAMS = (acc, h')
     \<and> glob_patterns (parse_sysctl (progress_content acc)) = []"
proof -
  obtain acc h' where a: "apply_parameters sample_calendar 0 (mock_executor False ''sample'') default_plugin_config
      (start_progress []) sample_kernel_host KERNEL_PARAMS = (acc, h')" by fastforce
  from persisted_file_reads_back[OF mock_file_store a] a show ?thesis by (simp add: default_plugin_config_def)
qed


text \<open>A host where every parameter is under a documented exception.\<close>

definition blanket_exception :: policy_exception where
  "blanket_exception = \<lparr>documented_value = ''7'', allowed = True, reason = ''vendor default'', approved_by = None,
     approved_date = None, ticket = None, expires = None\<rparr>"

definition excepting_config :: plugin_config where
  "excepting_config = \<lparr>enabled = None, directives = Map.empty, exceptions = (\<lambda>_. Some blanket_exception)\<rparr>"

definition excepted_content :: string where
  "excepted_content =
     SYSCTL_CONFIG_HEADER @ concat (map (\<lambda>p. parameter_section p (Excepted ''7'' ''vendor default'')) KERNEL_PARAMS)"

definition excepted_host :: mock_host where
  "excepted_host = new_mock\<lparr>files := (\<lambda>path. Some (if path = SYSCTL_HARDENER_CONF then excepted_content else ''7''))\<rparr>"

lemma excepted_plan:
  "plan_parameter sample_calendar 0 p excepting_config
     (result_ok (read_sysctl (mock_executor False ''sample'') excepted_host name)) = Excepted ''7'' ''vendor default''"
  if "name = directive_name p"
  using that proc_path_not_conf[of name]
  by (simp add: plan_parameter_def read_sysctl_def mock_read_file_def excepted_host_def new_mock_def and_then_def
      trim_eq_self is_ws_def matching_exception_def has_valid_exception_def excepting_config_def blanket_exception_def
      exception_is_valid_def is_expired_def)

lemma excepted_preview:
  "preview_parameters sample_calendar 0 (mock_executor False ''sample'') excepting_config acc excepted_host ps = (acc', h')
   \<Longrightarrow> h' = excepted_host \<and> preview_issues acc' = preview_issues acc \<and> preview_changes acc' = preview_changes acc
     \<and> runtime_will_change acc' = runtime_will_change acc
     \<and> preview_content acc' = preview_content acc
         @ concat (map (\<lambda>p. parameter_section p (Excepted ''7'' ''vendor default'')) ps)"
proof (induction ps arbitrary: acc)
  case (Cons p ps)
  from Cons.prems show ?case by (auto simp: Let_def excepted_plan dest!: Cons.IH)
qed simp

lemma mock_quiet: "quiet_commands (mock_executor r d)"
  by (auto simp: quiet_commands_def mock_execute_command_def mock_read_file_def fun_eq_iff Let_def
      split: list.splits option.splits)


text \<open>The pattern test behind the boot divergence report ends on every pattern and key, and answers yes
  exactly when the pattern, each bracket expression read as any one character, covers the key.
\<close>

theorem glob_test_exact:
  "wildcard_loop token_hit (\<lambda>t. t = Star) (glob_tokens pattern) key 0 0 None 0 \<noteq> None
   \<and> glob_could_match pattern key = wildcard_spec token_hit (\<lambda>t. t = Star) (glob_tokens pattern) key"
  using sysctl_glob.loop_decides[of key "glob_tokens pattern"] by (simp add: glob_could_match_def)

end
