(* ===== verification/Ssh_Plugin.thy ===== *)
theory Ssh_Plugin
  imports Ssh_Include Kernel_Plugin
begin

text \<open>
  The SSH plugin: its helpers (\<open>crates/hardener-plugins/src/ssh/mod.rs\<close>), the scan (\<open>assess.rs\<close>), the apply
  (\<open>apply.rs\<close>) and the preview (\<open>validate.rs\<close>). The scan duration, the time stamp of a backup and the
  process id in the scratch name are arguments; the advisory lock and the log lines are left out. The
  arrow U+2192 of the preview lines is written \<open>->\<close>.
\<close>

subsection \<open>Helpers\<close>

definition SSH_PLUGIN_ID :: plugin_id where "SSH_PLUGIN_ID = ''ssh-hardening''"
definition SSHD_ADMIN_CONFIG_PATH :: string where "SSHD_ADMIN_CONFIG_PATH = ''/etc/ssh/sshd_config''"
definition SCRATCH_MODE :: string where "SCRATCH_MODE = ''600''"
definition PERMIT_ROOT_LOGIN :: string where "PERMIT_ROOT_LOGIN = ''PermitRootLogin''"

text \<open>\<open>{:#}\<close> of an \<open>anyhow\<close> error: the whole chain.\<close>

definition host_error_chain_text :: "host_error \<Rightarrow> string" where
  "host_error_chain_text e = join '': '' (map snd (error_chain e))"

definition supported_algorithms :: "('h, 'z) executor_scheme \<Rightarrow> 'h \<Rightarrow> string \<Rightarrow> string list \<times> 'h" where
  "supported_algorithms ex h query_arg =
     (case execute_command ex h ''ssh'' [''-Q'', query_arg] of
        (Inr out, h') \<Rightarrow>
          (if command_success out then filter (\<lambda>l. l \<noteq> []) (map trim (str_lines (stdout out))) else [], h')
      | (Inl _, h') \<Rightarrow> ([], h'))"

definition select_algorithms :: "string list \<Rightarrow> string list \<Rightarrow> string list" where
  "select_algorithms desired supported = filter (\<lambda>algo. algo \<in> set supported) desired"

definition sshd_validate_scratch_path :: "string \<Rightarrow> string" where
  "sshd_validate_scratch_path pid = ''/tmp/linux-hardener-sshd-validate-'' @ pid @ ''.conf''"

definition validate_sshd_config ::
  "string \<Rightarrow> ('h, 'z) executor_scheme \<Rightarrow> 'h \<Rightarrow> string \<Rightarrow> (hardening_error, unit) result \<times> 'h" where
  "validate_sshd_config pid ex h candidate =
     (let temp = sshd_validate_scratch_path pid in
      case write_file ex h temp candidate of
        (Inl e, h) \<Rightarrow>
          (Inl (PluginError (''Failed to write temp sshd_config for validation: '' @ host_error_chain_text e)), h)
      | (Inr _, h) \<Rightarrow>
          (case execute_command ex h ''chmod'' [SCRATCH_MODE, temp] of (_, h) \<Rightarrow>
          (case execute_command ex h ''sshd'' [''-t'', ''-f'', temp] of (checked, h) \<Rightarrow>
          (case execute_command ex h ''rm'' [''-f'', temp] of (_, h) \<Rightarrow>
             (case checked of
                Inr out \<Rightarrow>
                  if command_success out then Inr ()
                  else Inl (PluginError (''sshd -t rejected candidate config: '' @ trim (stderr out)))
              | Inl e \<Rightarrow> Inl (PluginError (''Failed to execute `sshd -t`: '' @ host_error_chain_text e)), h)))))"

text \<open>The \<open>expect\<close>s of the comparison cannot fail on a table entry (\<open>ssh_never_panics\<close> below), so the
  target, the comparison and the clamp are read without their option.\<close>

definition ssh_target :: "secure_directive \<Rightarrow> plugin_config \<Rightarrow> string" where
  "ssh_target d config =
     (case resolved_target (compare d) config (directive_name d) (secure_value d) of Some t \<Rightarrow> t | None \<Rightarrow> [])"

definition ssh_violates :: "secure_directive \<Rightarrow> string \<Rightarrow> string option \<Rightarrow> bool" where
  "ssh_violates d target current = (violated_by (compare d) target current = Some True)"

definition ssh_clamp :: "secure_directive \<Rightarrow> string \<Rightarrow> string option \<Rightarrow> string" where
  "ssh_clamp d target observed = (case clamp_target (compare d) target observed of Some t \<Rightarrow> t | None \<Rightarrow> [])"

definition observed_value :: "effective_value option \<Rightarrow> string" where
  "observed_value e = (case e of None \<Rightarrow> ''not set'' | Some e \<Rightarrow> effective_text e)"

definition is_remote_root_session :: "('h, 'z) executor_scheme \<Rightarrow> 'h \<Rightarrow> bool \<times> 'h" where
  "is_remote_root_session ex h = (if is_remote ex then session_is_root ex h else (False, h))"

definition algorithm_tokens :: "string \<Rightarrow> string list" where
  "algorithm_tokens v =
     filter (\<lambda>t. t \<noteq> []) (map trim (split_on (CHR '','') (map (\<lambda>c. if c = CHR '' '' then CHR '','' else c) v)))"

definition crypto_value_is_secure :: "string option \<Rightarrow> string list \<Rightarrow> bool" where
  "crypto_value_is_secure current desired =
     (case current of
        None \<Rightarrow> False
      | Some v \<Rightarrow> algorithm_tokens v \<noteq> [] \<and> list_all (\<lambda>t. t \<in> set desired) (algorithm_tokens v))"

definition backup_prefix :: "string \<Rightarrow> string" where
  "backup_prefix config_path = config_path @ ''.backup.''"

definition restart_ssh_service :: "('h, 'z) executor_scheme \<Rightarrow> 'h \<Rightarrow> (hardening_error, unit) result \<times> 'h" where
  "restart_ssh_service ex h =
     (let attempt = (\<lambda>unit_name h. case execute_command ex h ''service'' [unit_name, ''restart''] of
          (Inr out, h) \<Rightarrow>
            (if command_success out then None
             else Some (''`service '' @ unit_name @ '' restart`: '' @ stderr out), h)
        | (Inl e, h) \<Rightarrow> (Some (''`service '' @ unit_name @ '' restart`: '' @ host_error_chain_text e), h))
      in case execute_command ex h ''systemctl'' [''restart'', ''sshd''] of
           (r, h) \<Rightarrow>
             (if (case r of Inr out \<Rightarrow> command_success out | Inl _ \<Rightarrow> False) then (Inr (), h)
              else case attempt ''sshd'' h of
                     (None, h) \<Rightarrow> (Inr (), h)
                   | (Some first, h) \<Rightarrow>
                       (case attempt ''ssh'' h of
                          (None, h) \<Rightarrow> (Inr (), h)
                        | (Some second, h) \<Rightarrow>
                            (Inl (PluginError (''Failed to restart SSH service: ''
                               @ join ''; '' [first, second])), h))))"

definition edit_target :: "string \<Rightarrow> config_layer \<Rightarrow> string" where
  "edit_target path l = (case l of AdminLayer \<Rightarrow> path | VendorLayer \<Rightarrow> ''/etc/ssh/sshd_config.d/00-hardener.conf'')"

definition unchecked_ssh_checks :: "string \<Rightarrow> unchecked_blocker \<Rightarrow> unchecked_check list" where
  "unchecked_ssh_checks cause blocker =
     map (\<lambda>name. \<lparr>unchecked_check_id = ''ssh-'' @ to_lowercase name, unchecked_title = ''SSH setting: '' @ name,
            unchecked_category = Network, unchecked_reason = cause, unchecked_blocker = blocker,
            unchecked_compliance = ssh_compliance_mappings name\<rparr>)
       (map directive_name SSH_DIRECTIVES @ map crypto_directive_name SSH_CRYPTO_DIRECTIVES)"

definition ssh_reloads_for_path :: "string \<Rightarrow> bool" where
  "ssh_reloads_for_path path = path_starts_with path ''/etc/ssh''"

definition ssh_reload_after_rollback ::
  "('h, 'z) executor_scheme \<Rightarrow> 'h \<Rightarrow> (hardening_error, string option) result \<times> 'h" where
  "ssh_reload_after_rollback ex h =
     (case restart_ssh_service ex h of
        (Inl e, h) \<Rightarrow> (Inl e, h)
      | (Inr _, h) \<Rightarrow> (Inr (Some ''sshd restarted''), h))"

subsection \<open>Scan\<close>

definition source_note :: "effective_value option \<Rightarrow> string \<Rightarrow> string" where
  "source_note e main_path =
     (case e of
        Some e \<Rightarrow>
          if effective_source e \<noteq> main_path then
            '' The value in force comes from '' @ effective_source e @ '', which sshd reads before '' @ main_path
              @ '', so it overrides anything set there.''
          else []
      | None \<Rightarrow> [])"

definition ssh_finding ::
  "'d::linorder calendar \<Rightarrow> 'd \<Rightarrow> plugin_config \<Rightarrow> string \<Rightarrow> config_layer \<Rightarrow> effective_value option \<Rightarrow> secure_directive \<Rightarrow> finding" where
  "ssh_finding cal today config main_path l e d =
     (let name = directive_name d; target = ssh_target d config; current = observed_value e in
      \<lparr>finding_category = Network, finding_current_value = current, finding_description = directive_description d,
       finding_explanation = ''The SSH directive '' @ quoted name @ '' is not configured securely. ''
         @ directive_description d @ source_note e main_path,
       finding_id = ''ssh-'' @ to_lowercase name,
       finding_impact = ''May allow unauthorised access or weaken SSH security'',
       finding_recommended_value = target,
       finding_remediation_steps =
         [''Edit '' @ edit_target main_path l @ '' and set: '' @ name @ '' '' @ target,
          ''Restart SSH service: systemctl restart sshd''],
       finding_severity = directive_severity d,
       finding_title = ''Insecure SSH setting: '' @ name,
       finding_compliance = ssh_compliance_mappings name,
       finding_exception = exception_outcome_for_value cal today config name current,
       finding_exception_key = Some name\<rparr>)"

definition ssh_crypto_finding ::
  "'d::linorder calendar \<Rightarrow> 'd \<Rightarrow> plugin_config \<Rightarrow> string \<Rightarrow> effective_value option \<Rightarrow> ssh_crypto_directive \<Rightarrow> finding" where
  "ssh_crypto_finding cal today config main_path e c =
     (let name = crypto_directive_name c; current = observed_value e in
      \<lparr>finding_category = Network, finding_current_value = current, finding_description = crypto_description c,
       finding_explanation = ''The SSH directive '' @ quoted name @ '' is unset or permits weak algorithms. ''
         @ crypto_description c @ source_note e main_path,
       finding_id = ''ssh-'' @ to_lowercase name,
       finding_impact = ''Weak SSH cryptography can allow session decryption or downgrade attacks'',
       finding_recommended_value = join '','' (crypto_desired c),
       finding_remediation_steps =
         [''Restrict '' @ name @ '' to strong algorithms supported by the host'', ''Validate with: sshd -t'',
          ''Restart SSH service: systemctl restart sshd''],
       finding_severity = crypto_severity c,
       finding_title = ''Weak or unset SSH cryptography: '' @ name,
       finding_compliance = ssh_compliance_mappings name,
       finding_exception = exception_outcome_for_value cal today config name current,
       finding_exception_key = Some name\<rparr>)"

definition ssh_findings ::
  "'d::linorder calendar \<Rightarrow> 'd \<Rightarrow> plugin_config \<Rightarrow> string \<Rightarrow> config_layer \<Rightarrow> segments \<Rightarrow> finding list" where
  "ssh_findings cal today config main_path l resolved =
     concat (map (\<lambda>d. let e = effective resolved (directive_name d) in
        if ssh_violates d (ssh_target d config) (map_option effective_text e)
        then [ssh_finding cal today config main_path l e d] else []) SSH_DIRECTIVES)
     @ concat (map (\<lambda>c. let e = effective resolved (crypto_directive_name c) in
        if \<not> crypto_value_is_secure (map_option effective_text e) (crypto_desired c)
        then [ssh_crypto_finding cal today config main_path e c] else []) SSH_CRYPTO_DIRECTIVES)"

definition ssh_scan_result :: "nat \<Rightarrow> finding list \<Rightarrow> unchecked_check list \<Rightarrow> string option \<Rightarrow> scan_result" where
  "ssh_scan_result duration fs us error =
     \<lparr>scan_plugin_id = SSH_PLUGIN_ID, scan_success = (error = None), scan_findings = fs, scan_unchecked = us,
      scan_duration_us = duration, scan_error = error, scan_skipped = None\<rparr>"

definition ssh_scan ::
  "'d::linorder calendar \<Rightarrow> 'd \<Rightarrow> nat \<Rightarrow> ('h, 'z) executor_scheme \<Rightarrow> 'h \<Rightarrow> plugin_config \<Rightarrow> scan_result \<times> 'h" where
  "ssh_scan cal today duration ex h config =
     (case read_layered ex h SSHD_ADMIN_CONFIG_PATH of
        Unreadable path cause denied \<Rightarrow>
          if denied then
            (case refusal_blocker ex h of (blocker, h) \<Rightarrow>
               (ssh_scan_result duration [] (unchecked_ssh_checks (''reading '' @ path @ '' requires root'') blocker) None, h))
          else
            (ssh_scan_result duration [] (unchecked_ssh_checks (path @ '' could not be read: '' @ cause) Unknown)
               (Some (''Failed to read '' @ path @ '': '' @ cause)), h)
      | Absent \<Rightarrow>
          (let cause = ''no sshd_config exists at '' @ SSHD_ADMIN_CONFIG_PATH
             @ '' or at its /usr/etc counterpart, so no SSH setting on this host can be read'' in
           (ssh_scan_result duration [] (unchecked_ssh_checks cause Environment)
              (Some (''Failed to read '' @ SSHD_ADMIN_CONFIG_PATH @ '': '' @ cause)), h))
      | Found path l content \<Rightarrow>
          (case resolve ex h path content of
             Inl e \<Rightarrow>
               (ssh_scan_result duration []
                  (unchecked_ssh_checks (path @ '' was read, but the Include directives it carries could not be resolved, so the effective configuration is unknown: '' @ error_text e) Unknown)
                  (Some (''Cannot resolve sshd_config Include directives: '' @ error_text e)), h)
           | Inr resolved \<Rightarrow> (ssh_scan_result duration (ssh_findings cal today config path l resolved) [] None, h)))"

subsection \<open>Planning an apply\<close>

text \<open>What the directive loops read: the config in force, whether it is the administrator's own, the
  session, and what sshd obeys today. They build up the new main file, the changes and the fragment.\<close>

record ssh_site =
  site_path :: string
  writing_main :: bool
  remote_root_session :: bool
  site_resolved :: segments

record ssh_plan =
  plan_content :: string
  plan_changes :: "change list"
  to_dropin :: "dropin_directive list"

definition add_change :: "string \<Rightarrow> change_type \<Rightarrow> ssh_plan \<Rightarrow> ssh_plan" where
  "add_change what kind acc = acc\<lparr>plan_changes := plan_changes acc @ [change_of what kind None]\<rparr>"

definition add_dropin :: "string \<Rightarrow> string \<Rightarrow> string \<Rightarrow> ssh_plan \<Rightarrow> ssh_plan" where
  "add_dropin name val note acc =
     acc\<lparr>to_dropin := to_dropin acc @ [\<lparr>keyword = name, dropin_value = val, dropin_note = note\<rparr>]\<rparr>"

definition keep_value_the_fragment_holds :: "string \<Rightarrow> string option \<Rightarrow> ssh_plan \<Rightarrow> ssh_plan" where
  "keep_value_the_fragment_holds name held acc = (case held of Some v \<Rightarrow> add_dropin name v [] acc | None \<Rightarrow> acc)"

definition downgrade_note :: string where
  "downgrade_note = '' (downgraded from 'no': applying 'no' over this root SSH session would sever access; set 'no' from a console)''"

definition kept_line :: "string \<Rightarrow> string" where
  "kept_line v = ''PermitRootLogin: kept at '' @ quoted v
     @ '' (already the strongest value safely settable over this root SSH session; set 'no' from a console)''"

definition already_line :: "string \<Rightarrow> string \<Rightarrow> effective_value \<Rightarrow> string \<Rightarrow> string" where
  "already_line name adjective e main_path =
     name @ '': already '' @ adjective @ '' via '' @ effective_source e @ '', which sshd reads before '' @ main_path"

text \<open>The drop-in's own value is set aside to see what would win without it.\<close>

definition overriding :: "ssh_site \<Rightarrow> string \<Rightarrow> effective_value option" where
  "overriding site name =
     (case effective_without (site_resolved site) name DROPIN_PATH of
        Some e \<Rightarrow> if effective_source e \<noteq> site_path site then Some e else None
      | None \<Rightarrow> None)"

definition held_by_our_fragment :: "ssh_site \<Rightarrow> string \<Rightarrow> string option" where
  "held_by_our_fragment site name =
     (case effective (site_resolved site) name of
        Some e \<Rightarrow> if effective_source e = DROPIN_PATH then Some (effective_text e) else None
      | None \<Rightarrow> None)"

definition guard_active :: "ssh_site \<Rightarrow> secure_directive \<Rightarrow> string \<Rightarrow> bool" where
  "guard_active site d target =
     (remote_root_session site \<and> directive_name d = PERMIT_ROOT_LOGIN \<and> target = ''no'')"

text \<open>The last part of the loop body: the line of the main file.\<close>

definition plan_main_line :: "ssh_site \<Rightarrow> secure_directive \<Rightarrow> string \<Rightarrow> ssh_plan \<Rightarrow> ssh_plan" where
  "plan_main_line site d target acc =
     (let name = directive_name d; guard = guard_active site d target;
          original = parse_config_value (global_scope (plan_content acc)) name SpaceSeparated False;
          needs_change = ssh_violates d target original;
          kept = (if guard \<and> needs_change then
                    (case original of
                       Some current \<Rightarrow> if \<not> ssh_violates d REMOTE_ROOT_SAFE_VALUE (Some current) then Some current else None
                     | None \<Rightarrow> None)
                  else None)
      in case kept of
           Some current \<Rightarrow> add_change (kept_line current) Skipped acc
         | None \<Rightarrow>
             (let (val, note) = (if guard \<and> needs_change then (REMOTE_ROOT_SAFE_VALUE, downgrade_note) else (target, []))
              in if needs_change then
                   add_change (name @ '': '' @ (case original of Some v \<Rightarrow> v | None \<Rightarrow> ''not set'') @ '' -> '' @ val @ note)
                     ConfigFile
                     (acc\<lparr>plan_content := set_config_directive (plan_content acc) name val SpaceSeparated False Keep\<rparr>)
                 else acc))"

definition plan_directive ::
  "'d::linorder calendar \<Rightarrow> 'd \<Rightarrow> plugin_config \<Rightarrow> ssh_site \<Rightarrow> secure_directive \<Rightarrow> ssh_plan \<Rightarrow> ssh_plan" where
  "plan_directive cal today config site d acc =
     (let name = directive_name d; effective_now = effective (site_resolved site) name in
      case matching_exception cal today config name (observed_value effective_now) of
        Some e \<Rightarrow> add_change (name @ '': skipped (exception: '' @ reason e @ '')'') Skipped acc
      | None \<Rightarrow>
          (let target = ssh_target d config; guard = guard_active site d target;
               held = held_by_our_fragment site name;
               (wanted, note) = (if guard then (REMOTE_ROOT_SAFE_VALUE, downgrade_note) else (target, []));
               wanted = ssh_clamp d wanted (map_option effective_text effective_now);
               already_safe_enough = (guard \<and> (case effective_now of
                    Some e \<Rightarrow> \<not> ssh_violates d REMOTE_ROOT_SAFE_VALUE (Some (effective_text e)) | None \<Rightarrow> False))
           in case overriding site name of
                Some e \<Rightarrow>
                  (let strict_enough = \<not> ssh_violates d target (Some (effective_text e)) in
                   if strict_enough \<or> already_safe_enough then
                     (let acc = add_change (already_line name (quoted (effective_text e)) e (site_path site)) Skipped acc in
                      if \<not> strict_enough then keep_value_the_fragment_holds name held acc else acc)
                   else add_dropin name wanted note acc)
              | None \<Rightarrow>
                  if \<not> writing_main site then
                    if already_safe_enough then
                      keep_value_the_fragment_holds name held
                        (add_change (kept_line (case effective_now of Some e \<Rightarrow> effective_text e | None \<Rightarrow> [])) Skipped acc)
                    else add_dropin name wanted note acc
                  else plan_main_line site d target acc))"

text \<open>One cryptographic directive, given what the host supports.\<close>

definition plan_crypto_line :: "ssh_site \<Rightarrow> ssh_crypto_directive \<Rightarrow> string \<Rightarrow> ssh_plan \<Rightarrow> ssh_plan" where
  "plan_crypto_line site c target acc =
     (let name = crypto_directive_name c in
      case overriding site name of
        Some e \<Rightarrow>
          if crypto_value_is_secure (Some (effective_text e)) (crypto_desired c)
          then add_change (already_line name ''strong'' e (site_path site)) Skipped acc
          else add_dropin name target [] acc
      | None \<Rightarrow>
          if \<not> writing_main site then add_dropin name target [] acc
          else (let original = parse_config_value (global_scope (plan_content acc)) name SpaceSeparated False in
                if original \<noteq> Some target then
                  add_change (name @ '': '' @ (case original of Some v \<Rightarrow> v | None \<Rightarrow> ''not set'') @ '' -> '' @ target)
                    ConfigFile
                    (acc\<lparr>plan_content := set_config_directive (plan_content acc) name target SpaceSeparated False Keep\<rparr>)
                else acc))"

definition plan_crypto ::
  "'d::linorder calendar \<Rightarrow> 'd \<Rightarrow> plugin_config \<Rightarrow> ssh_site \<Rightarrow> ('h, 'z) executor_scheme \<Rightarrow> 'h \<Rightarrow> ssh_crypto_directive \<Rightarrow>
   ssh_plan \<Rightarrow> ssh_plan \<times> 'h" where
  "plan_crypto cal today config site ex h c acc =
     (let name = crypto_directive_name c in
      case matching_exception cal today config name (observed_value (effective (site_resolved site) name)) of
        Some e \<Rightarrow> (add_change (name @ '': skipped (exception: '' @ reason e @ '')'') Skipped acc, h)
      | None \<Rightarrow>
          (case supported_algorithms ex h (crypto_query_arg c) of
             (supported, h) \<Rightarrow>
               (let selected = select_algorithms (crypto_desired c) supported in
                (if selected = [] then
                   add_change (name @ '': skipped (no strong algorithm supported by host)'') Skipped acc
                 else plan_crypto_line site c (join '','' selected) acc, h))))"

fun plan_cryptos ::
  "'d::linorder calendar \<Rightarrow> 'd \<Rightarrow> plugin_config \<Rightarrow> ssh_site \<Rightarrow> ('h, 'z) executor_scheme \<Rightarrow> ssh_crypto_directive list \<Rightarrow>
   ssh_plan \<Rightarrow> 'h \<Rightarrow> ssh_plan \<times> 'h" where
  "plan_cryptos cal today config site ex [] acc h = (acc, h)"
| "plan_cryptos cal today config site ex (c # cs) acc h =
     (case plan_crypto cal today config site ex h c acc of (acc, h) \<Rightarrow> plan_cryptos cal today config site ex cs acc h)"

definition start_plan :: "string \<Rightarrow> ssh_plan" where
  "start_plan content = \<lparr>plan_content = content, plan_changes = [], to_dropin = []\<rparr>"

definition plan_directives ::
  "'d::linorder calendar \<Rightarrow> 'd \<Rightarrow> plugin_config \<Rightarrow> ssh_site \<Rightarrow> string \<Rightarrow> ssh_plan" where
  "plan_directives cal today config site content =
     fold (plan_directive cal today config site) SSH_DIRECTIVES (start_plan content)"

subsection \<open>Apply\<close>

definition precedence_change :: "string \<Rightarrow> segments \<Rightarrow> dropin_directive \<Rightarrow> change" where
  "precedence_change main_path resolved d =
     (case effective resolved (keyword d) of
        Some e \<Rightarrow>
          if effective_source e = DROPIN_PATH then
            change_of (keyword d @ '': set to '' @ quoted (dropin_value d) @ '' in '' @ DROPIN_PATH
              @ '', which sshd reads before '' @ main_path @ dropin_note d) ConfigFile None
          else
            change_of (keyword d @ '': written to '' @ DROPIN_PATH @ '' but '' @ effective_source e @ '' still supplies ''
              @ quoted (effective_text e) @ '', and sshd reads it first'') ConfigFile
              (Some (''still overridden by '' @ effective_source e))
      | None \<Rightarrow>
          change_of (keyword d @ '': written to '' @ DROPIN_PATH
            @ '' but no file supplies it, so sshd does not read that fragment'') ConfigFile
            (Some (DROPIN_PATH @ '' is not included by '' @ main_path)))"

definition verify_dropin_precedence ::
  "('h, 'z) executor_scheme \<Rightarrow> 'h \<Rightarrow> string \<Rightarrow> dropin_directive list \<Rightarrow> string \<Rightarrow> change list" where
  "verify_dropin_precedence ex h main_path ds main_content =
     (case resolve ex h main_path main_content of
        Inl e \<Rightarrow> [change_of (''Wrote '' @ DROPIN_PATH @ '' but could not confirm it takes precedence'') ConfigFile
                  (Some (error_text e))]
      | Inr resolved \<Rightarrow> map (precedence_change main_path resolved) ds)"

definition ssh_apply_result :: "change list \<Rightarrow> string option \<Rightarrow> string option \<Rightarrow> bool \<Rightarrow> apply_result" where
  "ssh_apply_result changes cid error success =
     \<lparr>apply_plugin_id = SSH_PLUGIN_ID, apply_success = success, apply_changes = changes,
      apply_checkpoint_id = cid, apply_error = error\<rparr>"

text \<open>The backup copy, \<open>Inl\<close> the reason it could not be made.\<close>

definition backup_main ::
  "string \<Rightarrow> ('h, 'z) executor_scheme \<Rightarrow> 'h \<Rightarrow> string \<Rightarrow> (string, change list) result \<times> 'h" where
  "backup_main stamp ex h path =
     (let backup = backup_prefix path @ stamp in
      case execute_command ex h ''cp'' [''-p'', ''--no-dereference'', path, backup] of
        (Inr out, h) \<Rightarrow>
          if command_success out then
            (Inr [change_of (''Created backup: '' @ backup) ConfigFile None],
             prune_timestamped_backups ex h (backup_prefix path) BACKUPS_KEPT)
          else (Inl (''Failed to create backup: '' @ stderr out), h)
      | (Inl e, h) \<Rightarrow> (Inl (''Failed to create backup: '' @ host_error_text e), h))"

definition write_main :: "('h, 'z) executor_scheme \<Rightarrow> 'h \<Rightarrow> string \<Rightarrow> string \<Rightarrow> change list \<times> 'h" where
  "write_main ex h path content =
     (case write_file ex h path content of
        (Inr _, h) \<Rightarrow> ([change_of (''Updated '' @ path) ConfigFile None], h)
      | (Inl e, h) \<Rightarrow> ([change_of (''Failed to write '' @ path) ConfigFile (Some (host_error_text e))], h))"

definition write_fragment ::
  "('h, 'z) executor_scheme \<Rightarrow> 'h \<Rightarrow> string \<Rightarrow> dropin_directive list \<Rightarrow> string \<Rightarrow> change list \<times> 'h" where
  "write_fragment ex h path ds content =
     (case write_dropin ex (ensure_plugin_directory ex) h ds of
        (Inr _, h) \<Rightarrow> (verify_dropin_precedence ex h path ds content, h)
      | (Inl e, h) \<Rightarrow> ([change_of (''Failed to write '' @ DROPIN_PATH) ConfigFile (Some (error_text e))], h))"

definition restart_change :: "(hardening_error, unit) result \<Rightarrow> change" where
  "restart_change r =
     (case r of Inr _ \<Rightarrow> change_of ''Restarted SSH service'' Service None
      | Inl e \<Rightarrow> change_of ''Failed to restart SSH service'' Service (Some (error_text e)))"

text \<open>Steps 5 to 7, once the candidate is staged: validate, write, restart.\<close>

definition ssh_commit ::
  "string \<Rightarrow> ('h, 'z) executor_scheme \<Rightarrow> 'h \<Rightarrow> string \<Rightarrow> bool \<Rightarrow> bool \<Rightarrow> ssh_plan \<Rightarrow> string option \<Rightarrow>
   string option \<Rightarrow> change list \<Rightarrow> apply_result \<times> 'h" where
  "ssh_commit pid ex h path main_write dropin_changed plan desired cid committed =
     (let candidate = (case desired of Some body \<Rightarrow> body @ [nl] @ plan_content plan | None \<Rightarrow> plan_content plan) in
      case validate_sshd_config pid ex h candidate of
        (Inl e, h) \<Rightarrow>
          (ssh_apply_result
             (committed @ map (\<lambda>c. c\<lparr>change_type := Skipped\<rparr>) (plan_changes plan)
              @ [change_of ''Candidate sshd_config rejected by `sshd -t`; no changes written, service not restarted''
                   ConfigFile (Some (error_text e))])
             cid (Some (''sshd config validation failed: '' @ error_text e)) False, h)
      | (Inr _, h) \<Rightarrow>
          (case (if main_write then write_main ex h path (plan_content plan) else ([], h)) of (main_changes, h) \<Rightarrow>
          (case (if dropin_changed then write_fragment ex h path (to_dropin plan) (plan_content plan) else ([], h)) of
             (dropin_changes, h) \<Rightarrow>
               (case restart_ssh_service ex h of
                  (restarted, h) \<Rightarrow>
                    (let changes = committed @ plan_changes plan @ main_changes @ dropin_changes @ [restart_change restarted]
                     in (ssh_apply_result changes cid None (list_all change_success changes), h))))))"

text \<open>Steps 3 and 4: the no-op guard, then the checkpoint and the backup that lead the committed changes.\<close>

definition ssh_settle ::
  "string \<Rightarrow> string \<Rightarrow> 'h apply_context \<Rightarrow> 'h \<Rightarrow> database \<Rightarrow> ssh_site \<Rightarrow> string \<Rightarrow> ssh_plan \<Rightarrow>
   ((hardening_error, apply_result) result \<times> 'h \<times> database) option" where
  "ssh_settle stamp pid ctx h db site content plan =
     (let ex = ctx_executor ctx; path = site_path site;
          desired = (if to_dropin plan = [] then None else Some (render_dropin (to_dropin plan)));
          dropin_changed = (desired \<noteq> result_ok (read_file ex h DROPIN_PATH));
          main_write = (writing_main site \<and> plan_content plan \<noteq> content)
      in if plan_content plan = content \<and> \<not> dropin_changed then
           Some (Inr (ssh_apply_result (plan_changes plan
             @ [change_of ''sshd_config already compliant - not rewritten, service not restarted'' Skipped None])
             None None True), h, db)
         else
           (case create_checkpoint_for_apply ctx h db ''ssh-hardening-pre-apply''
                   (if writing_main site then [path, DROPIN_PATH] else [DROPIN_PATH]) of
              None \<Rightarrow> None
            | Some (Inl e, h, db) \<Rightarrow> Some (Inl e, h, db)
            | Some (Inr cid, h, db) \<Rightarrow>
                (let committed = (case checkpoint_change cid of Some c \<Rightarrow> [c] | None \<Rightarrow> []) in
                 case (if main_write then backup_main stamp ex h path else (Inr [], h)) of
                   (Inl why, h) \<Rightarrow> Some (Inr (ssh_apply_result committed cid (Some why) False), h, db)
                 | (Inr backed_up, h) \<Rightarrow>
                     (case ssh_commit pid ex h path main_write dropin_changed plan desired cid (committed @ backed_up) of
                        (r, h) \<Rightarrow> Some (Inr r, h, db)))))"

definition ssh_apply ::
  "'d::linorder calendar \<Rightarrow> 'd \<Rightarrow> string \<Rightarrow> string \<Rightarrow> 'h apply_context \<Rightarrow> 'h \<Rightarrow> database \<Rightarrow> plugin_config \<Rightarrow>
   ((hardening_error, apply_result) result \<times> 'h \<times> database) option" where
  "ssh_apply cal today stamp pid ctx h db config =
     (let ex = ctx_executor ctx in
      case read_layered ex h SSHD_ADMIN_CONFIG_PATH of
        Absent \<Rightarrow> Some (Inl (PluginError (''Failed to read '' @ SSHD_ADMIN_CONFIG_PATH
          @ '': no sshd_config exists there or at its /usr/etc counterpart'')), h, db)
      | Unreadable path cause _ \<Rightarrow> Some (Inl (PluginError (''Failed to read '' @ path @ '': '' @ cause)), h, db)
      | Found path l content \<Rightarrow>
          (case is_remote_root_session ex (prune_timestamped_backups ex h (backup_prefix path) BACKUPS_KEPT) of
             (remote_root, h) \<Rightarrow>
               (case resolve ex h path content of
                  Inl e \<Rightarrow> Some (Inl e, h, db)
                | Inr resolved \<Rightarrow>
                    (let site = \<lparr>site_path = path, writing_main = (l = AdminLayer), remote_root_session = remote_root,
                                 site_resolved = resolved\<rparr>
                     in case plan_cryptos cal today config site ex SSH_CRYPTO_DIRECTIVES
                            (plan_directives cal today config site content) h of
                          (plan, h) \<Rightarrow> ssh_settle stamp pid ctx h db site content plan))))"

subsection \<open>Preview\<close>

record ssh_preview =
  estimated :: "string list"
  honoured :: "string list"
  writes_fragment :: bool

definition path_issues :: "('h, 'z) executor_scheme \<Rightarrow> 'h \<Rightarrow> string \<Rightarrow> validation_issue list" where
  "path_issues ex h path =
     (let issue = (\<lambda>m. \<lparr>validation_issue_severity = Critical, validation_issue_message = m, validation_issue_config_key = None\<rparr>)
      in case metadata_of ex h path of
           Inr m \<Rightarrow> if is_file m then [] else [issue (path @ '' is not a regular file'')]
         | Inl e \<Rightarrow> [issue (''Cannot access '' @ path @ '': '' @ host_error_text e)])"

definition preview_directive ::
  "'d::linorder calendar \<Rightarrow> 'd \<Rightarrow> plugin_config \<Rightarrow> string \<Rightarrow> segments \<Rightarrow> secure_directive \<Rightarrow> ssh_preview \<Rightarrow> ssh_preview" where
  "preview_directive cal today config main_path resolved d acc =
     (let name = directive_name d; target = ssh_target d config; e = effective resolved name;
          observed = observed_value e; overridden = (case e of Some e \<Rightarrow> effective_source e \<noteq> main_path | None \<Rightarrow> False)
      in case matching_exception cal today config name observed of
           Some x \<Rightarrow> acc\<lparr>honoured := honoured acc @ [exception_preview_line name observed (reason x)]\<rparr>
         | None \<Rightarrow>
             (case e of
                Some v \<Rightarrow>
                  if \<not> ssh_violates d target (Some (effective_text v)) then acc
                  else acc\<lparr>estimated := estimated acc @ [name @ '': '' @ effective_text v @ '' -> '' @ target],
                           writes_fragment := (writes_fragment acc \<or> overridden)\<rparr>
              | None \<Rightarrow> acc\<lparr>estimated := estimated acc @ [name @ '': (not set) -> '' @ target]\<rparr>))"

definition preview_crypto ::
  "'d::linorder calendar \<Rightarrow> 'd \<Rightarrow> plugin_config \<Rightarrow> string \<Rightarrow> segments \<Rightarrow> ('h, 'z) executor_scheme \<Rightarrow> 'h \<Rightarrow>
   ssh_crypto_directive \<Rightarrow> ssh_preview \<Rightarrow> ssh_preview \<times> 'h" where
  "preview_crypto cal today config main_path resolved ex h c acc =
     (let name = crypto_directive_name c; e = effective resolved name; observed = observed_value e in
      case matching_exception cal today config name observed of
        Some x \<Rightarrow> (acc\<lparr>honoured := honoured acc @ [exception_preview_line name observed (reason x)]\<rparr>, h)
      | None \<Rightarrow>
          if crypto_value_is_secure (map_option effective_text e) (crypto_desired c) then (acc, h)
          else (case supported_algorithms ex h (crypto_query_arg c) of
                  (supported, h) \<Rightarrow>
                    (let selected = select_algorithms (crypto_desired c) supported in
                     (if selected = [] then acc
                      else acc\<lparr>estimated := estimated acc @ [name @ '': '' @ observed @ '' -> '' @ join '','' selected],
                               writes_fragment := (writes_fragment acc
                                 \<or> (case e of Some e \<Rightarrow> effective_source e \<noteq> main_path | None \<Rightarrow> False))\<rparr>, h))))"

fun preview_cryptos ::
  "'d::linorder calendar \<Rightarrow> 'd \<Rightarrow> plugin_config \<Rightarrow> string \<Rightarrow> segments \<Rightarrow> ('h, 'z) executor_scheme \<Rightarrow>
   ssh_crypto_directive list \<Rightarrow> ssh_preview \<Rightarrow> 'h \<Rightarrow> ssh_preview \<times> 'h" where
  "preview_cryptos cal today config main_path resolved ex [] acc h = (acc, h)"
| "preview_cryptos cal today config main_path resolved ex (c # cs) acc h =
     (case preview_crypto cal today config main_path resolved ex h c acc of
        (acc, h) \<Rightarrow> preview_cryptos cal today config main_path resolved ex cs acc h)"

definition ssh_report :: "validation_issue list \<Rightarrow> string list \<Rightarrow> string list \<Rightarrow> validation_report" where
  "ssh_report issues changes excepted =
     \<lparr>validation_report_plugin_id = SSH_PLUGIN_ID, validation_report_is_valid = (issues = []),
      validation_report_issues = issues, validation_report_estimated_changes = changes,
      validation_report_compliant_count = 0, validation_report_exceptions = excepted\<rparr>"

definition ssh_validate ::
  "'d::linorder calendar \<Rightarrow> 'd \<Rightarrow> ('h, 'z) executor_scheme \<Rightarrow> 'h \<Rightarrow> plugin_config \<Rightarrow> validation_report \<times> 'h" where
  "ssh_validate cal today ex h config =
     (let main = read_layered ex h SSHD_ADMIN_CONFIG_PATH;
          path = (case main of Found path _ _ \<Rightarrow> path | _ \<Rightarrow> SSHD_ADMIN_CONFIG_PATH);
          issues = path_issues ex h path;
          issue = (\<lambda>m. \<lparr>validation_issue_severity = Critical, validation_issue_message = m, validation_issue_config_key = None\<rparr>)
      in case main of
           Found _ _ content \<Rightarrow>
             (case resolve ex h path content of
                Inl e \<Rightarrow> (ssh_report (issues @ [issue (''Cannot resolve sshd_config Include directives: '' @ error_text e)]) [] [], h)
              | Inr resolved \<Rightarrow>
                  (case preview_cryptos cal today config path resolved ex SSH_CRYPTO_DIRECTIVES
                          (fold (preview_directive cal today config path resolved) SSH_DIRECTIVES
                             \<lparr>estimated = [], honoured = [], writes_fragment = False\<rparr>) h of
                     (acc, h) \<Rightarrow>
                       (ssh_report issues
                          (estimated acc @ (if writes_fragment acc
                             then [DROPIN_PATH @ '' will be written so the settings above are the ones sshd reads first'']
                             else [])) (honoured acc), h)))
         | Absent \<Rightarrow> (ssh_report (issues @ [issue (''Cannot read '' @ path
             @ '': no sshd_config exists there or at its /usr/etc counterpart'')]) [] [], h)
         | Unreadable p cause _ \<Rightarrow> (ssh_report (issues @ [issue (''Cannot read '' @ p @ '': '' @ cause)]) [] [], h))"

end
