(* ===== verification/Apply_Effects.thy ===== *)
theory Apply_Effects
  imports Plugin_Support
begin

text \<open>
  What the shared steps of an apply do to the host. Taking a checkpoint only reads: any relation between
  states that following a link keeps is kept by it (locale \<open>reading_host\<close>), so an executor that records its
  effects shows none, and an observation no link probe changes is unchanged. Pruning and creating a
  directory each run at most one command.
\<close>

locale reading_host =
  fixes ex :: "'h executor" and rel :: "'h \<Rightarrow> 'h \<Rightarrow> bool"
  assumes rel_refl [simp, intro]: "rel h h"
    and rel_trans: "rel h h' \<Longrightarrow> rel h' h'' \<Longrightarrow> rel h h''"
    and read_link_rel: "read_link ex h path = (l, h') \<Longrightarrow> rel h h'"
begin

lemma host_bind_rel:
  assumes "host_bind m f = (r, h')" "rel h (snd m)" "\<And>a h1 s h2. f a h1 = (s, h2) \<Longrightarrow> rel h1 h2"
  shows "rel h h'"
proof (cases "fst m")
  case (Inr a)
  with assms(1) have "f a (snd m) = (r, h')" by (cases m) (simp add: host_bind_def)
  with assms(2,3) show ?thesis using rel_trans by blast
qed (use assms in \<open>auto simp: host_bind_def split: prod.splits\<close>)

lemma link_target_rel: "rel h (snd (link_target_of ex h path))"
  by (cases "read_link ex h path") (auto simp: link_target_of_def dest: read_link_rel)

lemma capture_single_rel: "capture_single_file ex h path policy = (r, h') \<Longrightarrow> rel h h'"
  unfolding capture_single_file_def
  by (erule host_bind_rel, simp)
     (auto split: if_splits sum.splits option.splits content_policy.splits
       elim!: host_bind_rel simp: Let_def intro!: link_target_rel)

lemma capture_entry_rel: "capture_directory_entry ex h path = (r, h') \<Longrightarrow> rel h h'"
  unfolding capture_directory_entry_def
  by (erule host_bind_rel, simp)
     (auto split: if_splits elim!: host_bind_rel intro!: link_target_rel)

lemma capture_children_rel:
  assumes "\<And>h child r h'. recurse h child = Some (r, h') \<Longrightarrow> rel h h'"
  shows "capture_children ex recurse h children = Some (r, h') \<Longrightarrow> rel h h'"
proof (induction children arbitrary: h r h')
  case (Cons child children)
  have single: "rel h (snd (host_bind (capture_single_file ex h child BestEffort) (\<lambda>s h. (Inr [s], h))))" for h
    by (rule host_bind_rel[OF prod.collapse[symmetric]])
       (use capture_single_rel[OF prod.collapse[symmetric]] in auto)
  from Cons.prems show ?case
    by (auto split: sum.splits if_splits option.splits prod.splits dest!: Cons.IH assms
        intro: rel_trans single[THEN rel_trans] simp: prod_eq_iff)
qed auto

lemma map_pair_Some: "map_option (\<lambda>(r, h). (f r, h)) m = Some (r, h') \<Longrightarrow> \<exists>r1. m = Some (r1, h')"
  by auto

lemma capture_directory_rel: "capture_directory_recursive fuel ex h path = Some (r, h') \<Longrightarrow> rel h h'"
proof (induction fuel arbitrary: h path r h')
  case (Suc fuel)
  have children: "rel h h'"
    if "capture_children ex (capture_directory_recursive fuel ex) h cs = Some (r, h')" for h cs r h'
    using that by (rule capture_children_rel[rotated]) (rule Suc.IH)
  from Suc.prems show ?case
    by (auto simp del: map_option_eq_Some split: prod.splits sum.splits
        dest!: map_pair_Some capture_entry_rel children intro: rel_trans)
qed simp

lemma capture_state_rel: "capture_file_state fuel ex h path = Some (r, h') \<Longrightarrow> rel h h'"
proof -
  have link: "link_target_of ex h p = (l, h1) \<Longrightarrow> rel h h1" for h p l h1 using link_target_rel[of h p] by simp
  assume "capture_file_state fuel ex h path = Some (r, h')"
  then show ?thesis
    unfolding capture_file_state_def
    by (auto split: sum.splits if_splits prod.splits option.splits dest!: link capture_directory_rel
        intro: rel_trans host_bind_rel[OF _ capture_single_rel[OF prod.collapse[symmetric]]])
qed

lemma capture_paths_rel: "capture_paths fuel ex h paths = Some (r, h') \<Longrightarrow> rel h h'"
proof (induction paths arbitrary: h r h')
  case (Cons path paths)
  from Cons.prems show ?case
    by (auto simp del: map_option_eq_Some split: option.splits prod.splits sum.splits
        dest!: map_pair_Some capture_state_rel Cons.IH intro: rel_trans)
qed auto

lemma create_checkpoint_rel: "create_checkpoint fuel c now ex h db name paths = Some (r, h', db') \<Longrightarrow> rel h h'"
  unfolding create_checkpoint_def by (auto split: option.splits prod.splits sum.splits dest!: capture_paths_rel)

lemma capture_entries_rel: "capture_entries ex h paths = (r, h') \<Longrightarrow> rel h h'"
proof (induction paths arbitrary: h r h')
  case (Cons path paths)
  have rest: "rel h2 (snd (host_bind (capture_entries ex h2 paths) (\<lambda>rest h. (Inr (s # rest), h))))" for h2 s
    by (rule host_bind_rel[OF prod.collapse[symmetric]]) (use Cons.IH[OF prod.collapse[symmetric]] in auto)
  show ?case
    by (rule host_bind_rel[OF Cons.prems[unfolded capture_entries.simps]])
       (use capture_entry_rel[OF prod.collapse[symmetric]] rest in \<open>auto simp: prod_eq_iff\<close>)
qed simp

end

text \<open>The two checkpoints of an apply.\<close>

lemma checkpoint_for_apply_rel:
  assumes "reading_host (ctx_executor ctx) rel" and "create_checkpoint_for_apply ctx h db name paths = Some (r, h', db')"
  shows "rel h h'"
  using assms(2) reading_host.create_checkpoint_rel[OF assms(1)] reading_host.rel_refl[OF assms(1)]
  unfolding create_checkpoint_for_apply_def by (auto split: option.splits prod.splits sum.splits)

lemma metadata_checkpoint_rel:
  assumes "reading_host (ctx_executor ctx) rel"
    and "create_checkpoint_metadata_only_for_apply ctx h db name paths = (r, h', db')"
  shows "rel h h'"
  using assms(2) reading_host.capture_entries_rel[OF assms(1)] reading_host.rel_refl[OF assms(1)]
  by (auto simp: create_checkpoint_metadata_only_for_apply_def create_checkpoint_metadata_only_def
      split: option.splits prod.splits sum.splits)

lemma reads_of_effects: "recorded_effects ex writes runs \<Longrightarrow> reading_host ex (recorded_effects.confined writes runs W R)"
  by (unfold_locales)
     (auto intro: recorded_effects.confined_refl recorded_effects.confined_trans recorded_effects.read_link_confined)

sublocale recorded_effects \<subseteq> reads: reading_host ex "confined W R" for W R
  by (rule reads_of_effects) (rule recorded_effects_axioms)

interpretation mock_reads: reading_host "mock_executor r d" "\<lambda>h h'. h' = h" for r d
  by unfold_locales (auto simp: mock_read_link_def)

context recorded_effects
begin

lemma confined_no_write:
  assumes "confined (\<lambda>_. False) R h h'"
  shows "writes h' = writes h \<and> (\<exists>rs. runs h' = runs h @ rs \<and> (\<forall>c\<in>set rs. R c))"
proof -
  obtain ws rs where w: "writes h' = writes h @ ws" "runs h' = runs h @ rs" "\<forall>w\<in>set ws. False" "\<forall>c\<in>set rs. R c"
    using assms unfolding confined_def by blast
  from w(3) have "ws = []" by (cases ws) (metis list.set_intros(1))+
  with w show ?thesis by auto
qed

lemma ensure_plugin_directory_confined:
  "ensure_plugin_directory ex h dir = (r, h') \<Longrightarrow> R (''mkdir'', [''-p'', dir]) \<Longrightarrow> confined W R h h'"
  unfolding ensure_plugin_directory_def
  by (auto split: if_splits prod.splits sum.splits dest!: run_confined[where R = R])

lemma prune_confined:
  assumes "\<And>victims. R (''rm'', ''-f'' # ''--'' # victims)"
  shows "confined W R h (prune_timestamped_backups ex h pre keep)"
  unfolding prune_timestamped_backups_def Let_def
  by (auto split: option.splits sum.splits intro!: run_confined[OF prod.collapse[symmetric]] assms)

lemma prune_prefix_confined:
  assumes "\<And>victims. \<forall>v\<in>set victims. starts_with pre v \<Longrightarrow> R (''rm'', ''-f'' # ''--'' # victims)"
  shows "confined W R h (prune_timestamped_backups ex h pre keep)"
proof -
  have "\<forall>v\<in>set (take n (sort (filter (starts_with pre) entries))). starts_with pre v" for n entries
    by (auto dest: in_set_takeD)
  from run_confined[where R = R, OF prod.collapse[symmetric] assms[OF this]]
  show ?thesis unfolding prune_timestamped_backups_def Let_def by (simp split: option.split sum.split)
qed

lemma session_is_root_confined: "session_is_root ex h = (b, h') \<Longrightarrow> R (''id'', [''-u'']) \<Longrightarrow> confined W R h h'"
  unfolding session_is_root_def by (auto split: prod.splits sum.splits dest!: run_confined[where R = R])

end

lemma checkpoint_for_apply_confined:
  assumes "recorded_effects (ctx_executor ctx) writes runs"
    and "create_checkpoint_for_apply ctx h db name paths = Some (r, h', db')"
  shows "recorded_effects.confined writes runs W R h h'"
  by (rule checkpoint_for_apply_rel[OF reads_of_effects[OF assms(1)] assms(2)])

lemma metadata_checkpoint_confined:
  assumes "recorded_effects (ctx_executor ctx) writes runs"
    and "create_checkpoint_metadata_only_for_apply ctx h db name paths = (r, h', db')"
  shows "recorded_effects.confined writes runs W R h h'"
  by (rule metadata_checkpoint_rel[OF reads_of_effects[OF assms(1)] assms(2)])

end
