(* ===== verification/Whole_File.thy ===== *)
theory Whole_File
  imports Kernel_Plugin Config_Edit
begin

text \<open>
  What the readers return from a whole file after a write, for the plugins whose files have no blocks: the
  global region is read first, then what follows it. And the values a clamp of a number writes are values the
  readers return whole.
\<close>

lemma show_radix_no_equals: "CHR ''='' \<notin> set (show_radix 10 n)"
proof (induction n rule: less_induct)
  case (less n)
  have "d < 10 \<Longrightarrow> digit_char d \<noteq> CHR ''=''" for d
    using digit_value_char[where b = 10 and d = d] by (cases "digit_char d = CHR ''=''") (simp_all add: digit_value_def)
  note digit = this
  show ?case
  proof (cases "n < 10")
    case True
    then show ?thesis using digit[of n] by (subst show_radix.simps) auto
  next
    case False
    then have "CHR ''='' \<notin> set (show_radix 10 (n div 10))" by (intro less) simp
    then show ?thesis using False digit[of "n mod 10"] by (subst show_radix.simps) auto
  qed
qed

lemma show_int_valid: "valid_value (show_int n)"
proof -
  have "CHR ''='' \<notin> set (show_int n)" using show_radix_no_equals by (auto simp: show_int_def)
  then show ?thesis using show_int_plain[of n] by (auto simp: valid_value_def plain_def dest: hd_in_set)
qed

subsection \<open>Whole files\<close>

lemma find_map_append_or: "find_map f (xs @ ys) = or_else (find_map f xs) (find_map f ys)"
  by (induction xs) (auto split: option.splits)

context directive_reader
begin

lemma read_whole:
  "find_map (line_value n c) (str_lines content)
     = or_else (read_global n c content) (find_map (line_value n c) (block_lines (split_inclusive content)))"
proof -
  have "find_map (line_value n c) (str_lines content) = find_map (line_value n c) (split_inclusive content)"
    by (metis find_map_trim map_trim_str_lines)
  also have "\<dots> = find_map (line_value n c) (global_lines (split_inclusive content) @ block_lines (split_inclusive content))"
    by (simp only: global_block_lines)
  finally show ?thesis by (simp only: find_map_append_or read_unwritten)
qed

lemma whole_set:
  assumes "valid_key name" "valid_value v"
  shows "find_map (line_value name c) (str_lines (set_config_directive content name v fmt c dup)) = Some v"
  by (simp only: read_whole read_set[OF assms] or_else_simps)

lemma whole_frame:
  assumes "valid_key name" "valid_value v" "valid_key n" "\<not> eq_ignore_ascii_case name n"
  shows "find_map (line_value n c) (str_lines (set_config_directive content name v fmt' cs dup))
    = find_map (line_value n c) (str_lines content)"
proof -
  have "find_map (line_value n c) (terminate_last ls) = find_map (line_value n c) ls" for ls
    by (metis find_map_trim map_trim_terminate_last)
  then show ?thesis
    by (simp only: read_whole read_frame[OF assms] written_regions(3)[OF assms(1,2) refl refl refl])
qed

end

text \<open>A line written with a space is read by the key-value reader too.\<close>

interpretation ks: directive_reader key_value_value SpaceSeparated
  by unfold_locales (rule key_value_defines_live key_value_by_trim key_value_reads_back; assumption?)+

lemma auto_whole_set:
  assumes "valid_key name" "valid_value v"
  shows "parse_config_value (set_config_directive content name v fmt c dup) name Auto c = Some v"
  by (cases fmt)
     (simp_all only: parse_auto parse_config_value.simps kv.whole_set[OF assms] ks.whole_set[OF assms]
       au.whole_set[OF assms] or_else_simps)

lemma auto_whole_frame:
  assumes "valid_key name" "valid_value v" "valid_key n" "\<not> eq_ignore_ascii_case name n"
  shows "parse_config_value (set_config_directive content name v fmt cs dup) n Auto c = parse_config_value content n Auto c"
  by (simp only: parse_auto parse_config_value.simps(1,2) kv.whole_frame[OF assms] ss.whole_frame[OF assms])

end
