(* ===== verification/Ssh_Safety.thy ===== *)
theory Ssh_Safety
  imports Ssh_Plugin Apply_Effects Compliance_Report Whole_File
begin

text \<open>
  What an SSH apply may and may not do to a host: the fragment never loosens, a remote root session is
  never severed, the candidate meets its targets, and nothing is written that \<open>sshd -t\<close> refuses.
\<close>

subsection \<open>Values and targets\<close>

lemma ssh_sound: "d \<in> set SSH_DIRECTIVES \<Longrightarrow> sound_entry d"
  using shipped_placeable by (auto simp: shipped_directives_def list_all_iff)

lemma ssh_compare:
  "d \<in> set SSH_DIRECTIVES \<Longrightarrow>
     compare d \<in> {AtMost, NonZeroAtMost, Ranked OFF_IS_STRICTER, Ranked PERMIT_ROOT_LOGIN_ORDER}"
  by (auto simp: SSH_DIRECTIVES_def secure_directive_of_def)

lemma ssh_spelling_valid:
  assumes "d \<in> set SSH_DIRECTIVES" "place (compare d) v = Some (n, w)" shows "valid_value w"
proof -
  have ranked: "valid_value w" if "rank_from 0 order v = Some (n, w)" "list_all (\<lambda>g. valid_value (hd g)) order" for order
    using rank_from_Some[OF that(1)] that(2) by (auto simp: list_all_length)
  have "list_all (\<lambda>g. valid_value (hd g)) OFF_IS_STRICTER" "list_all (\<lambda>g. valid_value (hd g)) PERMIT_ROOT_LOGIN_ORDER"
    by (simp_all add: OFF_IS_STRICTER_def PERMIT_ROOT_LOGIN_ORDER_def REMOTE_ROOT_SAFE_VALUE_def valid_value_def is_ws_def)
  note orders = ranked[OF _ this(1)] ranked[OF _ this(2)]
  from ssh_compare[OF assms(1)] consider "compare d = AtMost" | "compare d = NonZeroAtMost"
    | "compare d = Ranked OFF_IS_STRICTER" | "compare d = Ranked PERMIT_ROOT_LOGIN_ORDER" by auto
  then show ?thesis
  proof cases
    case 1
    then show ?thesis using assms(2) show_int_valid by auto
  next
    case 2
    then obtain k where "(if k = 0 then (i64_min, show_int k) else (saturating_neg k, show_int k)) = (n, w)"
      using assms(2) by auto
    then have "w = show_int k" by (auto split: if_splits)
    then show ?thesis using show_int_valid by simp
  next
    case 3
    then show ?thesis using assms(2) orders(1) by simp
  next
    case 4
    then show ?thesis using assms(2) orders(2) by simp
  qed
qed

lemma ssh_violates_iff:
  "place (compare d) t = Some (n, w) \<Longrightarrow>
     ssh_violates d t current \<longleftrightarrow> (\<forall>m u. Option.bind current (place (compare d)) = Some (m, u) \<longrightarrow> m < n)"
  by (auto simp: ssh_violates_def violated_by_def split: option.splits)

lemma ssh_target_placed:
  assumes "d \<in> set SSH_DIRECTIVES"
  obtains n where "place (compare d) (ssh_target d config) = Some (n, ssh_target d config)"
  using resolved_target_placed[OF ssh_sound[OF assms], of config] by (metis ssh_target_def option.simps(5))

lemma ssh_clamp_placed:
  assumes "d \<in> set SSH_DIRECTIVES" "place (compare d) target = Some (b, u)"
  obtains n where "place (compare d) (ssh_clamp d target observed) = Some (n, ssh_clamp d target observed)" "b \<le> n"
    "\<And>v m w. observed = Some v \<Longrightarrow> place (compare d) v = Some (m, w) \<Longrightarrow> m \<le> n"
    "ssh_clamp d target observed = u \<or> (\<exists>v. observed = Some v \<and> place (compare d) v = Some (n, ssh_clamp d target observed))"
proof -
  have "wf_strictness (compare d)" using ssh_sound[OF assms(1)] by simp
  then obtain t n where "clamp_target (compare d) target observed = Some t" "place (compare d) t = Some (n, t)" "b \<le> n"
    "\<And>v m w. observed = Some v \<Longrightarrow> place (compare d) v = Some (m, w) \<Longrightarrow> m \<le> n"
    "t = u \<or> (\<exists>v. observed = Some v \<and> place (compare d) v = Some (n, t))"
    using assms(2) by (rule clamp_target_placed) blast
  then show thesis using that[of n] by (simp add: ssh_clamp_def)
qed

text \<open>The fallback of a remote root session is a value of the one directive it is used for.\<close>

lemma safe_value_placed:
  assumes "d \<in> set SSH_DIRECTIVES" "directive_name d = PERMIT_ROOT_LOGIN"
  shows "compare d = Ranked PERMIT_ROOT_LOGIN_ORDER \<and> secure_value d = ''no''
     \<and> place (compare d) REMOTE_ROOT_SAFE_VALUE = Some (1, REMOTE_ROOT_SAFE_VALUE)
     \<and> place (compare d) ''no'' = Some (3, ''no'')"
proof -
  have r: "rank_from 0 PERMIT_ROOT_LOGIN_ORDER REMOTE_ROOT_SAFE_VALUE = Some (1, REMOTE_ROOT_SAFE_VALUE)"
    "rank_from 0 PERMIT_ROOT_LOGIN_ORDER ''no'' = Some (3, ''no'')" by code_simp+
  have "compare d = Ranked PERMIT_ROOT_LOGIN_ORDER \<and> secure_value d = ''no''"
    using assms by (auto simp: SSH_DIRECTIVES_def secure_directive_of_def PERMIT_ROOT_LOGIN_def)
  with r show ?thesis by simp
qed

text \<open>The \<open>expect\<close>s of the comparisons cannot fail.\<close>

lemma ssh_never_panics:
  assumes "d \<in> set SSH_DIRECTIVES"
  shows "resolved_target (compare d) config (directive_name d) (secure_value d) \<noteq> None"
    and "clamp_target (compare d) (ssh_target d config) observed \<noteq> None"
    and "violated_by (compare d) (ssh_target d config) current \<noteq> None"
    and "directive_name d = PERMIT_ROOT_LOGIN \<Longrightarrow>
      clamp_target (compare d) REMOTE_ROOT_SAFE_VALUE observed \<noteq> None
      \<and> violated_by (compare d) REMOTE_ROOT_SAFE_VALUE current \<noteq> None"
proof -
  obtain n where t: "place (compare d) (ssh_target d config) = Some (n, ssh_target d config)"
    using ssh_target_placed[OF assms] .
  show "resolved_target (compare d) config (directive_name d) (secure_value d) \<noteq> None"
    by (rule resolved_target_placed[OF ssh_sound[OF assms], of config]) simp
  show "clamp_target (compare d) (ssh_target d config) observed \<noteq> None" by (simp add: clamp_target_def t)
  show "violated_by (compare d) (ssh_target d config) current \<noteq> None" by (simp add: violated_by_def t)
  assume "directive_name d = PERMIT_ROOT_LOGIN"
  then have "place (compare d) REMOTE_ROOT_SAFE_VALUE = Some (1, REMOTE_ROOT_SAFE_VALUE)"
    using safe_value_placed[OF assms] by blast
  then show "clamp_target (compare d) REMOTE_ROOT_SAFE_VALUE observed \<noteq> None
      \<and> violated_by (compare d) REMOTE_ROOT_SAFE_VALUE current \<noteq> None"
    by (simp only: clamp_target_def violated_by_def option.simps prod.simps) simp
qed

subsection \<open>Each directive keeps to itself\<close>

definition plan_line :: "string \<Rightarrow> ssh_plan \<Rightarrow> string option" where
  "plan_line name acc = parse_config_value (global_scope (plan_content acc)) name SpaceSeparated False"

definition plan_entries :: "string \<Rightarrow> ssh_plan \<Rightarrow> dropin_directive list" where
  "plan_entries name acc = filter (\<lambda>e. keyword e = name) (to_dropin acc)"

lemma plan_line_simps [simp]:
  "plan_line name (add_change what kind acc) = plan_line name acc"
  "plan_line name (add_dropin k v note acc) = plan_line name acc"
  "plan_line name (keep_value_the_fragment_holds k held acc) = plan_line name acc"
  by (auto simp: plan_line_def add_change_def add_dropin_def keep_value_the_fragment_holds_def split: option.splits)

lemma plan_entries_simps [simp]:
  "plan_entries name (add_change what kind acc) = plan_entries name acc"
  "plan_entries name (add_dropin k v note acc) = plan_entries name acc
     @ (if k = name then [\<lparr>keyword = k, dropin_value = v, dropin_note = note\<rparr>] else [])"
  "plan_entries name (keep_value_the_fragment_holds k held acc) = plan_entries name acc
     @ (case held of Some v \<Rightarrow> (if k = name then [\<lparr>keyword = k, dropin_value = v, dropin_note = []\<rparr>] else []) | None \<Rightarrow> [])"
  "plan_entries name (acc\<lparr>plan_content := c\<rparr>) = plan_entries name acc"
  by (auto simp: plan_entries_def add_change_def add_dropin_def keep_value_the_fragment_holds_def split: option.splits)

lemma plan_line_set:
  assumes "valid_key k" "valid_value v"
  shows "plan_line k (acc\<lparr>plan_content := set_config_directive (plan_content acc) k v SpaceSeparated False Keep\<rparr>) = Some v"
    and "valid_key name \<Longrightarrow> \<not> eq_ignore_ascii_case k name \<Longrightarrow>
      plan_line name (acc\<lparr>plan_content := set_config_directive (plan_content acc) k v SpaceSeparated False Keep\<rparr>)
        = plan_line name acc"
proof -
  have c: "plan_content (acc\<lparr>plan_content := c\<rparr>) = c" for c by simp
  show "plan_line k (acc\<lparr>plan_content := set_config_directive (plan_content acc) k v SpaceSeparated False Keep\<rparr>) = Some v"
    unfolding plan_line_def c read_global_simps by (rule ss.read_set[OF assms])
  show "plan_line name (acc\<lparr>plan_content := set_config_directive (plan_content acc) k v SpaceSeparated False Keep\<rparr>)
        = plan_line name acc" if "valid_key name" "\<not> eq_ignore_ascii_case k name"
    unfolding plan_line_def c read_global_simps by (rule ss.read_frame[OF assms that])
qed

definition managed_names :: "string list" where
  "managed_names = map directive_name SSH_DIRECTIVES @ map crypto_directive_name SSH_CRYPTO_DIRECTIVES"

lemma managed_names_ok:
  "distinct (map (map ascii_lower) managed_names)" "list_all valid_key managed_names"
  by code_simp+

lemma managed_valid: "name \<in> set managed_names \<Longrightarrow> valid_key name"
  using managed_names_ok(2) by (simp add: list_all_iff)

lemma managed_apart:
  assumes "k \<in> set managed_names" "name \<in> set managed_names" "k \<noteq> name"
  shows "\<not> eq_ignore_ascii_case k name"
  using inj_onD[OF distinct_map[THEN iffD1, OF managed_names_ok(1), THEN conjunct2] _ assms(1,2)] assms(3)
  by (auto simp: eq_ignore_ascii_case_def)

lemma directive_managed: "d \<in> set SSH_DIRECTIVES \<Longrightarrow> directive_name d \<in> set managed_names"
  by (simp add: managed_names_def)

lemma crypto_managed: "c \<in> set SSH_CRYPTO_DIRECTIVES \<Longrightarrow> crypto_directive_name c \<in> set managed_names"
  by (simp add: managed_names_def)

lemma directive_names_distinct: "distinct (map directive_name SSH_DIRECTIVES)"
  by (simp add: SSH_DIRECTIVES_def secure_directive_of_def)

text \<open>The value the main file's line gets, and what one directive's step writes.\<close>

definition main_value :: "ssh_site \<Rightarrow> secure_directive \<Rightarrow> string \<Rightarrow> string option \<Rightarrow> string option" where
  "main_value site d target original =
     (if \<not> ssh_violates d target original then original
      else if \<not> guard_active site d target then Some target
      else if \<not> ssh_violates d REMOTE_ROOT_SAFE_VALUE original then original
      else Some REMOTE_ROOT_SAFE_VALUE)"

lemma safe_value_valid: "valid_value REMOTE_ROOT_SAFE_VALUE"
  by code_simp

lemma ssh_target_valid: "d \<in> set SSH_DIRECTIVES \<Longrightarrow> valid_value (ssh_target d config)"
  using ssh_target_placed[of d config] ssh_spelling_valid by metis

lemma violates_absent: "d \<in> set SSH_DIRECTIVES \<Longrightarrow> guard_active site d target \<Longrightarrow> ssh_violates d REMOTE_ROOT_SAFE_VALUE None"
  using ssh_violates_iff[of d REMOTE_ROOT_SAFE_VALUE 1 REMOTE_ROOT_SAFE_VALUE None] safe_value_placed[of d]
  by (simp add: guard_active_def del: place.simps) metis

lemma plan_main_line_cases:
  assumes d: "d \<in> set SSH_DIRECTIVES"
  obtains (kept) what where "plan_main_line site d target acc = add_change what Skipped acc"
      "main_value site d target (plan_line (directive_name d) acc) = plan_line (directive_name d) acc"
  | (same) "plan_main_line site d target acc = acc"
      "main_value site d target (plan_line (directive_name d) acc) = plan_line (directive_name d) acc"
  | (written) what val where "plan_main_line site d target acc = add_change what ConfigFile
        (acc\<lparr>plan_content := set_config_directive (plan_content acc) (directive_name d) val SpaceSeparated False Keep\<rparr>)"
      "main_value site d target (plan_line (directive_name d) acc) = Some val" "val \<in> {target, REMOTE_ROOT_SAFE_VALUE}"
proof -
  let ?original = "plan_line (directive_name d) acc"
  let ?written = "\<lambda>val. acc\<lparr>plan_content := set_config_directive (plan_content acc) (directive_name d) val SpaceSeparated False Keep\<rparr>"
  note step = plan_main_line_def[of site d target acc, unfolded Let_def, folded plan_line_def]
  consider "\<not> ssh_violates d target ?original" | "ssh_violates d target ?original" "\<not> guard_active site d target"
    | current where "ssh_violates d target ?original" "guard_active site d target" "?original = Some current"
        "\<not> ssh_violates d REMOTE_ROOT_SAFE_VALUE (Some current)"
    | "ssh_violates d target ?original" "guard_active site d target" "ssh_violates d REMOTE_ROOT_SAFE_VALUE ?original"
    using violates_absent[OF d, of site target] by (cases ?original) auto
  then show thesis
  proof cases
    case 1
    then show thesis by (intro same) (simp_all add: step main_value_def)
  next
    case 2
    then have "plan_main_line site d target acc = add_change (directive_name d @ '': ''
        @ (case ?original of Some v \<Rightarrow> v | None \<Rightarrow> ''not set'') @ '' -> '' @ target @ []) ConfigFile (?written target)"
      by (simp add: step)
    then show thesis by (rule written) (use 2 in \<open>simp_all add: main_value_def\<close>)
  next
    case 3
    then show thesis by (intro kept[of "kept_line current"]) (simp_all add: step main_value_def)
  next
    case 4
    then have "plan_main_line site d target acc = add_change (directive_name d @ '': ''
        @ (case ?original of Some v \<Rightarrow> v | None \<Rightarrow> ''not set'') @ '' -> '' @ REMOTE_ROOT_SAFE_VALUE @ downgrade_note)
        ConfigFile (?written REMOTE_ROOT_SAFE_VALUE)"
      by (cases ?original) (simp_all add: step)
    then show thesis by (rule written) (use 4 in \<open>simp_all add: main_value_def\<close>)
  qed
qed

lemma plan_main_line_effect:
  assumes d: "d \<in> set SSH_DIRECTIVES" and t: "target = ssh_target d config"
  shows "plan_entries name (plan_main_line site d target acc) = plan_entries name acc"
    and "name \<in> set managed_names \<Longrightarrow> name \<noteq> directive_name d \<Longrightarrow>
      plan_line name (plan_main_line site d target acc) = plan_line name acc"
    and "plan_line (directive_name d) (plan_main_line site d target acc) =
      main_value site d target (plan_line (directive_name d) acc)"
proof -
  have key: "valid_key (directive_name d)" by (rule managed_valid[OF directive_managed[OF d]])
  have val: "valid_value v" if "v \<in> {target, REMOTE_ROOT_SAFE_VALUE}" for v
    using that t ssh_target_valid[OF d] safe_value_valid by auto
  show "plan_entries name (plan_main_line site d target acc) = plan_entries name acc"
    by (rule plan_main_line_cases[OF d, of site target acc]) auto
  show "plan_line (directive_name d) (plan_main_line site d target acc) =
      main_value site d target (plan_line (directive_name d) acc)"
  proof (rule plan_main_line_cases[OF d, of site target acc], goal_cases)
    case (3 what v)
    then show ?case by (simp only: plan_line_simps plan_line_set(1)[OF key val[OF 3(3)]])
  qed simp_all
  show "plan_line name (plan_main_line site d target acc) = plan_line name acc"
    if n: "name \<in> set managed_names" "name \<noteq> directive_name d"
  proof -
    have apart: "\<not> eq_ignore_ascii_case (directive_name d) name"
      by (rule managed_apart[OF directive_managed[OF d] n(1)]) (use n(2) in simp)
    show ?thesis
    proof (rule plan_main_line_cases[OF d, of site target acc], goal_cases)
      case (3 what v)
      then show ?case by (simp only: plan_line_simps plan_line_set(2)[OF key val[OF 3(3)] managed_valid[OF n(1)] apart])
    qed simp_all
  qed
qed

lemma plan_directive_apart:
  assumes "d \<in> set SSH_DIRECTIVES" "name \<in> set managed_names" "name \<noteq> directive_name d"
  shows "plan_line name (plan_directive cal today config site d acc) = plan_line name acc"
    and "plan_entries name (plan_directive cal today config site d acc) = plan_entries name acc"
  using assms(3) plan_main_line_effect(1,2)[OF assms(1) refl] assms(2)
  by (auto simp: plan_directive_def Let_def split: option.splits)

text \<open>A fold whose steps keep to their own observation.\<close>

lemma fold_local:
  assumes "distinct ds" "d \<in> set ds"
    and "\<And>c s. c \<in> set ds \<Longrightarrow> c \<noteq> d \<Longrightarrow> obs (f c s) = obs s"
  shows "\<exists>s. obs s = obs s0 \<and> obs (fold f ds s0) = obs (f d s)"
proof -
  obtain as bs where ds: "ds = as @ d # bs" using split_list[OF assms(2)] by blast
  have skip: "obs (fold f cs s) = obs s" if "set cs \<subseteq> set ds" "d \<notin> set cs" for cs s
    using that
  proof (induction cs arbitrary: s)
    case (Cons c cs)
    then show ?case using assms(3)[of c s] by auto
  qed simp
  have "obs (fold f as s0) = obs s0" "obs (fold f bs (f d (fold f as s0))) = obs (f d (fold f as s0))"
    using assms(1) ds by (auto intro!: skip)
  then show ?thesis unfolding ds by auto
qed

lemma plan_final:
  assumes d: "d \<in> set SSH_DIRECTIVES"
  obtains acc where "plan_line (directive_name d) acc = plan_line (directive_name d) (start_plan content)"
    "plan_entries (directive_name d) acc = []"
    "plan_line (directive_name d) (plan_directives cal today config site content)
       = plan_line (directive_name d) (plan_directive cal today config site d acc)"
    "plan_entries (directive_name d) (plan_directives cal today config site content)
       = plan_entries (directive_name d) (plan_directive cal today config site d acc)"
proof -
  let ?obs = "\<lambda>acc. (plan_line (directive_name d) acc, plan_entries (directive_name d) acc)"
  have "?obs (plan_directive cal today config site c s) = ?obs s" if "c \<in> set SSH_DIRECTIVES" "c \<noteq> d" for c s
  proof -
    have "directive_name d \<noteq> directive_name c"
      using directive_names_distinct d that by (auto simp: distinct_map dest: inj_onD)
    then show ?thesis
      using plan_directive_apart[OF that(1) directive_managed[OF d], of cal today config site s] by simp
  qed
  from fold_local[of SSH_DIRECTIVES d ?obs "plan_directive cal today config site" "start_plan content",
      OF conjunct1[OF directive_names_distinct[unfolded distinct_map]] d this]
  obtain acc where "?obs acc = ?obs (start_plan content)"
    "?obs (plan_directives cal today config site content) = ?obs (plan_directive cal today config site d acc)"
    unfolding plan_directives_def by metis
  then show thesis using that[of acc] by (simp add: plan_entries_def start_plan_def)
qed

text \<open>What one step puts into the fragment: the clamped target, or the value the fragment itself held.\<close>

definition fragment_goal :: "ssh_site \<Rightarrow> plugin_config \<Rightarrow> secure_directive \<Rightarrow> string" where
  "fragment_goal site config d =
     (if guard_active site d (ssh_target d config) then REMOTE_ROOT_SAFE_VALUE else ssh_target d config)"

lemma step_entries:
  assumes "e \<in> set (plan_entries (directive_name d) (plan_directive cal today config site d acc))"
    "plan_entries (directive_name d) acc = []" "d \<in> set SSH_DIRECTIVES"
  shows "dropin_value e = ssh_clamp d (fragment_goal site config d)
        (map_option effective_text (effective (site_resolved site) (directive_name d)))
     \<or> held_by_our_fragment site (directive_name d) = Some (dropin_value e)"
  using assms(1,2) plan_main_line_effect(1)[OF assms(3) refl]
  by (auto simp: plan_directive_def fragment_goal_def Let_def split: option.splits if_splits)

lemma fragment_goal_placed:
  assumes d: "d \<in> set SSH_DIRECTIVES"
  obtains b where "place (compare d) (fragment_goal site config d) = Some (b, fragment_goal site config d)"
proof (cases "guard_active site d (ssh_target d config)")
  case True
  then have "directive_name d = PERMIT_ROOT_LOGIN" by (simp add: guard_active_def)
  from safe_value_placed[OF d this]
  have "place (compare d) REMOTE_ROOT_SAFE_VALUE = Some (1, REMOTE_ROOT_SAFE_VALUE)" by blast
  with True show thesis using that[of 1] by (simp only: fragment_goal_def if_True)
next
  case False
  obtain b where "place (compare d) (ssh_target d config) = Some (b, ssh_target d config)"
    using ssh_target_placed[OF d] .
  with False show thesis using that[of b] by (simp only: fragment_goal_def if_False)
qed

text \<open>The directive that can sever the session always aims at \<open>no\<close>.\<close>

lemma permit_root_listed:
  obtains d where "d \<in> set SSH_DIRECTIVES" "directive_name d = PERMIT_ROOT_LOGIN"
proof -
  have "SSH_DIRECTIVES ! 0 \<in> set SSH_DIRECTIVES" "directive_name (SSH_DIRECTIVES ! 0) = PERMIT_ROOT_LOGIN"
    by (simp_all add: SSH_DIRECTIVES_def secure_directive_of_def PERMIT_ROOT_LOGIN_def)
  then show thesis by (rule that)
qed

lemma permit_root_target:
  assumes d: "d \<in> set SSH_DIRECTIVES" and name: "directive_name d = PERMIT_ROOT_LOGIN"
  shows "ssh_target d config = ''no''"
proof -
  have c: "compare d = Ranked PERMIT_ROOT_LOGIN_ORDER" and sv: "secure_value d = ''no''"
    and no: "place (compare d) ''no'' = Some (3, ''no'')"
    using safe_value_placed[OF d name] by blast+
  obtain t n b u where t: "resolved_target (compare d) config (directive_name d) (secure_value d) = Some t"
    "place (compare d) t = Some (n, t)" "place (compare d) (secure_value d) = Some (b, u)" "b \<le> n"
    by (rule resolved_target_placed[OF ssh_sound[OF d], of config]) blast
  have "3 \<le> n" using t(3,4) no unfolding sv by (auto simp del: place.simps)
  obtain i where i: "i < length PERMIT_ROOT_LOGIN_ORDER" "n = int i" "t = hd (PERMIT_ROOT_LOGIN_ORDER ! i)"
    using rank_from_Some[of 0 PERMIT_ROOT_LOGIN_ORDER t n t] t(2) unfolding c by auto
  have "i = 3" using i(1,2) \<open>3 \<le> n\<close> by (simp add: PERMIT_ROOT_LOGIN_ORDER_def)
  then have "t = ''no''" using i(3) by (simp add: PERMIT_ROOT_LOGIN_ORDER_def)
  with t(1) show ?thesis by (simp add: ssh_target_def)
qed

lemma below_no_iff:
  assumes "d \<in> set SSH_DIRECTIVES" "directive_name d = PERMIT_ROOT_LOGIN"
  shows "violated_by (Ranked PERMIT_ROOT_LOGIN_ORDER) ''no'' (Some v) = Some True
     \<longleftrightarrow> (\<forall>m u. place (compare d) v = Some (m, u) \<longrightarrow> m < 3)"
proof -
  have c: "compare d = Ranked PERMIT_ROOT_LOGIN_ORDER" and no: "place (compare d) ''no'' = Some (3, ''no'')"
    using safe_value_placed[OF assms] by blast+
  show ?thesis using ssh_violates_iff[OF no, of "Some v"] by (simp only: ssh_violates_def c bind.simps)
qed

text \<open>Meeting the goal: the target does, a clamp of it does, and so does the value of the main line.\<close>

lemma target_meets_goal:
  assumes "\<not> ssh_violates d (ssh_target d config) (Some v)" "d \<in> set SSH_DIRECTIVES"
  shows "\<not> ssh_violates d (fragment_goal site config d) (Some v)"
proof (cases "guard_active site d (ssh_target d config)")
  case True
  then have name: "directive_name d = PERMIT_ROOT_LOGIN" by (simp add: guard_active_def)
  have t: "place (compare d) (ssh_target d config) = Some (3, ssh_target d config)"
    and safe: "place (compare d) REMOTE_ROOT_SAFE_VALUE = Some (1, REMOTE_ROOT_SAFE_VALUE)"
    unfolding permit_root_target[OF assms(2) name] using safe_value_placed[OF assms(2) name] by blast+
  from True assms(1) show ?thesis
    unfolding fragment_goal_def if_P[OF True] ssh_violates_iff[OF t] ssh_violates_iff[OF safe] by auto
next
  case False
  with assms(1) show ?thesis by (simp add: fragment_goal_def)
qed

lemma clamp_meets_goal:
  assumes "d \<in> set SSH_DIRECTIVES"
  shows "\<not> ssh_violates d (fragment_goal site config d) (Some (ssh_clamp d (fragment_goal site config d) observed))"
proof -
  obtain b where b: "place (compare d) (fragment_goal site config d) = Some (b, fragment_goal site config d)"
    using fragment_goal_placed[OF assms] .
  obtain n where "place (compare d) (ssh_clamp d (fragment_goal site config d) observed)
      = Some (n, ssh_clamp d (fragment_goal site config d) observed)" "b \<le> n"
    by (rule ssh_clamp_placed[OF assms b]) blast
  then show ?thesis unfolding ssh_violates_iff[OF b] by auto
qed

lemma main_value_meets_goal:
  assumes "d \<in> set SSH_DIRECTIVES"
  shows "\<exists>v. main_value site d (ssh_target d config) original = Some v
     \<and> \<not> ssh_violates d (fragment_goal site config d) (Some v)"
proof -
  let ?goal = "fragment_goal site config d" and ?t = "ssh_target d config"
  obtain b where b: "place (compare d) ?goal = Some (b, ?goal)" using fragment_goal_placed[OF assms] .
  obtain n where t: "place (compare d) ?t = Some (n, ?t)" using ssh_target_placed[OF assms] .
  have self: "\<not> ssh_violates d ?goal (Some ?goal)" unfolding ssh_violates_iff[OF b] using b by auto
  consider "\<not> ssh_violates d ?t original" | "ssh_violates d ?t original" "\<not> guard_active site d ?t"
    | "ssh_violates d ?t original" "guard_active site d ?t" by blast
  then show ?thesis
  proof cases
    case 1
    then obtain v where "original = Some v" by (cases original) (auto simp: ssh_violates_iff[OF t])
    with 1 target_meets_goal[OF _ assms, of config v site] show ?thesis by (simp add: main_value_def)
  next
    case 2
    then have "?goal = ?t" by (simp add: fragment_goal_def)
    with 2 self show ?thesis by (simp add: main_value_def)
  next
    case 3
    then have goal: "?goal = REMOTE_ROOT_SAFE_VALUE" by (simp add: fragment_goal_def)
    show ?thesis
    proof (cases "ssh_violates d REMOTE_ROOT_SAFE_VALUE original")
      case True
      with 3 self goal show ?thesis by (simp add: main_value_def)
    next
      case False
      then obtain v where "original = Some v"
        using violates_absent[OF assms 3(2)] by (cases original) auto
      with 3 False goal show ?thesis by (simp add: main_value_def)
    qed
  qed
qed

text \<open>The outcomes of one step, in what they leave in the plan.\<close>

definition already_safe_enough :: "ssh_site \<Rightarrow> plugin_config \<Rightarrow> secure_directive \<Rightarrow> bool" where
  "already_safe_enough site config d =
     (guard_active site d (ssh_target d config) \<and>
       (\<exists>e. effective (site_resolved site) (directive_name d) = Some e
          \<and> \<not> ssh_violates d REMOTE_ROOT_SAFE_VALUE (Some (effective_text e))))"

lemma plan_directive_cases:
  obtains
    (excepted) what where "matching_exception cal today config (directive_name d)
        (observed_value (effective (site_resolved site) (directive_name d))) \<noteq> None"
      "plan_directive cal today config site d acc = add_change what Skipped acc"
  | (underneath) e what where "matching_exception cal today config (directive_name d)
        (observed_value (effective (site_resolved site) (directive_name d))) = None"
      "overriding site (directive_name d) = Some e"
      "\<not> ssh_violates d (ssh_target d config) (Some (effective_text e))"
      "plan_directive cal today config site d acc = add_change what Skipped acc"
  | (held) what where "matching_exception cal today config (directive_name d)
        (observed_value (effective (site_resolved site) (directive_name d))) = None"
      "already_safe_enough site config d" "plan_directive cal today config site d acc
        = keep_value_the_fragment_holds (directive_name d) (held_by_our_fragment site (directive_name d)) (add_change what Skipped acc)"
  | (fragment) remark where "matching_exception cal today config (directive_name d)
        (observed_value (effective (site_resolved site) (directive_name d))) = None"
      "plan_directive cal today config site d acc = add_dropin (directive_name d)
        (ssh_clamp d (fragment_goal site config d)
          (map_option effective_text (effective (site_resolved site) (directive_name d)))) remark acc"
  | (main) "matching_exception cal today config (directive_name d)
        (observed_value (effective (site_resolved site) (directive_name d))) = None"
      "writing_main site" "overriding site (directive_name d) = None"
      "plan_directive cal today config site d acc = plan_main_line site d (ssh_target d config) acc"
proof (cases "matching_exception cal today config (directive_name d)
    (observed_value (effective (site_resolved site) (directive_name d)))")
  case (Some x)
  then show thesis by (intro excepted) (auto simp: plan_directive_def Let_def)
next
  case None
  have safe: "already_safe_enough site config d \<longleftrightarrow> guard_active site d (ssh_target d config) \<and>
      (case effective (site_resolved site) (directive_name d) of
         Some e \<Rightarrow> \<not> ssh_violates d REMOTE_ROOT_SAFE_VALUE (Some (effective_text e)) | None \<Rightarrow> False)"
    by (auto simp: already_safe_enough_def split: option.splits)
  note step = plan_directive_def[of cal today config site d acc, unfolded Let_def None option.case safe[symmetric]]
  show thesis
  proof (cases "overriding site (directive_name d)")
    case (Some e)
    show thesis
    proof (cases "ssh_violates d (ssh_target d config) (Some (effective_text e))")
      case True
      show thesis
      proof (cases "already_safe_enough site config d")
        case safe: True
        show thesis by (rule held[OF None safe]) (use True Some safe in \<open>simp add: step split: prod.splits\<close>)
      next
        case unsafe: False
        show thesis
          by (cases "guard_active site d (ssh_target d config)"; rule fragment[OF None])
             (use True Some unsafe in \<open>simp_all add: step fragment_goal_def\<close>)
      qed
    next
      case False
      then show thesis using Some by (intro underneath[OF None]) (auto simp: step split: prod.splits)
    qed
  next
    case none: None
    show thesis
    proof (cases "writing_main site")
      case True
      then show thesis using none by (intro main[OF None]) (auto simp: step split: prod.splits)
    next
      case False
      show thesis
      proof (cases "already_safe_enough site config d")
        case safe: True
        show thesis by (rule held[OF None safe]) (use False none safe in \<open>simp add: step split: prod.splits\<close>)
      next
        case unsafe: False
        show thesis
          by (cases "guard_active site d (ssh_target d config)"; rule fragment[OF None])
             (use False none unsafe in \<open>simp_all add: step fragment_goal_def\<close>)
      qed
    qed
  qed
qed

subsection \<open>What a refused candidate leaves behind\<close>

text \<open>Only the staged copy is written, and no service is touched.\<close>

abbreviation staged_only :: "string \<Rightarrow> string \<times> string \<Rightarrow> bool" where
  "staged_only pid w \<equiv> fst w = sshd_validate_scratch_path pid"

abbreviation no_service :: "string \<times> string list \<Rightarrow> bool" where
  "no_service r \<equiv> fst r \<notin> {''systemctl'', ''service''}"

context recorded_effects
begin

lemma validate_confined:
  assumes "validate_sshd_config pid ex h candidate = (r, h')"
  shows "confined (staged_only pid) no_service h h'"
proof -
  let ?temp = "sshd_validate_scratch_path pid"
  obtain w h1 where w: "write_file ex h ?temp candidate = (w, h1)" by fastforce
  obtain m h2 where m: "execute_command ex h1 ''chmod'' [SCRATCH_MODE, ?temp] = (m, h2)" by fastforce
  obtain c h3 where c: "execute_command ex h2 ''sshd'' [''-t'', ''-f'', ?temp] = (c, h3)" by fastforce
  obtain d h4 where d: "execute_command ex h3 ''rm'' [''-f'', ?temp] = (d, h4)" by fastforce
  let ?C = "confined (staged_only pid) no_service"
  have 1: "?C h h1" by (rule write_confined[OF w]) simp
  have "?C h1 h2" by (rule run_confined[OF m]) simp
  also have "?C h2 h3" by (rule run_confined[OF c]) simp
  also have "?C h3 h4" by (rule run_confined[OF d]) simp
  finally have 2: "?C h1 h4" .
  have "h' = h1 \<or> h' = h4"
    using assms by (auto simp: validate_sshd_config_def Let_def w m c d split: sum.splits)
  with 1 confined_trans[OF 1 2] show ?thesis by blast
qed

lemma plan_crypto_confined:
  "plan_crypto cal today config site ex h c acc = (acc', h') \<Longrightarrow> confined W no_service h h'"
  unfolding plan_crypto_def supported_algorithms_def Let_def
  by (auto split: option.splits prod.splits sum.splits dest!: run_confined[where W = W and R = no_service])

lemma plan_cryptos_confined:
  "plan_cryptos cal today config site ex cs acc h = (acc', h') \<Longrightarrow> confined W no_service h h'"
proof (induction cs arbitrary: acc h)
  case (Cons c cs)
  from Cons.prems show ?case
    by (auto split: prod.splits dest!: plan_crypto_confined[where W = W] Cons.IH intro: confined_trans)
qed simp

lemma backup_confined:
  assumes "backup_main stamp ex h path = (r, h')"
  shows "confined W no_service h h'"
proof -
  obtain c h1 where c: "execute_command ex h ''cp'' [''-p'', ''--no-dereference'', path, backup_prefix path @ stamp] = (c, h1)"
    by fastforce
  have 1: "confined W no_service h h1" by (rule run_confined[OF c]) simp
  have 2: "confined W no_service h1 (prune_timestamped_backups ex h1 (backup_prefix path) BACKUPS_KEPT)"
    by (rule prune_confined) simp
  have "h' = h1 \<or> h' = prune_timestamped_backups ex h1 (backup_prefix path) BACKUPS_KEPT"
    using assms by (auto simp: backup_main_def Let_def c split: sum.splits if_splits)
  with 1 confined_trans[OF 1 2] show ?thesis by blast
qed

lemma remote_root_confined: "is_remote_root_session ex h = (b, h') \<Longrightarrow> confined W no_service h h'"
  unfolding is_remote_root_session_def
  by (auto split: if_splits dest!: session_is_root_confined[where W = W and R = no_service])

lemma refused_commit_confined:
  assumes "\<And>h c. \<not> is_ok (fst (validate_sshd_config pid ex h c))"
    and "ssh_commit pid ex h path main_write dropin_changed plan desired cid committed = (r, h')"
  shows "confined (staged_only pid) no_service h h' \<and> \<not> apply_success r"
proof -
  let ?candidate = "case desired of Some body \<Rightarrow> body @ [nl] @ plan_content plan | None \<Rightarrow> plan_content plan"
  obtain v h1 where v: "validate_sshd_config pid ex h ?candidate = (v, h1)" by fastforce
  then obtain e where "v = Inl e" using assms(1)[of h ?candidate] by (cases v) auto
  with assms(2) v validate_confined[OF v] show ?thesis
    by (auto simp: ssh_commit_def ssh_apply_result_def Let_def)
qed

end

lemma refused_settle:
  assumes rec: "recorded_effects (ctx_executor ctx) writes runs"
    and refused: "\<forall>h c. \<not> is_ok (fst (validate_sshd_config pid (ctx_executor ctx) h c))"
    and run: "ssh_settle stamp pid ctx h db site content plan = Some (Inr r, h', db')"
  shows "recorded_effects.confined writes runs (\<lambda>_. False) no_service h h'
     \<or> recorded_effects.confined writes runs (staged_only pid) no_service h h' \<and> \<not> apply_success r"
proof -
  let ?C = "recorded_effects.confined writes runs"
  note refl = recorded_effects.confined_refl[OF rec] and trans = recorded_effects.confined_trans[OF rec]
  let ?ex = "ctx_executor ctx"
  let ?desired = "if to_dropin plan = [] then None else Some (render_dropin (to_dropin plan))"
  let ?changed = "?desired \<noteq> result_ok (read_file ?ex h DROPIN_PATH)"
  let ?main_write = "writing_main site \<and> plan_content plan \<noteq> content"
  show ?thesis
  proof (cases "plan_content plan = content \<and> \<not> ?changed")
    case True
    with run refl show ?thesis by (simp add: ssh_settle_def Let_def)
  next
    case False
    note step = run[unfolded ssh_settle_def Let_def if_not_P[OF False]]
    obtain cid h1 db1 where c: "create_checkpoint_for_apply ctx h db ''ssh-hardening-pre-apply''
        (if writing_main site then [site_path site, DROPIN_PATH] else [DROPIN_PATH]) = Some (Inr cid, h1, db1)"
      using step by (auto split: option.splits prod.splits sum.splits)
    have 1: "?C W no_service h h1" for W by (rule checkpoint_for_apply_confined[OF rec c])
    obtain b h2 where b: "(if ?main_write then backup_main stamp ?ex h1 (site_path site) else (Inr [], h1)) = (b, h2)" by fastforce
    have 2: "?C W no_service h1 h2" for W
      using b recorded_effects.backup_confined[OF rec] refl by (auto split: if_splits)
    show ?thesis
    proof (cases b)
      case (Inl why)
      then have "h' = h2" using step c b by simp
      with trans[OF 1 2] show ?thesis by blast
    next
      case (Inr backed)
      then obtain committed where "ssh_commit pid ?ex h2 (site_path site) ?main_write ?changed plan ?desired cid committed = (r, h')"
        using step c b by (auto split: prod.splits)
      from recorded_effects.refused_commit_confined[OF rec refused[rule_format] this] trans[OF trans[OF 1 2]]
      show ?thesis by blast
    qed
  qed
qed

subsection \<open>Properties\<close>


text \<open>
  C7. No lockout: over a remote root session on a host that does not refuse root already, no layout and no
  configuration makes the apply write the value that would sever the session, neither into the fragment
  nor into the main file, where the line is left as it was or gets the safe fallback.
\<close>

theorem remote_root_never_severed:
  assumes "remote_root_session site"
    and "\<forall>e. effective (site_resolved site) PERMIT_ROOT_LOGIN = Some e \<longrightarrow>
          violated_by (Ranked PERMIT_ROOT_LOGIN_ORDER) ''no'' (Some (effective_text e)) = Some True"
  shows "(\<forall>e\<in>set (to_dropin (plan_directives cal today config site content)). keyword e = PERMIT_ROOT_LOGIN \<longrightarrow>
          violated_by (Ranked PERMIT_ROOT_LOGIN_ORDER) ''no'' (Some (dropin_value e)) = Some True)
     \<and> plan_line PERMIT_ROOT_LOGIN (plan_directives cal today config site content)
        \<in> {plan_line PERMIT_ROOT_LOGIN (start_plan content), Some REMOTE_ROOT_SAFE_VALUE}"
proof -
  obtain d where d: "d \<in> set SSH_DIRECTIVES" "directive_name d = PERMIT_ROOT_LOGIN"
    by (rule permit_root_listed)
  have guard: "guard_active site d (ssh_target d config)"
    using assms(1) d(2) permit_root_target[OF d] by (simp add: guard_active_def)
  then have goal: "fragment_goal site config d = REMOTE_ROOT_SAFE_VALUE" by (simp add: fragment_goal_def)
  have safe: "place (compare d) REMOTE_ROOT_SAFE_VALUE = Some (1, REMOTE_ROOT_SAFE_VALUE)"
    using safe_value_placed[OF d] by blast
  let ?now = "map_option effective_text (effective (site_resolved site) (directive_name d))"
  have now: "m < 3" if "?now = Some v" "place (compare d) v = Some (m, u)" for v m u
    using that assms(2) below_no_iff[OF d] d(2) by auto
  obtain acc where acc: "plan_line (directive_name d) acc = plan_line (directive_name d) (start_plan content)"
    "plan_entries (directive_name d) acc = []"
    "plan_line (directive_name d) (plan_directives cal today config site content)
       = plan_line (directive_name d) (plan_directive cal today config site d acc)"
    "plan_entries (directive_name d) (plan_directives cal today config site content)
       = plan_entries (directive_name d) (plan_directive cal today config site d acc)"
    by (rule plan_final[OF d(1)])
  have "\<forall>m u. place (compare d) (dropin_value e) = Some (m, u) \<longrightarrow> m < 3"
    if e: "e \<in> set (plan_entries (directive_name d) (plan_directive cal today config site d acc))" for e
  proof -
    from step_entries[OF e acc(2) d(1)] consider
      (clamped) "dropin_value e = ssh_clamp d REMOTE_ROOT_SAFE_VALUE ?now"
      | (held) "held_by_our_fragment site (directive_name d) = Some (dropin_value e)" unfolding goal by blast
    then show ?thesis
    proof cases
      case clamped
      obtain n where "place (compare d) (dropin_value e) = Some (n, dropin_value e)"
        "dropin_value e = REMOTE_ROOT_SAFE_VALUE \<or> (\<exists>v. ?now = Some v \<and> place (compare d) v = Some (n, dropin_value e))"
        unfolding clamped by (rule ssh_clamp_placed[OF d(1) safe]) blast
      then show ?thesis using now safe by force
    next
      case held
      then show ?thesis using now by (auto simp: held_by_our_fragment_def split: option.splits if_splits)
    qed
  qed
  note low = this
  have "violated_by (Ranked PERMIT_ROOT_LOGIN_ORDER) ''no'' (Some (dropin_value e)) = Some True"
    if "e \<in> set (to_dropin (plan_directives cal today config site content))" "keyword e = PERMIT_ROOT_LOGIN" for e
  proof -
    have "e \<in> set (plan_entries (directive_name d) (plan_directives cal today config site content))"
      using that d(2) by (simp add: plan_entries_def)
    then show ?thesis unfolding below_no_iff[OF d] by (intro low) (simp only: acc(4))
  qed
  moreover have "plan_line (directive_name d) (plan_directive cal today config site d acc)
      \<in> {plan_line (directive_name d) acc, Some REMOTE_ROOT_SAFE_VALUE}"
    using plan_main_line_effect(3)[OF d(1) refl, of site config acc] guard
    by (auto simp: plan_directive_def Let_def main_value_def split: option.splits)
  ultimately show ?thesis using acc(1,3) unfolding d(2) by simp
qed



text \<open>A strict value can be lost: over a remote root session, when it is this tool's own fragment that
  refuses root and neither the main file nor another fragment says anything, the plan writes the weaker
  fallback into the main file and no longer lists the directive in the fragment.
\<close>

theorem held_no_is_dropped:
  assumes "remote_root_session site" "writing_main site"
    and "effective (site_resolved site) PERMIT_ROOT_LOGIN = Some \<lparr>effective_text = ''no'', effective_source = DROPIN_PATH\<rparr>"
    and "effective_without (site_resolved site) PERMIT_ROOT_LOGIN DROPIN_PATH = None"
    and "parse_config_value (global_scope content) PERMIT_ROOT_LOGIN SpaceSeparated False = None"
    and "matching_exception cal today config PERMIT_ROOT_LOGIN ''no'' = None"
  shows "let final = plan_directives cal today config site content in
    parse_config_value (global_scope (plan_content final)) PERMIT_ROOT_LOGIN SpaceSeparated False = Some REMOTE_ROOT_SAFE_VALUE
    \<and> (\<forall>e\<in>set (to_dropin final). keyword e \<noteq> PERMIT_ROOT_LOGIN)"
proof -
  obtain d where d: "d \<in> set SSH_DIRECTIVES" and name: "directive_name d = PERMIT_ROOT_LOGIN"
    by (rule permit_root_listed)
  note t = permit_root_target[OF d name, of config]
  have guard: "guard_active site d (ssh_target d config)" using assms(1) name t by (simp add: guard_active_def)
  have no: "place (compare d) ''no'' = Some (3, ''no'')" using safe_value_placed[OF d name] by blast
  have missing: "ssh_violates d (ssh_target d config) None" unfolding t by (simp add: ssh_violates_iff[OF no])
  have outer: "overriding site PERMIT_ROOT_LOGIN = None" by (simp add: overriding_def assms(4))
  have step: "plan_directive cal today config site d acc = plan_main_line site d (ssh_target d config) acc" for acc
    using assms(2,3,6) outer by (simp add: plan_directive_def Let_def name observed_value_def)
  obtain acc where acc: "plan_line PERMIT_ROOT_LOGIN acc = plan_line PERMIT_ROOT_LOGIN (start_plan content)"
    "plan_entries PERMIT_ROOT_LOGIN acc = []"
    "plan_line PERMIT_ROOT_LOGIN (plan_directives cal today config site content)
       = plan_line PERMIT_ROOT_LOGIN (plan_main_line site d (ssh_target d config) acc)"
    "plan_entries PERMIT_ROOT_LOGIN (plan_directives cal today config site content)
       = plan_entries PERMIT_ROOT_LOGIN (plan_main_line site d (ssh_target d config) acc)"
    by (rule plan_final[OF d, of content cal today config site, unfolded name step]) blast
  have "plan_line PERMIT_ROOT_LOGIN acc = None"
    using acc(1) assms(5) by (simp add: plan_line_def start_plan_def)
  then have "plan_line PERMIT_ROOT_LOGIN (plan_directives cal today config site content) = Some REMOTE_ROOT_SAFE_VALUE"
    using acc(3) plan_main_line_effect(3)[OF d refl, of site config acc, unfolded name] guard missing
      violates_absent[OF d guard] by (simp add: main_value_def)
  moreover have "plan_entries PERMIT_ROOT_LOGIN (plan_directives cal today config site content) = []"
    using acc(2,4) plan_main_line_effect(1)[OF d refl, of PERMIT_ROOT_LOGIN site config acc] by simp
  ultimately show ?thesis
    by (simp add: Let_def plan_line_def plan_entries_def filter_empty_conv)
qed

subsection \<open>Witnesses\<close>

text \<open>A host that keeps its main file in the vendor layer, and one whose fragment alone refuses root.\<close>

definition vendor_site :: ssh_site where
  "vendor_site = \<lparr>site_path = ''/usr/etc/ssh/sshd_config'', writing_main = False, remote_root_session = True,
     site_resolved = [(''/usr/etc/ssh/sshd_config'', ''PermitRootLogin yes'')]\<rparr>"

definition held_site :: ssh_site where
  "held_site = \<lparr>site_path = ''/etc/ssh/sshd_config'', writing_main = True, remote_root_session = True,
     site_resolved = [(''/etc/ssh/sshd_config'', ''Port 22''), (DROPIN_PATH, ''PermitRootLogin no'')]\<rparr>"

lemma vendor_site_values:
  "effective (site_resolved vendor_site) PERMIT_ROOT_LOGIN
     = Some \<lparr>effective_text = ''yes'', effective_source = ''/usr/etc/ssh/sshd_config''\<rparr>"
  "overriding vendor_site PERMIT_ROOT_LOGIN = None"
  "violated_by (Ranked PERMIT_ROOT_LOGIN_ORDER) ''no'' (Some ''yes'') = Some True"
  "violated_by (Ranked PERMIT_ROOT_LOGIN_ORDER) REMOTE_ROOT_SAFE_VALUE (Some ''yes'') = Some True"
  by code_simp+

lemma held_site_values:
  "effective (site_resolved held_site) PERMIT_ROOT_LOGIN = Some \<lparr>effective_text = ''no'', effective_source = DROPIN_PATH\<rparr>"
  "effective_without (site_resolved held_site) PERMIT_ROOT_LOGIN DROPIN_PATH = None"
  "parse_config_value (global_scope ''Port 22'') PERMIT_ROOT_LOGIN SpaceSeparated False = None"
  "remote_root_session held_site" "writing_main held_site"
  by code_simp+

lemma no_exception: "matching_exception cal today default_plugin_config name v = None"
  by (simp add: matching_exception_def has_valid_exception_def default_plugin_config_def)

text \<open>On the vendor host the fragment does get an entry for root logins.\<close>

lemma vendor_entry:
  assumes d: "d \<in> set SSH_DIRECTIVES" and name: "directive_name d = PERMIT_ROOT_LOGIN"
  shows "\<exists>e. e \<in> set (to_dropin (plan_directives cal today default_plugin_config vendor_site content))
     \<and> keyword e = PERMIT_ROOT_LOGIN"
proof -
  have "compare d = Ranked PERMIT_ROOT_LOGIN_ORDER" using safe_value_placed[OF d name] by blast
  then have weak: "ssh_violates d REMOTE_ROOT_SAFE_VALUE (Some ''yes'')"
    by (simp add: ssh_violates_def vendor_site_values)
  have "\<not> writing_main vendor_site" by (simp add: vendor_site_def)
  then obtain v remark where step: "\<And>acc. plan_directive cal today default_plugin_config vendor_site d acc
      = add_dropin PERMIT_ROOT_LOGIN v remark acc"
    using weak by (cases "guard_active vendor_site d (ssh_target d default_plugin_config)")
      (simp_all add: plan_directive_def Let_def name vendor_site_values no_exception)
  obtain acc where "plan_entries PERMIT_ROOT_LOGIN (plan_directives cal today default_plugin_config vendor_site content)
      = plan_entries PERMIT_ROOT_LOGIN (plan_directive cal today default_plugin_config vendor_site d acc)"
    by (rule plan_final[OF d, of content cal today default_plugin_config vendor_site, unfolded name]) blast
  then have "plan_entries PERMIT_ROOT_LOGIN (plan_directives cal today default_plugin_config vendor_site content) \<noteq> []"
    by (simp add: step)
  then show ?thesis by (auto simp: plan_entries_def filter_empty_conv)
qed


theorem remote_root_never_severed_witness:
  "\<exists>e\<in>set (to_dropin (plan_directives sample_calendar 3 default_plugin_config vendor_site [])).
     keyword e = PERMIT_ROOT_LOGIN
     \<and> violated_by (Ranked PERMIT_ROOT_LOGIN_ORDER) ''no'' (Some (dropin_value e)) = Some True"
proof -
  obtain d where d: "d \<in> set SSH_DIRECTIVES" and name: "directive_name d = PERMIT_ROOT_LOGIN"
    by (rule permit_root_listed)
  from vendor_entry[OF this, of sample_calendar 3 "[]"] obtain e where
    "e \<in> set (to_dropin (plan_directives sample_calendar 3 default_plugin_config vendor_site []))"
    "keyword e = PERMIT_ROOT_LOGIN" by blast
  moreover have "remote_root_session vendor_site" by (simp add: vendor_site_def)
  moreover have "\<forall>e. effective (site_resolved vendor_site) PERMIT_ROOT_LOGIN = Some e \<longrightarrow>
      violated_by (Ranked PERMIT_ROOT_LOGIN_ORDER) ''no'' (Some (effective_text e)) = Some True"
    by (simp add: vendor_site_values)
  ultimately show ?thesis
    using remote_root_never_severed[of vendor_site sample_calendar 3 default_plugin_config "[]"] by blast
qed


theorem held_no_is_dropped_witness:
  "parse_config_value (global_scope (plan_content (plan_directives sample_calendar 3 default_plugin_config held_site ''Port 22'')))
     PERMIT_ROOT_LOGIN SpaceSeparated False = Some REMOTE_ROOT_SAFE_VALUE"
  using held_no_is_dropped[OF held_site_values(4,5,1,2,3) no_exception, of sample_calendar 3]
  unfolding Let_def by (rule conjunct1)

text \<open>An executor on which every command fails to start, over a host with a vendor-layer file.\<close>

definition refusing_executor :: "mock_host executor" where
  "refusing_executor = (mock_executor False ''sample'')\<lparr>execute_command :=
     (\<lambda>h program args. (Inl (Causes [(None, ''refused'')]), h\<lparr>commands_executed := commands_executed h @ [(program, args)]\<rparr>))\<rparr>"

definition refusing_host :: mock_host where
  "refusing_host = with_file ''/usr/etc/ssh/sshd_config'' ''Port 22'' new_mock"

lemma refusing_records: "recorded_effects refusing_executor files_written commands_executed"
  by unfold_locales
     (auto simp: refusing_executor_def mock_executor_def mock_write_file_def with_file_def mock_read_link_def
        mock_link_target_as_writer_def split: if_splits option.splits)

lemma refusing_refuses: "\<not> is_ok (fst (validate_sshd_config pid refusing_executor h c))"
  by (simp add: validate_sshd_config_def refusing_executor_def Let_def is_ok_def split: sum.splits prod.splits)

lemma refusing_executor_simps [simp]:
  "read_file refusing_executor = mock_read_file" "path_exists refusing_executor = mock_path_exists"
  "read_dir refusing_executor = mock_read_dir" "is_remote refusing_executor = False"
  by (simp_all add: refusing_executor_def)

lemma sample_paths:
  "vendor_path_for ''/etc/ssh/sshd_config'' = Some ''/usr/etc/ssh/sshd_config''"
  "parent_path (backup_prefix ''/usr/etc/ssh/sshd_config'') = Some ''/usr/etc/ssh''"
  "SSHD_ADMIN_CONFIG_PATH = ''/etc/ssh/sshd_config''"
  "str_lines ''Port 22'' = [''Port 22'']" "include_patterns ''Port 22'' = None"
  by code_simp+

lemma refusing_host_reads:
  "mock_read_file refusing_host ''/usr/etc/ssh/sshd_config'' = Inr ''Port 22''"
  "\<exists>e. mock_read_file refusing_host ''/etc/ssh/sshd_config'' = Inl e"
  "mock_path_exists refusing_host ''/etc/ssh/sshd_config'' = Inr False"
  "\<exists>entries. mock_read_dir refusing_host ''/usr/etc/ssh'' = Inr entries \<and> length entries \<le> 1"
  by (simp_all add: refusing_host_def with_file_def new_mock_def mock_read_file_def mock_path_exists_def mock_read_dir_def)

lemma refusing_reads:
  "read_layered refusing_executor refusing_host SSHD_ADMIN_CONFIG_PATH
     = Found ''/usr/etc/ssh/sshd_config'' VendorLayer ''Port 22''"
  "\<exists>segs. resolve refusing_executor refusing_host ''/usr/etc/ssh/sshd_config'' ''Port 22'' = Inr segs"
proof -
  show "read_layered refusing_executor refusing_host SSHD_ADMIN_CONFIG_PATH
     = Found ''/usr/etc/ssh/sshd_config'' VendorLayer ''Port 22''"
    using refusing_host_reads(2) by (auto simp: read_layered_def read_one_def refusing_host_reads(1,3) sample_paths)
  have "\<exists>m. MAX_INCLUDE_DEPTH = Suc m" by (rule exI[of _ 15]) (simp add: MAX_INCLUDE_DEPTH_def)
  then obtain m where "MAX_INCLUDE_DEPTH = Suc m" by blast
  with expand_free[of "''Port 22''" m refusing_executor refusing_host "''/usr/etc/ssh/sshd_config''"]
  show "\<exists>segs. resolve refusing_executor refusing_host ''/usr/etc/ssh/sshd_config'' ''Port 22'' = Inr segs"
    by (simp add: resolve_def sample_paths del: expand_into.simps)
qed

lemma refusing_apply:
  "\<exists>r h' db'. ssh_apply sample_calendar 3 stamp pid \<lparr>ctx_executor = refusing_executor, ctx_manager = None\<rparr>
     refusing_host empty_database default_plugin_config = Some (Inr r, h', db')"
proof -
  have pruned: "prune_timestamped_backups refusing_executor refusing_host
      (backup_prefix ''/usr/etc/ssh/sshd_config'') BACKUPS_KEPT = refusing_host"
  proof -
    obtain entries where "mock_read_dir refusing_host ''/usr/etc/ssh'' = Inr entries" "length entries \<le> 1"
      using refusing_host_reads(4) by blast
    moreover have "length (filter p entries) \<le> BACKUPS_KEPT" for p
      using le_trans[OF length_filter_le \<open>length entries \<le> 1\<close>, of p] by (simp add: BACKUPS_KEPT_def)
    ultimately show ?thesis by (simp add: prune_timestamped_backups_def sample_paths Let_def)
  qed
  obtain segs where segs: "resolve refusing_executor refusing_host ''/usr/etc/ssh/sshd_config'' ''Port 22'' = Inr segs"
    using refusing_reads(2) by blast
  show ?thesis
    by (simp add: ssh_apply_def refusing_reads pruned segs is_remote_root_session_def Let_def ssh_settle_def
        create_checkpoint_for_apply_def split: prod.splits)
qed


end
