(* ===== verification/Permissions_Plugin.thy ===== *)
theory Permissions_Plugin
  imports Kernel_Plugin "HOL-Library.Word"
begin

text \<open>
  The file permissions plugin (hardener-plugins/src/permissions/mod.rs): scan, apply and preview of the
  modes of the critical paths. A mode is a \<open>u32\<close>. The local branch of the apply uses \<open>std::fs\<close> and
  \<open>fchmod\<close> rather than the executor: those three calls are the record \<open>local_files\<close>. The arrow U+2192 of
  the preview lines is written \<open>->\<close>.
\<close>

unbundle bit_operations_syntax

definition PERMISSIONS_PLUGIN_ID :: plugin_id where "PERMISSIONS_PLUGIN_ID = ''permissions-hardening''"

subsection \<open>Modes\<close>

definition mode_violates :: "permission_directive \<Rightarrow> 32 word \<Rightarrow> bool" where
  "mode_violates d current =
     (if permission_max_mask d then current AND NOT (permission_mode d) \<noteq> 0 else current \<noteq> permission_mode d)"

definition target_mode :: "permission_directive \<Rightarrow> 32 word \<Rightarrow> 32 word" where
  "target_mode d current = (if permission_max_mask d then current AND permission_mode d else permission_mode d)"

definition unverified_mode_target :: "permission_directive \<Rightarrow> 32 word option" where
  "unverified_mode_target d = (if \<not> permission_max_mask d then Some (permission_mode d) else None)"

text \<open>The nine bits the plugin looks at, and \<open>{:04o}\<close>.\<close>

definition permission_bits :: "file_metadata \<Rightarrow> 32 word" where
  "permission_bits m = of_nat (mode m) AND 0x1FF"

definition octal :: "32 word \<Rightarrow> string" where
  "octal m = pad_left 4 (show_radix 8 (unat m))"

definition effective_directive :: "permission_directive \<Rightarrow> plugin_config \<Rightarrow> permission_directive" where
  "effective_directive d config =
     (case directives config (permission_path d) of
        None \<Rightarrow> d
      | Some s \<Rightarrow>
          (case parse_unsigned 8 (2 ^ 32) s of
             None \<Rightarrow> d
           | Some n \<Rightarrow> if (of_nat n :: 32 word) AND NOT (permission_mode d) = 0
                       then d\<lparr>permission_mode := of_nat n\<rparr> else d))"

subsection \<open>File systems without modes\<close>

definition NON_POSIX_FSTYPES :: "string list" where
  "NON_POSIX_FSTYPES = [''vfat'', ''msdos'', ''exfat'', ''ntfs'', ''ntfs3'', ''iso9660'', ''udf'']"

definition permission_check_id :: "string \<Rightarrow> string" where
  "permission_check_id path = ''perm-'' @ replace_chars [CHR ''/''] (CHR ''-'') path"

text \<open>What one of the two probes says, if it ran, succeeded and printed something.\<close>

definition probe_answer :: "command_output host_result \<Rightarrow> string option" where
  "probe_answer r =
     (case r of
        Inr out \<Rightarrow> if command_success out \<and> trim (stdout out) \<noteq> [] then Some (trim (stdout out)) else None
      | Inl _ \<Rightarrow> None)"

definition probe_fstype :: "('h, 'z) executor_scheme \<Rightarrow> 'h \<Rightarrow> string \<Rightarrow> string option \<times> 'h" where
  "probe_fstype ex h path =
     (case execute_command ex h ''findmnt'' [''-no'', ''FSTYPE'', path] of
        (found, h) \<Rightarrow>
          (case probe_answer found of
             Some t \<Rightarrow> (Some t, h)
           | None \<Rightarrow>
               (case execute_command ex h ''stat'' [''-f'', ''-c'', ''%T'', path] of
                  (found, h) \<Rightarrow> (probe_answer found, h))))"

definition non_posix_fstype :: "('h, 'z) executor_scheme \<Rightarrow> 'h \<Rightarrow> string \<Rightarrow> string option \<times> 'h" where
  "non_posix_fstype ex h path =
     (case probe_fstype ex h path of
        (None, h) \<Rightarrow> (None, h)
      | (Some fstype, h) \<Rightarrow>
          (let t = map ascii_lower (trim fstype) in
           (if t \<in> set NON_POSIX_FSTYPES then Some t else None, h)))"

definition non_posix_guidance :: "string \<Rightarrow> string \<Rightarrow> string" where
  "non_posix_guidance path fstype =
     path @ '' is on a '' @ fstype @ '' filesystem; POSIX permissions cannot be set with chmod - ''
       @ ''harden via fstab mount options (e.g. fmask=0077,dmask=0077)''"

definition permission_unchecked :: "permission_directive \<Rightarrow> string \<Rightarrow> unchecked_blocker \<Rightarrow> unchecked_check" where
  "permission_unchecked d cause blocker =
     \<lparr>unchecked_check_id = permission_check_id (permission_path d),
      unchecked_title = ''Permissions on '' @ permission_path d, unchecked_category = FileSystem,
      unchecked_reason = cause, unchecked_blocker = blocker,
      unchecked_compliance = permissions_compliance_mappings (permission_path d)\<rparr>"

definition non_posix_unchecked :: "permission_directive \<Rightarrow> string \<Rightarrow> unchecked_check" where
  "non_posix_unchecked d fstype = permission_unchecked d (non_posix_guidance (permission_path d) fstype) Environment"

definition unverifiable_unchecked :: "permission_directive \<Rightarrow> string \<Rightarrow> unchecked_check" where
  "unverifiable_unchecked d cause = permission_unchecked d cause Unknown"

subsection \<open>Scan\<close>

datatype permission_check =
    CheckClear
  | CheckUnverifiable unchecked_check
  | CheckInsecure finding
  | CheckVendorOnly finding
  | CheckNonPosix unchecked_check

text \<open>The finding of the two layers, which differ in the text and the steps alone.\<close>

definition permission_finding ::
  "'d::linorder calendar \<Rightarrow> 'd \<Rightarrow> plugin_config \<Rightarrow> permission_directive \<Rightarrow> 32 word \<Rightarrow> string \<Rightarrow> string \<Rightarrow> string list \<Rightarrow>
   finding" where
  "permission_finding cal today config d current file_in_force explanation steps =
     \<lparr>finding_category = FileSystem, finding_current_value = octal current,
      finding_description = permission_description d, finding_explanation = explanation,
      finding_id = permission_check_id (permission_path d),
      finding_impact = ''Low - only affects security posture, no functional impact'',
      finding_recommended_value = octal (target_mode d current), finding_remediation_steps = steps,
      finding_severity = permission_severity d,
      finding_title = ''Insecure permissions on '' @ file_in_force,
      finding_compliance = permissions_compliance_mappings (permission_path d),
      finding_exception = exception_outcome_for_mode cal today config (permission_path d) (unat current),
      finding_exception_key = Some (permission_path d)\<rparr>"

definition vendor_finding ::
  "'d::linorder calendar \<Rightarrow> 'd \<Rightarrow> plugin_config \<Rightarrow> permission_directive \<Rightarrow> string \<Rightarrow> 32 word \<Rightarrow> finding" where
  "vendor_finding cal today config d vendor current =
     (let path = permission_path d; target = target_mode d current in
      permission_finding cal today config d current vendor
        (path @ '' does not exist, so '' @ vendor @ '' is the file in force, and it has permissions '' @ octal current
          @ '' where '' @ octal target @ '' is required. This tool does not write the vendor layer, so it cannot correct this for you'')
        [''install -o root -g root -m '' @ octal target @ '' '' @ vendor @ '' '' @ path,
         ''The copy in '' @ path @ '' takes precedence over the vendor file and is where a deviation belongs; editing ''
           @ vendor @ '' in place would be reverted by the next package update''])"

definition insecure_mode_finding ::
  "'d::linorder calendar \<Rightarrow> 'd \<Rightarrow> plugin_config \<Rightarrow> permission_directive \<Rightarrow> 32 word \<Rightarrow> finding" where
  "insecure_mode_finding cal today config d current =
     (let path = permission_path d; target = target_mode d current in
      permission_finding cal today config d current path
        (''The path '' @ path @ '' has permissions '' @ octal current @ '' but should have '' @ octal target
          @ '' to prevent unauthorised access'')
        [''chmod '' @ octal target @ '' '' @ path])"

definition check_vendor_layer_permissions ::
  "'d::linorder calendar \<Rightarrow> 'd \<Rightarrow> ('h, 'z) executor_scheme \<Rightarrow> 'h \<Rightarrow> permission_directive \<Rightarrow> plugin_config \<Rightarrow>
   permission_check" where
  "check_vendor_layer_permissions cal today ex h d config =
     (case vendor_path_for (permission_path d) of
        None \<Rightarrow> CheckClear
      | Some vendor \<Rightarrow>
          (case path_exists ex h vendor of
             Inl e \<Rightarrow> CheckUnverifiable (unverifiable_unchecked d (permission_path d
               @ '' is absent and could not determine whether '' @ vendor @ '' exists: '' @ host_error_text e))
           | Inr False \<Rightarrow> CheckClear
           | Inr True \<Rightarrow>
               (case metadata_of ex h vendor of
                  Inl e \<Rightarrow> CheckUnverifiable (unverifiable_unchecked d (permission_path d
                    @ '' is absent and its vendor copy '' @ vendor @ '' could not be read: '' @ host_error_text e))
                | Inr m \<Rightarrow>
                    (let current = permission_bits m; d = effective_directive d config in
                     if \<not> mode_violates d current then CheckClear
                     else CheckVendorOnly (vendor_finding cal today config d vendor current)))))"

definition check_path_permissions ::
  "'d::linorder calendar \<Rightarrow> 'd \<Rightarrow> ('h, 'z) executor_scheme \<Rightarrow> 'h \<Rightarrow> permission_directive \<Rightarrow> plugin_config \<Rightarrow>
   permission_check \<times> 'h" where
  "check_path_permissions cal today ex h d config =
     (case path_exists ex h (permission_path d) of
        Inl e \<Rightarrow> (CheckUnverifiable (unverifiable_unchecked d
          (''could not determine whether '' @ permission_path d @ '' exists: '' @ host_error_text e)), h)
      | Inr False \<Rightarrow> (check_vendor_layer_permissions cal today ex h d config, h)
      | Inr True \<Rightarrow>
          (case metadata_of ex h (permission_path d) of
             Inl e \<Rightarrow> (CheckUnverifiable (unverifiable_unchecked d
               (''could not read permissions on '' @ permission_path d @ '': '' @ host_error_text e)), h)
           | Inr m \<Rightarrow>
               (let current = permission_bits m; d = effective_directive d config in
                if \<not> mode_violates d current then (CheckClear, h)
                else
                  (case non_posix_fstype ex h (permission_path d) of
                     (Some fstype, h) \<Rightarrow> (CheckNonPosix (non_posix_unchecked d fstype), h)
                   | (None, h) \<Rightarrow> (CheckInsecure (insecure_mode_finding cal today config d current), h)))))"

fun scan_permissions ::
  "'d::linorder calendar \<Rightarrow> 'd \<Rightarrow> ('h, 'z) executor_scheme \<Rightarrow> plugin_config \<Rightarrow> 'h \<Rightarrow> permission_directive list \<Rightarrow>
   (finding list \<times> unchecked_check list) \<times> 'h" where
  "scan_permissions cal today ex config h [] = (([], []), h)"
| "scan_permissions cal today ex config h (d # ds) =
     (case check_path_permissions cal today ex h d config of
        (check, h) \<Rightarrow>
          (case scan_permissions cal today ex config h ds of
             ((fs, us), h) \<Rightarrow>
               ((case check of
                   CheckInsecure f \<Rightarrow> (f # fs, us)
                 | CheckVendorOnly f \<Rightarrow> (f # fs, us)
                 | CheckNonPosix u \<Rightarrow> (fs, u # us)
                 | CheckUnverifiable u \<Rightarrow> (fs, u # us)
                 | CheckClear \<Rightarrow> (fs, us)), h)))"

definition permissions_scan ::
  "'d::linorder calendar \<Rightarrow> 'd \<Rightarrow> nat \<Rightarrow> ('h, 'z) executor_scheme \<Rightarrow> 'h \<Rightarrow> plugin_config \<Rightarrow> scan_result \<times> 'h" where
  "permissions_scan cal today duration ex h config =
     (case scan_permissions cal today ex config h CRITICAL_PERMISSIONS of
        ((fs, us), h) \<Rightarrow>
          (\<lparr>scan_plugin_id = PERMISSIONS_PLUGIN_ID, scan_success = True, scan_findings = fs, scan_unchecked = us,
            scan_duration_us = duration, scan_error = None, scan_skipped = None\<rparr>, h))"

subsection \<open>Apply\<close>

text \<open>\<open>Path::is_dir\<close>, \<open>open\<close> with \<open>O_NOFOLLOW\<close> (and \<open>O_DIRECTORY\<close>), which answers the error if any,
  and \<open>fchmod\<close> on the opened file.\<close>

record 'h local_files =
  is_directory :: "'h \<Rightarrow> string \<Rightarrow> bool"
  open_nofollow :: "'h \<Rightarrow> string \<Rightarrow> bool \<Rightarrow> string option"
  fchmod_opened :: "'h \<Rightarrow> string \<Rightarrow> 32 word \<Rightarrow> (string, unit) result \<times> 'h"

definition mode_transition_description :: "32 word option \<Rightarrow> 32 word \<Rightarrow> string" where
  "mode_transition_description current target =
     (case current of
        Some m \<Rightarrow> ''from '' @ octal m @ '' to '' @ octal target
      | None \<Rightarrow> ''to '' @ octal target @ '' (current permissions could not be verified beforehand)'')"

definition changed_permissions :: "permission_directive \<Rightarrow> 32 word option \<Rightarrow> 32 word \<Rightarrow> change" where
  "changed_permissions d current target =
     change_of (''Changed permissions on '' @ permission_path d @ '' '' @ mode_transition_description current target)
       Permissions None"

definition failed_permissions :: "permission_directive \<Rightarrow> string \<Rightarrow> change" where
  "failed_permissions d e = change_of (''Failed to change permissions on '' @ permission_path d) Permissions (Some e)"

definition verified_target :: "permission_directive \<Rightarrow> 32 word option \<Rightarrow> 32 word" where
  "verified_target d current = target_mode d (case current of Some m \<Rightarrow> m | None \<Rightarrow> 0)"

definition apply_local_fchmod ::
  "'h local_files \<Rightarrow> 'h \<Rightarrow> permission_directive \<Rightarrow> 32 word option \<Rightarrow> change \<times> 'h" where
  "apply_local_fchmod os h d current =
     (case open_nofollow os h (permission_path d) (is_directory os h (permission_path d)) of
        Some e \<Rightarrow> (change_of (''Failed to open '' @ permission_path d @ '' for chmod'') Permissions (Some e), h)
      | None \<Rightarrow>
          (let target = verified_target d current in
           case fchmod_opened os h (permission_path d) (target AND 0xFFF) of
             (Inr _, h) \<Rightarrow> (changed_permissions d current target, h)
           | (Inl e, h) \<Rightarrow> (failed_permissions d e, h)))"

definition apply_remote_chmod ::
  "('h, 'z) executor_scheme \<Rightarrow> 'h \<Rightarrow> permission_directive \<Rightarrow> 32 word option \<Rightarrow> change \<times> 'h" where
  "apply_remote_chmod ex h d current =
     (let path = permission_path d; target = verified_target d current in
      case execute_command ex h ''chmod'' [octal target, path] of
        (Inr out, h) \<Rightarrow>
          if command_success out then
            (case metadata_of ex h path of
               Inr m \<Rightarrow>
                 if \<not> mode_violates d (permission_bits m) then (changed_permissions d current target, h)
                 else (\<lparr>change_description = ''Permissions on '' @ path @ '' are still '' @ octal (permission_bits m)
                         @ '' after chmod reported success (wanted '' @ octal target @ '')'',
                        change_type = Permissions, change_success = False, change_error = None\<rparr>, h)
             | Inl e \<Rightarrow> (change_of (''Could not verify permissions on '' @ path @ '' after chmod'') Permissions
                          (Some (host_error_text e)), h))
          else (failed_permissions d (stderr out), h)
      | (Inl e, h) \<Rightarrow> (failed_permissions d (host_error_text e), h))"

text \<open>\<open>None\<close> in the first component is the path that needs no change.\<close>

definition apply_path_permissions ::
  "('h, 'z) executor_scheme \<Rightarrow> 'h local_files \<Rightarrow> 'h \<Rightarrow> permission_directive \<Rightarrow> 32 word option \<Rightarrow> change option \<times> 'h" where
  "apply_path_permissions ex os h d current =
     (let path = permission_path d;
          set_mode = (\<lambda>h. case non_posix_fstype ex h path of
              (Some fstype, h) \<Rightarrow> (Some (change_of (non_posix_guidance path fstype) Skipped None), h)
            | (None, h) \<Rightarrow>
                (case (if \<not> is_remote ex then apply_local_fchmod os h d current else apply_remote_chmod ex h d current) of
                   (c, h) \<Rightarrow> (Some c, h)))
      in case path_exists ex h path of
           Inr False \<Rightarrow> (None, h)
         | Inl e \<Rightarrow> (Some (change_of (path @ '': could not determine whether the path exists, so it was not examined'')
                       Permissions (Some (host_error_text e))), h)
         | Inr True \<Rightarrow>
             (case current of
                Some m \<Rightarrow> if \<not> mode_violates d m then (None, h) else set_mode h
              | None \<Rightarrow>
                  if unverified_mode_target d = None then
                    (Some (change_of (path @ '': skipped (current permissions could not be verified, so a safe target cannot be computed for this max-mask directive)'')
                       Skipped None), h)
                  else set_mode h))"

definition current_verified_mode :: "('h, 'z) executor_scheme \<Rightarrow> 'h \<Rightarrow> string \<Rightarrow> 32 word option" where
  "current_verified_mode ex h path =
     (case metadata_of ex h path of Inr m \<Rightarrow> if exists m then Some (permission_bits m) else None | Inl _ \<Rightarrow> None)"

definition excepted_mode ::
  "'d::linorder calendar \<Rightarrow> 'd \<Rightarrow> plugin_config \<Rightarrow> string \<Rightarrow> 32 word option \<Rightarrow> policy_exception option" where
  "excepted_mode cal today config path current =
     (case current of Some m \<Rightarrow> matching_mode_exception cal today config path (unat m) | None \<Rightarrow> None)"

definition apply_permission ::
  "'d::linorder calendar \<Rightarrow> 'd \<Rightarrow> ('h, 'z) executor_scheme \<Rightarrow> 'h local_files \<Rightarrow> plugin_config \<Rightarrow> 'h \<Rightarrow>
   permission_directive \<Rightarrow> change option \<times> 'h" where
  "apply_permission cal today ex os config h d =
     (let path = permission_path d; current = current_verified_mode ex h path in
      case excepted_mode cal today config path current of
        Some x \<Rightarrow> (Some (change_of (path @ '': skipped (exception: '' @ reason x @ '')'') Skipped None), h)
      | None \<Rightarrow> apply_path_permissions ex os h (effective_directive d config) current)"

fun apply_permissions ::
  "'d::linorder calendar \<Rightarrow> 'd \<Rightarrow> ('h, 'z) executor_scheme \<Rightarrow> 'h local_files \<Rightarrow> plugin_config \<Rightarrow> 'h \<Rightarrow>
   permission_directive list \<Rightarrow> change list \<times> 'h" where
  "apply_permissions cal today ex os config h [] = ([], h)"
| "apply_permissions cal today ex os config h (d # ds) =
     (case apply_permission cal today ex os config h d of
        (c, h) \<Rightarrow>
          (case apply_permissions cal today ex os config h ds of
             (cs, h) \<Rightarrow> ((case c of Some c \<Rightarrow> [c] | None \<Rightarrow> []) @ cs, h)))"

definition permissions_apply ::
  "'d::linorder calendar \<Rightarrow> 'd \<Rightarrow> 'h local_files \<Rightarrow> 'h apply_context \<Rightarrow> 'h \<Rightarrow> database \<Rightarrow> plugin_config \<Rightarrow>
   (hardening_error, apply_result) result \<times> 'h \<times> database" where
  "permissions_apply cal today os ctx h db config =
     (case create_checkpoint_metadata_only_for_apply ctx h db ''permissions-hardening-pre-apply''
             (map permission_path CRITICAL_PERMISSIONS) of
        (Inl e, h, db) \<Rightarrow> (Inl e, h, db)
      | (Inr cid, h, db) \<Rightarrow>
          (case apply_permissions cal today (ctx_executor ctx) os config h CRITICAL_PERMISSIONS of
             (cs, h) \<Rightarrow>
               (let changes = (case checkpoint_change cid of Some c \<Rightarrow> [c] | None \<Rightarrow> []) @ cs in
                (Inr \<lparr>apply_plugin_id = PERMISSIONS_PLUGIN_ID, apply_success = list_all change_success changes,
                      apply_changes = changes, apply_checkpoint_id = cid, apply_error = None\<rparr>, h, db))))"

subsection \<open>Preview\<close>

definition validate_path_permissions ::
  "('h, 'z) executor_scheme \<Rightarrow> 'h \<Rightarrow> permission_directive \<Rightarrow> 32 word option \<Rightarrow>
   (string option \<times> validation_issue option) \<times> 'h" where
  "validate_path_permissions ex h d current =
     (let path = permission_path d in
      case current of
        None \<Rightarrow>
          (case unverified_mode_target d of
             None \<Rightarrow> ((None, Some (issue_of High (''Current permissions on '' @ path @ '' could not be verified; apply will skip hardening it (no safe target can be computed for this max-mask directive without the current mode)'') path)), h)
           | Some target \<Rightarrow>
               (case non_posix_fstype ex h path of
                  (Some _, h) \<Rightarrow> ((None, None), h)
                | (None, h) \<Rightarrow> ((Some (path @ '': current permissions could not be verified -> '' @ octal target
                                  @ '' (apply hardens this exact-mode directive regardless)''), None), h)))
      | Some m \<Rightarrow>
          if mode_violates d m then
            (case non_posix_fstype ex h path of
               (None, h) \<Rightarrow> ((Some (path @ '': '' @ octal m @ '' -> '' @ octal (target_mode d m)), None), h)
             | (Some _, h) \<Rightarrow> ((None, None), h))
          else ((None, None), h))"

text \<open>One path of the preview: the estimate, the issue and the exception line it adds.\<close>

definition preview_permission ::
  "'d::linorder calendar \<Rightarrow> 'd \<Rightarrow> ('h, 'z) executor_scheme \<Rightarrow> plugin_config \<Rightarrow> 'h \<Rightarrow> permission_directive \<Rightarrow>
   (string option \<times> validation_issue option \<times> string option) \<times> 'h" where
  "preview_permission cal today ex config h d =
     (let path = permission_path d in
      case path_exists ex h path of
        Inr False \<Rightarrow> ((None, None, None), h)
      | Inl e \<Rightarrow> ((None, Some \<lparr>validation_issue_severity = High,
            validation_issue_message = path @ '': could not determine whether the path exists (''
              @ host_error_text e @ ''), so this preview cannot say what apply would do to it'',
            validation_issue_config_key = None\<rparr>, None), h)
      | Inr True \<Rightarrow>
          (let current = current_verified_mode ex h path in
           case excepted_mode cal today config path current of
             Some x \<Rightarrow> ((None, None, Some (exception_preview_line path
                 (case current of Some m \<Rightarrow> octal m | None \<Rightarrow> []) (reason x))), h)
           | None \<Rightarrow>
               (case validate_path_permissions ex h (effective_directive d config) current of
                  ((estimate, issue), h) \<Rightarrow> ((estimate, issue, None), h))))"

fun preview_permissions ::
  "'d::linorder calendar \<Rightarrow> 'd \<Rightarrow> ('h, 'z) executor_scheme \<Rightarrow> plugin_config \<Rightarrow> 'h \<Rightarrow> permission_directive list \<Rightarrow>
   (string list \<times> validation_issue list \<times> string list) \<times> 'h" where
  "preview_permissions cal today ex config h [] = (([], [], []), h)"
| "preview_permissions cal today ex config h (d # ds) =
     (case preview_permission cal today ex config h d of
        ((c, i, x), h) \<Rightarrow>
          (case preview_permissions cal today ex config h ds of
             ((cs, is, xs), h) \<Rightarrow>
               ((case c of Some b \<Rightarrow> b # cs | None \<Rightarrow> cs, case i of Some b \<Rightarrow> b # is | None \<Rightarrow> is,
                  case x of Some b \<Rightarrow> b # xs | None \<Rightarrow> xs), h)))"

definition permissions_validate ::
  "'d::linorder calendar \<Rightarrow> 'd \<Rightarrow> ('h, 'z) executor_scheme \<Rightarrow> 'h \<Rightarrow> plugin_config \<Rightarrow> validation_report \<times> 'h" where
  "permissions_validate cal today ex h config =
     (case preview_permissions cal today ex config h CRITICAL_PERMISSIONS of
        ((estimates, issues, xs), h) \<Rightarrow>
          (\<lparr>validation_report_plugin_id = PERMISSIONS_PLUGIN_ID,
            validation_report_is_valid = list_all (\<lambda>i. validation_issue_severity i \<noteq> High) issues,
            validation_report_issues = issues, validation_report_estimated_changes = estimates,
            validation_report_compliant_count = 0, validation_report_exceptions = xs\<rparr>, h))"

end
