(* ===== verification/Permissions_Safety.thy ===== *)
theory Permissions_Safety
  imports Permissions_Plugin Apply_Effects Compliance_Report
begin

text \<open>
  What the permissions plugin may do and may not miss: its targets set no bit the shipped table lacks, its
  scan is silent about a path only for a reason, its preview announces what its apply does.
\<close>

unbundle bit_operations_syntax

subsection \<open>Modes within the baseline\<close>

text \<open>\<open>mode_fits d m\<close>: the mode sets no bit the directive lacks.\<close>

definition mode_fits :: "permission_directive \<Rightarrow> 32 word \<Rightarrow> bool" where
  "mode_fits d m = (m AND NOT (permission_mode d) = 0)"

lemma word_subset_trans:
  fixes a b c :: "32 word"
  assumes "a AND NOT b = 0" "b AND NOT c = 0" shows "a AND NOT c = 0"
  using assms by (auto simp: bit_eq_iff bit_simps)

lemma effective_directive_simps [simp]:
  "permission_path (effective_directive d config) = permission_path d"
  "permission_max_mask (effective_directive d config) = permission_max_mask d"
  by (auto simp: effective_directive_def split: option.splits)

lemma effective_directive_within: "mode_fits d (permission_mode (effective_directive d config))"
  by (auto simp: mode_fits_def effective_directive_def split: option.splits)

lemma compliant_within: "\<not> mode_violates (effective_directive d config) m \<Longrightarrow> mode_fits d m"
  using effective_directive_within[of d config] word_subset_trans
  by (auto simp: mode_violates_def mode_fits_def split: if_splits)

lemma target_within: "mode_fits d (target_mode (effective_directive d config) m)"
proof -
  let ?e = "effective_directive d config"
  have "(m AND permission_mode ?e) AND NOT (permission_mode ?e) = 0"
    by (auto simp: bit_eq_iff bit_simps)
  from word_subset_trans[OF this] show ?thesis
    using effective_directive_within[of d config] by (auto simp: mode_fits_def target_mode_def)
qed

lemma target_complies: "\<not> mode_violates d (target_mode d m)"
  by (auto simp: mode_violates_def target_mode_def bit_eq_iff bit_simps)

lemma octal_reads_back: "parse_unsigned 8 (2 ^ 32) (octal m) = Some (unat m)"
  using octal_mode_documented[of "unat m" 4 "unat m"] unsigned_less[of m, where ?'a = nat]
  by (simp add: octal_def mode_is_documented_by_def)

subsection \<open>Preview and apply agree\<close>

lemma local_change_kind: "change_type (fst (apply_local_fchmod os h d m)) = Permissions"
  by (simp add: apply_local_fchmod_def changed_permissions_def failed_permissions_def change_of_def Let_def
      split: option.splits sum.splits prod.splits)

lemma remote_change_kind: "change_type (fst (apply_remote_chmod ex h d m)) = Permissions"
  by (simp add: apply_remote_chmod_def changed_permissions_def failed_permissions_def change_of_def Let_def
      split: option.splits sum.splits prod.splits)

text \<open>
  C12. The preview is the apply: from one state, the preview of a critical path estimates a change exactly
  when the apply goes on to set its mode, and where it neither estimates nor raises an issue the apply
  changes nothing.
\<close>

theorem permissions_preview_matches_apply:
  assumes "preview_permission cal today ex config h d = ((estimate, issue, line), h1)"
    and "apply_permission cal today ex os config h d = (change, h2)"
  shows "(estimate \<noteq> None \<longleftrightarrow> path_exists ex h (permission_path d) = Inr True
        \<and> (\<exists>c. change = Some c \<and> change_type c = Permissions))
      \<and> (estimate = None \<and> issue = None \<longrightarrow> change = None \<or> (\<exists>c. change = Some c \<and> change_type c = Skipped))"
proof -
  let ?path = "permission_path d" and ?e = "effective_directive d config"
  let ?current = "current_verified_mode ex h ?path"
  obtain fs h3 where fs: "non_posix_fstype ex h ?path = (fs, h3)" by fastforce
  obtain c h4 where set_mode: "(if \<not> is_remote ex then apply_local_fchmod os h3 ?e ?current
      else apply_remote_chmod ex h3 ?e ?current) = (c, h4)" by fastforce
  then have kind: "change_type c = Permissions"
    using local_change_kind[of os h3 ?e ?current] remote_change_kind[of ex h3 ?e ?current] by (auto split: if_splits)
  show ?thesis
  proof (cases "path_exists ex h ?path")
    case (Inl e)
    with assms show ?thesis by (auto simp: preview_permission_def Let_def)
  next
    case (Inr there)
    show ?thesis
    proof (cases there)
      case False
      with Inr assms show ?thesis
        by (auto simp: preview_permission_def apply_permission_def apply_path_permissions_def change_of_def Let_def
            split: option.splits)
    next
      case True
      show ?thesis
      proof (cases "excepted_mode cal today config ?path ?current")
        case (Some x)
        with Inr True assms show ?thesis
          by (auto simp: preview_permission_def apply_permission_def change_of_def Let_def)
      next
        case None
        with Inr True assms kind set_mode fs show ?thesis
          by (cases ?current; cases fs)
             (auto simp: preview_permission_def apply_permission_def apply_path_permissions_def
                validate_path_permissions_def change_of_def Let_def split: if_splits option.splits)
      qed
    qed
  qed
qed

subsection \<open>The scan is silent for a reason\<close>

text \<open>The two file system probes leave the files as they were.\<close>

definition probe_quiet :: "('h, 'z) executor_scheme \<Rightarrow> bool" where
  "probe_quiet ex = (\<forall>h program args. program \<in> {''findmnt'', ''stat''} \<longrightarrow>
     (let h' = snd (execute_command ex h program args) in
      path_exists ex h' = path_exists ex h \<and> metadata_of ex h' = metadata_of ex h))"

lemma non_posix_quiet:
  assumes "probe_quiet ex" "non_posix_fstype ex h path = (r, h')"
  shows "path_exists ex h' = path_exists ex h \<and> metadata_of ex h' = metadata_of ex h"
proof -
  obtain f h1 where f: "execute_command ex h ''findmnt'' [''-no'', ''FSTYPE'', path] = (f, h1)" by fastforce
  obtain s h2 where s: "execute_command ex h1 ''stat'' [''-f'', ''-c'', ''%T'', path] = (s, h2)" by fastforce
  have 1: "path_exists ex h1 = path_exists ex h \<and> metadata_of ex h1 = metadata_of ex h"
    using assms(1)[unfolded probe_quiet_def, rule_format, of "''findmnt''" h "[''-no'', ''FSTYPE'', path]"] f by (simp add: Let_def)
  have 2: "path_exists ex h2 = path_exists ex h1 \<and> metadata_of ex h2 = metadata_of ex h1"
    using assms(1)[unfolded probe_quiet_def, rule_format, of "''stat''" h1 "[''-f'', ''-c'', ''%T'', path]"] s by (simp add: Let_def)
  have "h' = h1 \<or> h' = h2"
    using assms(2) by (auto simp: non_posix_fstype_def probe_fstype_def f s Let_def split: option.splits)
  with 1 2 show ?thesis by auto
qed

lemma check_quiet:
  "probe_quiet ex \<Longrightarrow> check_path_permissions cal today ex h d config = (c, h')
     \<Longrightarrow> path_exists ex h' = path_exists ex h \<and> metadata_of ex h' = metadata_of ex h"
  unfolding check_path_permissions_def Let_def
  by (auto split: sum.splits bool.splits if_splits prod.splits option.splits dest!: non_posix_quiet)

text \<open>What a check that reports nothing has established.\<close>

definition clear_reason :: "('h, 'z) executor_scheme \<Rightarrow> 'h \<Rightarrow> permission_directive \<Rightarrow> bool" where
  "clear_reason ex h d =
     (case path_exists ex h (permission_path d) of
        Inl _ \<Rightarrow> False
      | Inr True \<Rightarrow> (\<exists>m. metadata_of ex h (permission_path d) = Inr m \<and> mode_fits d (permission_bits m))
      | Inr False \<Rightarrow>
          (case vendor_path_for (permission_path d) of
             None \<Rightarrow> True
           | Some v \<Rightarrow> path_exists ex h v = Inr False
               \<or> (\<exists>m. metadata_of ex h v = Inr m \<and> mode_fits d (permission_bits m))))"

lemma check_clear_reason:
  "check_path_permissions cal today ex h d config = (CheckClear, h') \<Longrightarrow> clear_reason ex h d"
  unfolding check_path_permissions_def check_vendor_layer_permissions_def clear_reason_def Let_def
  by (auto split: sum.splits bool.splits if_splits prod.splits option.splits dest: compliant_within)

lemma check_reports:
  assumes "check_path_permissions cal today ex h d config = (c, h')"
  shows "c = CheckClear
     \<or> (\<exists>f. c \<in> {CheckInsecure f, CheckVendorOnly f} \<and> finding_exception_key f = Some (permission_path d))
     \<or> (\<exists>u. c \<in> {CheckUnverifiable u, CheckNonPosix u} \<and> unchecked_check_id u = permission_check_id (permission_path d))"
  using assms unfolding check_path_permissions_def check_vendor_layer_permissions_def Let_def
  by (auto split: sum.splits bool.splits if_splits prod.splits option.splits
      simp: unverifiable_unchecked_def non_posix_unchecked_def permission_unchecked_def vendor_finding_def
        insecure_mode_finding_def permission_finding_def Let_def)

lemma scan_permissions_accounts:
  assumes "probe_quiet ex" "scan_permissions cal today ex config h ds = ((fs, us), h')" "d \<in> set ds"
  shows "(\<exists>f\<in>set fs. finding_exception_key f = Some (permission_path d))
     \<or> (\<exists>u\<in>set us. unchecked_check_id u = permission_check_id (permission_path d))
     \<or> clear_reason ex h d"
  using assms(2,3)
proof (induction ds arbitrary: h fs us)
  case (Cons e ds)
  obtain c h1 where c: "check_path_permissions cal today ex h e config = (c, h1)" by fastforce
  obtain fs1 us1 h2 where rest: "scan_permissions cal today ex config h1 ds = ((fs1, us1), h2)"
    by (metis prod.exhaust)
  have fs: "set fs1 \<subseteq> set fs" "set us1 \<subseteq> set us"
    and added: "\<forall>f. c \<in> {CheckInsecure f, CheckVendorOnly f} \<longrightarrow> f \<in> set fs"
      "\<forall>u. c \<in> {CheckUnverifiable u, CheckNonPosix u} \<longrightarrow> u \<in> set us"
    and final: "h2 = h'"
    using Cons.prems(1) c rest by (auto split: permission_check.splits)
  show ?case
  proof (cases "d = e")
    case True
    from check_reports[OF c] show ?thesis
    proof (elim disjE exE conjE)
      assume "c = CheckClear"
      with c have "clear_reason ex h d" using check_clear_reason True by fastforce
      then show ?thesis by simp
    next
      fix f assume f: "c \<in> {CheckInsecure f, CheckVendorOnly f}" "finding_exception_key f = Some (permission_path e)"
      from added(1)[rule_format, OF f(1)] f(2) True show ?thesis by auto
    next
      fix u assume u: "c \<in> {CheckUnverifiable u, CheckNonPosix u}" "unchecked_check_id u = permission_check_id (permission_path e)"
      from added(2)[rule_format, OF u(1)] u(2) True show ?thesis by auto
    qed
  next
    case False
    with Cons.prems(2) Cons.IH[OF rest[unfolded final]] fs have "(\<exists>f\<in>set fs. finding_exception_key f = Some (permission_path d))
       \<or> (\<exists>u\<in>set us. unchecked_check_id u = permission_check_id (permission_path d)) \<or> clear_reason ex h1 d"
      by auto
    moreover note quiet = check_quiet[OF assms(1) c]
    have "clear_reason ex h1 d = clear_reason ex h d"
      by (simp only: clear_reason_def conjunct1[OF quiet] conjunct2[OF quiet])
    ultimately show ?thesis by simp
  qed
qed simp

text \<open>
  C37. No critical path is passed over in silence, whatever the configuration overrides: the scan reports a
  finding or an unchecked entry for it, or the file in force is confirmed absent from both layers or was
  read with a mode that sets no bit the shipped table lacks.
\<close>

theorem permissions_scan_accounts:
  assumes "probe_quiet ex" "permissions_scan cal today duration ex h config = (r, h')" "d \<in> set CRITICAL_PERMISSIONS"
  shows "(\<exists>f\<in>set (scan_findings r). finding_exception_key f = Some (permission_path d))
     \<or> (\<exists>u\<in>set (scan_unchecked r). unchecked_check_id u = permission_check_id (permission_path d))
     \<or> clear_reason ex h d"
  using assms(2) scan_permissions_accounts[OF assms(1) _ assms(3), of cal today config h]
  by (auto simp: permissions_scan_def split: prod.splits)

subsection \<open>What an apply may run\<close>

text \<open>A change of mode: a critical path, and the octal text of a mode within its baseline.\<close>

definition mode_command :: "string \<times> string list \<Rightarrow> bool" where
  "mode_command c = (\<exists>d\<in>set CRITICAL_PERMISSIONS. \<exists>text m. c = (''chmod'', [text, permission_path d])
     \<and> parse_unsigned 8 (2 ^ 32) text = Some (unat m) \<and> mode_fits d m)"

abbreviation permission_command :: "string \<times> string list \<Rightarrow> bool" where
  "permission_command c \<equiv> fst c \<in> {''findmnt'', ''stat''} \<or> mode_command c"

lemma chmod_is_mode_command:
  "d \<in> set CRITICAL_PERMISSIONS \<Longrightarrow>
     mode_command (''chmod'', [octal (verified_target (effective_directive d config) current), permission_path d])"
  unfolding mode_command_def verified_target_def
  using octal_reads_back target_within by (intro bexI[of _ d] exI) auto

context recorded_effects
begin

lemma non_posix_confined:
  assumes "non_posix_fstype ex h path = (r, h')"
  shows "confined W permission_command h h'"
proof -
  obtain f h1 where f: "execute_command ex h ''findmnt'' [''-no'', ''FSTYPE'', path] = (f, h1)" by fastforce
  obtain s h2 where s: "execute_command ex h1 ''stat'' [''-f'', ''-c'', ''%T'', path] = (s, h2)" by fastforce
  have 1: "confined W permission_command h h1" by (rule run_confined[OF f]) simp
  have 2: "confined W permission_command h1 h2" by (rule run_confined[OF s]) simp
  have "h' = h1 \<or> h' = h2"
    using assms by (auto simp: non_posix_fstype_def probe_fstype_def f s Let_def split: option.splits)
  with 1 confined_trans[OF 1 2] show ?thesis by blast
qed

lemma remote_chmod_confined:
  assumes "d \<in> set CRITICAL_PERMISSIONS" "apply_remote_chmod ex h (effective_directive d config) current = (c, h')"
  shows "confined W permission_command h h'"
proof -
  let ?e = "effective_directive d config"
  obtain r h1 where r: "execute_command ex h ''chmod'' [octal (verified_target ?e current), permission_path d] = (r, h1)"
    by fastforce
  have "h' = h1" using assms(2) r by (auto simp: apply_remote_chmod_def Let_def split: sum.splits if_splits)
  then show ?thesis using run_confined[OF r, of permission_command W] chmod_is_mode_command[OF assms(1)] by simp
qed

lemma apply_permission_confined:
  assumes remote: "is_remote ex" and d: "d \<in> set CRITICAL_PERMISSIONS"
    and run: "apply_permission cal today ex os config h d = (c, h')"
  shows "confined W permission_command h h'"
proof -
  let ?e = "effective_directive d config" and ?current = "current_verified_mode ex h (permission_path d)"
  obtain fs h1 where fs: "non_posix_fstype ex h (permission_path d) = (fs, h1)" by fastforce
  obtain k h2 where k: "apply_remote_chmod ex h1 ?e ?current = (k, h2)" by fastforce
  have "h' \<in> {h, h1, h2}"
    using run remote fs k
    by (cases fs) (auto simp: apply_permission_def apply_path_permissions_def Let_def
        split: option.splits sum.splits bool.splits if_splits)
  then show ?thesis
    using non_posix_confined[OF fs] confined_trans[OF non_posix_confined[OF fs] remote_chmod_confined[OF d k]] by auto
qed

lemma apply_permissions_confined:
  assumes "is_remote ex"
  shows "set ds \<subseteq> set CRITICAL_PERMISSIONS \<Longrightarrow> apply_permissions cal today ex os config h ds = (cs, h')
     \<Longrightarrow> confined W permission_command h h'"
proof (induction ds arbitrary: h cs)
  case (Cons d ds)
  obtain c h1 where c: "apply_permission cal today ex os config h d = (c, h1)" by fastforce
  obtain cs1 where rest: "apply_permissions cal today ex os config h1 ds = (cs1, h')"
    using Cons.prems(2) c by (auto split: prod.splits)
  from Cons.prems(1) have d: "d \<in> set CRITICAL_PERMISSIONS" and ds: "set ds \<subseteq> set CRITICAL_PERMISSIONS" by auto
  show ?case by (rule confined_trans[OF apply_permission_confined[OF assms d c] Cons.IH[OF ds rest]])
qed simp

end

text \<open>
  C14. Every command a remote apply runs is well formed: it writes no file, and besides the two file system
  probes runs only \<open>chmod\<close>, on a critical path, with an octal mode that sets no bit the shipped table
  lacks, whatever the configuration asks for.
\<close>

theorem permissions_apply_confined:
  assumes "recorded_effects (ctx_executor ctx) writes runs" "is_remote (ctx_executor ctx)"
    and "permissions_apply cal today os ctx h db config = (r, h', db')"
  shows "writes h' = writes h \<and> (\<exists>rs. runs h' = runs h @ rs \<and> (\<forall>c\<in>set rs. fst c \<in> {''findmnt'', ''stat''} \<or> mode_command c))"
proof -
  note rec = assms(1)
  obtain cid h1 db1 where c: "create_checkpoint_metadata_only_for_apply ctx h db ''permissions-hardening-pre-apply''
      (map permission_path CRITICAL_PERMISSIONS) = (cid, h1, db1)" by (metis prod_cases3)
  have 1: "recorded_effects.confined writes runs (\<lambda>_. False) permission_command h h1"
    by (rule metadata_checkpoint_confined[OF rec c])
  obtain cs h2 where run: "apply_permissions cal today (ctx_executor ctx) os config h1 CRITICAL_PERMISSIONS = (cs, h2)"
    by fastforce
  have "h' = h1 \<or> h' = h2"
    using assms(3) c run by (auto simp: permissions_apply_def Let_def split: sum.splits)
  then have "recorded_effects.confined writes runs (\<lambda>_. False) permission_command h h'"
    using 1 recorded_effects.confined_trans[OF rec 1 recorded_effects.apply_permissions_confined[OF rec assms(2) order_refl run]]
    by blast
  then show ?thesis by (rule recorded_effects.confined_no_write[OF rec])
qed

subsection \<open>A successful apply has settled every path\<close>

text \<open>
  What the apply relies on: a command changes no path's existence, and modes only by \<open>chmod\<close> on its last
  argument; \<open>fchmod\<close> changes the mode of the opened file alone, and does when it reports success.
\<close>

definition mode_contract :: "('h, 'z) executor_scheme \<Rightarrow> 'h local_files \<Rightarrow> bool" where
  "mode_contract ex os =
     ((\<forall>h program args r h'. execute_command ex h program args = (r, h') \<longrightarrow> path_exists ex h' = path_exists ex h
         \<and> (\<forall>q. program \<noteq> ''chmod'' \<or> q \<noteq> last args \<longrightarrow> metadata_of ex h' q = metadata_of ex h q))
      \<and> (\<forall>h p m r h'. fchmod_opened os h p m = (r, h') \<longrightarrow> path_exists ex h' = path_exists ex h
         \<and> (\<forall>q. q \<noteq> p \<longrightarrow> metadata_of ex h' q = metadata_of ex h q)
         \<and> (r = Inr () \<longrightarrow> (\<exists>f. metadata_of ex h' p = Inr f \<and> permission_bits f = m AND 0x1FF))))"

lemma contract_command:
  "mode_contract ex os \<Longrightarrow> execute_command ex h program args = (r, h') \<Longrightarrow> path_exists ex h' = path_exists ex h"
  "mode_contract ex os \<Longrightarrow> execute_command ex h program args = (r, h') \<Longrightarrow> program \<noteq> ''chmod'' \<or> q \<noteq> last args
     \<Longrightarrow> metadata_of ex h' q = metadata_of ex h q"
  by (simp_all add: mode_contract_def)

lemma contract_fchmod:
  "mode_contract ex os \<Longrightarrow> fchmod_opened os h p m = (r, h') \<Longrightarrow> path_exists ex h' = path_exists ex h"
  "mode_contract ex os \<Longrightarrow> fchmod_opened os h p m = (r, h') \<Longrightarrow> q \<noteq> p \<Longrightarrow> metadata_of ex h' q = metadata_of ex h q"
  "mode_contract ex os \<Longrightarrow> fchmod_opened os h p m = (Inr u, h') \<Longrightarrow>
     \<exists>f. metadata_of ex h' p = Inr f \<and> permission_bits f = m AND 0x1FF"
  by (simp_all add: mode_contract_def)

lemma contract_probe:
  assumes "mode_contract ex os" shows "probe_quiet ex"
  unfolding probe_quiet_def Let_def
proof (intro allI impI)
  fix h program args assume "program \<in> {''findmnt'', ''stat''}"
  then have "program \<noteq> ''chmod''" by auto
  moreover have e: "execute_command ex h program args
      = (fst (execute_command ex h program args), snd (execute_command ex h program args))" by simp
  ultimately show "path_exists ex (snd (execute_command ex h program args)) = path_exists ex h
      \<and> metadata_of ex (snd (execute_command ex h program args)) = metadata_of ex h"
    using contract_command(1)[OF assms e] contract_command(2)[OF assms e] by blast
qed

lemma baseline_nine_bits: "d \<in> set CRITICAL_PERMISSIONS \<Longrightarrow> permission_mode d AND NOT 0x1FF = 0"
  by (auto simp: CRITICAL_PERMISSIONS_def)

lemma target_nine_bits:
  assumes "d \<in> set CRITICAL_PERMISSIONS"
  shows "(verified_target (effective_directive d config) current AND 0xFFF) AND 0x1FF
     = verified_target (effective_directive d config) current"
proof -
  let ?t = "verified_target (effective_directive d config) current"
  have "?t AND NOT 0x1FF = 0"
    using word_subset_trans[OF _ baseline_nine_bits[OF assms]] target_within[of d config]
    unfolding mode_fits_def verified_target_def by blast
  then have "?t AND 0x1FF = ?t" by (auto simp: bit_eq_iff bit_simps)
  moreover have "(?t AND 0xFFF) AND 0x1FF = ?t AND 0x1FF" by (simp add: and.assoc)
  ultimately show ?thesis by simp
qed

definition path_settled :: "('h, 'z) executor_scheme \<Rightarrow> 'h \<Rightarrow> plugin_config \<Rightarrow> permission_directive \<Rightarrow> change list \<Rightarrow> bool" where
  "path_settled ex h config d cs =
     (path_exists ex h (permission_path d) = Inr False
      \<or> (\<exists>c\<in>set cs. change_type c = Skipped \<and> starts_with (permission_path d) (change_description c))
      \<or> (\<exists>m. metadata_of ex h (permission_path d) = Inr m
           \<and> \<not> mode_violates (effective_directive d config) (permission_bits m)))"

lemma set_mode_settles:
  assumes "mode_contract ex os" "d \<in> set CRITICAL_PERMISSIONS"
    and "(if \<not> is_remote ex then apply_local_fchmod os h (effective_directive d config) current
          else apply_remote_chmod ex h (effective_directive d config) current) = (c, h')"
  shows "path_exists ex h' = path_exists ex h
     \<and> (\<forall>q. q \<noteq> permission_path d \<longrightarrow> metadata_of ex h' q = metadata_of ex h q)
     \<and> (change_success c \<longrightarrow> (\<exists>m. metadata_of ex h' (permission_path d) = Inr m
           \<and> \<not> mode_violates (effective_directive d config) (permission_bits m)))"
proof (cases "is_remote ex")
  case True
  let ?e = "effective_directive d config"
  obtain r h1 where r: "execute_command ex h ''chmod'' [octal (verified_target ?e current), permission_path d] = (r, h1)"
    by fastforce
  have "h' = h1" using assms(3) r True by (auto simp: apply_remote_chmod_def Let_def split: sum.splits if_splits)
  moreover have "change_success c \<Longrightarrow> \<exists>m. metadata_of ex h1 (permission_path d) = Inr m \<and> \<not> mode_violates ?e (permission_bits m)"
    using assms(3) r True
    by (auto simp: apply_remote_chmod_def Let_def failed_permissions_def change_of_def split: sum.splits if_splits)
  ultimately show ?thesis
    using contract_command[OF assms(1) r] by simp
next
  case False
  let ?e = "effective_directive d config"
  let ?t = "verified_target ?e current"
  show ?thesis
  proof (cases "open_nofollow os h (permission_path d) (is_directory os h (permission_path d))")
    case (Some e)
    with assms(3) False show ?thesis by (auto simp: apply_local_fchmod_def change_of_def)
  next
    case None
    obtain r h1 where r: "fchmod_opened os h (permission_path d) (?t AND 0xFFF) = (r, h1)" by fastforce
    have "h' = h1" and ok: "change_success c \<Longrightarrow> \<exists>u. r = Inr u"
      using assms(3) None False r
      by (auto simp: apply_local_fchmod_def Let_def failed_permissions_def change_of_def split: sum.splits)
    moreover have "\<exists>m. metadata_of ex h1 (permission_path d) = Inr m \<and> \<not> mode_violates ?e (permission_bits m)"
      if s: "change_success c"
    proof -
      obtain u where "r = Inr u" using ok[OF s] by blast
      from contract_fchmod(3)[OF assms(1) r[unfolded this]] target_nine_bits[OF assms(2), of config current]
        target_complies[of ?e] show ?thesis by (metis verified_target_def)
    qed
    ultimately show ?thesis using contract_fchmod(1,2)[OF assms(1) r] by simp
  qed
qed

lemma skipped_settles: "path_settled ex h config d [change_of (permission_path d @ s) Skipped e]"
  by (simp add: path_settled_def change_of_def)

lemma absent_settles: "path_exists ex h (permission_path d) = Inr False \<Longrightarrow> path_settled ex h config d cs"
  by (simp add: path_settled_def)

lemma mode_settles:
  "metadata_of ex h (permission_path d) = Inr m \<Longrightarrow>
     \<not> mode_violates (effective_directive d config) (permission_bits m) \<Longrightarrow> path_settled ex h config d cs"
  by (auto simp: path_settled_def)

lemma apply_permission_settles:
  assumes contract: "mode_contract ex os" and d: "d \<in> set CRITICAL_PERMISSIONS"
    and run: "apply_permission cal today ex os config h d = (c, h')"
  shows "path_exists ex h' = path_exists ex h
     \<and> (\<forall>q. q \<noteq> permission_path d \<longrightarrow> metadata_of ex h' q = metadata_of ex h q)
     \<and> ((\<forall>k. c = Some k \<longrightarrow> change_success k) \<longrightarrow>
          path_settled ex h' config d (case c of Some k \<Rightarrow> [k] | None \<Rightarrow> []))"
proof -
  let ?path = "permission_path d" and ?e = "effective_directive d config"
  let ?current = "current_verified_mode ex h ?path"
  obtain fs h1 where fs: "non_posix_fstype ex h ?path = (fs, h1)" by fastforce
  note quiet = non_posix_quiet[OF contract_probe[OF contract] fs]
  obtain k h2 where k: "(if \<not> is_remote ex then apply_local_fchmod os h1 ?e ?current
      else apply_remote_chmod ex h1 ?e ?current) = (k, h2)" by fastforce
  note set = set_mode_settles[OF contract d k]
  show ?thesis
  proof (cases "excepted_mode cal today config ?path ?current")
    case (Some x)
    with run have "h' = h" "c = Some (change_of (?path @ '': skipped (exception: '' @ reason x @ '')'') Skipped None)"
      by (simp_all add: apply_permission_def)
    then show ?thesis by (simp add: skipped_settles)
  next
    case None
    note run' = run[unfolded apply_permission_def apply_path_permissions_def Let_def None option.case
        effective_directive_simps fs prod.case k]
    show ?thesis
    proof (cases "path_exists ex h ?path = Inr True \<and> (\<forall>m. ?current = Some m \<longrightarrow> mode_violates ?e m)
        \<and> (?current = None \<longrightarrow> unverified_mode_target ?e \<noteq> None)")
      case True
      with run' have "(c, h') = (case fs of Some t \<Rightarrow> (Some (change_of (non_posix_guidance ?path t) Skipped None), h1)
          | None \<Rightarrow> (Some k, h2))"
        by (cases ?current; cases fs) auto
      then show ?thesis
        using quiet set by (cases fs) (auto simp: non_posix_guidance_def skipped_settles intro: mode_settles)
    next
      case False
      then consider e where "path_exists ex h ?path = Inl e" | "path_exists ex h ?path = Inr False"
        | m where "path_exists ex h ?path = Inr True" "?current = Some m" "\<not> mode_violates ?e m"
        | "path_exists ex h ?path = Inr True" "?current = None" "unverified_mode_target ?e = None"
        by (cases "path_exists ex h ?path") auto
      then show ?thesis
      proof cases
        case 1
        with run' have "c = Some (change_of (?path @ '': could not determine whether the path exists, so it was not examined'')
            Permissions (Some (host_error_text e)))" "h' = h" by simp_all
        then show ?thesis by (simp add: change_of_def)
      next
        case 2
        with run' show ?thesis by (simp add: absent_settles)
      next
        case 3
        moreover from 3(2) obtain f where "metadata_of ex h ?path = Inr f" "m = permission_bits f"
          by (auto simp: current_verified_mode_def split: sum.splits if_splits)
        ultimately show ?thesis using run' by (auto intro: mode_settles)
      next
        case 4
        with run' show ?thesis by (auto simp: skipped_settles)
      qed
    qed
  qed
qed

lemma apply_permissions_settles:
  assumes contract: "mode_contract ex os"
  shows "set ds \<subseteq> set CRITICAL_PERMISSIONS \<Longrightarrow> distinct (map permission_path ds) \<Longrightarrow>
     apply_permissions cal today ex os config h ds = (cs, h') \<Longrightarrow> list_all change_success cs \<Longrightarrow>
     path_exists ex h' = path_exists ex h
     \<and> (\<forall>q. q \<notin> permission_path ` set ds \<longrightarrow> metadata_of ex h' q = metadata_of ex h q)
     \<and> (\<forall>d\<in>set ds. path_settled ex h' config d cs)"
proof (induction ds arbitrary: h cs)
  case (Cons d ds)
  obtain c h1 where c: "apply_permission cal today ex os config h d = (c, h1)" by fastforce
  obtain cs1 where rest: "apply_permissions cal today ex os config h1 ds = (cs1, h')"
    and cs: "cs = (case c of Some k \<Rightarrow> [k] | None \<Rightarrow> []) @ cs1"
    using Cons.prems(3) c by (auto split: prod.splits)
  have d: "d \<in> set CRITICAL_PERMISSIONS" using Cons.prems(1) by simp
  have ok: "\<forall>k. c = Some k \<longrightarrow> change_success k" "list_all change_success cs1"
    using Cons.prems(4) cs by auto
  note first = apply_permission_settles[OF contract d c]
  have later: "path_exists ex h' = path_exists ex h1"
    "\<forall>q. q \<notin> permission_path ` set ds \<longrightarrow> metadata_of ex h' q = metadata_of ex h1 q"
    "\<forall>e\<in>set ds. path_settled ex h' config e cs1"
    using Cons.IH[OF _ _ rest ok(2)] Cons.prems(1,2) by auto
  have "permission_path d \<notin> permission_path ` set ds" using Cons.prems(2) by auto
  with first ok(1) later(1,2) have "path_settled ex h' config d cs"
    unfolding path_settled_def cs by auto
  moreover have "\<forall>e\<in>set ds. path_settled ex h' config e cs"
    using later(3) unfolding path_settled_def cs by auto
  ultimately show ?case using first later(1,2) by auto
qed auto

lemma critical_paths_distinct: "distinct (map permission_path CRITICAL_PERMISSIONS)"
  by (simp add: CRITICAL_PERMISSIONS_def)


subsection \<open>Witnesses\<close>

text \<open>A remote host whose \<open>/etc/ssh\<close> and \<open>/etc/passwd\<close> have the modes the table asks for, and one whose
  \<open>/etc/passwd\<close> anyone may write.\<close>

definition mode_entry :: "nat \<Rightarrow> file_metadata" where
  "mode_entry m = \<lparr>exists = True, is_file = True, is_dir = False, mode = m, size = 0, uid = 0, gid = 0\<rparr>"

definition open_passwd_host :: mock_host where
  "open_passwd_host = new_mock\<lparr>metadata_store := [(''/etc/passwd'', mode_entry 438)]\<rparr>"

definition no_local_files :: "mock_host local_files" where
  "no_local_files = \<lparr>is_directory = (\<lambda>_ _. False), open_nofollow = (\<lambda>_ _ _. Some ''not local''),
     fchmod_opened = (\<lambda>h _ _. (Inl ''not local'', h))\<rparr>"

definition passwd_directive :: permission_directive where
  "passwd_directive = CRITICAL_PERMISSIONS ! 5"

lemma passwd_listed: "passwd_directive \<in> set CRITICAL_PERMISSIONS" "permission_path passwd_directive = ''/etc/passwd''"
  by (simp_all add: passwd_directive_def CRITICAL_PERMISSIONS_def)

lemma mock_metadata_kept:
  "mock_execute_command h program args = (out, h') \<Longrightarrow>
     mock_file_metadata h' = mock_file_metadata h \<and> mock_path_exists h' = mock_path_exists h"
  by (auto simp: mock_execute_command_def mock_file_metadata_def mock_path_exists_def fun_eq_iff Let_def
      split: if_splits list.splits option.splits)

lemma mock_mode_contract: "mode_contract (mock_executor remote desc) no_local_files"
  unfolding mode_contract_def by (auto simp: no_local_files_def dest: mock_metadata_kept)

lemma open_passwd_reads:
  "mock_path_exists open_passwd_host path = Inr (path = ''/etc/passwd'')"
  "mock_file_metadata open_passwd_host ''/etc/passwd'' = Inr (mode_entry 438)"
  by (simp_all add: open_passwd_host_def new_mock_def mock_path_exists_def mock_file_metadata_def mode_entry_def)

lemma open_passwd_violates: "mode_violates passwd_directive (permission_bits (mode_entry 438))"
  "\<not> mode_fits passwd_directive (permission_bits (mode_entry 438))"
  by (simp_all add: mode_violates_def mode_fits_def permission_bits_def mode_entry_def passwd_directive_def CRITICAL_PERMISSIONS_def)

lemma shipped_directive: "effective_directive d default_plugin_config = d"
  by (simp add: effective_directive_def default_plugin_config_def)

lemma shipped_exception: "excepted_mode cal today default_plugin_config path current = None"
  by (auto simp: excepted_mode_def matching_mode_exception_def has_valid_exception_def default_plugin_config_def
      split: option.splits)

lemma open_passwd_posix: "\<exists>h'. non_posix_fstype (mock_executor remote desc) open_passwd_host path = (None, h')"
  by (simp add: non_posix_fstype_def probe_fstype_def probe_answer_def mock_execute_command_def open_passwd_host_def
      new_mock_def Let_def)

theorem permissions_preview_matches_apply_witness:
  "\<exists>c h2. apply_permission sample_calendar 3 (mock_executor True ''sample'') no_local_files default_plugin_config
       open_passwd_host passwd_directive = (Some c, h2) \<and> change_type c = Permissions"
proof -
  let ?ex = "mock_executor True ''sample''"
  obtain h1 where posix: "non_posix_fstype ?ex open_passwd_host ''/etc/passwd'' = (None, h1)"
    using open_passwd_posix by blast
  have "\<exists>e. preview_permission sample_calendar 3 ?ex default_plugin_config open_passwd_host passwd_directive
      = ((Some e, None, None), h1)"
    using open_passwd_violates(1) posix passwd_listed(2)
    by (simp add: preview_permission_def open_passwd_reads shipped_exception shipped_directive current_verified_mode_def
        validate_path_permissions_def Let_def) (simp add: mode_entry_def)
  then obtain e where pre: "preview_permission sample_calendar 3 ?ex default_plugin_config open_passwd_host passwd_directive
      = ((Some e, None, None), h1)" by blast
  obtain c h2 where "apply_permission sample_calendar 3 ?ex no_local_files default_plugin_config open_passwd_host
      passwd_directive = (c, h2)" by fastforce
  with permissions_preview_matches_apply[OF pre this] show ?thesis by auto
qed

theorem permissions_scan_accounts_witness:
  "\<exists>r h'. permissions_scan sample_calendar 3 0 (mock_executor True ''sample'') open_passwd_host default_plugin_config = (r, h')
     \<and> ((\<exists>f\<in>set (scan_findings r). finding_exception_key f = Some ''/etc/passwd'')
        \<or> (\<exists>u\<in>set (scan_unchecked r). unchecked_check_id u = permission_check_id ''/etc/passwd''))"
proof -
  let ?ex = "mock_executor True ''sample''"
  obtain r h' where run: "permissions_scan sample_calendar 3 0 ?ex open_passwd_host default_plugin_config = (r, h')" by fastforce
  have "\<not> clear_reason ?ex open_passwd_host passwd_directive"
    using open_passwd_violates(2) by (simp add: clear_reason_def passwd_listed open_passwd_reads)
  with permissions_scan_accounts[OF contract_probe[OF mock_mode_contract] run passwd_listed(1)] run
  show ?thesis unfolding passwd_listed(2) by blast
qed

theorem permissions_apply_confined_witness:
  "\<exists>r h' db'. permissions_apply sample_calendar 3 no_local_files \<lparr>ctx_executor = mock_executor True ''sample'', ctx_manager = None\<rparr>
       open_passwd_host empty_database default_plugin_config = (r, h', db') \<and> files_written h' = []"
proof -
  obtain r h' db' where run: "permissions_apply sample_calendar 3 no_local_files
      \<lparr>ctx_executor = mock_executor True ''sample'', ctx_manager = None\<rparr> open_passwd_host empty_database
      default_plugin_config = (r, h', db')" by (metis prod_cases3)
  with permissions_apply_confined[OF _ _ run, of files_written commands_executed]
  show ?thesis using mock.recorded_effects_axioms by (simp add: open_passwd_host_def new_mock_def)
qed

definition tidy_passwd_host :: mock_host where
  "tidy_passwd_host = new_mock\<lparr>metadata_store := [(''/etc/passwd'', mode_entry 420)]\<rparr>"

lemma tidy_reads:
  "mock_path_exists tidy_passwd_host path = Inr (path = ''/etc/passwd'')"
  "mock_file_metadata tidy_passwd_host ''/etc/passwd'' = Inr (mode_entry 420)"
  by (simp_all add: tidy_passwd_host_def new_mock_def mock_path_exists_def mock_file_metadata_def mode_entry_def)

lemma tidy_apply:
  assumes "d \<in> set CRITICAL_PERMISSIONS"
  shows "apply_permission cal today (mock_executor True ''sample'') os default_plugin_config tidy_passwd_host d
     = (None, tidy_passwd_host)"
proof (cases "permission_path d = ''/etc/passwd''")
  case True
  have "\<not> mode_violates d (permission_bits (mode_entry 420))"
    using assms True by (auto simp: CRITICAL_PERMISSIONS_def mode_violates_def permission_bits_def mode_entry_def)
  with True show ?thesis
    by (simp add: apply_permission_def apply_path_permissions_def shipped_exception shipped_directive tidy_reads
        current_verified_mode_def Let_def) (simp add: mode_entry_def)
next
  case False
  then show ?thesis
    by (simp add: apply_permission_def apply_path_permissions_def shipped_exception shipped_directive tidy_reads Let_def)
qed


end
