(* ===== verification/Services_Plugin.thy ===== *)
theory Services_Plugin
  imports Kernel_Plugin
begin

text \<open>
  The service minimisation plugin (hardener-plugins/src/services): the batched listing behind the scan, the
  per-service probes behind apply and preview, and the report after a rollback (services/divergence.rs). The
  hash maps of a listing are finite maps, in which a later line for a unit replaces an earlier one.
\<close>

definition SERVICES_PLUGIN_ID :: plugin_id where "SERVICES_PLUGIN_ID = ''service-minimisation''"
definition ADMIN_UNIT_DIR :: string where "ADMIN_UNIT_DIR = ''/etc/systemd/system''"

definition unit_name :: "string \<Rightarrow> string" where "unit_name service = service @ ''.service''"

definition mask_link_paths :: "service_directive list \<Rightarrow> string list" where
  "mask_link_paths ds = map (\<lambda>d. ADMIN_UNIT_DIR @ ''/'' @ unit_name (service_name d)) ds"

definition ENABLED_STATES :: "string list" where
  "ENABLED_STATES = [''enabled'', ''enabled-runtime'', ''alias'', ''static'', ''indirect'', ''generated'', ''transient'']"

definition service_check_id :: "string \<Rightarrow> string" where
  "service_check_id service = ''service_'' @ replace_chars [CHR ''-''] (CHR ''_'') service"

definition unchecked_all_services :: "string \<Rightarrow> unchecked_check list" where
  "unchecked_all_services cause =
     map (\<lambda>d. \<lparr>unchecked_check_id = service_check_id (service_name d),
       unchecked_title = ''Unnecessary service '' @ service_name d, unchecked_category = Services,
       unchecked_reason = ''could not list services: '' @ cause, unchecked_blocker = Unknown,
       unchecked_compliance = service_compliance_mappings (service_name d)\<rparr>) UNNECESSARY_SERVICES"

subsection \<open>The listing\<close>

definition unit_column :: "nat \<Rightarrow> string \<Rightarrow> (string \<times> string) option" where
  "unit_column column line =
     (case split_whitespace line of
        [] \<Rightarrow> None
      | unit_file # rest \<Rightarrow> if column - 1 < length rest then Some (unit_file, rest ! (column - 1)) else None)"

definition parse_unit_column :: "string \<Rightarrow> nat \<Rightarrow> string \<rightharpoonup> string" where
  "parse_unit_column listing column = map_of (rev (filter_map (unit_column column) (str_lines listing)))"

record service_states =
  unit_files :: "string \<rightharpoonup> string"
  active_units :: "string \<rightharpoonup> string"

definition assessed_units :: "string list" where
  "assessed_units = map (\<lambda>d. unit_name (service_name d)) UNNECESSARY_SERVICES"

definition load_service_states ::
  "('h, 'z) executor_scheme \<Rightarrow> 'h \<Rightarrow> (hardening_error, service_states) result \<times> 'h" where
  "load_service_states ex h =
     (case execute_command ex h ''systemctl'' ([''list-unit-files'', ''--type=service'', ''--no-legend''] @ assessed_units) of
        (Inl e, h) \<Rightarrow> (Inl (hardening_of e), h)
      | (Inr unit_out, h) \<Rightarrow>
          if \<not> command_success unit_out \<and> (exit_code unit_out \<noteq> 1 \<or> trim (stderr unit_out) \<noteq> []) then
            (Inl (PluginError (''systemctl list-unit-files failed with exit '' @ show_int (exit_code unit_out) @ '': ''
               @ trim (stderr unit_out))), h)
          else
            (case execute_command ex h ''systemctl''
                    ([''list-units'', ''--type=service'', ''--all'', ''--no-legend'', ''--plain''] @ assessed_units) of
               (Inl e, h) \<Rightarrow> (Inl (hardening_of e), h)
             | (Inr loaded, h) \<Rightarrow>
                 if \<not> command_success loaded then
                   (Inl (PluginError (''systemctl list-units failed with exit '' @ show_int (exit_code loaded) @ '': ''
                      @ trim (stderr loaded))), h)
                 else
                   (Inr \<lparr>unit_files = parse_unit_column (stdout unit_out) 1,
                         active_units = parse_unit_column (stdout loaded) 2\<rparr>, h)))"

definition states_exists :: "service_states \<Rightarrow> string \<Rightarrow> bool" where
  "states_exists st service = (unit_files st (unit_name service) \<noteq> None)"

definition states_enabled :: "service_states \<Rightarrow> string \<Rightarrow> bool" where
  "states_enabled st service =
     (case unit_files st (unit_name service) of Some s \<Rightarrow> s \<in> set ENABLED_STATES | None \<Rightarrow> False)"

definition states_active :: "service_states \<Rightarrow> string \<Rightarrow> bool" where
  "states_active st service =
     (case active_units st (unit_name service) of Some s \<Rightarrow> s = ''active'' \<or> s = ''reloading'' | None \<Rightarrow> False)"

subsection \<open>Probes and changes of one service\<close>

definition is_service_exists ::
  "('h, 'z) executor_scheme \<Rightarrow> 'h \<Rightarrow> string \<Rightarrow> (hardening_error, bool) result \<times> 'h" where
  "is_service_exists ex h service =
     (case execute_command ex h ''systemctl'' [''list-unit-files'', unit_name service] of
        (Inl e, h) \<Rightarrow> (Inl (hardening_of e), h)
      | (Inr out, h) \<Rightarrow> (Inr (contains (unit_name service) (stdout out)), h))"

text \<open>\<open>is-enabled\<close> and \<open>is-active\<close>, judged on the exit status.\<close>

definition systemctl_succeeds ::
  "('h, 'z) executor_scheme \<Rightarrow> 'h \<Rightarrow> string \<Rightarrow> string \<Rightarrow> (hardening_error, bool) result \<times> 'h" where
  "systemctl_succeeds ex h verb service =
     (case execute_command ex h ''systemctl'' [verb, service] of
        (Inl e, h) \<Rightarrow> (Inl (hardening_of e), h)
      | (Inr out, h) \<Rightarrow> (Inr (command_success out), h))"

definition is_service_enabled where "is_service_enabled ex h service = systemctl_succeeds ex h ''is-enabled'' service"
definition is_service_active where "is_service_active ex h service = systemctl_succeeds ex h ''is-active'' service"

text \<open>The three changes share one message, which says \<open>stop\<close> whatever the verb was.\<close>

definition systemctl_change ::
  "('h, 'z) executor_scheme \<Rightarrow> 'h \<Rightarrow> string \<Rightarrow> string \<Rightarrow> (hardening_error, unit) result \<times> 'h" where
  "systemctl_change ex h verb service =
     (case execute_command ex h ''systemctl'' [verb, service] of
        (Inl e, h) \<Rightarrow> (Inl (hardening_of e), h)
      | (Inr out, h) \<Rightarrow>
          (if \<not> command_success out
           then Inl (PluginError (''systemctl stop '' @ service @ '' failed: '' @ trim (stderr out))) else Inr (), h))"

definition stop_service where "stop_service ex h service = systemctl_change ex h ''stop'' service"
definition disable_service where "disable_service ex h service = systemctl_change ex h ''disable'' service"
definition mask_service where "mask_service ex h service = systemctl_change ex h ''mask'' service"

text \<open>\<open>unwrap_or(false)\<close>.\<close>

definition or_false :: "('e, bool) result \<Rightarrow> bool" where
  "or_false r = (case r of Inr b \<Rightarrow> b | Inl _ \<Rightarrow> False)"

subsection \<open>Scan\<close>

definition service_finding ::
  "'d::linorder calendar \<Rightarrow> 'd \<Rightarrow> plugin_config \<Rightarrow> bool \<Rightarrow> bool \<Rightarrow> service_directive \<Rightarrow> finding" where
  "service_finding cal today config enabled_now active_now d =
     (let service = service_name d;
          current = (if enabled_now \<and> active_now then ''enabled and active'' else if enabled_now then ''enabled'' else ''active'')
      in \<lparr>finding_category = Services, finding_current_value = current, finding_description = service_description d,
          finding_explanation = ''Service '' @ service @ '' is currently '' @ current @ ''. '' @ service_description d,
          finding_id = service_check_id service,
          finding_impact = ''Reduces attack surface by disabling unnecessary service'',
          finding_recommended_value = ''disabled and masked'',
          finding_remediation_steps = [''systemctl stop '' @ service, ''systemctl disable '' @ service, ''systemctl mask '' @ service],
          finding_severity = service_severity d,
          finding_title = ''Unnecessary service '' @ service @ '' is running'',
          finding_compliance = service_compliance_mappings service,
          finding_exception = exception_outcome_for_presence cal today config service,
          finding_exception_key = Some service\<rparr>)"

definition service_findings ::
  "'d::linorder calendar \<Rightarrow> 'd \<Rightarrow> plugin_config \<Rightarrow> service_states \<Rightarrow> finding list" where
  "service_findings cal today config st =
     concat (map (\<lambda>d. let service = service_name d; e = states_enabled st service; a = states_active st service in
        if states_exists st service \<and> (e \<or> a) then [service_finding cal today config e a d] else []) UNNECESSARY_SERVICES)"

definition services_scan ::
  "'d::linorder calendar \<Rightarrow> 'd \<Rightarrow> nat \<Rightarrow> ('h, 'z) executor_scheme \<Rightarrow> 'h \<Rightarrow> plugin_config \<Rightarrow> scan_result \<times> 'h" where
  "services_scan cal today duration ex h config =
     (case load_service_states ex h of
        (Inl e, h) \<Rightarrow>
          (\<lparr>scan_plugin_id = SERVICES_PLUGIN_ID, scan_success = False, scan_findings = [],
            scan_unchecked = unchecked_all_services (error_text e), scan_duration_us = duration,
            scan_error = Some (error_text e), scan_skipped = None\<rparr>, h)
      | (Inr st, h) \<Rightarrow>
          (\<lparr>scan_plugin_id = SERVICES_PLUGIN_ID, scan_success = True, scan_findings = service_findings cal today config st,
            scan_unchecked = [], scan_duration_us = duration, scan_error = None, scan_skipped = None\<rparr>, h))"

subsection \<open>Apply\<close>

fun installed_services ::
  "('h, 'z) executor_scheme \<Rightarrow> 'h \<Rightarrow> service_directive list \<Rightarrow> service_directive list \<times> 'h" where
  "installed_services ex h [] = ([], h)"
| "installed_services ex h (d # ds) =
     (case is_service_exists ex h (service_name d) of
        (r, h) \<Rightarrow> (case installed_services ex h ds of (rest, h) \<Rightarrow> (if or_false r then d # rest else rest, h)))"

definition service_change :: "string \<Rightarrow> string \<Rightarrow> string \<Rightarrow> (hardening_error, unit) result \<Rightarrow> change" where
  "service_change done_text failed_text service r =
     (case r of
        Inr _ \<Rightarrow> change_of (done_text @ '' service '' @ service) Service None
      | Inl e \<Rightarrow> change_of (''Failed to '' @ failed_text @ '' service '' @ service) Service (Some (error_text e)))"

text \<open>The steps for a service that is enabled or running: a stop that fails skips the rest.\<close>

definition harden_service ::
  "('h, 'z) executor_scheme \<Rightarrow> 'h \<Rightarrow> string \<Rightarrow> bool \<Rightarrow> bool \<Rightarrow> change list \<times> 'h" where
  "harden_service ex h service enabled_now active_now =
     (case (if active_now then map_prod Some id (stop_service ex h service) else (None, h)) of
        (stopped, h) \<Rightarrow>
          (let first = (case stopped of Some r \<Rightarrow> [service_change ''Stopped'' ''stop'' service r] | None \<Rightarrow> []) in
           if (case stopped of Some r \<Rightarrow> \<not> is_ok r | None \<Rightarrow> False) then (first, h)
           else
             (case (if enabled_now then map_prod Some id (disable_service ex h service) else (None, h)) of
                (disabled, h) \<Rightarrow>
                  (case mask_service ex h service of
                     (masked, h) \<Rightarrow>
                       (first @ (case disabled of Some r \<Rightarrow> [service_change ''Disabled'' ''disable'' service r] | None \<Rightarrow> [])
                          @ [service_change ''Masked'' ''mask'' service masked], h)))))"

definition apply_service ::
  "'d::linorder calendar \<Rightarrow> 'd \<Rightarrow> ('h, 'z) executor_scheme \<Rightarrow> plugin_config \<Rightarrow> 'h \<Rightarrow> service_directive \<Rightarrow> change list \<times> 'h" where
  "apply_service cal today ex config h d =
     (let service = service_name d in
      case has_valid_exception cal today config service of
        Some x \<Rightarrow> ([change_of (service @ '': skipped (exception: '' @ reason x @ '')'') Skipped None], h)
      | None \<Rightarrow>
          (case is_service_enabled ex h service of
             (e, h) \<Rightarrow>
               (case is_service_active ex h service of
                  (a, h) \<Rightarrow>
                    if \<not> or_false e \<and> \<not> or_false a then ([], h)
                    else harden_service ex h service (or_false e) (or_false a))))"

fun apply_services ::
  "'d::linorder calendar \<Rightarrow> 'd \<Rightarrow> ('h, 'z) executor_scheme \<Rightarrow> plugin_config \<Rightarrow> 'h \<Rightarrow> service_directive list \<Rightarrow>
   change list \<times> 'h" where
  "apply_services cal today ex config h [] = ([], h)"
| "apply_services cal today ex config h (d # ds) =
     (case apply_service cal today ex config h d of
        (cs, h) \<Rightarrow> (case apply_services cal today ex config h ds of (rest, h) \<Rightarrow> (cs @ rest, h)))"

definition services_apply ::
  "'d::linorder calendar \<Rightarrow> 'd \<Rightarrow> 'h apply_context \<Rightarrow> 'h \<Rightarrow> database \<Rightarrow> plugin_config \<Rightarrow>
   ((hardening_error, apply_result) result \<times> 'h \<times> database) option" where
  "services_apply cal today ctx h db config =
     (let ex = ctx_executor ctx in
      case installed_services ex h UNNECESSARY_SERVICES of
        (installed, h) \<Rightarrow>
          (case create_checkpoint_for_apply ctx h db ''service-minimisation-pre-apply''
                  (ADMIN_UNIT_DIR # mask_link_paths installed) of
             None \<Rightarrow> None
           | Some (Inl e, h, db) \<Rightarrow> Some (Inl e, h, db)
           | Some (Inr cid, h, db) \<Rightarrow>
               (case apply_services cal today ex config h installed of
                  (cs, h) \<Rightarrow>
                    (let changes = (case checkpoint_change cid of Some c \<Rightarrow> [c] | None \<Rightarrow> []) @ cs in
                     Some (Inr \<lparr>apply_plugin_id = SERVICES_PLUGIN_ID, apply_success = list_all change_success changes,
                       apply_changes = changes, apply_checkpoint_id = cid, apply_error = None\<rparr>, h, db)))))"

definition services_reloads_for_path :: "string \<Rightarrow> bool" where
  "services_reloads_for_path path = path_starts_with path ADMIN_UNIT_DIR"

definition services_reload_after_rollback ::
  "('h, 'z) executor_scheme \<Rightarrow> 'h \<Rightarrow> (hardening_error, string option) result \<times> 'h" where
  "services_reload_after_rollback ex h =
     (case execute_command ex h ''systemctl'' [''daemon-reload''] of
        (Inl e, h) \<Rightarrow> (Inl (hardening_of e), h)
      | (Inr out, h) \<Rightarrow>
          (if \<not> command_success out then Inl (PluginError (''systemctl daemon-reload failed: '' @ stderr out))
           else Inr (Some ''systemd daemon reloaded''), h))"

subsection \<open>Preview\<close>

definition COMMAND_EXISTS_PROBE :: string where
  "COMMAND_EXISTS_PROBE = ''case $(command -v -- '' @ [CHR 0x22] @ ''$1'' @ [CHR 0x22] @ '') in /*) exit 0 ;; *) exit 1 ;; esac''"

definition command_exists :: "('h, 'z) executor_scheme \<Rightarrow> 'h \<Rightarrow> string \<Rightarrow> bool host_result \<times> 'h" where
  "command_exists ex h program =
     (case execute_command ex h ''sh'' [''-c'', COMMAND_EXISTS_PROBE, ''sh'', program] of
        (Inl e, h) \<Rightarrow> (Inl e, h)
      | (Inr out, h) \<Rightarrow> (Inr (command_success out), h))"

definition EXCEPTION_OBSERVED_UNCHANGED :: string where
  "EXCEPTION_OBSERVED_UNCHANGED = ''unchanged''"

text \<open>One service of the preview: the estimate and the exception line it adds.\<close>

definition preview_service ::
  "'d::linorder calendar \<Rightarrow> 'd \<Rightarrow> ('h, 'z) executor_scheme \<Rightarrow> plugin_config \<Rightarrow> 'h \<Rightarrow> service_directive \<Rightarrow>
   (string list \<times> string list) \<times> 'h" where
  "preview_service cal today ex config h d =
     (let service = service_name d in
      case is_service_exists ex h service of
        (there, h) \<Rightarrow>
          if \<not> or_false there then (([], []), h)
          else
            (case has_valid_exception cal today config service of
               Some x \<Rightarrow> (([], [exception_preview_line service EXCEPTION_OBSERVED_UNCHANGED (reason x)]), h)
             | None \<Rightarrow>
                 (case is_service_enabled ex h service of
                    (e, h) \<Rightarrow>
                      (case is_service_active ex h service of
                         (a, h) \<Rightarrow>
                           ((if or_false e \<or> or_false a then [''Disable and mask service: '' @ service] else [], []), h)))))"

fun preview_services ::
  "'d::linorder calendar \<Rightarrow> 'd \<Rightarrow> ('h, 'z) executor_scheme \<Rightarrow> plugin_config \<Rightarrow> 'h \<Rightarrow> service_directive list \<Rightarrow>
   (string list \<times> string list) \<times> 'h" where
  "preview_services cal today ex config h [] = (([], []), h)"
| "preview_services cal today ex config h (d # ds) =
     (case preview_service cal today ex config h d of
        ((cs, xs), h) \<Rightarrow>
          (case preview_services cal today ex config h ds of ((cs', xs'), h) \<Rightarrow> ((cs @ cs', xs @ xs'), h)))"

definition services_validate ::
  "'d::linorder calendar \<Rightarrow> 'd \<Rightarrow> ('h, 'z) executor_scheme \<Rightarrow> 'h \<Rightarrow> plugin_config \<Rightarrow>
   (hardening_error, validation_report) result \<times> 'h" where
  "services_validate cal today ex h config =
     (let report = (\<lambda>issues estimates xs.
            \<lparr>validation_report_plugin_id = SERVICES_PLUGIN_ID, validation_report_is_valid = (issues = []),
             validation_report_issues = issues, validation_report_estimated_changes = estimates,
             validation_report_compliant_count = 0, validation_report_exceptions = xs\<rparr>)
      in case command_exists ex h ''systemctl'' of
           (Inl e, h) \<Rightarrow> (Inl (hardening_of e), h)
         | (Inr there, h) \<Rightarrow>
             if there then
               (case preview_services cal today ex config h UNNECESSARY_SERVICES of
                  ((estimates, xs), h) \<Rightarrow> (Inr (report [] estimates xs), h))
             else (Inr (report [\<lparr>validation_issue_severity = Critical,
                    validation_issue_message = ''systemctl command not found - this plugin requires systemd'',
                    validation_issue_config_key = None\<rparr>] [] []), h))"

end
