(* ===== verification/Services_Safety.thy ===== *)
theory Services_Safety
  imports Services_Plugin Apply_Effects Compliance_Report
begin

text \<open>
  What the service minimisation plugin may run, and what a successful apply has achieved on a host whose
  service manager keeps the contract of \<open>systemctl\<close>; and what each operation says when it cannot run.
\<close>

subsection \<open>Commands\<close>

text \<open>A probe of a listed unit, or a change of a listed unit no valid exception covers.\<close>

definition service_command :: "'d::linorder calendar \<Rightarrow> 'd \<Rightarrow> plugin_config \<Rightarrow> string \<times> string list \<Rightarrow> bool" where
  "service_command cal today config c =
     (\<exists>d\<in>set UNNECESSARY_SERVICES. let s = service_name d in
        c = (''systemctl'', [''list-unit-files'', unit_name s])
        \<or> (\<exists>verb\<in>{''is-enabled'', ''is-active''}. c = (''systemctl'', [verb, s]))
        \<or> (\<exists>verb\<in>{''stop'', ''disable'', ''mask''}. c = (''systemctl'', [verb, s])
             \<and> has_valid_exception cal today config s = None))"

lemma service_commandI:
  assumes "d \<in> set UNNECESSARY_SERVICES"
  shows "service_command cal today config (''systemctl'', [''list-unit-files'', unit_name (service_name d)])"
    and "verb \<in> {''is-enabled'', ''is-active''} \<Longrightarrow> service_command cal today config (''systemctl'', [verb, service_name d])"
    and "has_valid_exception cal today config (service_name d) = None \<Longrightarrow> verb \<in> {''stop'', ''disable'', ''mask''} \<Longrightarrow>
      service_command cal today config (''systemctl'', [verb, service_name d])"
  unfolding service_command_def Let_def by (rule bexI[OF _ assms], simp)+

context recorded_effects
begin

lemma exists_confined:
  "is_service_exists ex h s = (r, h') \<Longrightarrow> R (''systemctl'', [''list-unit-files'', unit_name s]) \<Longrightarrow> confined W R h h'"
  by (auto simp: is_service_exists_def split: prod.splits sum.splits intro: run_confined)

lemma systemctl_succeeds_confined:
  "systemctl_succeeds ex h verb s = (r, h') \<Longrightarrow> R (''systemctl'', [verb, s]) \<Longrightarrow> confined W R h h'"
  by (auto simp: systemctl_succeeds_def split: prod.splits sum.splits intro: run_confined)

lemma systemctl_change_confined:
  "systemctl_change ex h verb s = (r, h') \<Longrightarrow> R (''systemctl'', [verb, s]) \<Longrightarrow> confined W R h h'"
  by (auto simp: systemctl_change_def split: prod.splits sum.splits intro: run_confined)

lemma installed_confined:
  "set ds \<subseteq> set UNNECESSARY_SERVICES \<Longrightarrow> installed_services ex h ds = (r, h')
     \<Longrightarrow> confined W (service_command cal today config) h h'"
proof (induction ds arbitrary: h r)
  case (Cons d ds)
  obtain e h1 where e: "is_service_exists ex h (service_name d) = (e, h1)" by fastforce
  obtain rest where rest: "installed_services ex h1 ds = (rest, h')" using Cons.prems(2) e by (auto split: prod.splits)
  have d: "d \<in> set UNNECESSARY_SERVICES" and ds: "set ds \<subseteq> set UNNECESSARY_SERVICES" using Cons.prems(1) by auto
  have "confined W (service_command cal today config) h h1" by (rule exists_confined[OF e]) (rule service_commandI(1)[OF d])
  then show ?case using Cons.IH[OF ds rest] by (rule confined_trans)
qed simp

lemma harden_confined:
  assumes "\<And>verb. verb \<in> {''stop'', ''disable'', ''mask''} \<Longrightarrow> R (''systemctl'', [verb, s])"
    and "harden_service ex h s e a = (cs, h')"
  shows "confined W R h h'"
proof -
  obtain r1 h1 where 1: "(if a then map_prod Some id (stop_service ex h s) else (None, h)) = (r1, h1)" by fastforce
  obtain r2 h2 where 2: "(if e then map_prod Some id (disable_service ex h1 s) else (None, h1)) = (r2, h2)" by fastforce
  obtain r3 h3 where 3: "mask_service ex h2 s = (r3, h3)" by fastforce
  have c1: "confined W R h h1"
    using 1 assms(1)[of "''stop''"] by (auto simp: stop_service_def map_prod_def split: if_splits prod.splits intro: systemctl_change_confined)
  have c2: "confined W R h1 h2"
    using 2 assms(1)[of "''disable''"] by (auto simp: disable_service_def map_prod_def split: if_splits prod.splits intro: systemctl_change_confined)
  have c3: "confined W R h2 h3"
    using systemctl_change_confined[OF 3[unfolded mask_service_def]] assms(1) by simp
  have "h' = h1 \<or> h' = h3"
    using assms(2) by (auto simp: harden_service_def 1 2 3 Let_def split: if_splits option.splits)
  with c1 confined_trans[OF c1 confined_trans[OF c2 c3]] show ?thesis by blast
qed

lemma apply_service_confined:
  assumes d: "d \<in> set UNNECESSARY_SERVICES" and run: "apply_service cal today ex config h d = (cs, h')"
  shows "confined W (service_command cal today config) h h'"
proof (cases "has_valid_exception cal today config (service_name d)")
  case (Some x)
  with run show ?thesis by (auto simp: apply_service_def)
next
  case None
  let ?R = "service_command cal today config"
  obtain e h1 where e: "is_service_enabled ex h (service_name d) = (e, h1)" by fastforce
  obtain a h2 where a: "is_service_active ex h1 (service_name d) = (a, h2)" by fastforce
  have "confined W ?R h h1"
    by (rule systemctl_succeeds_confined[OF e[unfolded is_service_enabled_def]]) (rule service_commandI(2)[OF d], simp)
  also have "confined W ?R h1 h2"
    by (rule systemctl_succeeds_confined[OF a[unfolded is_service_active_def]]) (rule service_commandI(2)[OF d], simp)
  finally have 1: "confined W ?R h h2" .
  have "h' = h2 \<or> harden_service ex h2 (service_name d) (or_false e) (or_false a) = (cs, h')"
    using run None e a by (auto simp: apply_service_def Let_def split: if_splits)
  moreover have "confined W ?R h2 h'" if "harden_service ex h2 (service_name d) (or_false e) (or_false a) = (cs, h')"
    by (rule harden_confined[OF _ that]) (rule service_commandI(3)[OF d None])
  ultimately show ?thesis using 1 confined_trans[OF 1] by blast
qed

lemma apply_services_confined:
  "set ds \<subseteq> set UNNECESSARY_SERVICES \<Longrightarrow> apply_services cal today ex config h ds = (cs, h')
     \<Longrightarrow> confined W (service_command cal today config) h h'"
proof (induction ds arbitrary: h cs)
  case (Cons d ds)
  obtain c h1 where c: "apply_service cal today ex config h d = (c, h1)" by fastforce
  obtain rest where rest: "apply_services cal today ex config h1 ds = (rest, h')" using Cons.prems(2) c by (auto split: prod.splits)
  have d: "d \<in> set UNNECESSARY_SERVICES" and ds: "set ds \<subseteq> set UNNECESSARY_SERVICES" using Cons.prems(1) by auto
  show ?case by (rule confined_trans[OF apply_service_confined[OF d c] Cons.IH[OF ds rest]])
qed simp

end

lemma installed_subset: "installed_services ex h ds = (r, h') \<Longrightarrow> set r \<subseteq> set ds"
  by (induction ds arbitrary: h r h') (auto split: prod.splits if_splits, blast+)

text \<open>The stages of a run that returned a result.\<close>

lemma services_apply_stages:
  assumes "services_apply cal today ctx h db config = Some (Inr r, h', db')"
  obtains installed h1 cid h2 db2 cs where "installed_services (ctx_executor ctx) h UNNECESSARY_SERVICES = (installed, h1)"
    "create_checkpoint_for_apply ctx h1 db ''service-minimisation-pre-apply'' (ADMIN_UNIT_DIR # mask_link_paths installed)
       = Some (Inr cid, h2, db2)"
    "apply_services cal today (ctx_executor ctx) config h2 installed = (cs, h')"
    "apply_changes r = (case checkpoint_change cid of Some c \<Rightarrow> [c] | None \<Rightarrow> []) @ cs"
    "apply_success r = list_all change_success (apply_changes r)"
  using assms by (auto simp: services_apply_def Let_def split: prod.splits option.splits sum.splits)

text \<open>An apply stays with its list: it writes no file, runs nothing but \<open>systemctl\<close> on a listed unit, and
  stops, disables or masks no unit a valid exception covers.
\<close>

theorem services_apply_confined:
  assumes "recorded_effects (ctx_executor ctx) writes runs"
    and "services_apply cal today ctx h db config = Some (Inr r, h', db')"
  shows "writes h' = writes h \<and> (\<exists>rs. runs h' = runs h @ rs \<and> (\<forall>c\<in>set rs. service_command cal today config c))"
proof -
  note rec = assms(1)
  obtain installed h1 cid h2 db2 cs where s: "installed_services (ctx_executor ctx) h UNNECESSARY_SERVICES = (installed, h1)"
    "create_checkpoint_for_apply ctx h1 db ''service-minimisation-pre-apply'' (ADMIN_UNIT_DIR # mask_link_paths installed)
       = Some (Inr cid, h2, db2)"
    "apply_services cal today (ctx_executor ctx) config h2 installed = (cs, h')"
    using services_apply_stages[OF assms(2)] by metis
  have "recorded_effects.confined writes runs (\<lambda>_. False) (service_command cal today config) h h'"
    using recorded_effects.installed_confined[OF rec order_refl s(1)] checkpoint_for_apply_confined[OF rec s(2)]
      recorded_effects.apply_services_confined[OF rec installed_subset[OF s(1)] s(3)]
    by (blast intro: recorded_effects.confined_trans[OF rec])
  then show ?thesis by (rule recorded_effects.confined_no_write[OF rec])
qed

subsection \<open>Convergence\<close>

text \<open>What the probes of a service answer: enabled, running. A probe that cannot run counts as no.\<close>

definition observed_enabled :: "('h, 'z) executor_scheme \<Rightarrow> 'h \<Rightarrow> string \<Rightarrow> bool" where
  "observed_enabled ex h s = or_false (fst (is_service_enabled ex h s))"

definition observed_active :: "('h, 'z) executor_scheme \<Rightarrow> 'h \<Rightarrow> string \<Rightarrow> bool" where
  "observed_active ex h s = or_false (fst (is_service_active ex h s))"

abbreviation same_services :: "('h, 'z) executor_scheme \<Rightarrow> 'h \<Rightarrow> 'h \<Rightarrow> bool" where
  "same_services ex h h' \<equiv> observed_enabled ex h' = observed_enabled ex h \<and> observed_active ex h' = observed_active ex h"

text \<open>
  The service manager: following a link and every command but the three changes leave the services as they
  were; a change turns nothing on; a successful stop leaves the unit stopped and a successful mask leaves it
  not enabled.
\<close>

definition systemd_contract :: "('h, 'z) executor_scheme \<Rightarrow> bool" where
  "systemd_contract ex =
     ((\<forall>h path. same_services ex h (snd (read_link ex h path)))
      \<and> (\<forall>h program args. (\<forall>s. (program, args) \<notin> {(''systemctl'', [''stop'', s]), (''systemctl'', [''disable'', s]), (''systemctl'', [''mask'', s])})
            \<longrightarrow> same_services ex h (snd (execute_command ex h program args)))
      \<and> (\<forall>h verb s r h'. verb \<in> {''stop'', ''disable'', ''mask''} \<and> systemctl_change ex h verb s = (r, h') \<longrightarrow>
            (\<forall>t. (observed_enabled ex h' t \<longrightarrow> observed_enabled ex h t) \<and> (observed_active ex h' t \<longrightarrow> observed_active ex h t))
            \<and> (is_ok r \<and> verb = ''stop'' \<longrightarrow> \<not> observed_active ex h' s)
            \<and> (is_ok r \<and> verb = ''mask'' \<longrightarrow> \<not> observed_enabled ex h' s)))"

definition no_more_services :: "('h, 'z) executor_scheme \<Rightarrow> 'h \<Rightarrow> 'h \<Rightarrow> bool" where
  "no_more_services ex h h' = (\<forall>t. (observed_enabled ex h' t \<longrightarrow> observed_enabled ex h t)
     \<and> (observed_active ex h' t \<longrightarrow> observed_active ex h t))"

lemma no_more_refl [simp]: "no_more_services ex h h"
  by (simp add: no_more_services_def)

lemma no_more_trans: "no_more_services ex h h' \<Longrightarrow> no_more_services ex h' h'' \<Longrightarrow> no_more_services ex h h''"
  by (simp add: no_more_services_def)

lemma same_no_more: "same_services ex h h' \<Longrightarrow> no_more_services ex h h'"
  by (simp add: no_more_services_def)

lemma no_more_off:
  "no_more_services ex h h' \<Longrightarrow> \<not> observed_enabled ex h s \<and> \<not> observed_active ex h s
     \<Longrightarrow> \<not> observed_enabled ex h' s \<and> \<not> observed_active ex h' s"
  unfolding no_more_services_def by blast

lemma contract_probe_keeps:
  assumes "systemd_contract ex" "verb \<in> {''is-enabled'', ''is-active''}" "systemctl_succeeds ex h verb s = (r, h')"
  shows "same_services ex h h'"
proof -
  obtain o' h1 where e: "execute_command ex h ''systemctl'' [verb, s] = (o', h1)" by fastforce
  have "h' = h1" using assms(3) e by (auto simp: systemctl_succeeds_def split: sum.splits)
  moreover have "same_services ex h (snd (execute_command ex h ''systemctl'' [verb, s]))"
    using assms(1,2) unfolding systemd_contract_def by auto
  ultimately show ?thesis using e by simp
qed

lemma contract_exists_keeps:
  assumes "systemd_contract ex" "is_service_exists ex h s = (r, h')"
  shows "same_services ex h h'"
proof -
  obtain o' h1 where e: "execute_command ex h ''systemctl'' [''list-unit-files'', unit_name s] = (o', h1)" by fastforce
  have "h' = h1" using assms(2) e by (auto simp: is_service_exists_def split: sum.splits)
  moreover have "same_services ex h (snd (execute_command ex h ''systemctl'' [''list-unit-files'', unit_name s]))"
    using assms(1) unfolding systemd_contract_def by auto
  ultimately show ?thesis using e by simp
qed

lemma contract_change:
  assumes "systemd_contract ex" "systemctl_change ex h verb s = (r, h')" "verb \<in> {''stop'', ''disable'', ''mask''}"
  shows "no_more_services ex h h'" "is_ok r \<Longrightarrow> verb = ''stop'' \<Longrightarrow> \<not> observed_active ex h' s"
    "is_ok r \<Longrightarrow> verb = ''mask'' \<Longrightarrow> \<not> observed_enabled ex h' s"
proof -
  have "no_more_services ex h h' \<and> (is_ok r \<and> verb = ''stop'' \<longrightarrow> \<not> observed_active ex h' s)
      \<and> (is_ok r \<and> verb = ''mask'' \<longrightarrow> \<not> observed_enabled ex h' s)"
    unfolding no_more_services_def
    by (rule assms(1)[unfolded systemd_contract_def, THEN conjunct2, THEN conjunct2, rule_format]) (use assms(2,3) in simp)
  then show "no_more_services ex h h'" "is_ok r \<Longrightarrow> verb = ''stop'' \<Longrightarrow> \<not> observed_active ex h' s"
    "is_ok r \<Longrightarrow> verb = ''mask'' \<Longrightarrow> \<not> observed_enabled ex h' s" by simp_all
qed

lemma service_change_success: "change_success (service_change a b s r) = is_ok r"
  by (cases r) (simp_all add: service_change_def change_of_def)

lemma harden_converges:
  assumes contract: "systemd_contract ex" and run: "harden_service ex h s e a = (cs, h')"
    and ok: "list_all change_success cs" and active: "observed_active ex h s \<longrightarrow> a"
  shows "no_more_services ex h h' \<and> \<not> observed_enabled ex h' s \<and> \<not> observed_active ex h' s"
proof -
  obtain r1 h1 where 1: "(if a then map_prod Some id (stop_service ex h s) else (None, h)) = (r1, h1)" by fastforce
  obtain r2 h2 where 2: "(if e then map_prod Some id (disable_service ex h1 s) else (None, h1)) = (r2, h2)" by fastforce
  obtain r3 h3 where 3: "mask_service ex h2 s = (r3, h3)" by fastforce
  note steps = run[unfolded harden_service_def 1 prod.case Let_def 2 3]
  have stopped: "is_ok r" if "r1 = Some r" for r
  proof (rule ccontr)
    assume "\<not> is_ok r"
    with steps that have "cs = [service_change ''Stopped'' ''stop'' s r]" by simp
    with ok \<open>\<not> is_ok r\<close> show False by (simp add: service_change_success)
  qed
  have "\<not> (case r1 of Some r \<Rightarrow> \<not> is_ok r | None \<Rightarrow> False)" using stopped by (simp split: option.splits)
  note steps' = steps[unfolded if_not_P[OF this]]
  from steps' have h': "h' = h3" by simp
  have "service_change ''Masked'' ''mask'' s r3 \<in> set cs" using steps' by auto
  from bspec[OF ok[unfolded list_all_iff] this] have masked: "is_ok r3" by (simp only: service_change_success)
  have off: "no_more_services ex h h1 \<and> \<not> observed_active ex h1 s"
  proof (cases a)
    case True
    with 1 obtain r where "systemctl_change ex h ''stop'' s = (r, h1)" "r1 = Some r"
      by (auto simp: stop_service_def map_prod_def split: prod.splits)
    with contract_change[OF contract this(1)] stopped show ?thesis by simp
  next
    case False
    with 1 active show ?thesis by auto
  qed
  have "no_more_services ex h1 h2"
    using 2 contract_change(1)[OF contract, of h1 "''disable''" s] by (auto simp: disable_service_def map_prod_def split: if_splits prod.splits)
  moreover have "no_more_services ex h2 h3" "\<not> observed_enabled ex h3 s"
    using contract_change(1,3)[OF contract 3[unfolded mask_service_def]] masked by simp_all
  ultimately show ?thesis
    using off h' no_more_trans unfolding no_more_services_def by metis
qed

lemma apply_service_converges:
  assumes contract: "systemd_contract ex" and run: "apply_service cal today ex config h d = (cs, h')"
    and ok: "list_all change_success cs"
  shows "no_more_services ex h h' \<and> (has_valid_exception cal today config (service_name d) = None \<longrightarrow>
     \<not> observed_enabled ex h' (service_name d) \<and> \<not> observed_active ex h' (service_name d))"
proof (cases "has_valid_exception cal today config (service_name d)")
  case (Some x)
  with run show ?thesis by (auto simp: apply_service_def)
next
  case None
  obtain e h1 where e: "is_service_enabled ex h (service_name d) = (e, h1)" by fastforce
  obtain a h2 where a: "is_service_active ex h1 (service_name d) = (a, h2)" by fastforce
  have s1: "same_services ex h h1" by (rule contract_probe_keeps[OF contract _ e[unfolded is_service_enabled_def]]) simp
  have s2: "same_services ex h1 h2" by (rule contract_probe_keeps[OF contract _ a[unfolded is_service_active_def]]) simp
  have "or_false e = observed_enabled ex h (service_name d)" by (simp add: observed_enabled_def e)
  moreover have "or_false a = observed_active ex h1 (service_name d)" by (simp add: observed_active_def a)
  ultimately have now: "or_false e = observed_enabled ex h2 (service_name d)" "or_false a = observed_active ex h2 (service_name d)"
    using s1 s2 by simp_all
  show ?thesis
  proof (cases "or_false e \<or> or_false a")
    case True
    with run None e a have "harden_service ex h2 (service_name d) (or_false e) (or_false a) = (cs, h')"
      by (auto simp: apply_service_def Let_def)
    from harden_converges[OF contract this ok] now(2) s1 s2 show ?thesis
      by (auto simp: no_more_services_def)
  next
    case False
    with run None e a have "h' = h2" by (auto simp: apply_service_def Let_def)
    with False now s1 s2 show ?thesis by (auto simp: no_more_services_def)
  qed
qed

lemma apply_services_converge:
  assumes contract: "systemd_contract ex"
  shows "apply_services cal today ex config h ds = (cs, h') \<Longrightarrow> list_all change_success cs \<Longrightarrow>
     no_more_services ex h h' \<and> (\<forall>d\<in>set ds. has_valid_exception cal today config (service_name d) = None \<longrightarrow>
       \<not> observed_enabled ex h' (service_name d) \<and> \<not> observed_active ex h' (service_name d))"
proof (induction ds arbitrary: h cs)
  case (Cons d ds)
  obtain c h1 where c: "apply_service cal today ex config h d = (c, h1)" by fastforce
  obtain rest where rest: "apply_services cal today ex config h1 ds = (rest, h')" and cs: "cs = c @ rest"
    using Cons.prems(1) c by (auto split: prod.splits)
  have ok: "list_all change_success c" "list_all change_success rest" using Cons.prems(2) cs by auto
  from apply_service_converges[OF contract c ok(1)] Cons.IH[OF rest ok(2)] show ?case
    using no_more_trans no_more_off by (metis set_ConsD)
qed simp

lemma installed_keeps:
  assumes contract: "systemd_contract ex"
  shows "installed_services ex h ds = (r, h') \<Longrightarrow> same_services ex h h'"
proof (induction ds arbitrary: h r)
  case (Cons d ds)
  obtain e h1 where e: "is_service_exists ex h (service_name d) = (e, h1)" by fastforce
  obtain rest where rest: "installed_services ex h1 ds = (rest, h')" using Cons.prems e by (auto split: prod.splits)
  show ?case using contract_exists_keeps[OF contract e] Cons.IH[OF rest] by simp
qed simp


subsection \<open>When the service manager cannot be asked\<close>

lemma nothing_installed:
  assumes "\<And>h args. \<exists>e h'. execute_command ex h ''systemctl'' args = (Inl e, h')"
  shows "\<exists>h'. installed_services ex h ds = ([], h')"
proof (induction ds arbitrary: h)
  case (Cons d ds)
  obtain e h1 where "execute_command ex h ''systemctl'' [''list-unit-files'', unit_name (service_name d)] = (Inl e, h1)"
    using assms by blast
  with Cons.IH[of h1] show ?case by (auto simp: is_service_exists_def or_false_def)
qed simp

text \<open>Where \<open>systemctl\<close> cannot be run the scan says so, with every service unchecked and no finding, while
  an apply that returns has examined nothing and still reports success.
\<close>

theorem unreachable_services:
  assumes "\<And>h args. \<exists>e h'. execute_command (ctx_executor ctx) h ''systemctl'' args = (Inl e, h')"
    and "services_scan cal today duration (ctx_executor ctx) h config = (seen, hs)"
    and "services_apply cal today ctx h db config = Some (Inr r, h', db')"
  shows "\<not> scan_success seen \<and> scan_findings seen = []
     \<and> (\<forall>d\<in>set UNNECESSARY_SERVICES. \<exists>u\<in>set (scan_unchecked seen). unchecked_check_id u = service_check_id (service_name d))
     \<and> apply_success r \<and> (\<forall>c\<in>set (apply_changes r). change_type c = Checkpoint)"
proof -
  obtain e h1 where "load_service_states (ctx_executor ctx) h = (Inl e, h1)"
    using assms(1)[of h "[''list-unit-files'', ''--type=service'', ''--no-legend''] @ assessed_units"]
    by (auto simp: load_service_states_def)
  with assms(2) have "\<not> scan_success seen \<and> scan_findings seen = []
     \<and> (\<forall>d\<in>set UNNECESSARY_SERVICES. \<exists>u\<in>set (scan_unchecked seen). unchecked_check_id u = service_check_id (service_name d))"
    by (auto simp: services_scan_def unchecked_all_services_def)
  moreover obtain h2 where none: "installed_services (ctx_executor ctx) h UNNECESSARY_SERVICES = ([], h2)"
    using nothing_installed[OF assms(1)] by blast
  have "\<exists>cid. apply_changes r = (case checkpoint_change cid of Some c \<Rightarrow> [c] | None \<Rightarrow> []) \<and> apply_success r"
    using assms(3) none
    by (auto simp: services_apply_def checkpoint_change_def split: option.splits sum.splits prod.splits)
  then have "apply_success r \<and> (\<forall>c\<in>set (apply_changes r). change_type c = Checkpoint)"
    by (auto simp: checkpoint_change_def split: option.splits)
  ultimately show ?thesis by blast
qed

subsection \<open>Witnesses\<close>

text \<open>A service manager: the enabled units and the running ones.\<close>

type_synonym unit_host = "string list \<times> string list"

definition answered :: "bool \<Rightarrow> string \<Rightarrow> command_output" where
  "answered yes text = \<lparr>stdout = text, stderr = [], exit_code = (if yes then 0 else 1)\<rparr>"

definition unit_execute :: "unit_host \<Rightarrow> string \<Rightarrow> string list \<Rightarrow> command_output host_result \<times> unit_host" where
  "unit_execute h program args =
     (case args of
        [verb, s] \<Rightarrow>
          if program \<noteq> ''systemctl'' then (Inl (Causes []), h)
          else if verb = ''is-enabled'' then (Inr (answered (s \<in> set (fst h)) []), h)
          else if verb = ''is-active'' then (Inr (answered (s \<in> set (snd h)) []), h)
          else if verb = ''list-unit-files'' then (Inr (answered True s), h)
          else if verb = ''stop'' then (Inr (answered True []), (fst h, removeAll s (snd h)))
          else if verb = ''disable'' \<or> verb = ''mask'' then (Inr (answered True []), (removeAll s (fst h), snd h))
          else (Inl (Causes []), h)
      | _ \<Rightarrow> (Inl (Causes []), h))"

definition unit_executor :: "unit_host executor" where
  "unit_executor =
     \<lparr>description = ''units'', legacy_description = None, is_remote = False,
      read_file = (\<lambda>_ _. Inl (Causes [])), read_file_optional = (\<lambda>_ _. Inl (Causes [])), path_exists = (\<lambda>_ _. Inr False),
      metadata_of = (\<lambda>_ _. Inl (Causes [])), read_dir = (\<lambda>_ _. Inl (Causes [])), write_file = (\<lambda>h _ _. (Inl (Causes []), h)),
      execute_command = unit_execute, read_link = (\<lambda>h _. (Inr None, h)), link_target_as_writer = (\<lambda>h _. (Inr None, h))\<rparr>"

lemma unit_executor_simps [simp]:
  "execute_command unit_executor = unit_execute" "read_link unit_executor h path = (Inr None, h)"
  by (simp_all add: unit_executor_def)

lemma unit_observed [simp]:
  "observed_enabled unit_executor h s = (s \<in> set (fst h))" "observed_active unit_executor h s = (s \<in> set (snd h))"
  by (simp_all add: observed_enabled_def observed_active_def is_service_enabled_def is_service_active_def
      systemctl_succeeds_def unit_execute_def answered_def command_success_def or_false_def)

lemma unit_other_commands:
  "(\<forall>s. (program, args) \<notin> {(''systemctl'', [''stop'', s]), (''systemctl'', [''disable'', s]), (''systemctl'', [''mask'', s])})
     \<Longrightarrow> snd (unit_execute h program args) = h"
  by (auto simp: unit_execute_def split: list.splits)

lemma unit_changes:
  "systemctl_change unit_executor h ''stop'' s = (Inr (), (fst h, removeAll s (snd h)))"
  "systemctl_change unit_executor h ''disable'' s = (Inr (), (removeAll s (fst h), snd h))"
  "systemctl_change unit_executor h ''mask'' s = (Inr (), (removeAll s (fst h), snd h))"
  by (simp_all add: systemctl_change_def unit_execute_def answered_def command_success_def)

lemma unit_contract: "systemd_contract unit_executor"
  unfolding systemd_contract_def
proof (intro conjI allI impI)
  fix h path show "observed_enabled unit_executor (snd (read_link unit_executor h path)) = observed_enabled unit_executor h"
    "observed_active unit_executor (snd (read_link unit_executor h path)) = observed_active unit_executor h" by simp_all
next
  fix h program args
  assume a: "\<forall>s. (program, args) \<notin> {(''systemctl'', [''stop'', s]), (''systemctl'', [''disable'', s]), (''systemctl'', [''mask'', s])}"
  show "observed_enabled unit_executor (snd (execute_command unit_executor h program args)) = observed_enabled unit_executor h"
    "observed_active unit_executor (snd (execute_command unit_executor h program args)) = observed_active unit_executor h"
    using unit_other_commands[OF a] by simp_all
next
  fix h verb s r h' t
  assume "verb \<in> {''stop'', ''disable'', ''mask''} \<and> systemctl_change unit_executor h verb s = (r, h')"
  then have "verb = ''stop'' \<and> h' = (fst h, removeAll s (snd h)) \<or> verb \<noteq> ''stop'' \<and> h' = (removeAll s (fst h), snd h)"
    by (auto simp: unit_changes)
  then show "observed_enabled unit_executor h' t \<Longrightarrow> observed_enabled unit_executor h t"
    "observed_active unit_executor h' t \<Longrightarrow> observed_active unit_executor h t"
    "is_ok r \<and> verb = ''stop'' \<Longrightarrow> \<not> observed_active unit_executor h' s"
    "is_ok r \<and> verb = ''mask'' \<Longrightarrow> \<not> observed_enabled unit_executor h' s" by auto
qed

lemma unit_installed: "installed_services unit_executor h UNNECESSARY_SERVICES = (UNNECESSARY_SERVICES, h)"
proof -
  have "is_service_exists unit_executor h (service_name d) = (Inr True, h)" if "d \<in> set UNNECESSARY_SERVICES" for d
  proof -
    have "list_all (\<lambda>d. contains (unit_name (service_name d)) (unit_name (service_name d))) UNNECESSARY_SERVICES" by code_simp
    with that show ?thesis by (simp add: is_service_exists_def unit_execute_def answered_def list_all_iff)
  qed
  then have "installed_services unit_executor h ds = (ds, h)" if "set ds \<subseteq> set UNNECESSARY_SERVICES" for ds
    using that by (induction ds) (simp_all add: or_false_def)
  then show ?thesis by simp
qed

lemma unit_apply_service: "list_all change_success (fst (apply_service cal today unit_executor config h d))"
proof -
  have harden: "list_all change_success (fst (harden_service unit_executor h s e a))" for h s e a
    by (simp add: harden_service_def stop_service_def disable_service_def mask_service_def unit_changes
        service_change_success)
  show ?thesis
    by (auto simp: apply_service_def harden Let_def change_of_def split: option.splits prod.splits)
qed

lemma unit_apply_services: "list_all change_success (fst (apply_services cal today unit_executor config h ds))"
proof (induction ds arbitrary: h)
  case (Cons d ds)
  obtain cs h1 where c: "apply_service cal today unit_executor config h d = (cs, h1)" by (meson surj_pair)
  obtain rest h2 where r: "apply_services cal today unit_executor config h1 ds = (rest, h2)" by (meson surj_pair)
  from unit_apply_service[of cal today config h d] Cons.IH[of h1] show ?case by (simp add: c r)
qed simp

lemma services_apply_returns:
  assumes "ctx_manager ctx = None"
  obtains r h' where "services_apply cal today ctx h db config = Some (Inr r, h', db)"
proof -
  obtain installed h1 where i: "installed_services (ctx_executor ctx) h UNNECESSARY_SERVICES = (installed, h1)" by fastforce
  obtain cs h2 where "apply_services cal today (ctx_executor ctx) config h1 installed = (cs, h2)" by fastforce
  with i assms show thesis by (intro that) (simp add: services_apply_def create_checkpoint_for_apply_def Let_def)
qed

lemma unit_apply:
  "\<exists>r h' db'. services_apply sample_calendar 3 \<lparr>ctx_executor = unit_executor, ctx_manager = None\<rparr> h empty_database config
     = Some (Inr r, h', db') \<and> apply_success r"
  using unit_apply_services[of sample_calendar 3 config h UNNECESSARY_SERVICES]
  by (auto simp: services_apply_def unit_installed create_checkpoint_for_apply_def checkpoint_change_def Let_def
      split: prod.splits)


theorem services_apply_confined_witness:
  "\<exists>r h' db'. services_apply sample_calendar 3 \<lparr>ctx_executor = mock_executor True ''sample'', ctx_manager = None\<rparr>
       new_mock empty_database default_plugin_config = Some (Inr r, h', db') \<and> files_written h' = []"
proof -
  let ?ctx = "\<lparr>ctx_executor = mock_executor True ''sample'', ctx_manager = None\<rparr>"
  obtain r h' where run: "services_apply sample_calendar 3 ?ctx new_mock empty_database default_plugin_config
      = Some (Inr r, h', empty_database)" 
    using services_apply_returns[of ?ctx sample_calendar 3 new_mock empty_database default_plugin_config] by auto
  from services_apply_confined[OF _ run, of files_written commands_executed] run mock.recorded_effects_axioms
  show ?thesis by (auto simp: new_mock_def)
qed

definition down_executor :: "mock_host executor" where
  "down_executor = (mock_executor False ''sample'')\<lparr>execute_command := (\<lambda>h _ _. (Inl (Causes [(None, ''no such command'')]), h))\<rparr>"

theorem unreachable_services_witness:
  "\<exists>r h' db'. services_apply sample_calendar 3 \<lparr>ctx_executor = down_executor, ctx_manager = None\<rparr>
       new_mock empty_database default_plugin_config = Some (Inr r, h', db') \<and> apply_success r
     \<and> \<not> scan_success (fst (services_scan sample_calendar 3 0 down_executor new_mock default_plugin_config))"
proof -
  let ?ctx = "\<lparr>ctx_executor = down_executor, ctx_manager = None\<rparr>"
  have down: "\<exists>e h'. execute_command (ctx_executor ?ctx) h ''systemctl'' args = (Inl e, h')" for h args
    by (simp add: down_executor_def)
  obtain r h' where run: "services_apply sample_calendar 3 ?ctx new_mock empty_database default_plugin_config
      = Some (Inr r, h', empty_database)" 
    using services_apply_returns[of ?ctx sample_calendar 3 new_mock empty_database default_plugin_config] by auto
  obtain seen hs where "services_scan sample_calendar 3 0 (ctx_executor ?ctx) new_mock default_plugin_config = (seen, hs)" by fastforce
  from unreachable_services[OF down this run] run this show ?thesis by auto
qed

end
