(* ===== verification/Unit_Divergence.thy ===== *)
theory Unit_Divergence
  imports Services_Plugin Ssh_Plugin
begin

text \<open>
  What a rollback left running against the files it restored: the reports of the SSH plugin
  (ssh/divergence.rs) and of the service minimisation plugin (services/divergence.rs). Both read the word
  \<open>systemctl\<close> prints and never its exit status, and report a divergence only for words they interpret.
\<close>

definition divergence_row :: "plugin_id \<Rightarrow> string \<Rightarrow> divergence_state \<Rightarrow> string \<Rightarrow> string option \<Rightarrow> rollback_divergence" where
  "divergence_row plugin subject state detail expected =
     \<lparr>divergence_plugin_id = plugin, divergence_subject = subject, divergence_state = state,
      divergence_detail = detail, divergence_expected = expected\<rparr>"

text \<open>What a probe read: a word it interprets, or why it could not tell.\<close>

datatype 'a reading = Reading 'a | NoReading string

subsection \<open>Whether a unit is running\<close>

definition read_activity :: "('h, 'z) executor_scheme \<Rightarrow> 'h \<Rightarrow> string \<Rightarrow> bool reading \<times> 'h" where
  "read_activity ex h unit_file =
     (case execute_command ex h ''systemctl'' [''is-active'', unit_file] of
        (Inr out, h) \<Rightarrow>
          (let word = trim (stdout out) in
           (if word = ''active'' then Reading True
            else if word = ''inactive'' \<or> word = ''failed'' then Reading False
            else NoReading (''systemctl is-active '' @ unit_file
              @ '' printed neither 'active', 'inactive' nor 'failed': '' @ debug_str word), h))
      | (Inl e, h) \<Rightarrow> (NoReading (''systemctl is-active '' @ unit_file @ '' could not be run: '' @ host_error_text e), h))"

subsection \<open>sshd\<close>

definition SSHD_UNIT :: string where "SSHD_UNIT = ''sshd''"

text \<open>Whether sshd is masked.\<close>

definition sshd_masked :: "('h, 'z) executor_scheme \<Rightarrow> 'h \<Rightarrow> bool reading \<times> 'h" where
  "sshd_masked ex h =
     (case execute_command ex h ''systemctl'' [''is-enabled'', SSHD_UNIT] of
        (Inr out, h) \<Rightarrow>
          (let word = trim (stdout out) in
           (if word = ''masked'' \<or> word = ''masked-runtime'' then Reading True
            else if word = [] then NoReading (''systemctl is-enabled '' @ SSHD_UNIT @ '' printed no output'')
            else Reading False, h))
      | (Inl e, h) \<Rightarrow> (NoReading (''systemctl is-enabled '' @ SSHD_UNIT @ '' could not be run: '' @ host_error_text e), h))"

definition sshd_divergences :: "('h, 'z) executor_scheme \<Rightarrow> 'h \<Rightarrow> rollback_divergence list \<times> 'h" where
  "sshd_divergences ex h =
     (let row = divergence_row SSH_PLUGIN_ID SSHD_UNIT in
      case read_activity ex h SSHD_UNIT of
        (Reading False, h) \<Rightarrow> ([], h)
      | (NoReading detail, h) \<Rightarrow>
          ([row Unverifiable (''whether '' @ SSHD_UNIT @ '' is running could not be read, so whether it is serving the restored configuration is unknown: '' @ detail) None], h)
      | (Reading True, h) \<Rightarrow>
          (case sshd_masked ex h of
             (Reading True, h) \<Rightarrow>
               ([row Diverged (SSHD_UNIT @ '' is running and masked, so the restart reload_after_rollback attempted could not have applied the restored configuration; masking refuses future starts but does not stop a unit already running'') None], h)
           | (Reading False, h) \<Rightarrow> ([], h)
           | (NoReading detail, h) \<Rightarrow>
               ([row Unverifiable (SSHD_UNIT @ '' is running, but whether it is masked, and so whether its restart onto the restored configuration could have taken, could not be read: '' @ detail) None], h)))"

definition ssh_divergences_after_rollback ::
  "('h, 'z) executor_scheme \<Rightarrow> 'h \<Rightarrow> string list \<Rightarrow> rollback_divergence list \<times> 'h" where
  "ssh_divergences_after_rollback ex h restored =
     (if \<not> list_ex ssh_reloads_for_path restored then ([], h) else sshd_divergences ex h)"

subsection \<open>The managed services\<close>

text \<open>Whether the unit files leave a service enabled, with the word that says so.\<close>

definition read_enablement :: "('h, 'z) executor_scheme \<Rightarrow> 'h \<Rightarrow> string \<Rightarrow> (bool \<times> string) reading \<times> 'h" where
  "read_enablement ex h service =
     (case execute_command ex h ''systemctl'' [''is-enabled'', service] of
        (Inr out, h) \<Rightarrow>
          (let word = trim (stdout out) in
           (if word \<in> {''enabled'', ''enabled-runtime''} then Reading (True, word)
            else if word \<in> {''disabled'', ''masked'', ''masked-runtime''} then Reading (False, word)
            else NoReading (''systemctl is-enabled '' @ service
              @ '' printed none of 'enabled', 'enabled-runtime', 'disabled', 'masked' or 'masked-runtime': '' @ debug_str word), h))
      | (Inl e, h) \<Rightarrow> (NoReading (''systemctl is-enabled '' @ service @ '' could not be run: '' @ host_error_text e), h))"

definition service_rows :: "string \<Rightarrow> (bool \<times> string) reading \<Rightarrow> bool reading \<Rightarrow> rollback_divergence list" where
  "service_rows service enablement activity =
     (let row = divergence_row SERVICES_PLUGIN_ID service in
      case enablement of
        NoReading detail \<Rightarrow> [row Unverifiable (''whether '' @ service @ '''s restored unit files leave it enabled could not be read, so whether it disagrees with the running service is unknown: '' @ detail) None]
      | Reading (yes, word) \<Rightarrow>
          (case activity of
             NoReading detail \<Rightarrow> [row Unverifiable (''whether '' @ service @ '' is currently running could not be read, so whether it disagrees with its restored unit files is unknown: '' @ detail) None]
           | Reading running \<Rightarrow>
               if \<not> yes \<and> running then
                 [row Diverged (service @ '' reads '' @ word @ '' after the rollback, but the service manager reports it running'') None]
               else if yes \<and> \<not> running then
                 [row Diverged (service @ '' reads '' @ word @ '' after the rollback, but the service manager reports it not running'')
                   (Some ''a rollback never starts a unit, so a unit that reads enabled by any means and is not running is this shape, because undoing a hardening run must not leave a host less protected than it was found'')]
               else []))"

fun service_divergences ::
  "('h, 'z) executor_scheme \<Rightarrow> 'h \<Rightarrow> service_directive list \<Rightarrow> rollback_divergence list \<times> 'h" where
  "service_divergences ex h [] = ([], h)"
| "service_divergences ex h (d # ds) =
     (case is_service_exists ex h (service_name d) of
        (Inr False, h) \<Rightarrow> service_divergences ex h ds
      | (Inl e, h) \<Rightarrow>
          (case service_divergences ex h ds of
             (rows, h) \<Rightarrow>
               (divergence_row SERVICES_PLUGIN_ID (service_name d) Unverifiable
                  (''whether '' @ service_name d @ '' is installed could not be read, so whether its restored unit files disagree with the running service is unknown: '' @ error_text e) None # rows, h))
      | (Inr True, h) \<Rightarrow>
          (case read_enablement ex h (service_name d) of
             (enablement, h) \<Rightarrow>
               (case read_activity ex h (service_name d) of
                  (activity, h) \<Rightarrow>
                    (case service_divergences ex h ds of
                       (rows, h) \<Rightarrow> (service_rows (service_name d) enablement activity @ rows, h)))))"

definition services_divergences_after_rollback ::
  "('h, 'z) executor_scheme \<Rightarrow> 'h \<Rightarrow> string list \<Rightarrow> rollback_divergence list \<times> 'h" where
  "services_divergences_after_rollback ex h restored =
     (if \<not> list_ex services_reloads_for_path restored then ([], h)
      else service_divergences ex h UNNECESSARY_SERVICES)"

subsection \<open>Nothing is claimed that was not read\<close>

lemma divergence_row_simps [simp]:
  "divergence_plugin_id (divergence_row p s st det ex) = p" "divergence_subject (divergence_row p s st det ex) = s"
  "divergence_state (divergence_row p s st det ex) = st"
  by (simp_all add: divergence_row_def)

lemma service_rows_rows:
  "row \<in> set (service_rows s e a) \<Longrightarrow> divergence_subject row = s \<and> divergence_plugin_id row = SERVICES_PLUGIN_ID
     \<and> (divergence_state row = Diverged \<longrightarrow> (\<exists>yes word. e = Reading (yes, word) \<and> a = Reading (\<not> yes)))"
proof (cases e)
  case (Reading w)
  obtain yes word where w: "w = (yes, word)" by fastforce
  assume row: "row \<in> set (service_rows s e a)"
  show ?thesis
  proof (cases a)
    case (Reading running)
    with row \<open>e = Reading w\<close> w show ?thesis by (cases yes; cases running) (simp_all add: service_rows_def ex_bool_eq)
  next
    case (NoReading detail)
    with row \<open>e = Reading w\<close> w show ?thesis by (simp add: service_rows_def)
  qed
next
  case (NoReading detail)
  assume "row \<in> set (service_rows s e a)"
  with NoReading show ?thesis by (simp add: service_rows_def)
qed

lemma service_rows_silent:
  "service_rows s e a = [] \<longleftrightarrow> (\<exists>yes word. e = Reading (yes, word) \<and> a = Reading yes)"
  by (auto simp: service_rows_def Let_def split: reading.splits prod.splits)

lemma sshd_divergence_needs_both:
  "sshd_divergences ex h = (rows, h') \<Longrightarrow> row \<in> set rows \<Longrightarrow> divergence_state row = Diverged \<Longrightarrow>
     \<exists>h1 h2. read_activity ex h SSHD_UNIT = (Reading True, h1) \<and> sshd_masked ex h1 = (Reading True, h2)"
  unfolding sshd_divergences_def Let_def by (auto split: prod.splits reading.splits bool.splits)

lemma service_divergences_subjects:
  "service_divergences ex h ds = (rows, h') \<Longrightarrow> row \<in> set rows \<Longrightarrow>
     divergence_subject row \<in> service_name ` set ds \<and> divergence_plugin_id row = SERVICES_PLUGIN_ID"
proof (induction ds arbitrary: h rows)
  case (Cons d ds)
  obtain there h1 where there: "is_service_exists ex h (service_name d) = (there, h1)" by fastforce
  obtain e h2 where e: "read_enablement ex h1 (service_name d) = (e, h2)" by fastforce
  obtain a h3 where a: "read_activity ex h2 (service_name d) = (a, h3)" by fastforce
  obtain h4 later where later: "service_divergences ex h4 ds = (later, h')"
    "row \<in> set later \<or> divergence_subject row = service_name d \<and> divergence_plugin_id row = SERVICES_PLUGIN_ID"
  proof (cases there)
    case (Inl x)
    with Cons.prems there that show thesis by (auto split: prod.splits)
  next
    case (Inr b)
    show thesis
    proof (cases b)
      case True
      obtain later where l: "service_divergences ex h3 ds = (later, h')" "rows = service_rows (service_name d) e a @ later"
        using Cons.prems(1) there Inr True e a by (auto split: prod.splits)
      with Cons.prems(2) that[OF l(1)] service_rows_rows show thesis by fastforce
    next
      case False
      with Cons.prems there Inr that show thesis by auto
    qed
  qed
  with Cons.IH[OF later(1)] show ?case by auto
qed simp

end
