(* ===== verification/Kernel_Divergence.thy ===== *)
theory Kernel_Divergence
  imports Unit_Divergence Kernel_Boot
begin

text \<open>
  What a kernel rollback left running that its restored files do not name (kernel/divergence.rs). One row is
  the state and the sentence of a managed parameter; a parameter the surviving files account for has none.
\<close>

definition kernel_row :: "string \<Rightarrow> divergence_state \<Rightarrow> string \<Rightarrow> string option \<Rightarrow> rollback_divergence" where
  "kernel_row = divergence_row KERNEL_PLUGIN_ID"

definition legacy_glob_reason :: "legacy_conf \<Rightarrow> string option" where
  "legacy_glob_reason legacy =
     (if legacy_globs legacy \<noteq> [] then
        Some ''/etc/sysctl.conf assigns sysctls through glob patterns, which this scan does not resolve''
      else None)"

definition option_list :: "'a option \<Rightarrow> 'a list" where
  "option_list x = (case x of Some y \<Rightarrow> [y] | None \<Rightarrow> [])"

definition unresolved_rows :: "effective_boot \<Rightarrow> legacy_conf \<Rightarrow> rollback_divergence list" where
  "unresolved_rows boot legacy =
     map (\<lambda>why. kernel_row ''kernel parameters'' Unverifiable
         (why @ '', so whether the restored configuration names them is unknown'') None) (unresolved boot)
     @ map (\<lambda>why. kernel_row ''kernel parameters'' Unverifiable
         (why @ '', so whether it names a parameter this rollback restored is unknown'') None)
         (option_list (legacy_unreadable legacy) @ option_list (legacy_glob_reason legacy))"

definition unresolved_clause :: "effective_boot \<Rightarrow> legacy_conf \<Rightarrow> string" where
  "unresolved_clause boot legacy =
     (case unresolved boot @ option_list (legacy_unreadable legacy) @ option_list (legacy_glob_reason legacy) of
        [why] \<Rightarrow> '', but '' @ why @ '', so whether an unresolved source names this parameter is unknown''
      | _ \<Rightarrow> '', but this scan could not resolve every configuration source, so whether an unresolved one names it is unknown'')"

text \<open>A file names the parameter at another value than the kernel runs.\<close>

definition disagreement ::
  "effective_boot \<Rightarrow> legacy_conf \<Rightarrow> boot_reach \<Rightarrow> string \<Rightarrow> string \<Rightarrow> string \<Rightarrow> string \<Rightarrow> divergence_state \<times> string" where
  "disagreement boot legacy reach name key runtime configured =
     (let deciding = (case boot_sources boot key of Some f \<Rightarrow> f | None \<Rightarrow> ''a restored configuration file'');
          measured = ''the running kernel reads '' @ runtime @ '' while '' @ deciding @ '' says '' @ configured
      in case legacy_unreadable legacy of
           Some why \<Rightarrow>
             (Unverifiable, measured @ '', but '' @ why @ '', and if that file is there a reload reads it after every drop-in, so whether it is what assigns '' @ name @ '' the running value is unknown'')
         | None \<Rightarrow>
             if list_ex (\<lambda>pattern. glob_could_match pattern key) (legacy_globs legacy) then
               (Unverifiable, measured @ '', but a glob pattern in /etc/sysctl.conf could name '' @ name @ '', and a reload reads that file after every drop-in, so whether it is what assigns '' @ name @ '' the running value is unknown'')
             else if blocks_all boot \<or> decided_after (boot_unread_name boot) (boot_sources boot key) then
               (Unverifiable, measured @ '', but this scan could not resolve every configuration source, so whether an unresolved one assigns '' @ name @ '' the running value, and what the next boot leaves it at, are unknown'')
             else if list_ex (\<lambda>pattern. glob_could_match pattern key) (boot_globs boot) then
               (Unverifiable, measured @ '', but a glob pattern in the surviving configuration could name '' @ name @ '', so whether it assigns '' @ name @ '' the running value, and what the next boot leaves it at, are unknown'')
             else
               (case legacy_values legacy key of
                  None \<Rightarrow>
                    (Diverged, ''the running kernel reads '' @ runtime @ '' while the restored configuration says '' @ configured
                       @ '', so this host is not running what its own files describe'')
                | Some legacy_value \<Rightarrow>
                    if legacy_value = runtime then
                      (case reach of
                         DoesNotRead \<Rightarrow>
                           (Diverged, ''the running kernel reads '' @ runtime @ '' because /etc/sysctl.conf assigns it and a reload reads that file last, ahead of ''
                              @ deciding @ '', which says '' @ configured @ ''. No such reload runs at boot, and '' @ deciding @ '' is what decides '' @ name
                              @ '' among the files the boot sequence does apply, so the next boot switches '' @ name @ '' to '' @ configured)
                       | ReachUnknown \<Rightarrow>
                           (Unverifiable, ''the running kernel reads '' @ runtime @ '' because /etc/sysctl.conf assigns it and a reload reads that file last, ahead of ''
                              @ deciding @ '', which says '' @ configured @ ''. Which applier runs at boot on this host was not established, so whether the next boot switches ''
                              @ name @ '' to '' @ configured @ '' is unknown''))
                    else
                      (Diverged, ''the running kernel reads '' @ runtime @ '' while a reload restores '' @ legacy_value
                         @ '', which /etc/sysctl.conf assigns and a reload reads last, ahead of '' @ deciding @ '', which says '' @ configured
                         @ ''. So this host is not running what its own files describe, and the value a reload leaves behind is the one in /etc/sysctl.conf'')))"

text \<open>No drop-in names the parameter, whose running value is at least as strict as the baseline.\<close>

definition silence ::
  "effective_boot \<Rightarrow> legacy_conf \<Rightarrow> boot_reach \<Rightarrow> string \<Rightarrow> string \<Rightarrow> string \<Rightarrow> divergence_state \<times> string \<times> string option" where
  "silence boot legacy reach name key runtime =
     (let named = legacy_values legacy key;
          reads = name @ '' reads '' @ runtime @ '' in the running kernel and '';
          clause = (case named of
            Some configured \<Rightarrow> ''. What was read says /etc/sysctl.conf assigns '' @ name @ '' '' @ configured
              @ '', and a reload reads that file after every drop-in''
          | None \<Rightarrow> [])
      in if blocks_all boot \<or> decided_after (boot_unread_name boot) (boot_sources boot key)
            \<or> legacy_unreadable legacy \<noteq> None then
           (Unverifiable, reads @ ''no drop-in assignment names it'' @ unresolved_clause boot legacy @ clause, None)
         else if list_ex (\<lambda>pattern. glob_could_match pattern key) (boot_globs boot @ legacy_globs legacy) then
           (Unverifiable, reads @ ''no drop-in assignment names it, but a glob pattern in the surviving configuration could name it, so whether it does is unknown'' @ clause, None)
         else
           (case named of
              Some configured \<Rightarrow>
                if configured \<noteq> runtime then
                  (Diverged, name @ '' reads '' @ runtime @ '' in the running kernel while the only file naming it, /etc/sysctl.conf, says '' @ configured
                     @ ''. A rollback reloads with `sysctl --system`, which reads that file after every drop-in, so the reload did not take and this host is not running what its own files describe'', None)
                else
                  (case reach of
                     DoesNotRead \<Rightarrow>
                       (Diverged, reads @ ''the only file naming it is /etc/sysctl.conf, which says '' @ configured
                          @ ''. The rollback's own `sysctl --system` reads that file, but the applier that runs at boot does not, so this value is lost at the next reboot unless the kernel default matches it'', None)
                   | ReachUnknown \<Rightarrow>
                       (Unverifiable, reads @ ''the only file naming it is /etc/sysctl.conf, which says '' @ configured
                          @ ''. Which applier runs at boot on this host was not established, so whether the value survives a reboot is unknown'', None))
            | None \<Rightarrow>
                (Diverged, reads @ ''no configuration file names it. A rollback restores files and reloads them; it does not write /proc/sys, so this value did not come from the restored configuration and will not survive a reboot unless the kernel default matches it'',
                 Some ''a rollback restores files and reloads them and never writes /proc/sys, so a parameter no surviving file names keeps whatever the apply gave it until the next reboot'')))"

definition parameter_row ::
  "('h, 'z) executor_scheme \<Rightarrow> 'h \<Rightarrow> effective_boot \<Rightarrow> legacy_conf \<Rightarrow> boot_reach \<Rightarrow> secure_directive \<Rightarrow> rollback_divergence option" where
  "parameter_row ex h boot legacy reach p =
     (let name = directive_name p; key = procfs_key name in
      case read_sysctl ex h name of
        Inl e \<Rightarrow>
          Some (kernel_row name Unverifiable (''/proc/sys could not be read for '' @ name @ '', so whether it came back is unknown: ''
            @ error_text (hardening_of e)) None)
      | Inr runtime \<Rightarrow>
          (case boot_values boot key of
             Some configured \<Rightarrow>
               if configured = runtime then None
               else (case disagreement boot legacy reach name key runtime configured of
                       (st, detail) \<Rightarrow> Some (kernel_row name st detail None))
           | None \<Rightarrow>
               if violated_by (compare p) (secure_value p) (Some runtime) = Some True then None
               else (case silence boot legacy reach name key runtime of
                       (st, detail, expected) \<Rightarrow> Some (kernel_row name st detail expected))))"

definition sysctl_divergences :: "('h, 'z) executor_scheme \<Rightarrow> 'h \<Rightarrow> rollback_divergence list" where
  "sysctl_divergences ex h =
     (let boot = effective_boot_values ex h AllDropins; legacy = legacy_sysctl_conf ex h;
          reach = boot_reads_legacy_conf ex h
      in unresolved_rows boot legacy @ filter_map (parameter_row ex h boot legacy reach) KERNEL_PARAMS)"

definition kernel_divergences_after_rollback ::
  "('h, 'z) executor_scheme \<Rightarrow> 'h \<Rightarrow> string list \<Rightarrow> rollback_divergence list" where
  "kernel_divergences_after_rollback ex h restored =
     (if list_ex kernel_reloads_for_path restored then sysctl_divergences ex h else [])"

subsection \<open>What a report means\<close>

text \<open>Every file that could decide the parameter was read: nothing unread outranks what was.\<close>

definition sources_settled :: "effective_boot \<Rightarrow> legacy_conf \<Rightarrow> string \<Rightarrow> bool" where
  "sources_settled boot legacy key =
     (legacy_unreadable legacy = None \<and> \<not> blocks_all boot
      \<and> \<not> decided_after (boot_unread_name boot) (boot_sources boot key)
      \<and> \<not> list_ex (\<lambda>pattern. glob_could_match pattern key) (boot_globs boot @ legacy_globs legacy))"

lemma disagreement_settled:
  "disagreement boot legacy reach name key runtime configured = (Diverged, detail) \<Longrightarrow> sources_settled boot legacy key"
  by (auto simp: disagreement_def sources_settled_def Let_def
      split: option.splits if_splits boot_reach.splits)

lemma silence_settled:
  "silence boot legacy reach name key runtime = (Diverged, detail, expected) \<Longrightarrow> sources_settled boot legacy key"
  by (auto simp: silence_def sources_settled_def Let_def split: if_splits option.splits boot_reach.splits)

lemma kernel_row_simps [simp]:
  "divergence_state (kernel_row subject st detail expected) = st"
  "divergence_subject (kernel_row subject st detail expected) = subject"
  by (simp_all add: kernel_row_def divergence_row_def)

lemma parameter_names: "distinct (map directive_name KERNEL_PARAMS)" "''kernel parameters'' \<notin> directive_name ` set KERNEL_PARAMS"
  by code_simp+

lemma parameter_row_subject: "parameter_row ex h boot legacy reach p = Some row \<Longrightarrow> divergence_subject row = directive_name p"
  by (auto simp: parameter_row_def Let_def split: sum.splits option.splits if_splits prod.splits)

lemma mem_filter_map: "x \<in> set (filter_map f xs) \<longleftrightarrow> (\<exists>y\<in>set xs. f y = Some x)"
  by (induction xs) (auto split: option.splits)

lemma row_of_parameter:
  assumes "p \<in> set KERNEL_PARAMS" "divergence_subject row = directive_name p"
  shows "row \<in> set (sysctl_divergences ex h) \<longleftrightarrow>
    parameter_row ex h (effective_boot_values ex h AllDropins) (legacy_sysctl_conf ex h) (boot_reads_legacy_conf ex h) p = Some row"
proof -
  let ?row = "parameter_row ex h (effective_boot_values ex h AllDropins) (legacy_sysctl_conf ex h) (boot_reads_legacy_conf ex h)"
  have "directive_name p \<noteq> ''kernel parameters''" using parameter_names(2) assms(1) by force
  then have "row \<notin> set (unresolved_rows (effective_boot_values ex h AllDropins) (legacy_sysctl_conf ex h))"
    using assms(2) by (auto simp: unresolved_rows_def)
  moreover have "q = p" if "q \<in> set KERNEL_PARAMS" "?row q = Some row" for q
    using that assms parameter_names(1) parameter_row_subject[OF that(2)] by (metis distinct_map inj_onD)
  ultimately show ?thesis using assms(1) by (auto simp: sysctl_divergences_def Let_def mem_filter_map)
qed



end
