(* ===== verification/Config_Validation.thy ===== *)
theory Config_Validation
  imports Policy_Config Host_Executor
begin

text \<open>
  The checks every configuration passes before a plugin sees it:
  \<open>crates/hardener-core/src/config_validation.rs\<close>.

  A section's directives are a hash map, which the code walks in an order of its own: \<open>order\<close> gives, for
  a section and its set of keys, that order. Only the sequence of the error lines depends on it.
\<close>

unbundle bit_operations_syntax

subsection \<open>The default configuration\<close>

definition default_hardener_config :: hardener_config where
  "default_hardener_config =
     \<lparr>global = \<lparr>enabled_plugins = [], disabled_plugins = []\<rparr>, ssh = default_plugin_config,
      kernel = default_plugin_config, firewall = default_plugin_config, pam = default_plugin_config,
      audit = default_plugin_config, mac = default_plugin_config, permissions = default_plugin_config,
      services = default_plugin_config, compliance = Map.empty\<rparr>"

subsection \<open>Text\<close>

text \<open>\<open>str::len\<close>, which counts bytes: a character above U+007F takes two.\<close>

definition byte_length :: "string \<Rightarrow> nat" where
  "byte_length s = sum_list (map (\<lambda>c. if (of_char c :: nat) < 128 then 1 else 2) s)"

definition is_ascii_alphanumeric :: "char \<Rightarrow> bool" where
  "is_ascii_alphanumeric c =
     (let n = (of_char c :: nat) in 48 \<le> n \<and> n \<le> 57 \<or> 65 \<le> n \<and> n \<le> 90 \<or> 97 \<le> n \<and> n \<le> 122)"

subsection \<open>Every value and every key\<close>

definition SHELL_METACHARACTERS :: "char list" where
  "SHELL_METACHARACTERS =
     [CHR '';'', CHR 0x60, CHR ''$'', CHR ''('', CHR '')'', CHR ''{'', CHR ''}'', CHR 0x7C, CHR ''&'',
      nl, cr, CHR 0x00]"

definition check_universal :: "string \<Rightarrow> (string, unit) result" where
  "check_universal v =
     (case find (\<lambda>c. c \<in> set SHELL_METACHARACTERS) v of
        Some bad \<Rightarrow>
          Inl (''contains forbidden character '' @
            (if bad = nl then ''newline''
             else if bad = cr then ''carriage return''
             else if bad = CHR 0x00 then ''null byte''
             else quoted [bad]))
      | None \<Rightarrow> Inr ())"

definition key_char :: "char \<Rightarrow> bool" where
  "key_char c = (is_ascii_alphanumeric c \<or> c = CHR ''.'' \<or> c = CHR ''_'' \<or> c = CHR ''-'' \<or> c = CHR ''/'')"

definition validate_directive_key :: "string \<Rightarrow> string \<Rightarrow> (string, unit) result" where
  "validate_directive_key plugin_id key =
     (if key = [] \<or> byte_length key > 128 then
        Inl (''directive key too long or empty: '' @ quoted key)
      else if \<not> list_all key_char key then
        Inl (''directive key for '' @ quoted plugin_id @ '' contains invalid characters: '' @ quoted key)
      else if contains ''..'' key then
        Inl (''directive key contains '' @ quoted ''..'' @ '': '' @ quoted key)
      else Inr ())"

subsection \<open>Each plugin's values\<close>

type_synonym value_validator = "string \<Rightarrow> string \<Rightarrow> (string, unit) result"

definition accept_any_value :: value_validator where
  "accept_any_value key v = Inr ()"

definition validate_kernel_value :: value_validator where
  "validate_kernel_value key v =
     (if v \<noteq> [] \<and> list_all (\<lambda>token. parse_i64 token \<noteq> None) (split_whitespace v) then Inr ()
      else Inl (''expected numeric sysctl value, got '' @ quoted v))"

definition validate_ssh_value :: value_validator where
  "validate_ssh_value key v =
     (if v = [] then Inl ''empty value''
      else if byte_length v > 256 then
        Inl (''value too long ('' @ show_radix 10 (byte_length v) @ '' chars, max 256)'')
      else Inr ())"

definition validate_firewall_value :: value_validator where
  "validate_firewall_value key v =
     (let field_name = last (split_on (CHR ''.'') key) in
      if field_name = ''port'' then
        (if list_all (\<lambda>p. parse_unsigned 10 (2 ^ 16) p \<noteq> None) (split_on (CHR ''-'') v)
            \<and> length (split_on (CHR ''-'') v) \<le> 2 then Inr ()
         else Inl (''expected port or port range, got '' @ quoted v))
      else if field_name = ''protocol'' then
        (if v \<in> {''tcp'', ''udp'', ''any''} then Inr ()
         else Inl (''expected tcp|udp|any, got '' @ quoted v))
      else if field_name = ''action'' then
        (if v \<in> {''accept'', ''drop'', ''reject''} then Inr ()
         else Inl (''expected accept|drop|reject, got '' @ quoted v))
      else if field_name = ''source'' then
        (if list_all (\<lambda>c. is_ascii_digit c \<or> c = CHR ''.'' \<or> c = CHR ''/'' \<or> c = CHR '':'') v then Inr ()
         else Inl (''expected IP/CIDR, got '' @ quoted v))
      else Inr ())"

definition validate_pam_value :: value_validator where
  "validate_pam_value key v =
     (if v = [] then Inl ''empty value''
      else if parse_i64 v \<noteq> None then Inr ()
      else if list_all (\<lambda>c. is_ascii_alphanumeric c \<or> c = CHR ''_'' \<or> c = CHR ''-'') v then Inr ()
      else Inl (''expected numeric or single-token value, got '' @ quoted v))"

definition validate_permissions_value :: value_validator where
  "validate_permissions_value key v =
     (if byte_length v < 3 \<or> byte_length v > 4 then Inl (''expected 3-4 digit octal mode, got '' @ quoted v)
      else if \<not> list_all (\<lambda>c. digit_value 8 c \<noteq> None) v then
        Inl (''expected octal digits (0-7), got '' @ quoted v)
      else case parse_unsigned 8 (2 ^ 32) v of
        None \<Rightarrow> Inl (''invalid octal mode: '' @ quoted v)
      | Some n \<Rightarrow>
          (let mode' = (of_nat n :: 32 word) in
           if mode' AND 0xE00 \<noteq> 0 then Inl (''special bits (SUID/SGID/sticky) not allowed: '' @ quoted v)
           else if mode' AND 2 \<noteq> 0 then Inl (''world-writable mode not allowed: '' @ quoted v)
           else if mode' = 0 then Inl (''zero permissions not allowed: '' @ quoted v)
           else Inr ()))"

subsection \<open>A whole configuration\<close>

definition validate_directive :: "string \<Rightarrow> value_validator \<Rightarrow> string \<Rightarrow> string \<Rightarrow> (string, unit) result" where
  "validate_directive section validator key v =
     and_then (validate_directive_key section key) (\<lambda>_.
     and_then (check_universal v) (\<lambda>_. validator key v))"

definition directive_error :: "string \<Rightarrow> string \<Rightarrow> string \<Rightarrow> string" where
  "directive_error section key why = ''['' @ section @ ''.directives] '' @ key @ '': '' @ why"

definition validate_plugin_directives ::
  "(string \<Rightarrow> string set \<Rightarrow> string list) \<Rightarrow> string \<Rightarrow> (string \<rightharpoonup> string) \<Rightarrow> value_validator \<Rightarrow> string list" where
  "validate_plugin_directives order section ds validator =
     filter_map (\<lambda>key. map_option (directive_error section key)
         (result_err (validate_directive section validator key (the (ds key)))))
       (order section (dom ds))"

definition validation_table :: "hardener_config \<Rightarrow> (string \<times> plugin_config \<times> value_validator) list" where
  "validation_table c =
     [(''kernel'', kernel c, validate_kernel_value), (''ssh'', ssh c, validate_ssh_value),
      (''firewall'', firewall c, validate_firewall_value), (''pam'', pam c, validate_pam_value),
      (''permissions'', permissions c, validate_permissions_value), (''audit'', audit c, accept_any_value),
      (''mac'', mac c, accept_any_value), (''services'', services c, accept_any_value)]"

definition validate_config ::
  "(string \<Rightarrow> string set \<Rightarrow> string list) \<Rightarrow> hardener_config \<Rightarrow> (hardening_error, unit) result" where
  "validate_config order c =
     (let errors = concat (map (\<lambda>(section, p, validator).
            validate_plugin_directives order section (directives p) validator) (validation_table c))
      in if errors = [] then Inr ()
         else Inl (ConfigError (''Invalid config directive values:'' @ [nl] @ ''  - '' @ join (nl # ''  - '') errors)))"

text \<open>The exclusions of \<open>[compliance.not_applicable]\<close> that name no framework; they are logged, not refused.\<close>

definition unknown_exclusion_frameworks ::
  "(string \<Rightarrow> string set \<Rightarrow> string list) \<Rightarrow> hardener_config \<Rightarrow> string list" where
  "unknown_exclusion_frameworks order c =
     sort (filter (\<lambda>key. framework_from_id key = None) (order ''compliance.not_applicable'' (dom (compliance c))))"

subsection \<open>What an accepted configuration satisfies\<close>

text \<open>The law of a hash map's order: it enumerates the keys, each once.\<close>

definition enumerates :: "(string \<Rightarrow> string set \<Rightarrow> string list) \<Rightarrow> bool" where
  "enumerates order = (\<forall>section keys. finite keys \<longrightarrow> set (order section keys) = keys \<and> distinct (order section keys))"

definition finite_config :: "hardener_config \<Rightarrow> bool" where
  "finite_config c = (\<forall>(section, p, f) \<in> set (validation_table c). finite (dom (directives p)))"

lemma filter_map_eq_Nil: "filter_map f xs = [] \<longleftrightarrow> (\<forall>x\<in>set xs. f x = None)"
  by (induction xs) (auto split: option.splits)

lemma result_err_None: "result_err r = None \<longleftrightarrow> is_ok r"
  by (cases r) auto

lemma is_ok_unit: "is_ok r \<longleftrightarrow> r = Inr ()"
  by (cases r) auto

lemma validate_directive_ok:
  "validate_directive section f key v = Inr () \<longleftrightarrow>
     validate_directive_key section key = Inr () \<and> check_universal v = Inr () \<and> f key v = Inr ()"
  by (auto simp: validate_directive_def and_then_eq_Inr)

lemma validate_plugin_ok:
  assumes "enumerates order" "finite (dom ds)"
  shows "validate_plugin_directives order section ds f = [] \<longleftrightarrow>
     (\<forall>key v. ds key = Some v \<longrightarrow> validate_directive section f key v = Inr ())"
  using assms
  by (auto simp: validate_plugin_directives_def filter_map_eq_Nil enumerates_def result_err_None is_ok_unit dom_def)

lemma validate_config_ok:
  assumes "enumerates order" "finite_config c"
  shows "validate_config order c = Inr () \<longleftrightarrow>
     (\<forall>(section, p, f) \<in> set (validation_table c). \<forall>key v. directives p key = Some v \<longrightarrow>
        validate_directive section f key v = Inr ())"
proof -
  have "validate_config order c = Inr () \<longleftrightarrow>
      (\<forall>(section, p, f) \<in> set (validation_table c). validate_plugin_directives order section (directives p) f = [])"
    by (auto simp: validate_config_def Let_def case_prod_unfold)
  also have "\<dots> \<longleftrightarrow> (\<forall>(section, p, f) \<in> set (validation_table c). \<forall>key v. directives p key = Some v \<longrightarrow>
        validate_directive section f key v = Inr ())"
    using assms(2) validate_plugin_ok[OF assms(1)] unfolding finite_config_def by (intro ball_cong) (auto)
  finally show ?thesis .
qed

lemma check_universal_ok: "check_universal v = Inr () \<longleftrightarrow> set v \<inter> set SHELL_METACHARACTERS = {}"
proof (cases "find (\<lambda>c. c \<in> set SHELL_METACHARACTERS) v")
  case None
  then have "set v \<inter> set SHELL_METACHARACTERS = {}" by (auto simp: find_None_iff)
  with None show ?thesis by (simp add: check_universal_def)
next
  case (Some bad)
  then have "bad \<in> set v" "bad \<in> set SHELL_METACHARACTERS" by (auto simp: find_Some_iff)
  with Some show ?thesis by (auto simp: check_universal_def)
qed

definition sane_key :: "string \<Rightarrow> bool" where
  "sane_key key = (key \<noteq> [] \<and> byte_length key \<le> 128 \<and> list_all key_char key \<and> \<not> contains ''..'' key)"

lemma validate_directive_key_ok: "validate_directive_key section key = Inr () \<longleftrightarrow> sane_key key"
  by (auto simp: validate_directive_key_def sane_key_def)

lemma validate_kernel_value_ok:
  "validate_kernel_value key v = Inr () \<longleftrightarrow> v \<noteq> [] \<and> (\<forall>token\<in>set (split_whitespace v). parse_i64 token \<noteq> None)"
  by (auto simp: validate_kernel_value_def list_all_iff)

text \<open>A mode an override may name: some permission, none to the world to write, no special bit.\<close>

definition sane_mode :: "nat \<Rightarrow> bool" where
  "sane_mode n = (0 < n \<and> n < 512 \<and> \<not> odd (n div 2))"

lemma read_digits_bound:
  "read_digits b acc s = Some n \<Longrightarrow> 0 < b \<Longrightarrow> n < (acc + 1) * b ^ length s"
proof (induction s arbitrary: acc)
  case (Cons c s)
  then obtain d where d: "digit_value b c = Some d" "read_digits b (acc * b + d) s = Some n"
    by (auto split: option.splits)
  then have "d < b" by (auto simp: digit_value_def Let_def split: if_splits)
  then have "acc * b + d + 1 \<le> (acc + 1) * b" by simp
  then have "(acc * b + d + 1) * b ^ length s \<le> (acc + 1) * b * b ^ length s" by (rule mult_le_mono1)
  also have "\<dots> = (acc + 1) * b ^ length (c # s)" by (simp add: algebra_simps)
  finally show ?case using Cons.IH[OF d(2) Cons.prems(2)] by (rule less_le_trans[rotated])
qed simp

lemma byte_length_ge: "length s \<le> byte_length s"
  by (induction s) (auto simp: byte_length_def)

lemma parse_unsigned_digits:
  assumes "parse_unsigned b bound s = Some n"
  obtains r where "length r \<le> length s" "read_digits b 0 r = Some n"
proof -
  have "length (case s of CHR ''+'' # r \<Rightarrow> r | _ \<Rightarrow> s) \<le> length s"
    by (auto split: list.splits char.splits bool.splits)
  with assms that show thesis by (auto simp: parse_unsigned_def Let_def split: if_splits option.splits)
qed

lemma sane_mode_bits:
  fixes n :: nat
  assumes "n < 4096" "n AND 0xE00 = 0" "n AND 2 = 0" "n \<noteq> 0"
  shows "sane_mode n"
proof -
  have "drop_bit 9 n AND 7 = drop_bit 9 (n AND 0xE00)" by (simp add: drop_bit_and)
  also have "\<dots> = 0" using assms(2) by simp
  finally have "drop_bit 9 n AND mask 3 = 0" by (simp add: mask_eq_exp_minus_1)
  then have "take_bit 3 (drop_bit 9 n) = 0" by (simp add: take_bit_eq_mask)
  moreover have "drop_bit 9 n < 2 ^ 3" using assms(1) by (simp add: drop_bit_eq_div)
  ultimately have "drop_bit 9 n = 0" by (simp add: take_bit_nat_eq_self)
  then have "n < 512" by (simp add: drop_bit_eq_div div_eq_0_iff)
  have "drop_bit 1 n AND 1 = drop_bit 1 (n AND 2)" by (simp add: drop_bit_and)
  also have "\<dots> = 0" using assms(3) by simp
  finally have "\<not> odd (n div 2)" by (simp add: and_one_eq drop_bit_eq_div even_iff_mod_2_eq_zero)
  with \<open>n < 512\<close> assms(4) show ?thesis by (simp add: sane_mode_def)
qed

lemma validate_permissions_value_ok:
  assumes "validate_permissions_value key v = Inr ()"
  obtains n where "parse_unsigned 8 (2 ^ 32) v = Some n" "sane_mode n"
proof -
  obtain n where n: "parse_unsigned 8 (2 ^ 32) v = Some n" and len: "byte_length v \<le> 4"
    and bits: "(of_nat n :: 32 word) AND 0xE00 = 0" "(of_nat n :: 32 word) AND 2 = 0" "(of_nat n :: 32 word) \<noteq> 0"
    using assms by (auto simp: validate_permissions_value_def Let_def split: if_splits option.splits)
  obtain r where r: "length r \<le> length v" "read_digits 8 0 r = Some n" using n by (rule parse_unsigned_digits)
  have "n < 8 ^ length r" using read_digits_bound[OF r(2)] by simp
  also have "\<dots> \<le> 8 ^ 4" using r(1) byte_length_ge[of v] len by (intro power_increasing) auto
  finally have small: "n < 4096" by simp
  have un: "unat (of_nat n :: 32 word) = n" using small by (simp add: unsigned_of_nat take_bit_nat_eq_self)
  have "unat ((of_nat n :: 32 word) AND 0xE00) = n AND 0xE00" by (simp add: unsigned_and_eq un)
  then have "n AND 0xE00 = 0" using bits(1) by simp
  moreover have "unat ((of_nat n :: 32 word) AND 2) = n AND 2" by (simp add: unsigned_and_eq un)
  then have "n AND 2 = 0" using bits(2) by simp
  moreover have "n \<noteq> 0" using bits(3) by (rule contrapos_nn) simp
  ultimately show thesis using sane_mode_bits small n that by blast
qed

subsection \<open>A refusal lists every offence\<close>

lemma contains_append: "contains sub s \<Longrightarrow> contains sub (a @ s @ b)"
  unfolding contains_iff by (metis append.assoc)

lemma contains_suffix: "contains sub s \<Longrightarrow> contains sub (a @ s)"
  using contains_append[of sub s a "[]"] by simp

lemma contains_self [simp]: "contains s s"
  unfolding contains_iff by (metis append_Nil append_Nil2)

lemma contains_concat: "s \<in> set xs \<Longrightarrow> contains s (concat xs)"
  by (metis concat_append contains_append contains_self concat.simps(2) split_list)

lemma contains_join: "s \<in> set xs \<Longrightarrow> contains s (join sep xs)"
proof (cases xs)
  case (Cons y ys)
  assume "s \<in> set xs"
  show ?thesis
  proof (cases "s = y")
    case True
    with Cons contains_append[of y y "[]"] show ?thesis unfolding join_def by simp
  next
    case False
    with Cons \<open>s \<in> set xs\<close> have "sep @ s \<in> set (y # map (\<lambda>z. sep @ z) ys)" by auto
    then have "contains (sep @ s) (concat (y # map (\<lambda>z. sep @ z) ys))" by (rule contains_concat)
    with Cons show ?thesis unfolding join_def contains_iff by (simp) (metis append.assoc)
  qed
qed simp

lemma validate_plugin_lists:
  assumes "enumerates order" "finite (dom ds)" "ds key = Some v" "validate_directive section f key v = Inl why"
  shows "directive_error section key why \<in> set (validate_plugin_directives order section ds f)"
  using assms unfolding validate_plugin_directives_def set_filter_map enumerates_def
  by (auto intro!: bexI[of _ key])

text \<open>A configuration with an offending directive is refused, and the refusal names every offending
  directive of every section with its reason, whatever the order of the hash maps.\<close>

theorem refusal_lists_every_offence:
  assumes "enumerates order" "finite_config c" "(section, p, f) \<in> set (validation_table c)"
    "directives p key = Some v" "validate_directive section f key v = Inl why"
  shows "\<exists>message. validate_config order c = Inl (ConfigError message)
    \<and> contains (directive_error section key why) message"
proof -
  let ?errors = "concat (map (\<lambda>(section, p, f). validate_plugin_directives order section (directives p) f) (validation_table c))"
  have "finite (dom (directives p))" using assms(2,3) by (auto simp: finite_config_def)
  then have "directive_error section key why \<in> set (validate_plugin_directives order section (directives p) f)"
    using validate_plugin_lists assms by metis
  with assms(3) have inn: "directive_error section key why \<in> set ?errors" by (fastforce)
  then have "?errors \<noteq> []" by (metis list.set(1) empty_iff)
  moreover have "contains (directive_error section key why)
      (''Invalid config directive values:'' @ [nl] @ ''  - '' @ join (nl # ''  - '') ?errors)"
    by (intro contains_suffix contains_join inn)
  ultimately show ?thesis unfolding validate_config_def Let_def by auto
qed

text \<open>A hash map may enumerate its keys in any order; the ascending one will do.\<close>

definition ascending :: "string \<Rightarrow> string set \<Rightarrow> string list" where
  "ascending section keys = sorted_list_of_set keys"

lemma enumerates_ascending: "enumerates ascending"
  by (simp add: enumerates_def ascending_def)

definition loose_shadow :: hardener_config where
  "loose_shadow = default_hardener_config
     \<lparr>permissions := default_plugin_config\<lparr>directives := [''/etc/shadow'' \<mapsto> ''0666'']\<rparr>\<rparr>"

lemma default_plugin_simps [simp]:
  "directives default_plugin_config = Map.empty" "exceptions default_plugin_config = Map.empty"
  "enabled default_plugin_config = None"
  by (simp_all add: default_plugin_config_def)

lemma finite_loose_shadow: "finite_config loose_shadow"
  by (simp add: finite_config_def validation_table_def loose_shadow_def default_hardener_config_def)

lemma loose_shadow_refused:
  "validate_directive ''permissions'' validate_permissions_value ''/etc/shadow'' ''0666''
     = Inl (''world-writable mode not allowed: '' @ quoted ''0666'')"
proof -
  have "parse_unsigned 8 (2 ^ 32) ''0666'' = Some 438" by (simp add: parse_unsigned_def digit_value_def Let_def)
  then have "validate_permissions_value ''/etc/shadow'' ''0666'' = Inl (''world-writable mode not allowed: '' @ quoted ''0666'')"
    by (simp add: validate_permissions_value_def byte_length_def digit_value_def Let_def)
  moreover have "validate_directive_key ''permissions'' ''/etc/shadow'' = Inr ()"
    by (simp add: validate_directive_key_ok sane_key_def byte_length_def key_char_def is_ascii_alphanumeric_def Let_def starts_with_def)
  moreover have "check_universal ''0666'' = Inr ()" by (simp add: check_universal_def SHELL_METACHARACTERS_def)
  ultimately show ?thesis by (simp add: validate_directive_def)
qed

theorem refusal_lists_every_offence_witness:
  "\<exists>message. validate_config ascending loose_shadow = Inl (ConfigError message)
    \<and> contains (directive_error ''permissions'' ''/etc/shadow''
        (''world-writable mode not allowed: '' @ quoted ''0666'')) message"
proof (rule refusal_lists_every_offence[OF enumerates_ascending finite_loose_shadow _ _ loose_shadow_refused])
  show "(''permissions'', permissions loose_shadow, validate_permissions_value) \<in> set (validation_table loose_shadow)"
    by (simp add: validation_table_def)
  show "directives (permissions loose_shadow) ''/etc/shadow'' = Some ''0666''"
    by (simp add: loose_shadow_def)
qed

end
