(* ===== verification/Config_Loader.thy ===== *)
theory Config_Loader
  imports Config_Validation
begin

text \<open>
  Where the configuration comes from: \<open>crates/hardener-core/src/config_loader.rs\<close>.

  The file system, the environment, the user id and the TOML parser are parameters, the record
  \<open>config_host\<close>. The lines the loader logs for a source it skips are not modelled.
\<close>

subsection \<open>Definitions\<close>

record config_host =
  try_exists :: "string \<Rightarrow> (string, bool) result"
  config_size :: "string \<Rightarrow> (string, nat) result"
  config_text :: "string \<Rightarrow> (string, string) result"
  parse_toml :: "string \<Rightarrow> (string, hardener_config) result"
  env_var :: "string \<Rightarrow> string option"
  user_config_home :: "string option"
  effective_root :: bool

datatype config_source_state = SourceAbsent | SourcePresent | SourceUnreachable string

record config_loader =
  cli_config_path :: "string option"
  skip_defaults :: bool
  config_dir :: "string option"
  system_config_override :: "string option"
  root_override :: "bool option"

definition new_config_loader :: config_loader where
  "new_config_loader = \<lparr>cli_config_path = None, skip_defaults = False, config_dir = None,
     system_config_override = None, root_override = None\<rparr>"

definition SYSTEM_CONFIG_PATH :: string where "SYSTEM_CONFIG_PATH = ''/etc/linux-hardener/config.toml''"
definition ENV_DISABLED_PLUGINS :: string where "ENV_DISABLED_PLUGINS = ''HARDENER_DISABLED_PLUGINS''"
definition ENV_ENABLED_PLUGINS :: string where "ENV_ENABLED_PLUGINS = ''HARDENER_ENABLED_PLUGINS''"
definition MAX_CONFIG_SIZE :: nat where "MAX_CONFIG_SIZE = 1048576"
definition MAX_DIRECTIVES_PER_PLUGIN :: nat where "MAX_DIRECTIVES_PER_PLUGIN = 500"
definition MAX_EXCEPTIONS_PER_PLUGIN :: nat where "MAX_EXCEPTIONS_PER_PLUGIN = 200"
definition MAX_EXCLUSIONS_PER_FRAMEWORK :: nat where "MAX_EXCLUSIONS_PER_FRAMEWORK = 500"

definition user_config_file :: "string \<Rightarrow> string" where
  "user_config_file dir = join_path (join_path dir ''linux-hardener'') ''config.toml''"

definition user_config_path_for :: "config_host \<Rightarrow> config_loader \<Rightarrow> string option" where
  "user_config_path_for w l =
     (case config_dir l of
        Some dir \<Rightarrow> Some (user_config_file dir)
      | None \<Rightarrow> map_option user_config_file (user_config_home w))"

definition system_config_path_for :: "config_loader \<Rightarrow> string option" where
  "system_config_path_for l =
     (case system_config_override l of Some p \<Rightarrow> Some p | None \<Rightarrow> Some SYSTEM_CONFIG_PATH)"

definition running_as_root :: "config_host \<Rightarrow> config_loader \<Rightarrow> bool" where
  "running_as_root w l = (case root_override l of Some b \<Rightarrow> b | None \<Rightarrow> effective_root w)"

definition classify_source :: "config_host \<Rightarrow> string \<Rightarrow> config_source_state" where
  "classify_source w path =
     (case try_exists w path of
        Inr True \<Rightarrow> SourcePresent
      | Inr False \<Rightarrow> SourceAbsent
      | Inl kind \<Rightarrow> SourceUnreachable kind)"

definition load_from_file :: "config_host \<Rightarrow> string \<Rightarrow> (hardening_error, hardener_config) result" where
  "load_from_file w path =
     (case config_size w path of
        Inl e \<Rightarrow> Inl (ConfigError (''Failed to stat config file '' @ path @ '': '' @ e))
      | Inr n \<Rightarrow>
          if n > MAX_CONFIG_SIZE then
            Inl (ConfigError (''Config file '' @ path @ '' exceeds 1 MiB size limit ('' @ show_radix 10 n @ '' bytes)''))
          else case config_text w path of
            Inl e \<Rightarrow> Inl (ConfigError (''Failed to read config file '' @ path @ '': '' @ e))
          | Inr content \<Rightarrow>
              map_err (\<lambda>e. ConfigError (''Failed to parse config file '' @ path @ '': '' @ e)) (parse_toml w content))"

subsection \<open>Merging\<close>

definition over_limit :: "string \<Rightarrow> nat \<Rightarrow> nat \<Rightarrow> hardening_error" where
  "over_limit what n limit =
     ConfigError (what @ '' ('' @ show_radix 10 n @ '' > '' @ show_radix 10 limit @ '')'')"

definition merge_plugin :: "plugin_config \<Rightarrow> plugin_config \<Rightarrow> (hardening_error, plugin_config) result" where
  "merge_plugin base overlay =
     (let ds = directives base ++ directives overlay;
          es = exceptions base ++ exceptions overlay in
      if card (dom ds) > MAX_DIRECTIVES_PER_PLUGIN then
        Inl (over_limit ''Plugin config exceeds directive limit'' (card (dom ds)) MAX_DIRECTIVES_PER_PLUGIN)
      else if card (dom es) > MAX_EXCEPTIONS_PER_PLUGIN then
        Inl (over_limit ''Plugin config exceeds exception limit'' (card (dom es)) MAX_EXCEPTIONS_PER_PLUGIN)
      else Inr \<lparr>enabled = (case enabled overlay of None \<Rightarrow> enabled base | Some b \<Rightarrow> Some b),
                directives = ds, exceptions = es\<rparr>)"

definition merge_global :: "global_config \<Rightarrow> global_config \<Rightarrow> global_config" where
  "merge_global base overlay =
     \<lparr>enabled_plugins = (if enabled_plugins overlay = [] then enabled_plugins base else enabled_plugins overlay),
      disabled_plugins = (if disabled_plugins overlay = [] then disabled_plugins base else disabled_plugins overlay)\<rparr>"

definition overlay_exclusions :: "compliance_config \<Rightarrow> compliance_config \<Rightarrow> compliance_config" where
  "overlay_exclusions base overlay =
     (\<lambda>framework. case overlay framework of
        None \<Rightarrow> base framework
      | Some controls \<Rightarrow>
          Some ((case base framework of None \<Rightarrow> Map.empty | Some earlier \<Rightarrow> earlier) ++ controls))"

definition merge_compliance ::
  "(string \<Rightarrow> string set \<Rightarrow> string list) \<Rightarrow> compliance_config \<Rightarrow> compliance_config \<Rightarrow>
   (hardening_error, compliance_config) result" where
  "merge_compliance order base overlay =
     (let merged = overlay_exclusions base overlay;
          size_of = (\<lambda>framework. card (dom (the (merged framework)))) in
      case find (\<lambda>framework. size_of framework > MAX_EXCLUSIONS_PER_FRAMEWORK)
             (order ''compliance.not_applicable'' (dom merged)) of
        Some framework \<Rightarrow>
          Inl (over_limit (''Compliance config exceeds exclusion limit for '' @ quoted framework)
            (size_of framework) MAX_EXCLUSIONS_PER_FRAMEWORK)
      | None \<Rightarrow> Inr merged)"

definition merge_configs ::
  "(string \<Rightarrow> string set \<Rightarrow> string list) \<Rightarrow> hardener_config \<Rightarrow> hardener_config \<Rightarrow>
   (hardening_error, hardener_config) result" where
  "merge_configs order base overlay =
     and_then (merge_plugin (ssh base) (ssh overlay)) (\<lambda>s.
     and_then (merge_plugin (kernel base) (kernel overlay)) (\<lambda>k.
     and_then (merge_plugin (firewall base) (firewall overlay)) (\<lambda>f.
     and_then (merge_plugin (pam base) (pam overlay)) (\<lambda>p.
     and_then (merge_plugin (audit base) (audit overlay)) (\<lambda>a.
     and_then (merge_plugin (mac base) (mac overlay)) (\<lambda>m.
     and_then (merge_plugin (permissions base) (permissions overlay)) (\<lambda>q.
     and_then (merge_plugin (services base) (services overlay)) (\<lambda>v.
     and_then (merge_compliance order (compliance base) (compliance overlay)) (\<lambda>c.
     Inr \<lparr>global = merge_global (global base) (global overlay), ssh = s, kernel = k, firewall = f, pam = p,
          audit = a, mac = m, permissions = q, services = v, compliance = c\<rparr>)))))))))"

definition merge_source ::
  "(string \<Rightarrow> string set \<Rightarrow> string list) \<Rightarrow> config_host \<Rightarrow> hardener_config \<Rightarrow> string \<Rightarrow> bool \<Rightarrow>
   (hardening_error, hardener_config) result" where
  "merge_source order w base path required =
     (case classify_source w path of
        SourcePresent \<Rightarrow> and_then (load_from_file w path) (merge_configs order base)
      | state \<Rightarrow>
          if required then Inl (ConfigError (''Config file not found: '' @ path))
          else Inr base)"

subsection \<open>The environment\<close>

definition KNOWN_PLUGIN_IDS :: "plugin_id list" where
  "KNOWN_PLUGIN_IDS =
     [''audit-hardening'', ''firewall-hardening'', ''kernel-hardening'', ''mac-hardening'', ''pam-hardening'',
      ''permissions-hardening'', ''service-minimisation'', ''ssh-hardening'']"

definition parse_and_validate_env_list :: "string \<Rightarrow> string \<Rightarrow> (hardening_error, string list) result" where
  "parse_and_validate_env_list input var_name =
     (let ids = filter (\<lambda>s. s \<noteq> []) (map trim (split_on (CHR '','') input)) in
      case find (\<lambda>i. i \<notin> set KNOWN_PLUGIN_IDS) ids of
        Some i \<Rightarrow> Inl (ConfigError (''Unknown plugin ID '' @ quoted i @ '' in '' @ var_name))
      | None \<Rightarrow> Inr ids)"

definition apply_env_overrides :: "config_host \<Rightarrow> hardener_config \<Rightarrow> (hardening_error, hardener_config) result" where
  "apply_env_overrides w c =
     and_then (case env_var w ENV_DISABLED_PLUGINS of
         None \<Rightarrow> Inr c
       | Some v \<Rightarrow> and_then (parse_and_validate_env_list v ENV_DISABLED_PLUGINS)
           (\<lambda>ids. Inr (c\<lparr>global := (global c)\<lparr>disabled_plugins := ids\<rparr>\<rparr>))) (\<lambda>c.
      case env_var w ENV_ENABLED_PLUGINS of
         None \<Rightarrow> Inr c
       | Some v \<Rightarrow> and_then (parse_and_validate_env_list v ENV_ENABLED_PLUGINS)
           (\<lambda>ids. Inr (c\<lparr>global := (global c)\<lparr>enabled_plugins := ids\<rparr>\<rparr>)))"

subsection \<open>Loading\<close>

definition merge_optional ::
  "(string \<Rightarrow> string set \<Rightarrow> string list) \<Rightarrow> config_host \<Rightarrow> hardener_config \<Rightarrow> string option \<Rightarrow>
   (hardening_error, hardener_config) result" where
  "merge_optional order w base path =
     (case path of None \<Rightarrow> Inr base | Some p \<Rightarrow> merge_source order w base p False)"

definition load_config ::
  "(string \<Rightarrow> string set \<Rightarrow> string list) \<Rightarrow> config_host \<Rightarrow> config_loader \<Rightarrow> (hardening_error, hardener_config) result" where
  "load_config order w l =
     and_then (if skip_defaults l then Inr default_hardener_config
       else and_then (merge_optional order w default_hardener_config (system_config_path_for l)) (\<lambda>c.
         if \<not> running_as_root w l then merge_optional order w c (user_config_path_for w l) else Inr c)) (\<lambda>c.
     and_then (case cli_config_path l of None \<Rightarrow> Inr c | Some path \<Rightarrow> merge_source order w c path True) (\<lambda>c.
     and_then (apply_env_overrides w c) (\<lambda>c.
     and_then (validate_config order c) (\<lambda>_. Inr c))))"

subsection \<open>Layers\<close>

text \<open>The abstract reading of a load: the configurations of the sources that are read, in order.\<close>

definition layer_of :: "config_host \<Rightarrow> string \<Rightarrow> hardener_config list" where
  "layer_of w path =
     (if classify_source w path = SourcePresent
      then (case load_from_file w path of Inr c \<Rightarrow> [c] | Inl _ \<Rightarrow> []) else [])"

definition config_layers :: "config_host \<Rightarrow> config_loader \<Rightarrow> hardener_config list" where
  "config_layers w l =
     (if skip_defaults l then []
      else (case system_config_path_for l of None \<Rightarrow> [] | Some p \<Rightarrow> layer_of w p)
        @ (if running_as_root w l then []
           else case user_config_path_for w l of None \<Rightarrow> [] | Some p \<Rightarrow> layer_of w p))
     @ (case cli_config_path l of None \<Rightarrow> [] | Some p \<Rightarrow> layer_of w p)"

definition exclusion :: "hardener_config \<Rightarrow> string \<Rightarrow> string \<Rightarrow> scope_exclusion option" where
  "exclusion c framework control = (case compliance c framework of None \<Rightarrow> None | Some m \<Rightarrow> m control)"

text \<open>The last layer that decides a question answers it.\<close>

definition last_layer :: "(hardener_config \<Rightarrow> 'a option) \<Rightarrow> hardener_config list \<Rightarrow> 'a option" where
  "last_layer f layers = find_map f (rev layers)"

definition named_list :: "'a list \<Rightarrow> 'a list option" where
  "named_list xs = (if xs = [] then None else Some xs)"

definition resolves :: "hardener_config list \<Rightarrow> hardener_config \<Rightarrow> bool" where
  "resolves layers c =
     ((\<forall>p key. directives (get_plugin_config c p) key = last_layer (\<lambda>y. directives (get_plugin_config y p) key) layers)
    \<and> (\<forall>p key. exceptions (get_plugin_config c p) key = last_layer (\<lambda>y. exceptions (get_plugin_config y p) key) layers)
    \<and> (\<forall>p. enabled (get_plugin_config c p) = last_layer (\<lambda>y. enabled (get_plugin_config y p)) layers)
    \<and> (\<forall>framework control. exclusion c framework control = last_layer (\<lambda>y. exclusion y framework control) layers)
    \<and> named_list (enabled_plugins (global c)) = last_layer (\<lambda>y. named_list (enabled_plugins (global y))) layers
    \<and> named_list (disabled_plugins (global c)) = last_layer (\<lambda>y. named_list (disabled_plugins (global y))) layers)"

lemma last_layer_Nil [simp]: "last_layer f [] = None"
  by (simp add: last_layer_def)

lemma last_layer_snoc [simp]:
  "last_layer f (layers @ [y]) = (case f y of None \<Rightarrow> last_layer f layers | Some a \<Rightarrow> Some a)"
  by (simp add: last_layer_def split: option.split)

lemma get_plugin_config_unknown:
  "p \<notin> set KNOWN_PLUGIN_IDS \<Longrightarrow> get_plugin_config c p = default_plugin_config"
  unfolding KNOWN_PLUGIN_IDS_def get_plugin_config_def by simp

lemma merge_configs_sections:
  assumes "merge_configs order base overlay = Inr c" "p \<in> set KNOWN_PLUGIN_IDS"
  shows "merge_plugin (get_plugin_config base p) (get_plugin_config overlay p) = Inr (get_plugin_config c p)"
proof -
  have "merge_plugin (ssh base) (ssh overlay) = Inr (ssh c)" "merge_plugin (kernel base) (kernel overlay) = Inr (kernel c)"
    "merge_plugin (firewall base) (firewall overlay) = Inr (firewall c)" "merge_plugin (pam base) (pam overlay) = Inr (pam c)"
    "merge_plugin (audit base) (audit overlay) = Inr (audit c)" "merge_plugin (mac base) (mac overlay) = Inr (mac c)"
    "merge_plugin (permissions base) (permissions overlay) = Inr (permissions c)"
    "merge_plugin (services base) (services overlay) = Inr (services c)"
    using assms(1) unfolding merge_configs_def by (auto simp: and_then_eq_Inr)
  moreover have "p = ''audit-hardening'' \<or> p = ''firewall-hardening'' \<or> p = ''kernel-hardening'' \<or> p = ''mac-hardening''
      \<or> p = ''pam-hardening'' \<or> p = ''permissions-hardening'' \<or> p = ''service-minimisation'' \<or> p = ''ssh-hardening''"
    using assms(2) unfolding KNOWN_PLUGIN_IDS_def by simp
  ultimately show ?thesis unfolding get_plugin_config_def by (elim disjE) simp_all
qed

lemma merge_configs_rest:
  assumes "merge_configs order base overlay = Inr c"
  shows "global c = merge_global (global base) (global overlay)"
    "compliance c = overlay_exclusions (compliance base) (compliance overlay)"
  using assms by (auto simp: merge_configs_def and_then_eq_Inr merge_compliance_def Let_def split: option.splits)

lemma merge_plugin_ok:
  assumes "merge_plugin base overlay = Inr c"
  shows "directives c = directives base ++ directives overlay" "exceptions c = exceptions base ++ exceptions overlay"
    "enabled c = (case enabled overlay of None \<Rightarrow> enabled base | Some b \<Rightarrow> Some b)"
    "card (dom (directives c)) \<le> MAX_DIRECTIVES_PER_PLUGIN" "card (dom (exceptions c)) \<le> MAX_EXCEPTIONS_PER_PLUGIN"
  using assms by (auto simp: merge_plugin_def Let_def split: if_splits)

lemma merge_configs_lookup:
  assumes "merge_configs order base overlay = Inr c"
  shows "directives (get_plugin_config c p) = directives (get_plugin_config base p) ++ directives (get_plugin_config overlay p)"
    "exceptions (get_plugin_config c p) = exceptions (get_plugin_config base p) ++ exceptions (get_plugin_config overlay p)"
    "enabled (get_plugin_config c p) =
       (case enabled (get_plugin_config overlay p) of None \<Rightarrow> enabled (get_plugin_config base p) | Some b \<Rightarrow> Some b)"
  using merge_plugin_ok[OF merge_configs_sections[OF assms]] get_plugin_config_unknown
  by (cases "p \<in> set KNOWN_PLUGIN_IDS"; simp)+

lemma merge_configs_exclusion:
  assumes "merge_configs order base overlay = Inr c"
  shows "exclusion c framework control =
     (case exclusion overlay framework control of None \<Rightarrow> exclusion base framework control | Some e \<Rightarrow> Some e)"
  by (auto simp: exclusion_def merge_configs_rest(2)[OF assms] overlay_exclusions_def map_add_def split: option.splits)

lemma named_list_merge:
  "named_list (enabled_plugins (merge_global base overlay)) =
     (case named_list (enabled_plugins overlay) of None \<Rightarrow> named_list (enabled_plugins base) | Some ps \<Rightarrow> Some ps)"
  "named_list (disabled_plugins (merge_global base overlay)) =
     (case named_list (disabled_plugins overlay) of None \<Rightarrow> named_list (disabled_plugins base) | Some ps \<Rightarrow> Some ps)"
  by (simp_all add: merge_global_def named_list_def)

lemma merge_configs_resolves:
  assumes "resolves layers base" "merge_configs order base overlay = Inr c"
  shows "resolves (layers @ [overlay]) c"
  using assms(1) unfolding resolves_def last_layer_snoc
  by (simp add: merge_configs_lookup[OF assms(2)] merge_configs_exclusion[OF assms(2)] merge_configs_rest(1)[OF assms(2)]
      map_add_def named_list_merge split: option.splits)

lemma merge_source_resolves:
  assumes "resolves layers base" "merge_source order w base path required = Inr c"
  shows "resolves (layers @ layer_of w path) c"
proof (cases "classify_source w path")
  case SourcePresent
  with assms(2) obtain y where "load_from_file w path = Inr y" "merge_configs order base y = Inr c"
    by (auto simp: merge_source_def and_then_eq_Inr)
  with SourcePresent merge_configs_resolves[OF assms(1)] show ?thesis by (simp add: layer_of_def)
qed (use assms in \<open>auto simp: merge_source_def layer_of_def split: if_splits\<close>)

lemma resolves_default: "resolves [] default_hardener_config"
  by (simp add: resolves_def default_hardener_config_def get_plugin_config_def exclusion_def named_list_def)

subsection \<open>Limits\<close>

definition within_limits :: "hardener_config \<Rightarrow> bool" where
  "within_limits c =
     (\<forall>p. finite (dom (directives (get_plugin_config c p)))
        \<and> card (dom (directives (get_plugin_config c p))) \<le> MAX_DIRECTIVES_PER_PLUGIN
        \<and> card (dom (exceptions (get_plugin_config c p))) \<le> MAX_EXCEPTIONS_PER_PLUGIN)"

lemma finite_config_section: "finite_config c \<Longrightarrow> finite (dom (directives (get_plugin_config c p)))"
  unfolding finite_config_def validation_table_def get_plugin_config_def by simp

lemma section_validated:
  "p \<in> set KNOWN_PLUGIN_IDS \<Longrightarrow> \<exists>section f. (section, get_plugin_config c p, f) \<in> set (validation_table c)
     \<and> (p = ''kernel-hardening'' \<longrightarrow> f = validate_kernel_value)
     \<and> (p = ''permissions-hardening'' \<longrightarrow> f = validate_permissions_value)"
proof -
  assume "p \<in> set KNOWN_PLUGIN_IDS"
  then have "p = ''audit-hardening'' \<or> p = ''firewall-hardening'' \<or> p = ''kernel-hardening'' \<or> p = ''mac-hardening'' \<or> p = ''pam-hardening'' \<or> p = ''permissions-hardening'' \<or> p = ''service-minimisation'' \<or> p = ''ssh-hardening''"
    unfolding KNOWN_PLUGIN_IDS_def by simp
  then show ?thesis
  proof (elim disjE)
    assume "p = ''audit-hardening''"
    then show ?thesis by (intro exI[of _ "''audit''"] exI[of _ accept_any_value]) (simp add: get_plugin_config_def validation_table_def)
  next
    assume "p = ''firewall-hardening''"
    then show ?thesis by (intro exI[of _ "''firewall''"] exI[of _ validate_firewall_value]) (simp add: get_plugin_config_def validation_table_def)
  next
    assume "p = ''kernel-hardening''"
    then show ?thesis by (intro exI[of _ "''kernel''"] exI[of _ validate_kernel_value]) (simp add: get_plugin_config_def validation_table_def)
  next
    assume "p = ''mac-hardening''"
    then show ?thesis by (intro exI[of _ "''mac''"] exI[of _ accept_any_value]) (simp add: get_plugin_config_def validation_table_def)
  next
    assume "p = ''pam-hardening''"
    then show ?thesis by (intro exI[of _ "''pam''"] exI[of _ validate_pam_value]) (simp add: get_plugin_config_def validation_table_def)
  next
    assume "p = ''permissions-hardening''"
    then show ?thesis by (intro exI[of _ "''permissions''"] exI[of _ validate_permissions_value]) (simp add: get_plugin_config_def validation_table_def)
  next
    assume "p = ''service-minimisation''"
    then show ?thesis by (intro exI[of _ "''services''"] exI[of _ accept_any_value]) (simp add: get_plugin_config_def validation_table_def)
  next
    assume "p = ''ssh-hardening''"
    then show ?thesis by (intro exI[of _ "''ssh''"] exI[of _ validate_ssh_value]) (simp add: get_plugin_config_def validation_table_def)
  qed
qed

lemma within_limits_finite_config: "within_limits c \<Longrightarrow> finite_config c"
proof -
  assume "within_limits c"
  then have "finite (dom (directives (get_plugin_config c p)))" for p by (simp add: within_limits_def)
  from this[of "''ssh-hardening''"] this[of "''kernel-hardening''"] this[of "''firewall-hardening''"]
    this[of "''pam-hardening''"] this[of "''audit-hardening''"] this[of "''mac-hardening''"]
    this[of "''permissions-hardening''"] this[of "''service-minimisation''"]
  show ?thesis unfolding finite_config_def validation_table_def get_plugin_config_def by simp
qed

lemma merge_configs_limits:
  assumes "within_limits base" "finite_config overlay" "merge_configs order base overlay = Inr c"
  shows "within_limits c"
  unfolding within_limits_def
proof
  fix p
  have fin: "finite (dom (directives (get_plugin_config c p)))"
    using assms(1) finite_config_section[OF assms(2)] by (simp add: merge_configs_lookup[OF assms(3)] within_limits_def)
  show "finite (dom (directives (get_plugin_config c p)))
        \<and> card (dom (directives (get_plugin_config c p))) \<le> MAX_DIRECTIVES_PER_PLUGIN
        \<and> card (dom (exceptions (get_plugin_config c p))) \<le> MAX_EXCEPTIONS_PER_PLUGIN"
  proof (cases "p \<in> set KNOWN_PLUGIN_IDS")
    case True
    with fin merge_plugin_ok(4,5)[OF merge_configs_sections[OF assms(3) True]] show ?thesis by simp
  next
    case False
    then show ?thesis by (simp add: get_plugin_config_unknown)
  qed
qed

definition toml_finite :: "config_host \<Rightarrow> bool" where
  "toml_finite w = (\<forall>text c. parse_toml w text = Inr c \<longrightarrow> finite_config c)"

lemma load_from_file_finite: "toml_finite w \<Longrightarrow> load_from_file w path = Inr c \<Longrightarrow> finite_config c"
  by (auto simp: load_from_file_def toml_finite_def split: sum.splits if_splits)

lemma merge_source_limits:
  assumes "toml_finite w" "within_limits base" "merge_source order w base path required = Inr c"
  shows "within_limits c"
proof (cases "classify_source w path")
  case SourcePresent
  with assms(3) obtain y where "load_from_file w path = Inr y" "merge_configs order base y = Inr c"
    by (auto simp: merge_source_def and_then_eq_Inr)
  with merge_configs_limits assms(1,2) load_from_file_finite show ?thesis by blast
qed (use assms in \<open>auto simp: merge_source_def split: if_splits\<close>)

lemma within_limits_default: "within_limits default_hardener_config"
  by (simp add: within_limits_def default_hardener_config_def get_plugin_config_def)

subsection \<open>A load\<close>

lemma merge_optional_resolves:
  "resolves layers base \<Longrightarrow> merge_optional order w base path = Inr c \<Longrightarrow>
     resolves (layers @ (case path of None \<Rightarrow> [] | Some p \<Rightarrow> layer_of w p)) c"
  by (auto simp: merge_optional_def merge_source_resolves split: option.splits)

lemma merge_optional_limits:
  "toml_finite w \<Longrightarrow> within_limits base \<Longrightarrow> merge_optional order w base path = Inr c \<Longrightarrow> within_limits c"
  by (auto simp: merge_optional_def merge_source_limits split: option.splits)

lemma get_plugin_config_global [simp]: "get_plugin_config (c\<lparr>global := g\<rparr>) p = get_plugin_config c p"
  by (simp add: get_plugin_config_def)

lemma env_overrides_keep:
  assumes "apply_env_overrides w c = Inr c'"
  shows "get_plugin_config c' p = get_plugin_config c p" "compliance c' = compliance c"
    "case env_var w ENV_DISABLED_PLUGINS of
       None \<Rightarrow> disabled_plugins (global c') = disabled_plugins (global c)
     | Some v \<Rightarrow> parse_and_validate_env_list v ENV_DISABLED_PLUGINS = Inr (disabled_plugins (global c'))"
    "case env_var w ENV_ENABLED_PLUGINS of
       None \<Rightarrow> enabled_plugins (global c') = enabled_plugins (global c)
     | Some v \<Rightarrow> parse_and_validate_env_list v ENV_ENABLED_PLUGINS = Inr (enabled_plugins (global c'))"
proof -
  obtain c1 where
    1: "(case env_var w ENV_DISABLED_PLUGINS of None \<Rightarrow> Inr c
       | Some v \<Rightarrow> and_then (parse_and_validate_env_list v ENV_DISABLED_PLUGINS)
           (\<lambda>ids. Inr (c\<lparr>global := (global c)\<lparr>disabled_plugins := ids\<rparr>\<rparr>))) = Inr c1"
    and 2: "(case env_var w ENV_ENABLED_PLUGINS of None \<Rightarrow> Inr c1
       | Some v \<Rightarrow> and_then (parse_and_validate_env_list v ENV_ENABLED_PLUGINS)
           (\<lambda>ids. Inr (c1\<lparr>global := (global c1)\<lparr>enabled_plugins := ids\<rparr>\<rparr>))) = Inr c'"
    using assms unfolding apply_env_overrides_def and_then_eq_Inr by blast
  have c1: "get_plugin_config c1 p = get_plugin_config c p" "compliance c1 = compliance c"
    "enabled_plugins (global c1) = enabled_plugins (global c)"
    "case env_var w ENV_DISABLED_PLUGINS of
       None \<Rightarrow> disabled_plugins (global c1) = disabled_plugins (global c)
     | Some v \<Rightarrow> parse_and_validate_env_list v ENV_DISABLED_PLUGINS = Inr (disabled_plugins (global c1))"
    using 1 by (auto simp: and_then_eq_Inr split: option.splits)
  have c': "get_plugin_config c' p = get_plugin_config c1 p" "compliance c' = compliance c1"
    "disabled_plugins (global c') = disabled_plugins (global c1)"
    "case env_var w ENV_ENABLED_PLUGINS of
       None \<Rightarrow> enabled_plugins (global c') = enabled_plugins (global c1)
     | Some v \<Rightarrow> parse_and_validate_env_list v ENV_ENABLED_PLUGINS = Inr (enabled_plugins (global c'))"
    using 2 by (auto simp: and_then_eq_Inr split: option.splits)
  show "get_plugin_config c' p = get_plugin_config c p" "compliance c' = compliance c" using c1 c' by simp_all
  show "case env_var w ENV_DISABLED_PLUGINS of
       None \<Rightarrow> disabled_plugins (global c') = disabled_plugins (global c)
     | Some v \<Rightarrow> parse_and_validate_env_list v ENV_DISABLED_PLUGINS = Inr (disabled_plugins (global c'))"
    using c1(4) unfolding c'(3) .
  show "case env_var w ENV_ENABLED_PLUGINS of
       None \<Rightarrow> enabled_plugins (global c') = enabled_plugins (global c)
     | Some v \<Rightarrow> parse_and_validate_env_list v ENV_ENABLED_PLUGINS = Inr (enabled_plugins (global c'))"
    using c'(4) unfolding c1(3) .
qed

lemma load_config_steps:
  assumes "load_config order w l = Inr c"
  obtains c0 where "resolves (config_layers w l) c0" "toml_finite w \<Longrightarrow> within_limits c0"
    "apply_env_overrides w c0 = Inr c" "validate_config order c = Inr ()"
proof -
  from assms obtain c1 c0 where
    c1: "(if skip_defaults l then Inr default_hardener_config
       else and_then (merge_optional order w default_hardener_config (system_config_path_for l)) (\<lambda>c.
         if \<not> running_as_root w l then merge_optional order w c (user_config_path_for w l) else Inr c)) = Inr c1"
    and c0: "(case cli_config_path l of None \<Rightarrow> Inr c1 | Some path \<Rightarrow> merge_source order w c1 path True) = Inr c0"
    and rest: "apply_env_overrides w c0 = Inr c" "validate_config order c = Inr ()"
    unfolding load_config_def by (auto simp: and_then_eq_Inr)
  define defaults where "defaults = (if skip_defaults l then []
      else (case system_config_path_for l of None \<Rightarrow> [] | Some p \<Rightarrow> layer_of w p)
        @ (if running_as_root w l then []
           else case user_config_path_for w l of None \<Rightarrow> [] | Some p \<Rightarrow> layer_of w p))"
  have "resolves defaults c1 \<and> (toml_finite w \<longrightarrow> within_limits c1)"
  proof (cases "skip_defaults l")
    case True
    with c1 show ?thesis by (simp add: defaults_def resolves_default within_limits_default)
  next
    case False
    with c1 obtain c2 where c2: "merge_optional order w default_hardener_config (system_config_path_for l) = Inr c2"
      "(if \<not> running_as_root w l then merge_optional order w c2 (user_config_path_for w l) else Inr c2) = Inr c1"
      by (auto simp: and_then_eq_Inr)
    note sys = merge_optional_resolves[OF resolves_default c2(1)]
      merge_optional_limits[OF _ within_limits_default c2(1)]
    show ?thesis
    proof (cases "running_as_root w l")
      case True
      with False c2(2) sys show ?thesis by (simp add: defaults_def)
    next
      case user: False
      with c2(2) have "merge_optional order w c2 (user_config_path_for w l) = Inr c1" by simp
      with merge_optional_resolves[OF sys(1) this] merge_optional_limits[OF _ sys(2) this] False user
      show ?thesis by (simp add: defaults_def)
    qed
  qed
  moreover have "config_layers w l = defaults @ (case cli_config_path l of None \<Rightarrow> [] | Some p \<Rightarrow> layer_of w p)"
    by (simp add: config_layers_def defaults_def)
  ultimately have "resolves (config_layers w l) c0" "toml_finite w \<longrightarrow> within_limits c0"
    using c0 merge_source_resolves merge_source_limits by (auto split: option.splits)
  with rest that show thesis by blast
qed


text \<open> C11. A load that succeeds answers every question, a directive, an exception, a plugin's switch, a declared
  exclusion or a list of plugins, as the last source that decides it does: the system file, the user's file
  unless the process is root, the file named on the command line, and for the lists the environment.\<close>

theorem last_source_decides:
  assumes "load_config order w l = Inr c"
  shows "directives (get_plugin_config c p) key = last_layer (\<lambda>y. directives (get_plugin_config y p) key) (config_layers w l)
    \<and> exceptions (get_plugin_config c p) key = last_layer (\<lambda>y. exceptions (get_plugin_config y p) key) (config_layers w l)
    \<and> enabled (get_plugin_config c p) = last_layer (\<lambda>y. enabled (get_plugin_config y p)) (config_layers w l)
    \<and> exclusion c framework control = last_layer (\<lambda>y. exclusion y framework control) (config_layers w l)
    \<and> (case env_var w ENV_DISABLED_PLUGINS of
         None \<Rightarrow> named_list (disabled_plugins (global c)) = last_layer (\<lambda>y. named_list (disabled_plugins (global y))) (config_layers w l)
       | Some named \<Rightarrow> parse_and_validate_env_list named ENV_DISABLED_PLUGINS = Inr (disabled_plugins (global c)))
    \<and> (case env_var w ENV_ENABLED_PLUGINS of
         None \<Rightarrow> named_list (enabled_plugins (global c)) = last_layer (\<lambda>y. named_list (enabled_plugins (global y))) (config_layers w l)
       | Some named \<Rightarrow> parse_and_validate_env_list named ENV_ENABLED_PLUGINS = Inr (enabled_plugins (global c)))"
proof -
  obtain c0 where c0: "resolves (config_layers w l) c0" "apply_env_overrides w c0 = Inr c"
    using load_config_steps[OF assms] by metis
  note keep = env_overrides_keep[OF c0(2)]
  have "exclusion c framework control = exclusion c0 framework control" by (simp add: exclusion_def keep(2))
  with c0(1) keep show ?thesis unfolding resolves_def by (simp split: option.splits)
qed

lemma merge_source_cong:
  assumes "try_exists w' path = try_exists w path" "config_size w' path = config_size w path"
    "config_text w' path = config_text w path" "parse_toml w' = parse_toml w"
  shows "merge_source order w' base path required = merge_source order w base path required"
proof -
  have "load_from_file w' path = load_from_file w path"
    unfolding load_from_file_def assms ..
  show ?thesis unfolding merge_source_def classify_source_def assms(1) \<open>load_from_file w' path = load_from_file w path\<close> ..
qed

text \<open> C26. For a process that counts as root the load does not depend on the user's configuration: neither on the
  directory it is looked up in nor on anything a file holds, the system file and the one named on the
  command line excepted.\<close>

theorem root_ignores_user_config:
  assumes "running_as_root w l"
    "\<forall>path. system_config_path_for l = Some path \<or> cli_config_path l = Some path \<longrightarrow>
       found path = try_exists w path \<and> size_of path = config_size w path \<and> text_of path = config_text w path"
  shows "load_config order (w\<lparr>user_config_home := home, try_exists := found, config_size := size_of, config_text := text_of\<rparr>)
      (l\<lparr>config_dir := dir\<rparr>) = load_config order w l"
proof -
  let ?w = "w\<lparr>user_config_home := home, try_exists := found, config_size := size_of, config_text := text_of\<rparr>"
  let ?l = "l\<lparr>config_dir := dir\<rparr>"
  have src: "merge_source order ?w base path required = merge_source order w base path required"
    if "system_config_path_for l = Some path \<or> cli_config_path l = Some path" for base path required
    using that assms(2) by (intro merge_source_cong) auto
  have sys: "merge_optional order ?w default_hardener_config (system_config_path_for ?l)
      = merge_optional order w default_hardener_config (system_config_path_for l)"
    using src by (simp add: merge_optional_def system_config_path_for_def split: option.splits)
  have cli: "(case cli_config_path ?l of None \<Rightarrow> Inr c | Some path \<Rightarrow> merge_source order ?w c path True)
      = (case cli_config_path l of None \<Rightarrow> Inr c | Some path \<Rightarrow> merge_source order w c path True)" for c
    using src by (simp split: option.splits)
  have "running_as_root ?w ?l" using assms(1) by (simp add: running_as_root_def split: option.splits)
  moreover have "apply_env_overrides ?w = apply_env_overrides w" by (simp add: apply_env_overrides_def fun_eq_iff)
  ultimately show ?thesis using assms(1) unfolding load_config_def sys cli by simp
qed

subsection \<open>A host with a system file and a user's file\<close>

definition shadow_config :: "string \<Rightarrow> hardener_config" where
  "shadow_config m = default_hardener_config
     \<lparr>permissions := default_plugin_config\<lparr>directives := [''/etc/shadow'' \<mapsto> m]\<rparr>\<rparr>"

definition sample_config_host :: "bool \<Rightarrow> config_host" where
  "sample_config_host as_root =
     \<lparr>try_exists = (\<lambda>_. Inr True), config_size = (\<lambda>_. Inr 40), config_text = Inr,
      parse_toml = (\<lambda>t. Inr (shadow_config (if t = SYSTEM_CONFIG_PATH then ''0640'' else ''0600''))),
      env_var = (\<lambda>_. None), user_config_home = Some ''/home/a/.config'', effective_root = as_root\<rparr>"

lemma sample_merge:
  "directives base = (case m0 of None \<Rightarrow> Map.empty | Some m \<Rightarrow> [''/etc/shadow'' \<mapsto> m]) \<Longrightarrow> exceptions base = Map.empty \<Longrightarrow>
   enabled base = None \<Longrightarrow>
   merge_plugin base (default_plugin_config\<lparr>directives := [''/etc/shadow'' \<mapsto> m]\<rparr>)
     = Inr (default_plugin_config\<lparr>directives := [''/etc/shadow'' \<mapsto> m]\<rparr>)"
  by (auto simp: merge_plugin_def default_plugin_config_def MAX_DIRECTIVES_PER_PLUGIN_def MAX_EXCEPTIONS_PER_PLUGIN_def
      split: option.splits)

lemma default_merge [simp]: "merge_plugin default_plugin_config default_plugin_config = Inr default_plugin_config"
  by (simp add: merge_plugin_def default_plugin_config_def)

lemma default_compliance [simp]: "merge_compliance ascending Map.empty Map.empty = Inr Map.empty"
  by (simp add: merge_compliance_def overlay_exclusions_def ascending_def)

lemma sample_merges:
  "merge_configs ascending default_hardener_config (shadow_config m) = Inr (shadow_config m)"
  "merge_configs ascending (shadow_config m0) (shadow_config m) = Inr (shadow_config m)"
  using sample_merge[of default_plugin_config None m]
    sample_merge[of "default_plugin_config\<lparr>directives := [''/etc/shadow'' \<mapsto> m0]\<rparr>" "Some m0" m]
  by (simp_all add: merge_configs_def shadow_config_def default_hardener_config_def merge_global_def)

lemma sample_source:
  "load_from_file (sample_config_host as_root) path = Inr (shadow_config (if path = SYSTEM_CONFIG_PATH then ''0640'' else ''0600''))"
  by (simp add: load_from_file_def sample_config_host_def MAX_CONFIG_SIZE_def)

lemma sample_validated:
  "m \<in> {''0640'', ''0600''} \<Longrightarrow> validate_config ascending (shadow_config m) = Inr ()"
proof -
  assume m: "m \<in> {''0640'', ''0600''}"
  have "validate_permissions_value ''/etc/shadow'' m = Inr ()"
  proof -
    have "parse_unsigned 8 (2 ^ 32) ''0640'' = Some 416" "parse_unsigned 8 (2 ^ 32) ''0600'' = Some 384"
      by (simp_all add: parse_unsigned_def digit_value_def Let_def)
    with m show ?thesis by (auto simp: validate_permissions_value_def byte_length_def digit_value_def Let_def)
  qed
  moreover have "validate_directive_key ''permissions'' ''/etc/shadow'' = Inr ()"
    by (simp add: validate_directive_key_ok sane_key_def byte_length_def key_char_def is_ascii_alphanumeric_def Let_def starts_with_def)
  moreover have "check_universal m = Inr ()" using m by (auto simp: check_universal_def SHELL_METACHARACTERS_def)
  ultimately have v: "validate_directive ''permissions'' validate_permissions_value ''/etc/shadow'' m = Inr ()"
    by (simp add: validate_directive_def)
  have fin: "finite_config (shadow_config m)"
    by (simp add: finite_config_def validation_table_def shadow_config_def default_hardener_config_def)
  show ?thesis unfolding validate_config_ok[OF enumerates_ascending fin]
    by (auto simp: validation_table_def shadow_config_def default_hardener_config_def v split: if_splits)
qed

lemma sample_merge_source:
  "merge_source ascending (sample_config_host as_root) base path False =
     merge_configs ascending base (shadow_config (if path = SYSTEM_CONFIG_PATH then ''0640'' else ''0600''))"
proof -
  have "classify_source (sample_config_host as_root) path = SourcePresent"
    by (simp add: classify_source_def sample_config_host_def)
  then show ?thesis by (simp add: merge_source_def sample_source)
qed

lemma sample_load:
  "load_config ascending (sample_config_host as_root) new_config_loader = Inr (shadow_config (if as_root then ''0640'' else ''0600''))"
proof -
  let ?w = "sample_config_host as_root"
  have "user_config_path_for ?w new_config_loader = Some ''/home/a/.config/linux-hardener/config.toml''"
    by (simp add: user_config_path_for_def new_config_loader_def sample_config_host_def user_config_file_def
        join_path_def is_absolute_def starts_with_def ends_with_def)
  moreover have "apply_env_overrides ?w c = Inr c" for c by (simp add: apply_env_overrides_def sample_config_host_def)
  moreover have "running_as_root ?w new_config_loader = as_root"
    by (simp add: running_as_root_def new_config_loader_def sample_config_host_def)
  moreover have "system_config_path_for new_config_loader = Some SYSTEM_CONFIG_PATH"
    by (simp add: system_config_path_for_def new_config_loader_def)
  moreover have "''/home/a/.config/linux-hardener/config.toml'' \<noteq> SYSTEM_CONFIG_PATH" by (simp add: SYSTEM_CONFIG_PATH_def)
  moreover have "skip_defaults new_config_loader = False" "cli_config_path new_config_loader = None"
    by (simp_all add: new_config_loader_def)
  ultimately show ?thesis
    using sample_validated[of "''0640''"] sample_validated[of "''0600''"]
    by (cases as_root) (simp_all add: load_config_def merge_optional_def sample_merge_source sample_merges)
qed

lemma sample_toml_finite: "toml_finite (sample_config_host as_root)"
  by (auto simp: toml_finite_def sample_config_host_def finite_config_def validation_table_def shadow_config_def
      default_hardener_config_def)

lemma shadow_directive: "directives (get_plugin_config (shadow_config m) ''permissions-hardening'') ''/etc/shadow'' = Some m"
  by (simp add: get_plugin_config_def shadow_config_def)


theorem last_source_decides_witness:
  "Some ''0600'' = last_layer (\<lambda>y. directives (get_plugin_config y ''permissions-hardening'') ''/etc/shadow'')
     (config_layers (sample_config_host False) new_config_loader)"
  using last_source_decides[OF sample_load[of False], of "''permissions-hardening''" "''/etc/shadow''"]
  by (simp add: shadow_directive)

theorem root_ignores_user_config_witness:
  "load_config ascending ((sample_config_host True)\<lparr>user_config_home := None,
       try_exists := (\<lambda>p. Inr (p = SYSTEM_CONFIG_PATH)), config_size := config_size (sample_config_host True),
       config_text := config_text (sample_config_host True)\<rparr>) (new_config_loader\<lparr>config_dir := Some ''/tmp''\<rparr>)
   = Inr (shadow_config ''0640'')"
proof -
  have "system_config_path_for new_config_loader = Some SYSTEM_CONFIG_PATH" "cli_config_path new_config_loader = None"
    by (simp_all add: system_config_path_for_def new_config_loader_def)
  then have "\<forall>path. system_config_path_for new_config_loader = Some path \<or> cli_config_path new_config_loader = Some path \<longrightarrow>
       Inr (path = SYSTEM_CONFIG_PATH) = try_exists (sample_config_host True) path
       \<and> config_size (sample_config_host True) path = config_size (sample_config_host True) path
       \<and> config_text (sample_config_host True) path = config_text (sample_config_host True) path"
    by (simp add: sample_config_host_def)
  moreover have "running_as_root (sample_config_host True) new_config_loader"
    by (simp add: running_as_root_def new_config_loader_def sample_config_host_def)
  ultimately show ?thesis
    by (subst root_ignores_user_config) (simp_all only: sample_load if_True)
qed

end
