(* ===== verification/Config_Write.thy ===== *)
theory Config_Write
  imports Audit_Log
begin

text \<open>
  How a configuration file is written and the write audited: \<open>crates/hardener-core/src/config_write.rs\<close>.

  The calls of \<open>std::fs\<close> are parameters, the record \<open>local_store\<close>: each answers with a result, an error as
  its text, and the state after it. The logger is that of Audit_Log; opening it is \<open>open_logger\<close> there. The
  lines printed when an entry cannot be filed are not modelled.
\<close>

subsection \<open>The file system\<close>

record 'h local_store =
  create_dir_all :: "'h \<Rightarrow> string \<Rightarrow> (string, unit) result \<times> 'h"
  store_write :: "'h \<Rightarrow> string \<Rightarrow> string \<Rightarrow> (string, unit) result \<times> 'h"
  store_metadata :: "'h \<Rightarrow> string \<Rightarrow> (string, nat) result"
  set_permissions :: "'h \<Rightarrow> string \<Rightarrow> nat \<Rightarrow> (string, unit) result \<times> 'h"
  rename_file :: "'h \<Rightarrow> string \<Rightarrow> string \<Rightarrow> (string, unit) result \<times> 'h"
  remove_path :: "'h \<Rightarrow> string \<Rightarrow> (string, unit) result \<times> 'h"
  store_exists :: "'h \<Rightarrow> string \<Rightarrow> (string, bool) result"
  read_to_string :: "'h \<Rightarrow> string \<Rightarrow> (bool \<times> string, string) result"

subsection \<open>Where the audit trail lives\<close>

definition SYSTEM_LOG_DIR :: string where "SYSTEM_LOG_DIR = ''/var/log/linux-hardener''"

text \<open>The directory, and the mode it is restricted to.\<close>

definition audit_log_dir :: "bool \<Rightarrow> string option \<Rightarrow> string \<times> nat option" where
  "audit_log_dir as_root data_local_dir =
     (if as_root then (SYSTEM_LOG_DIR, Some 448)
      else (case data_local_dir of
              Some p \<Rightarrow> join_path p ''linux-hardener''
            | None \<Rightarrow> ''.linux-hardener'', None))"

definition audit_logger_in ::
  "'h local_store \<Rightarrow> 'h \<Rightarrow> log_format \<Rightarrow> (string \<Rightarrow> string \<times> bool \<times> (hardening_error, unit) result) \<Rightarrow> string \<Rightarrow> nat option \<Rightarrow>
   (string, audit_logger) result \<times> 'h" where
  "audit_logger_in fs h fmt log_file dir restrict =
     (case create_dir_all fs h dir of
        (Inl e, h) \<Rightarrow> (Inl (''creating audit log directory '' @ dir @ '': '' @ e), h)
      | (Inr _, h) \<Rightarrow>
          (let h = (case restrict of None \<Rightarrow> h | Some m \<Rightarrow> snd (set_permissions fs h dir m));
               path = join_path dir ''audit.log'';
               (existing, readable, opened) = log_file path
           in (map_err (\<lambda>e. ''opening audit log '' @ path @ '': '' @ error_text e)
                 (open_logger fmt existing readable opened), h)))"

subsection \<open>The audit of a write\<close>

record write_audit =
  audit_action :: action_type
  audit_target :: string
  audit_details :: details

text \<open>\<open>WriteAudit::record\<close>: the logger after it, whatever filing the entry answers.\<close>

definition record_outcome ::
  "log_format \<Rightarrow> int \<Rightarrow> write_outcome \<Rightarrow> string \<Rightarrow> audit_logger option \<Rightarrow> write_audit \<Rightarrow> (string, unit) result \<Rightarrow>
   audit_logger option" where
  "record_outcome fmt now appended user logger a outcome =
     (case logger of
        None \<Rightarrow> None
      | Some lg \<Rightarrow>
          Some (snd (case outcome of
              Inr _ \<Rightarrow> log_action_with_details fmt now appended lg (audit_action a) user (audit_target a) Success (audit_details a)
            | Inl e \<Rightarrow> log_failure fmt now appended lg (audit_action a) user (audit_target a) e)))"

subsection \<open>Writing, removing and reading\<close>

definition temporary_beside :: "string \<Rightarrow> string" where
  "temporary_beside path =
     (case file_name path of
        None \<Rightarrow> join_path path ''.new''
      | Some n \<Rightarrow> join_path (case parent_path path of None \<Rightarrow> [] | Some p \<Rightarrow> p) (n @ ''.new''))"

definition ensure_parent :: "'h local_store \<Rightarrow> 'h \<Rightarrow> string \<Rightarrow> (string, unit) result \<times> 'h" where
  "ensure_parent fs h path =
     (case parent_path path of
        None \<Rightarrow> (Inr (), h)
      | Some parent \<Rightarrow>
          (case create_dir_all fs h parent of
             (Inl e, h) \<Rightarrow> (Inl (''Cannot create '' @ parent @ '': '' @ e), h)
           | (Inr _, h) \<Rightarrow> (Inr (), h)))"

definition keep_mode :: "'h local_store \<Rightarrow> 'h \<Rightarrow> string \<Rightarrow> string \<Rightarrow> 'h" where
  "keep_mode fs h path temporary =
     (case store_metadata fs h path of
        Inr existing \<Rightarrow> snd (set_permissions fs h temporary existing)
      | Inl _ \<Rightarrow> h)"

definition write_file_atomically :: "'h local_store \<Rightarrow> 'h \<Rightarrow> string \<Rightarrow> string \<Rightarrow> (string, unit) result \<times> 'h" where
  "write_file_atomically fs h path contents =
     (case ensure_parent fs h path of
        (Inl e, h) \<Rightarrow> (Inl e, h)
      | (Inr _, h) \<Rightarrow>
          (let temporary = temporary_beside path in
           case store_write fs h temporary contents of
             (Inl e, h) \<Rightarrow> (Inl (''Cannot write '' @ temporary @ '': '' @ e), h)
           | (Inr _, h) \<Rightarrow>
               (let h = keep_mode fs h path temporary in
                case rename_file fs h temporary path of
                  (Inl e, h) \<Rightarrow> (Inl (''Cannot replace '' @ path @ '': '' @ e), snd (remove_path fs h temporary))
                | (Inr _, h) \<Rightarrow> (Inr (), h))))"

definition write_atomically ::
  "'h local_store \<Rightarrow> log_format \<Rightarrow> int \<Rightarrow> write_outcome \<Rightarrow> string \<Rightarrow> 'h \<Rightarrow> audit_logger option \<Rightarrow>
   string \<Rightarrow> string \<Rightarrow> write_audit \<Rightarrow> (string, unit) result \<times> 'h \<times> audit_logger option" where
  "write_atomically fs fmt now appended user h logger path contents a =
     (case write_file_atomically fs h path contents of
        (outcome, h) \<Rightarrow> (outcome, h, record_outcome fmt now appended user logger a outcome))"

definition remove_if_present :: "'h local_store \<Rightarrow> 'h \<Rightarrow> string \<Rightarrow> (string, bool) result \<times> 'h" where
  "remove_if_present fs h path =
     (case store_exists fs h path of
        Inl e \<Rightarrow> (Inl (''Cannot check for '' @ path @ '': '' @ e), h)
      | Inr False \<Rightarrow> (Inr False, h)
      | Inr True \<Rightarrow>
          (case remove_path fs h path of
             (Inl e, h) \<Rightarrow> (Inl (''Cannot remove '' @ path @ '': '' @ e), h)
           | (Inr _, h) \<Rightarrow> (Inr True, h)))"

definition remove_file_audited ::
  "'h local_store \<Rightarrow> log_format \<Rightarrow> int \<Rightarrow> write_outcome \<Rightarrow> string \<Rightarrow> 'h \<Rightarrow> audit_logger option \<Rightarrow>
   string \<Rightarrow> write_audit \<Rightarrow> (string, bool) result \<times> 'h \<times> audit_logger option" where
  "remove_file_audited fs fmt now appended user h logger path a =
     (case remove_if_present fs h path of
        (outcome, h) \<Rightarrow>
          (outcome, h, record_outcome fmt now appended user logger a (and_then outcome (\<lambda>_. Inr ()))))"

text \<open>The Boolean of an error says whether it is \<open>NotFound\<close>.\<close>

definition read_or_empty :: "'h local_store \<Rightarrow> 'h \<Rightarrow> string \<Rightarrow> (string, string) result" where
  "read_or_empty fs h path =
     (case read_to_string fs h path of
        Inr text \<Rightarrow> Inr text
      | Inl (True, _) \<Rightarrow> Inr []
      | Inl (False, e) \<Rightarrow> Inl (''Cannot read '' @ path @ '': '' @ e))"

subsection \<open>What the file system promises\<close>

text \<open>The laws of the calls over the text a path holds: creating directories and setting modes change no text,
  a write changes only the path it names (which a failed one may leave torn), a rename moves the text or
  does nothing, and a removal touches only its path.\<close>

definition lawful_store :: "'h local_store \<Rightarrow> ('h \<Rightarrow> string \<Rightarrow> string option) \<Rightarrow> bool" where
  "lawful_store fs content =
     ((\<forall>h path. content (snd (create_dir_all fs h path)) = content h)
    \<and> (\<forall>h path m. content (snd (set_permissions fs h path m)) = content h)
    \<and> (\<forall>h path body. (case store_write fs h path body of
         (Inr _, h') \<Rightarrow> content h' = (content h)(path \<mapsto> body)
       | (Inl _, h') \<Rightarrow> \<exists>torn. content h' = (content h)(path := torn)))
    \<and> (\<forall>h a b. (case rename_file fs h a b of
         (Inr _, h') \<Rightarrow> content h' = (content h)(a := None, b := content h a)
       | (Inl _, h') \<Rightarrow> content h' = content h))
    \<and> (\<forall>h path. (case remove_path fs h path of
         (Inr _, h') \<Rightarrow> content h' = (content h)(path := None)
       | (Inl _, h') \<Rightarrow> content h' = content h)))"

lemma lawful_storeD:
  assumes "lawful_store fs content"
  shows "create_dir_all fs h path = (r, h') \<Longrightarrow> content h' = content h"
    "set_permissions fs h path m = (r, h') \<Longrightarrow> content h' = content h"
    "store_write fs h path body = (Inr u, h') \<Longrightarrow> content h' = (content h)(path \<mapsto> body)"
    "store_write fs h path body = (Inl e, h') \<Longrightarrow> \<exists>torn. content h' = (content h)(path := torn)"
    "rename_file fs h a b = (Inr u, h') \<Longrightarrow> content h' = (content h)(a := None, b := content h a)"
    "rename_file fs h a b = (Inl e, h') \<Longrightarrow> content h' = content h"
    "remove_path fs h path = (Inr u, h') \<Longrightarrow> content h' = (content h)(path := None)"
    "remove_path fs h path = (Inl e, h') \<Longrightarrow> content h' = content h"
proof -
  note laws = assms[unfolded lawful_store_def]
  note rest = laws[THEN conjunct2, THEN conjunct2]
  note writes = rest[THEN conjunct1, rule_format] and renames = rest[THEN conjunct2, THEN conjunct1, rule_format]
    and removes = rest[THEN conjunct2, THEN conjunct2, rule_format]
  show "create_dir_all fs h path = (r, h') \<Longrightarrow> content h' = content h" using laws by (metis snd_conv)
  show "set_permissions fs h path m = (r, h') \<Longrightarrow> content h' = content h" using laws by (metis snd_conv)
  show "store_write fs h path body = (Inr u, h') \<Longrightarrow> content h' = (content h)(path \<mapsto> body)"
    using writes[of h path body] by simp
  show "store_write fs h path body = (Inl e, h') \<Longrightarrow> \<exists>torn. content h' = (content h)(path := torn)"
    using writes[of h path body] by simp
  show "rename_file fs h a b = (Inr u, h') \<Longrightarrow> content h' = (content h)(a := None, b := content h a)"
    using renames[of h a b] by simp
  show "rename_file fs h a b = (Inl e, h') \<Longrightarrow> content h' = content h" using renames[of h a b] by simp
  show "remove_path fs h path = (Inr u, h') \<Longrightarrow> content h' = (content h)(path := None)"
    using removes[of h path] by simp
  show "remove_path fs h path = (Inl e, h') \<Longrightarrow> content h' = content h" using removes[of h path] by simp
qed

lemma ensure_parent_content:
  "lawful_store fs content \<Longrightarrow> ensure_parent fs h path = (r, h') \<Longrightarrow> content h' = content h"
  by (auto simp: ensure_parent_def dest: lawful_storeD(1) split: option.splits prod.splits sum.splits)

lemma keep_mode_content: "lawful_store fs content \<Longrightarrow> content (keep_mode fs h path tmp) = content h"
  by (auto simp: keep_mode_def split: sum.splits) (metis lawful_storeD(2) surjective_pairing)

lemma write_file_atomically_content:
  assumes "lawful_store fs content" "write_file_atomically fs h path contents = (r, h')" "temporary_beside path \<noteq> path"
  shows "content h' path = (if r = Inr () then Some contents else content h path)"
    "q \<noteq> path \<Longrightarrow> q \<noteq> temporary_beside path \<Longrightarrow> content h' q = content h q"
proof -
  let ?t = "temporary_beside path"
  obtain p h1 where p: "ensure_parent fs h path = (p, h1)" by fastforce
  note c1 = ensure_parent_content[OF assms(1) p]
  obtain w h2 where w: "store_write fs h1 ?t contents = (w, h2)" by fastforce
  let ?h3 = "keep_mode fs h2 path ?t"
  obtain n h4 where n: "rename_file fs ?h3 ?t path = (n, h4)" by fastforce
  obtain d h5 where d: "remove_path fs h4 ?t = (d, h5)" by fastforce
  have r: "(case p of Inl e \<Rightarrow> r = Inl e \<and> h' = h1
    | Inr _ \<Rightarrow> (case w of Inl e \<Rightarrow> r \<noteq> Inr () \<and> h' = h2
        | Inr _ \<Rightarrow> (case n of Inl e \<Rightarrow> r \<noteq> Inr () \<and> h' = h5 | Inr _ \<Rightarrow> r = Inr () \<and> h' = h4)))"
    using assms(2) p w n d by (auto simp: write_file_atomically_def Let_def split: sum.splits)
  have "content h' path = (if r = Inr () then Some contents else content h path)
    \<and> (q \<noteq> path \<longrightarrow> q \<noteq> ?t \<longrightarrow> content h' q = content h q)"
  proof (cases p)
    case (Inl e)
    with r c1 show ?thesis by simp
  next
    case p': (Inr u)
    show ?thesis
    proof (cases w)
      case (Inl e)
      with p' r w lawful_storeD(4)[OF assms(1), of h1 ?t contents e h2] c1 assms(3) show ?thesis by auto
    next
      case w': (Inr u)
      have c3: "content ?h3 = (content h)(?t \<mapsto> contents)"
        using keep_mode_content[OF assms(1)] lawful_storeD(3)[OF assms(1), of h1 ?t contents u h2] w w' c1 by simp
      show ?thesis
      proof (cases n)
        case (Inr u)
        with p' w' r n lawful_storeD(5)[OF assms(1), of ?h3 ?t path u h4] c3 assms(3) show ?thesis by auto
      next
        case (Inl e)
        then have "content h4 = content ?h3" using lawful_storeD(6)[OF assms(1)] n by blast
        moreover have "\<exists>x. content h5 = (content h4)(?t := x)"
          using lawful_storeD(7,8)[OF assms(1), of h4 ?t] d by (cases d) (metis fun_upd_triv)+
        ultimately show ?thesis using p' w' r Inl c3 assms(3) by auto
      qed
    qed
  qed
  then show "content h' path = (if r = Inr () then Some contents else content h path)"
    "q \<noteq> path \<Longrightarrow> q \<noteq> temporary_beside path \<Longrightarrow> content h' q = content h q" by auto
qed

subsection \<open>The temporary file is another file\<close>

lemma split_on_ne [simp]: "split_on c s \<noteq> []"
  by (induction s) (auto split: list.split)

lemma split_on_append: "split_on c (a @ c # b) = split_on c a @ split_on c b"
  by (induction a) (auto split: list.split)

lemma split_on_free: "c \<notin> set w \<Longrightarrow> split_on c w = [w]"
  by (induction w) auto

lemma split_on_pieces: "w \<in> set (split_on c s) \<Longrightarrow> c \<notin> set w"
  by (induction s arbitrary: w) (auto split: if_splits list.splits)

lemma file_name_plain:
  assumes "file_name path = Some n"
  shows "n \<noteq> []" "CHR ''/'' \<notin> set n"
proof -
  have "n \<in> set (path_names path)"
    using assms by (auto simp: file_name_def split: list.splits if_splits)
  moreover define ns where "ns = filter (\<lambda>n. n \<noteq> []) (split_on (CHR ''/'') path)"
  have "set (path_names path) \<subseteq> set ns"
    unfolding path_names_def Let_def ns_def[symmetric] by (cases ns) auto
  ultimately have "n \<in> set ns" by blast
  then show "n \<noteq> []" "CHR ''/'' \<notin> set n" using split_on_pieces by (auto simp: ns_def)
qed

lemma file_name_last:
  assumes "base = [] \<or> (\<exists>b. base = b @ [CHR ''/''])" "w \<noteq> []" "CHR ''/'' \<notin> set w" "w \<noteq> ''.''" "w \<noteq> ''..''"
  shows "file_name (base @ w) = Some w"
proof -
  let ?ns = "filter (\<lambda>n. n \<noteq> []) (split_on (CHR ''/'') base)"
  have "filter (\<lambda>n. n \<noteq> []) (split_on (CHR ''/'') (base @ w)) = ?ns @ [w]"
    using assms(1)
  proof
    assume "\<exists>b. base = b @ [CHR ''/'']"
    then obtain b where b: "base = b @ [CHR ''/'']" ..
    then show ?thesis using split_on_append[of "CHR ''/''" b w] split_on_append[of "CHR ''/''" b "[]"] assms(2,3)
      by (simp add: split_on_free)
  qed (use assms(2,3) in \<open>simp add: split_on_free\<close>)
  then have "\<exists>ms. path_names (base @ w) = ms @ [w]"
    using assms(4) by (cases ?ns) (auto simp: path_names_def Let_def)
  then show ?thesis using assms(4,5) by (auto simp: file_name_def)
qed

lemma temporary_is_other:
  assumes "file_name path = Some n"
  shows "temporary_beside path \<noteq> path"
proof
  assume same: "temporary_beside path = path"
  let ?w = "n @ ''.new''" and ?p = "case parent_path path of None \<Rightarrow> [] | Some p \<Rightarrow> p"
  note n = file_name_plain[OF assms]
  have "\<not> is_absolute ?w" using n by (cases n) (auto simp: is_absolute_def starts_with_def)
  then obtain base where base: "join_path ?p ?w = base @ ?w" "base = [] \<or> (\<exists>b. base = b @ [CHR ''/''])"
    by (auto simp: join_path_def ends_with_single append_butlast_last_id split: if_splits)
       (metis append.assoc append_butlast_last_id append_Cons append_Nil)+
  have "file_name (base @ ?w) = Some ?w"
    by (rule file_name_last[OF base(2)]) (use n in \<open>auto simp: append_eq_Cons_conv\<close>)
  then have "file_name path = Some ?w" using same base(1) assms by (simp add: temporary_beside_def)
  with assms show False by simp
qed

subsection \<open>All or nothing, and recorded\<close>

lemma entry_recorded:
  assumes "sound_logger fmt lg" "\<And>e. renders fmt e"
    "record_outcome fmt now Written user (Some lg) a outcome = Some lg'"
  shows "sound_logger fmt lg' \<and> (lg' = lg \<or> (\<exists>json e. str_lines (log_text lg') = str_lines (log_text lg) @ [json]
    \<and> entry_parse fmt json = Inr e \<and> entry_action_type e = audit_action a \<and> entry_target e = audit_target a
    \<and> entry_result e = (if outcome = Inr () then Success else Failure)))"
proof -
  let ?good = "\<lambda>e. entry_action_type e = audit_action a \<and> entry_target e = audit_target a
    \<and> entry_result e = (if outcome = Inr () then Success else Failure)"
  let ?req = "case outcome of
      Inr _ \<Rightarrow> RequestDetails (audit_action a) user (audit_target a) Success (audit_details a)
    | Inl e \<Rightarrow> RequestFailure (audit_action a) user (audit_target a) e"
  obtain r where p: "perform fmt now Written lg ?req = (r, lg')"
    using assms(3) by (cases outcome) (auto simp: record_outcome_def prod_eq_iff)
  have "lg' = lg \<or> (\<exists>e. ?good e \<and> write_entry fmt Written lg e = (r, lg'))"
    using p by (cases outcome) (auto simp: log_action_with_details_def log_failure_def new_failure_def split: sum.splits)
  moreover have "lg' = lg \<or> (\<exists>json. str_lines (log_text lg') = str_lines (log_text lg) @ [json] \<and> entry_parse fmt json = Inr e)"
    if w: "write_entry fmt Written lg e = (r, lg')" for e
  proof (cases r)
    case (Inl x)
    with w show ?thesis by (auto simp: write_entry_def append_line_def split: sum.splits)
  next
    case (Inr u)
    with w assms(1) written_facts[OF assms(2), of lg e u lg'] show ?thesis by (metis sound_logger_def)
  qed
  ultimately show ?thesis using perform_sound[OF assms(1,2) p] by blast
qed


text \<open>A store that is a map from paths to texts, and keeps no modes.\<close>

definition map_store :: "(string \<rightharpoonup> string) local_store" where
  "map_store =
     \<lparr>create_dir_all = (\<lambda>h _. (Inr (), h)), store_write = (\<lambda>h p t. (Inr (), h(p \<mapsto> t))),
      store_metadata = (\<lambda>_ _. Inr 420), set_permissions = (\<lambda>h _ _. (Inr (), h)),
      rename_file = (\<lambda>h a b. (Inr (), h(a := None, b := h a))), remove_path = (\<lambda>h p. (Inr (), h(p := None))),
      store_exists = (\<lambda>h p. Inr (h p \<noteq> None)),
      read_to_string = (\<lambda>h p. case h p of None \<Rightarrow> Inl (True, []) | Some t \<Rightarrow> Inr t)\<rparr>"

lemma map_store_lawful: "lawful_store map_store (\<lambda>h. h)"
  by (simp add: lawful_store_def map_store_def)

definition sample_write :: write_audit where
  "sample_write = \<lparr>audit_action = ScanAction, audit_target = ''host'', audit_details = []\<rparr>"

lemma sample_write_runs:
  "write_atomically map_store sample_format 5 Written ''root'' Map.empty (Some (sample_log 0)) ''config.toml'' ''x'' sample_write
     = (Inr (), Map.empty(''config.toml.new'' := None, ''config.toml'' \<mapsto> ''x''), Some (sample_log 1))"
proof -
  have "log_action_with_details sample_format 5 Written (sample_log 0) ScanAction ''root'' ''host'' Success []
      = perform sample_format 5 Written (sample_log 0) (RequestAction ScanAction ''root'' ''host'' Success)"
    by (simp add: log_action_with_details_def log_action_def new_entry_def split: sum.split)
  then have l: "record_outcome sample_format 5 Written ''root'' (Some (sample_log 0)) sample_write (Inr ()) = Some (sample_log 1)"
    using sample_step[of 0] by (simp add: record_outcome_def sample_write_def)
  have t: "temporary_beside ''config.toml'' = ''config.toml.new''" "parent_path ''config.toml'' = Some []"
    by (simp_all add: temporary_beside_def file_name_def parent_path_def path_names_def render_path_def join_def
        join_path_def is_absolute_def starts_with_def)
  have "write_file_atomically map_store Map.empty ''config.toml'' ''x''
      = (Inr (), Map.empty(''config.toml.new'' := None, ''config.toml'' \<mapsto> ''x''))"
    by (simp add: write_file_atomically_def ensure_parent_def keep_mode_def map_store_def t)
  with l show ?thesis by (simp add: write_atomically_def)
qed


end
