(* ===== verification/Pam_Reading.thy ===== *)
theory Pam_Reading
  imports Kernel_Plugin Config_Edit
begin

text \<open>
  What the PAM plugin reads (hardener-plugins/src/pam): the stack and conffile parsers (parsing.rs), whether a
  module is loaded, inline arguments, the layered reading of a configuration file, the value a directive has
  on the host (mod.rs) and the keys an administrator's file masks (layer_drift.rs). The lines the plugin logs
  are not modelled.
\<close>

definition PAM_PLUGIN_ID :: plugin_id where "PAM_PLUGIN_ID = ''pam-hardening''"
definition PWQUALITY_CONF :: string where "PWQUALITY_CONF = ''/etc/security/pwquality.conf''"
definition LOGIN_DEFS :: string where "LOGIN_DEFS = ''/etc/login.defs''"
definition MIN_DAYS_DIRECTIVE :: string where "MIN_DAYS_DIRECTIVE = ''PASS_MIN_DAYS''"

subsection \<open>Parsing\<close>

definition stack_loads_module :: "string \<Rightarrow> string \<Rightarrow> bool" where
  "stack_loads_module content modname =
     list_ex (\<lambda>line. \<not> starts_with ''#'' (trim line) \<and> contains modname (trim line)) (str_lines content)"

definition inline_arg_in_line :: "string \<Rightarrow> string \<Rightarrow> string \<Rightarrow> string option" where
  "inline_arg_in_line modname arg line =
     (let line = trim line in
      if starts_with ''#'' line \<or> \<not> contains modname line then None
      else find_map (\<lambda>tok. Option.bind (strip_prefix arg tok) (strip_prefix ''='')) (split_whitespace line))"

definition inline_arg_in_content :: "string \<Rightarrow> string \<Rightarrow> string \<Rightarrow> string option" where
  "inline_arg_in_content content modname arg = find_map (inline_arg_in_line modname arg) (str_lines content)"

subsection \<open>Targets\<close>

fun pam_config_format :: "pam_config_file \<Rightarrow> config_format" where
  "pam_config_format LoginDefs = SpaceSeparated"
| "pam_config_format _ = KeyValue"

definition pam_violates :: "pam_directive \<Rightarrow> string \<Rightarrow> string option \<Rightarrow> bool" where
  "pam_violates d target current = (violated_by (compare d) target current = Some True)"

definition clamped_baseline :: "pam_directive \<Rightarrow> plugin_config \<Rightarrow> string" where
  "clamped_baseline d config =
     (case resolved_target (compare d) config (directive_name d) (secure_value d) of Some t \<Rightarrow> t | None \<Rightarrow> [])"

subsection \<open>A configuration file\<close>

datatype conf_read =
  ConfContent string config_layer
| ConfAbsent
| ConfUnreadable string string bool

definition read_conf_classified :: "('h, 'z) executor_scheme \<Rightarrow> 'h \<Rightarrow> string \<Rightarrow> conf_read" where
  "read_conf_classified ex h path =
     (case read_layered ex h path of
        Found _ layer content \<Rightarrow> ConfContent content layer
      | Absent \<Rightarrow> ConfAbsent
      | Unreadable failed why denied \<Rightarrow> ConfUnreadable failed why denied)"

definition unreadable_reason :: "string \<Rightarrow> bool \<Rightarrow> string" where
  "unreadable_reason path permission_denied =
     (if permission_denied then ''reading '' @ path @ '' requires root'' else path @ '' could not be read'')"

definition current_value_caveat :: "bool \<Rightarrow> string" where
  "current_value_caveat permission_denied =
     (if permission_denied then ''current value requires root'' else ''current value could not be read'')"

subsection \<open>The PAM stack\<close>

definition pam_module_for :: "string \<Rightarrow> (string \<times> string list) option" where
  "pam_module_for conf =
     (if conf = PWQUALITY_CONF then
        Some (''pam_pwquality.so'', [''/etc/pam.d/system-auth'', ''/etc/pam.d/password-auth'', ''/etc/pam.d/common-password''])
      else if conf = FAILLOCK_CONF then
        Some (''pam_faillock.so'', [''/etc/pam.d/system-auth'', ''/etc/pam.d/password-auth'', ''/etc/pam.d/common-auth''])
      else if conf = PWHISTORY_CONF then
        Some (''pam_pwhistory.so'', [''/etc/pam.d/system-auth'', ''/etc/pam.d/password-auth'', ''/etc/pam.d/common-password''])
      else None)"

datatype module_presence =
  InStack
| NotInStack string
| Indeterminate string bool
| NoModule

text \<open>The loop over the candidate files: whether one was read, and the first that could not be.\<close>

fun search_module ::
  "('h, 'z) executor_scheme \<Rightarrow> 'h \<Rightarrow> string \<Rightarrow> bool \<Rightarrow> (string \<times> bool) option \<Rightarrow> string list \<Rightarrow> module_presence" where
  "search_module ex h modname some_read unread [] =
     (case unread of
        Some (path, denied) \<Rightarrow> Indeterminate (unreadable_reason path denied) denied
      | None \<Rightarrow>
          if some_read then NotInStack modname
          else Indeterminate (''no PAM stack file this tool knows of exists, so whether '' @ modname
            @ '' is loaded could not be determined'') False)"
| "search_module ex h modname some_read unread (path # paths) =
     (case read_conf_classified ex h path of
        ConfContent content _ \<Rightarrow>
          if stack_loads_module content modname then InStack
          else search_module ex h modname True unread paths
      | ConfAbsent \<Rightarrow> search_module ex h modname some_read unread paths
      | ConfUnreadable _ _ denied \<Rightarrow>
          search_module ex h modname some_read (if unread = None then Some (path, denied) else unread) paths)"

definition read_module_presence :: "('h, 'z) executor_scheme \<Rightarrow> 'h \<Rightarrow> string \<Rightarrow> module_presence" where
  "read_module_presence ex h conf =
     (case pam_module_for conf of
        None \<Rightarrow> NoModule
      | Some (modname, paths) \<Rightarrow> search_module ex h modname False None paths)"

fun presence_of_files ::
  "('h, 'z) executor_scheme \<Rightarrow> 'h \<Rightarrow> (string \<times> module_presence) list \<Rightarrow> pam_directive list \<Rightarrow>
   (string \<times> module_presence) list" where
  "presence_of_files ex h presence [] = presence"
| "presence_of_files ex h presence (d # ds) =
     (case conf_path (pam_config_file d) of
        None \<Rightarrow> presence_of_files ex h presence ds
      | Some path \<Rightarrow>
          if list_ex (\<lambda>(known, _). known = path) presence then presence_of_files ex h presence ds
          else presence_of_files ex h (presence @ [(path, read_module_presence ex h path)]) ds)"

definition module_presence_by_file ::
  "('h, 'z) executor_scheme \<Rightarrow> 'h \<Rightarrow> (string \<times> module_presence) list" where
  "module_presence_by_file ex h = presence_of_files ex h [] PAM_DIRECTIVES"

definition presence_for :: "(string \<times> module_presence) list \<Rightarrow> pam_directive \<Rightarrow> module_presence" where
  "presence_for presence d =
     (case Option.bind (conf_path (pam_config_file d)) (map_of presence) of
        Some found \<Rightarrow> found
      | None \<Rightarrow> NoModule)"

datatype inline_read = InlineValue string | InlineNotSet | InlineUnreadable string bool

fun search_inline ::
  "('h, 'z) executor_scheme \<Rightarrow> 'h \<Rightarrow> string \<Rightarrow> string \<Rightarrow> (string \<times> bool) option \<Rightarrow> string list \<Rightarrow> inline_read" where
  "search_inline ex h modname arg unread [] =
     (case unread of Some (path, denied) \<Rightarrow> InlineUnreadable path denied | None \<Rightarrow> InlineNotSet)"
| "search_inline ex h modname arg unread (path # paths) =
     (case read_conf_classified ex h path of
        ConfContent content _ \<Rightarrow>
          (case inline_arg_in_content content modname arg of
             Some v \<Rightarrow> InlineValue v
           | None \<Rightarrow> search_inline ex h modname arg unread paths)
      | ConfAbsent \<Rightarrow> search_inline ex h modname arg unread paths
      | ConfUnreadable _ _ denied \<Rightarrow>
          search_inline ex h modname arg (if unread = None then Some (path, denied) else unread) paths)"

definition read_pamd_inline :: "('h, 'z) executor_scheme \<Rightarrow> 'h \<Rightarrow> string \<Rightarrow> string \<Rightarrow> inline_read" where
  "read_pamd_inline ex h conf arg =
     (case pam_module_for conf of
        None \<Rightarrow> InlineNotSet
      | Some (modname, paths) \<Rightarrow> search_inline ex h modname arg None paths)"

subsection \<open>The value a directive has\<close>

datatype pam_observed = ObservedValue string | ObservedNotSet | ObservedUnreadable string bool

definition value_or_not_set :: "pam_observed \<Rightarrow> string" where
  "value_or_not_set observed = (case observed of ObservedValue v \<Rightarrow> v | _ \<Rightarrow> ''not set'')"

text \<open>A value in a file that was read: the source writes this match three times.\<close>

definition observed_in :: "conf_read \<Rightarrow> string \<Rightarrow> config_format \<Rightarrow> string \<Rightarrow> pam_observed" where
  "observed_in r name format path =
     (case r of
        ConfContent content _ \<Rightarrow>
          (case parse_config_value content name format True of Some v \<Rightarrow> ObservedValue v | None \<Rightarrow> ObservedNotSet)
      | ConfAbsent \<Rightarrow> ObservedNotSet
      | ConfUnreadable _ _ denied \<Rightarrow> ObservedUnreadable path denied)"

definition read_effective_threshold ::
  "('h, 'z) executor_scheme \<Rightarrow> 'h \<Rightarrow> string \<Rightarrow> string \<Rightarrow> (string \<times> conf_read) list \<Rightarrow> pam_observed" where
  "read_effective_threshold ex h arg conf already_read =
     (case read_pamd_inline ex h conf arg of
        InlineValue v \<Rightarrow> ObservedValue v
      | InlineUnreadable path denied \<Rightarrow> ObservedUnreadable path denied
      | InlineNotSet \<Rightarrow>
          observed_in (case map_of already_read conf of Some r \<Rightarrow> r | None \<Rightarrow> read_conf_classified ex h conf)
            arg KeyValue conf)"

definition observed_pam_value ::
  "('h, 'z) executor_scheme \<Rightarrow> 'h \<Rightarrow> pam_directive \<Rightarrow> conf_read \<Rightarrow> conf_read \<Rightarrow> (string \<times> conf_read) list \<Rightarrow>
   pam_observed" where
  "observed_pam_value ex h d pwquality login_defs already_read =
     (case pam_config_file d of
        PwQuality \<Rightarrow> observed_in pwquality (directive_name d) Auto PWQUALITY_CONF
      | LoginDefs \<Rightarrow> observed_in login_defs (directive_name d) Auto LOGIN_DEFS
      | PamAuth \<Rightarrow> ObservedNotSet
      | SecurityConf path \<Rightarrow> read_effective_threshold ex h (directive_name d) path already_read)"

text \<open>\<open>chage --help\<close>, on either stream.\<close>

definition min_days_enforceable :: "('h, 'z) executor_scheme \<Rightarrow> 'h \<Rightarrow> bool option \<times> 'h" where
  "min_days_enforceable ex h =
     (case execute_command ex h ''chage'' [''--help''] of
        (Inl _, h) \<Rightarrow> (None, h)
      | (Inr out, h) \<Rightarrow>
          (let usage = stdout out @ stderr out in
           (if trim usage = [] then None else Some (contains ''--mindays'' usage), h)))"

subsection \<open>Password changes the dictionary check would refuse\<close>

definition CRACKLIB_DICTIONARIES :: "string list" where
  "CRACKLIB_DICTIONARIES = [''/usr/share/cracklib/pw_dict.pwd'', ''/var/cache/cracklib/cracklib_dict.pwd'']"

definition dictcheck_locks_out_password_changes ::
  "('h, 'z) executor_scheme \<Rightarrow> 'h \<Rightarrow> (string \<times> module_presence) list \<Rightarrow> conf_read \<Rightarrow> bool" where
  "dictcheck_locks_out_password_changes ex h presence pwquality =
     (if map_of presence PWQUALITY_CONF \<noteq> Some InStack then False
      else
        (case (case pwquality of ConfContent content _ \<Rightarrow> Some content | ConfAbsent \<Rightarrow> Some [] | ConfUnreadable _ _ _ \<Rightarrow> None) of
           None \<Rightarrow> False
         | Some content \<Rightarrow>
             if map_option trim (parse_config_value content ''dictcheck'' Auto True) = Some ''0'' then False
             else list_all (\<lambda>path. path_exists ex h path = Inr False) CRACKLIB_DICTIONARIES))"

definition dictcheck_lockout_message :: string where
  "dictcheck_lockout_message =
     ''pam_pwquality is loaded, its dictcheck is on, and no cracklib dictionary is installed at ''
     @ join '' or '' CRACKLIB_DICTIONARIES
     @ ''. libpwquality's dictionary check fails closed, so every password change on this host will be refused, strong passwords included, and the refusal names no cause. Install the dictionary (cracklib-dicts on dnf hosts, cracklib-runtime on apt hosts) or set dictcheck = 0 in /etc/security/pwquality.conf. This tool will not install a package on your behalf.''"

subsection \<open>Keys a file masks\<close>

record layered_conf =
  admin_conf :: string
  drift_finding_id :: string
  conf_consumer :: string
  drift_impact :: string

definition LAYERED_CONFS :: "layered_conf list" where
  "LAYERED_CONFS =
     [\<lparr>admin_conf = LOGIN_DEFS, drift_finding_id = ''pam-login-defs-masked-keys'', conf_consumer = ''shadow'',
       drift_impact = ''Settings the distribution chose are silently not in force. Where ENCRYPT_METHOD is among them, shadow falls back to DES, which truncates every password set afterwards at eight characters however long it was typed; where HOME_MODE is, new home directories are created world readable.''\<rparr>,
      \<lparr>admin_conf = PWQUALITY_CONF, drift_finding_id = ''pam-pwquality-conf-masked-keys'',
       conf_consumer = ''pam_pwquality, pwscore and pwmake'',
       drift_impact = ''Password quality rules the distribution chose are not applied. Every masked key reverts to libpwquality's own built-in default, so passwords are accepted against a weaker policy than the vendor file describes, and pwscore and pwmake report against that weaker policy too.''\<rparr>,
      \<lparr>admin_conf = FAILLOCK_CONF, drift_finding_id = ''pam-faillock-conf-masked-keys'', conf_consumer = ''pam_faillock'',
       drift_impact = ''Account lockout runs on pam_faillock's built-in defaults rather than the distribution's for every masked key, so the number of failures tolerated, how long a lockout lasts, or whether root is covered may all differ from what the vendor file states.''\<rparr>,
      \<lparr>admin_conf = PWHISTORY_CONF, drift_finding_id = ''pam-pwhistory-conf-masked-keys'', conf_consumer = ''pam_pwhistory'',
       drift_impact = ''Password reuse prevention runs on pam_pwhistory's built-in defaults rather than the distribution's for every masked key, so a user may be able to reuse a password the vendor file meant to forbid.''\<rparr>]"

definition keys_set_by :: "string \<Rightarrow> string list" where
  "keys_set_by content =
     filter_map (\<lambda>line. first_token line)
       (filter (\<lambda>line. line \<noteq> [] \<and> \<not> starts_with ''#'' line) (map trim (str_lines content)))"

definition masked_keys :: "string \<Rightarrow> string \<Rightarrow> string list" where
  "masked_keys admin vendor = sort (remdups (filter (\<lambda>key. key \<notin> set (keys_set_by admin)) (keys_set_by vendor)))"

definition masked_keys_finding :: "layered_conf \<Rightarrow> string \<Rightarrow> string list \<Rightarrow> finding" where
  "masked_keys_finding conf vendor keys =
     (let named = join '', '' keys; admin = admin_conf conf in
      \<lparr>finding_category = Authentication, finding_current_value = named,
       finding_description = admin @ '' masks '' @ show_radix 10 (length keys) @ '' key(s) that '' @ vendor @ '' sets: '' @ named,
       finding_explanation = ''A distribution that ships vendor configuration under /usr/etc is overridden whole-file, not per directive: once ''
         @ admin @ '' exists, every key it omits falls back to '' @ conf_consumer conf
         @ '''s built-in default rather than to the vendor's value.'',
       finding_id = drift_finding_id conf, finding_impact = drift_impact conf,
       finding_recommended_value = ''the values '' @ vendor @ '' sets for '' @ named,
       finding_remediation_steps = [''Copy '' @ named @ '' and their values from '' @ vendor @ '' into '' @ admin
         @ '', or remove from '' @ admin @ '' any key you did not mean to override''],
       finding_severity = Medium, finding_title = ''Vendor keys masked by '' @ admin, finding_compliance = [],
       finding_exception = NotConfigured, finding_exception_key = None\<rparr>)"

definition drift_of ::
  "('h, 'z) executor_scheme \<Rightarrow> 'h \<Rightarrow> (string \<times> conf_read) list \<Rightarrow> layered_conf \<Rightarrow> finding option" where
  "drift_of ex h already_read conf =
     (case vendor_path_for (admin_conf conf) of
        None \<Rightarrow> None
      | Some vendor_path \<Rightarrow>
          (case (case map_of already_read (admin_conf conf) of Some r \<Rightarrow> r | None \<Rightarrow> read_conf_classified ex h (admin_conf conf)) of
             ConfContent admin AdminLayer \<Rightarrow>
               (case read_conf_classified ex h vendor_path of
                  ConfContent vendor _ \<Rightarrow>
                    (let masked = masked_keys admin vendor in
                     if masked \<noteq> [] then Some (masked_keys_finding conf vendor_path masked) else None)
                | _ \<Rightarrow> None)
           | _ \<Rightarrow> None))"

definition layer_drift_findings ::
  "('h, 'z) executor_scheme \<Rightarrow> 'h \<Rightarrow> (string \<times> conf_read) list \<Rightarrow> finding list" where
  "layer_drift_findings ex h already_read = filter_map (drift_of ex h already_read) LAYERED_CONFS"

end
