(* ===== verification/Pam_Plugin.thy ===== *)
theory Pam_Plugin
  imports Pam_Reading
begin

text \<open>
  The scan, the apply and the preview of the PAM plugin: assess.rs, apply.rs, validate.rs and their helpers in
  mod.rs and login_defs.rs (hardener-plugins/src/pam). The stamp that ends the name of a backup, seconds since
  the epoch, is an argument. The plugin declares no reload and reports no divergence after a rollback.
\<close>

unbundle bit_operations_syntax

subsection \<open>Findings\<close>

definition unchecked_pam_directive :: "pam_directive \<Rightarrow> string \<Rightarrow> bool \<Rightarrow> unchecked_check" where
  "unchecked_pam_directive d why needs_privilege =
     \<lparr>unchecked_check_id = ''pam-'' @ directive_name d, unchecked_title = ''PAM setting: '' @ directive_name d,
      unchecked_category = Authentication, unchecked_reason = why,
      unchecked_blocker = (if needs_privilege then Privilege else Environment),
      unchecked_compliance = pam_compliance_mappings (directive_name d)\<rparr>"

definition module_not_loaded_message :: "string \<Rightarrow> string \<Rightarrow> string" where
  "module_not_loaded_message conf so_name =
     conf @ '' is written but not read: the PAM stack does not load '' @ so_name
     @ ''. The settings in it take effect only once that module is added to the stack, which this plugin does not edit''"

definition min_days_unenforceable_finding :: "pam_directive \<Rightarrow> finding" where
  "min_days_unenforceable_finding d =
     \<lparr>finding_category = Authentication, finding_current_value = ''not enforced'',
      finding_description = quoted (directive_name d)
        @ '' is not enforced: this system's shadow provides no minimum password age, so the value in /etc/login.defs reaches no account'',
      finding_explanation = directive_description d, finding_id = ''pam-'' @ directive_name d,
      finding_impact = ''New accounts are created with no minimum password age whatever /etc/login.defs says, so a user can change a password repeatedly to cycle back to an old one'',
      finding_recommended_value = secure_value d,
      finding_remediation_steps =
        [''This is a property of the distribution's shadow build, not of the configuration: the value in /etc/login.defs is already correct and is left in place'',
         ''Confirm with `chage --help`, which offers no -m/--mindays on an affected host'',
         ''Enforce password-reuse limits through pam_pwhistory instead, which this plugin also manages''],
      finding_severity = directive_severity d,
      finding_title = ''PAM setting not enforced: '' @ directive_name d,
      finding_compliance = pam_compliance_mappings (directive_name d),
      finding_exception = NotConfigured, finding_exception_key = None\<rparr>"

definition module_absent_finding :: "pam_directive \<Rightarrow> string \<Rightarrow> string \<Rightarrow> finding" where
  "module_absent_finding d so_name conf =
     \<lparr>finding_category = Authentication, finding_current_value = ''not enforced'',
      finding_description = ''PAM directive '' @ quoted (directive_name d) @ '' is not enforced: the PAM stack does not load ''
        @ so_name @ '', which is the only thing that reads '' @ conf,
      finding_explanation = directive_description d, finding_id = ''pam-'' @ directive_name d,
      finding_impact = ''Nothing on this host reads '' @ conf
        @ '', so the directive has no effect whatever its value and the host enforces nothing for it'',
      finding_recommended_value = secure_value d,
      finding_remediation_steps =
        [''Install the package providing '' @ so_name @ '' if it is missing'',
         ''Add '' @ so_name @ '' to the PAM stack (system-auth, password-auth or the common-* file this distribution uses), then re-run the scan''],
      finding_severity = directive_severity d,
      finding_title = ''PAM setting not enforced: '' @ directive_name d,
      finding_compliance = pam_compliance_mappings (directive_name d),
      finding_exception = NotConfigured, finding_exception_key = None\<rparr>"

definition insecure_pam_finding ::
  "'d::linorder calendar \<Rightarrow> 'd \<Rightarrow> plugin_config \<Rightarrow> pam_directive \<Rightarrow> string \<Rightarrow> string option \<Rightarrow> finding" where
  "insecure_pam_finding cal today config d target current =
     (let name = directive_name d; display = (case current of Some v \<Rightarrow> v | None \<Rightarrow> ''not set'') in
      \<lparr>finding_category = Authentication, finding_current_value = display,
       finding_description = ''PAM directive '' @ quoted name @ '' is currently '' @ quoted display
         @ '' but should be '' @ quoted target,
       finding_explanation = directive_description d, finding_id = ''pam-'' @ name,
       finding_impact = ''Weak authentication settings can allow easier password guessing and brute-force attacks'',
       finding_recommended_value = target,
       finding_remediation_steps = [''Set '' @ name @ '' = '' @ target @ '' in the appropriate configuration file''],
       finding_severity = directive_severity d, finding_title = ''Insecure PAM setting: '' @ name,
       finding_compliance = pam_compliance_mappings name,
       finding_exception = exception_outcome_for_value cal today config name display,
       finding_exception_key = Some name\<rparr>)"

subsection \<open>Scan\<close>

text \<open>One directive of the loop: the findings and the unchecked entries it adds.\<close>

definition scan_pam_directive ::
  "'d::linorder calendar \<Rightarrow> 'd \<Rightarrow> ('h, 'z) executor_scheme \<Rightarrow> plugin_config \<Rightarrow> (string \<times> module_presence) list \<Rightarrow>
   conf_read \<Rightarrow> conf_read \<Rightarrow> (string \<times> conf_read) list \<Rightarrow> 'h \<Rightarrow> pam_directive \<Rightarrow>
   (finding list \<times> unchecked_check list) \<times> 'h" where
  "scan_pam_directive cal today ex config presence pwquality login_defs already_read h d =
     (if pam_config_file d = PamAuth then (([], []), h)
      else case presence_for presence d of
        NotInStack so_name \<Rightarrow>
          (([module_absent_finding d so_name (case conf_path (pam_config_file d) of Some p \<Rightarrow> p | None \<Rightarrow> [])], []), h)
      | Indeterminate why needs_privilege \<Rightarrow> (([], [unchecked_pam_directive d why needs_privilege]), h)
      | _ \<Rightarrow>
          (case (if directive_name d = MIN_DAYS_DIRECTIVE then min_days_enforceable ex h else (None, h)) of
             (enforceable, h) \<Rightarrow>
               if enforceable = Some False then (([min_days_unenforceable_finding d], []), h)
               else
                 (let target = clamped_baseline d config;
                      judge = (\<lambda>current. if \<not> pam_violates d target current then ([], [])
                                else ([insecure_pam_finding cal today config d target current], []))
                  in case observed_pam_value ex h d pwquality login_defs already_read of
                       ObservedUnreadable path denied \<Rightarrow>
                         (([], [unchecked_pam_directive d (unreadable_reason path denied) denied]), h)
                     | ObservedValue v \<Rightarrow> (judge (Some v), h)
                     | ObservedNotSet \<Rightarrow> (judge None, h))))"

fun scan_pam_directives ::
  "'d::linorder calendar \<Rightarrow> 'd \<Rightarrow> ('h, 'z) executor_scheme \<Rightarrow> plugin_config \<Rightarrow> (string \<times> module_presence) list \<Rightarrow>
   conf_read \<Rightarrow> conf_read \<Rightarrow> (string \<times> conf_read) list \<Rightarrow> 'h \<Rightarrow> pam_directive list \<Rightarrow>
   (finding list \<times> unchecked_check list) \<times> 'h" where
  "scan_pam_directives cal today ex config presence pwquality login_defs already_read h [] = (([], []), h)"
| "scan_pam_directives cal today ex config presence pwquality login_defs already_read h (d # ds) =
     (case scan_pam_directive cal today ex config presence pwquality login_defs already_read h d of
        ((fs, us), h) \<Rightarrow>
          (case scan_pam_directives cal today ex config presence pwquality login_defs already_read h ds of
             ((fs', us'), h) \<Rightarrow> ((fs @ fs', us @ us'), h)))"

text \<open>The four files the drift table names, read once.\<close>

definition pam_confs :: "('h, 'z) executor_scheme \<Rightarrow> 'h \<Rightarrow> (string \<times> conf_read) list" where
  "pam_confs ex h = map (\<lambda>path. (path, read_conf_classified ex h path)) [PWQUALITY_CONF, LOGIN_DEFS, FAILLOCK_CONF, PWHISTORY_CONF]"

definition pam_scan ::
  "'d::linorder calendar \<Rightarrow> 'd \<Rightarrow> nat \<Rightarrow> ('h, 'z) executor_scheme \<Rightarrow> 'h \<Rightarrow> plugin_config \<Rightarrow> scan_result \<times> 'h" where
  "pam_scan cal today duration ex h config =
     (let already_read = pam_confs ex h in
      case scan_pam_directives cal today ex config (module_presence_by_file ex h)
             (read_conf_classified ex h PWQUALITY_CONF) (read_conf_classified ex h LOGIN_DEFS) already_read h PAM_DIRECTIVES of
        ((fs, us), h') \<Rightarrow>
          (\<lparr>scan_plugin_id = PAM_PLUGIN_ID, scan_success = True,
            scan_findings = layer_drift_findings ex h already_read @ fs, scan_unchecked = us,
            scan_duration_us = duration, scan_error = None, scan_skipped = None\<rparr>, h'))"

subsection \<open>Backing up and writing\<close>

definition PAM_BACKED_UP_FILES :: "string list" where
  "PAM_BACKED_UP_FILES = [PWQUALITY_CONF, FAILLOCK_CONF, PWHISTORY_CONF, LOGIN_DEFS]"

definition pam_backup_prefix :: "string \<Rightarrow> string" where "pam_backup_prefix path = path @ ''.backup-''"

definition create_config_backup ::
  "('h, 'z) executor_scheme \<Rightarrow> 'h \<Rightarrow> string \<Rightarrow> string \<Rightarrow> (hardening_error, string) result \<times> 'h" where
  "create_config_backup ex h stamp path =
     (let backup = pam_backup_prefix path @ stamp in
      case execute_command ex h ''cp'' [''-p'', ''--no-dereference'', path, backup] of
        (Inl e, h) \<Rightarrow> (Inl (PluginError (host_error_text e)), h)
      | (Inr out, h) \<Rightarrow>
          if \<not> command_success out then
            (Inl (PluginError (''Failed to back up '' @ path @ '' to '' @ backup @ '': cp exited '' @ show_int (exit_code out)
               @ '' ('' @ trim (stderr out) @ '')'')), h)
          else (Inr backup, prune_timestamped_backups ex h (pam_backup_prefix path) BACKUPS_KEPT))"

definition apply_create_mode ::
  "('h, 'z) executor_scheme \<Rightarrow> 'h \<Rightarrow> string \<Rightarrow> nat \<Rightarrow> change list \<times> 'h" where
  "apply_create_mode ex h path m =
     (let octal_mode = show_radix 8 m;
          failed = (\<lambda>why. [change_of (''Could not set mode '' @ octal_mode @ '' on '' @ path) ConfigFile (Some why)])
      in case execute_command ex h ''chmod'' [octal_mode, path] of
           (Inr out, h) \<Rightarrow> (if command_success out then [] else failed (trim (stderr out)), h)
         | (Inl e, h) \<Rightarrow> (failed (host_error_text e), h))"

definition backup_before ::
  "('h, 'z) executor_scheme \<Rightarrow> 'h \<Rightarrow> string \<Rightarrow> string \<Rightarrow> string \<Rightarrow> (change, change list) result \<times> 'h" where
  "backup_before ex h stamp path label =
     (case create_config_backup ex h stamp path of
        (Inr backup, h) \<Rightarrow> (Inr [change_of (''Created backup: '' @ backup) ConfigFile None], h)
      | (Inl e, h) \<Rightarrow> (Inl (change_of (''Failed to backup '' @ label) ConfigFile (Some (error_text e))), h))"

definition directory_before ::
  "('h, 'z) executor_scheme \<Rightarrow> 'h \<Rightarrow> string \<Rightarrow> string \<Rightarrow> (change, change list) result \<times> 'h" where
  "directory_before ex h path label =
     (case parent_path path of
        None \<Rightarrow> (Inr [], h)
      | Some dir \<Rightarrow>
          (case ensure_plugin_directory ex h dir of
             (Some why, h) \<Rightarrow>
               (Inl (change_of (''Failed to create the directory holding '' @ label) ConfigFile (Some why)), h)
           | (None, h) \<Rightarrow> (Inr [], h)))"

definition backup_and_write ::
  "('h, 'z) executor_scheme \<Rightarrow> 'h \<Rightarrow> string \<Rightarrow> string \<Rightarrow> string \<Rightarrow> string \<Rightarrow> nat option \<Rightarrow> (bool \<times> change list) \<times> 'h" where
  "backup_and_write ex h stamp path label content create_mode =
     (let creating = (path_exists ex h path = Inr False) in
      case (if creating then directory_before ex h path label else backup_before ex h stamp path label) of
        (Inl failed, h) \<Rightarrow> ((False, [failed]), h)
      | (Inr earlier, h) \<Rightarrow>
          (case write_file ex h path content of
             (Inr _, h) \<Rightarrow>
               (case (if creating then create_mode else None) of
                  Some m \<Rightarrow> (case apply_create_mode ex h path m of (cs, h) \<Rightarrow> ((True, earlier @ cs), h))
                | None \<Rightarrow> ((True, earlier), h))
           | (Inl e, h) \<Rightarrow>
               ((False, earlier @ [change_of (''Failed to write '' @ label) ConfigFile (Some (host_error_text e))]), h)))"

definition write_changed_conf ::
  "('h, 'z) executor_scheme \<Rightarrow> 'h \<Rightarrow> string \<Rightarrow> string \<Rightarrow> string \<Rightarrow> string \<Rightarrow> nat option \<Rightarrow> (bool \<times> change list) \<times> 'h" where
  "write_changed_conf ex h stamp path label content create_mode =
     (case backup_and_write ex h stamp path label content create_mode of
        ((True, cs), h) \<Rightarrow> ((True, cs @ [change_of (''Wrote modified '' @ label) ConfigFile None]), h)
      | ((False, cs), h) \<Rightarrow> ((False, cs), h))"

definition FALLBACK_CREATE_MODE :: nat where "FALLBACK_CREATE_MODE = 420"

definition mode_for_copy_of :: "('h, 'z) executor_scheme \<Rightarrow> 'h \<Rightarrow> string \<Rightarrow> nat" where
  "mode_for_copy_of ex h vendor =
     (case metadata_of ex h vendor of Inr m \<Rightarrow> mode m AND 4095 | Inl _ \<Rightarrow> FALLBACK_CREATE_MODE)"

record conf_write =
  write_allowed :: bool
  create_mode :: "nat option"

text \<open>The permission to write and the change it records; the run is marked unsuccessful exactly by a refusal.\<close>

definition conf_is_writable ::
  "('h, 'z) executor_scheme \<Rightarrow> 'h \<Rightarrow> string \<Rightarrow> conf_read \<Rightarrow> conf_write \<times> change list" where
  "conf_is_writable ex h path r =
     (let allowed_write = \<lparr>write_allowed = True, create_mode = None\<rparr>;
          refused = \<lparr>write_allowed = False, create_mode = None\<rparr>
      in case r of
           ConfContent _ AdminLayer \<Rightarrow> (allowed_write, [])
         | ConfContent _ VendorLayer \<Rightarrow>
             (let vendor = (case vendor_path_for path of Some v \<Rightarrow> v | None \<Rightarrow> path) in
              (\<lparr>write_allowed = True, create_mode = Some (mode_for_copy_of ex h vendor)\<rparr>,
               [change_of (''Creating '' @ path @ '' from '' @ vendor
                  @ '' so the settings it makes survive: this host keeps vendor configuration in '' @ vendor
                  @ '', and '' @ path @ '' overrides it as a whole file rather than per directive'') ConfigFile None]))
         | ConfAbsent \<Rightarrow> (allowed_write, [])
         | ConfUnreadable failed why _ \<Rightarrow>
             (refused,
              [if failed = path then
                 change_of (''Refused to rewrite '' @ path
                   @ '': its current contents could not be read, and rewriting it would discard them'') ConfigFile (Some why)
               else
                 change_of (''Refused to create '' @ path @ '': whether this host keeps vendor configuration in '' @ failed
                   @ '' could not be checked, and creating '' @ path @ '' would silence it if it is there'') ConfigFile (Some why)]))"

definition content_or_empty :: "conf_read \<Rightarrow> string" where
  "content_or_empty r = (case r of ConfContent content _ \<Rightarrow> content | _ \<Rightarrow> [])"

subsection \<open>Apply\<close>

definition lines_with_text :: "string \<Rightarrow> string list" where
  "lines_with_text content = filter (\<lambda>l. trim l \<noteq> []) (str_lines content)"

definition apply_exact_directive ::
  "string \<Rightarrow> string \<Rightarrow> string \<Rightarrow> config_format \<Rightarrow> string \<Rightarrow> string \<times> bool \<times> change" where
  "apply_exact_directive content name target format label =
     (let updated = set_config_directive content name target format True Remove in
      if parse_config_value content name Auto True = Some target \<and> lines_with_text updated = lines_with_text content then
        (content, False, change_of (name @ '' already set to '' @ target @ '' in '' @ label) Skipped None)
      else (updated, True, change_of (''Set '' @ name @ '' = '' @ target @ '' in '' @ label) ConfigFile None))"

definition PAM_INLINE_OVERRIDE_MARKER :: string where
  "PAM_INLINE_OVERRIDE_MARKER = ''inline pam.d override present''"

text \<open>The \<open>SecurityConf\<close> arm: whether the run is still a success, and the changes.\<close>

definition apply_security_conf ::
  "('h, 'z) executor_scheme \<Rightarrow> 'h \<Rightarrow> string \<Rightarrow> pam_directive \<Rightarrow> string \<Rightarrow> string \<Rightarrow> pam_observed \<Rightarrow> (bool \<times> change list) \<times> 'h" where
  "apply_security_conf ex h stamp d path target observed =
     (let name = directive_name d in
      if \<not> pam_violates d target (Some (value_or_not_set observed)) then
        ((True, [change_of (name @ '' already meets threshold in '' @ path) Skipped None]), h)
      else case read_pamd_inline ex h path name of
        InlineValue v \<Rightarrow>
          ((False, [change_of (name @ ''='' @ v @ '' is set inline in the PAM stack and overrides '' @ path
              @ ''; edit the PAM stack manually to set '' @ name @ '' to '' @ target) ConfigFile
              (Some PAM_INLINE_OVERRIDE_MARKER)]), h)
      | InlineUnreadable stack denied \<Rightarrow>
          ((False, [change_of (stack @ '' could not be read and may set '' @ name @ '' inline, which would override ''
              @ path @ ''; ''
              @ (if denied then ''re-run with sudo, or edit the PAM stack manually''
                 else ''repair the file, or edit the PAM stack manually'')
              @ '' to set '' @ name @ '' to '' @ target) ConfigFile (Some (''PAM stack '' @ stack @ '' unreadable''))]), h)
      | InlineNotSet \<Rightarrow>
          (let r = read_conf_classified ex h path in
           case conf_is_writable ex h path r of
             (permission, cs) \<Rightarrow>
               if \<not> write_allowed permission then ((False, cs), h)
               else
                 (let updated = set_config_directive (content_or_empty r) name target
                        (pam_config_format (pam_config_file d)) True Remove
                  in case backup_and_write ex h stamp path path updated (create_mode permission) of
                       ((True, bs), h) \<Rightarrow>
                         ((True, cs @ bs @ [change_of (''Set '' @ name @ '' = '' @ target @ '' in '' @ path) ConfigFile None]), h)
                     | ((False, bs), h) \<Rightarrow> ((False, cs @ bs), h))))"

text \<open>The buffers of the two files edited in memory, with the changes recorded so far.\<close>

record pam_progress =
  pwquality_content :: string
  pwquality_changed :: bool
  login_defs_content :: string
  login_defs_changed :: bool
  pam_changes :: "change list"
  pam_success :: bool

definition pam_clamp :: "pam_directive \<Rightarrow> string \<Rightarrow> string \<Rightarrow> string" where
  "pam_clamp d target observed = (case clamp_target (compare d) target (Some observed) of Some t \<Rightarrow> t | None \<Rightarrow> [])"

definition apply_pam_directive ::
  "'d::linorder calendar \<Rightarrow> 'd \<Rightarrow> string \<Rightarrow> ('h, 'z) executor_scheme \<Rightarrow> plugin_config \<Rightarrow> bool \<Rightarrow> bool \<Rightarrow>
   pam_progress \<Rightarrow> 'h \<Rightarrow> pam_directive \<Rightarrow> pam_observed \<Rightarrow> pam_progress \<times> 'h" where
  "apply_pam_directive cal today stamp ex config pwquality_ok login_defs_ok acc h d observed =
     (let name = directive_name d; record_change = (\<lambda>acc c. acc\<lparr>pam_changes := pam_changes acc @ [c]\<rparr>) in
      case matching_exception cal today config name (value_or_not_set observed) of
        Some x \<Rightarrow> (record_change acc (change_of (name @ '': skipped (exception: '' @ reason x @ '')'') Skipped None), h)
      | None \<Rightarrow>
          (let target = clamped_baseline d config;
               target_value = pam_clamp d target (value_or_not_set observed);
               format = pam_config_format (pam_config_file d)
           in case pam_config_file d of
                PwQuality \<Rightarrow>
                  if \<not> pwquality_ok then (acc, h)
                  else (case apply_exact_directive (pwquality_content acc) name target_value format ''pwquality.conf'' of
                    (content, changed, c) \<Rightarrow>
                      (record_change (acc\<lparr>pwquality_content := content, pwquality_changed := pwquality_changed acc \<or> changed\<rparr>) c, h))
              | LoginDefs \<Rightarrow>
                  if \<not> login_defs_ok then (acc, h)
                  else (case apply_exact_directive (login_defs_content acc) name target_value format ''login.defs'' of
                    (content, changed, c) \<Rightarrow>
                      (record_change (acc\<lparr>login_defs_content := content, login_defs_changed := login_defs_changed acc \<or> changed\<rparr>) c, h))
              | PamAuth \<Rightarrow> (acc, h)
              | SecurityConf path \<Rightarrow>
                  (case apply_security_conf ex h stamp d path target observed of
                     ((ok, cs), h) \<Rightarrow> (acc\<lparr>pam_changes := pam_changes acc @ cs, pam_success := pam_success acc \<and> ok\<rparr>, h))))"

fun apply_pam_directives ::
  "'d::linorder calendar \<Rightarrow> 'd \<Rightarrow> string \<Rightarrow> ('h, 'z) executor_scheme \<Rightarrow> plugin_config \<Rightarrow> bool \<Rightarrow> bool \<Rightarrow>
   pam_progress \<Rightarrow> 'h \<Rightarrow> (pam_directive \<times> pam_observed) list \<Rightarrow> pam_progress \<times> 'h" where
  "apply_pam_directives cal today stamp ex config pwquality_ok login_defs_ok acc h [] = (acc, h)"
| "apply_pam_directives cal today stamp ex config pwquality_ok login_defs_ok acc h ((d, observed) # ds) =
     (case apply_pam_directive cal today stamp ex config pwquality_ok login_defs_ok acc h d observed of
        (acc, h) \<Rightarrow> apply_pam_directives cal today stamp ex config pwquality_ok login_defs_ok acc h ds)"

definition modules_not_loaded :: "('h, 'z) executor_scheme \<Rightarrow> 'h \<Rightarrow> (string \<times> string) list" where
  "modules_not_loaded ex h =
     filter_map (\<lambda>(path, found). case found of NotInStack so_name \<Rightarrow> Some (path, so_name) | _ \<Rightarrow> None)
       (module_presence_by_file ex h)"

definition write_buffer ::
  "('h, 'z) executor_scheme \<Rightarrow> 'h \<Rightarrow> string \<Rightarrow> string \<Rightarrow> string \<Rightarrow> string \<Rightarrow> bool \<Rightarrow> conf_write \<Rightarrow> (bool \<times> change list) \<times> 'h" where
  "write_buffer ex h stamp path label content changed permission =
     (if changed \<and> write_allowed permission then
        write_changed_conf ex h stamp path label content (create_mode permission)
      else ((True, []), h))"

definition pam_commit ::
  "string \<Rightarrow> ('h, 'z) executor_scheme \<Rightarrow> conf_write \<Rightarrow> conf_write \<Rightarrow> pam_progress \<Rightarrow> 'h \<Rightarrow> (bool \<times> change list) \<times> 'h" where
  "pam_commit stamp ex pwquality_write login_defs_write acc h =
     (case write_buffer ex h stamp PWQUALITY_CONF ''pwquality.conf'' (pwquality_content acc) (pwquality_changed acc) pwquality_write of
        ((ok1, cs1), h) \<Rightarrow>
          (case write_buffer ex h stamp LOGIN_DEFS ''login.defs'' (login_defs_content acc) (login_defs_changed acc) login_defs_write of
             ((ok2, cs2), h) \<Rightarrow> ((pam_success acc \<and> ok1 \<and> ok2, pam_changes acc @ cs1 @ cs2), h)))"

text \<open>What follows the checkpoint.\<close>

definition pam_harden ::
  "'d::linorder calendar \<Rightarrow> 'd \<Rightarrow> string \<Rightarrow> ('h, 'z) executor_scheme \<Rightarrow> plugin_config \<Rightarrow> change list \<Rightarrow> 'h \<Rightarrow>
   (bool \<times> change list) \<times> 'h" where
  "pam_harden cal today stamp ex config changes h =
     (let pwquality = read_conf_classified ex h PWQUALITY_CONF; login_defs = read_conf_classified ex h LOGIN_DEFS;
          (pwquality_write, cs1) = conf_is_writable ex h PWQUALITY_CONF pwquality;
          (login_defs_write, cs2) = conf_is_writable ex h LOGIN_DEFS login_defs;
          missing = modules_not_loaded ex h;
          acc = \<lparr>pwquality_content = content_or_empty pwquality, pwquality_changed = False,
            login_defs_content = content_or_empty login_defs, login_defs_changed = False,
            pam_changes = changes @ cs1 @ cs2 @ map (\<lambda>(path, so_name).
              change_of (module_not_loaded_message path so_name) ConfigFile
                (Some (so_name @ '' is not loaded by the PAM stack''))) missing,
            pam_success = (write_allowed pwquality_write \<and> write_allowed login_defs_write \<and> missing = [])\<rparr>;
          observed = map (\<lambda>d. (d, observed_pam_value ex h d pwquality login_defs [])) PAM_DIRECTIVES
      in case apply_pam_directives cal today stamp ex config (write_allowed pwquality_write) (write_allowed login_defs_write)
                acc h observed of
           (acc, h) \<Rightarrow> pam_commit stamp ex pwquality_write login_defs_write acc h)"

definition pam_apply ::
  "'d::linorder calendar \<Rightarrow> 'd \<Rightarrow> string \<Rightarrow> 'h apply_context \<Rightarrow> 'h \<Rightarrow> database \<Rightarrow> plugin_config \<Rightarrow>
   ((hardening_error, apply_result) result \<times> 'h \<times> database) option" where
  "pam_apply cal today stamp ctx h db config =
     (let ex = ctx_executor ctx;
          h = foldl (\<lambda>h path. prune_timestamped_backups ex h (pam_backup_prefix path) BACKUPS_KEPT) h PAM_BACKED_UP_FILES
      in case create_checkpoint_for_apply ctx h db ''pam-hardening-pre-apply''
                [PWQUALITY_CONF, LOGIN_DEFS, ''/etc/pam.d'', FAILLOCK_CONF, PWHISTORY_CONF] of
           None \<Rightarrow> None
         | Some (Inl e, h, db) \<Rightarrow> Some (Inl e, h, db)
         | Some (Inr cid, h, db) \<Rightarrow>
             (case pam_harden cal today stamp ex config (case checkpoint_change cid of Some c \<Rightarrow> [c] | None \<Rightarrow> []) h of
                ((ok, changes), h) \<Rightarrow>
                  Some (Inr \<lparr>apply_plugin_id = PAM_PLUGIN_ID, apply_success = ok, apply_changes = changes,
                    apply_checkpoint_id = cid, apply_error = None\<rparr>, h, db)))"

subsection \<open>Preview\<close>

definition pam_issue :: "string option \<Rightarrow> string \<Rightarrow> severity \<Rightarrow> validation_issue" where
  "pam_issue key message sev =
     \<lparr>validation_issue_severity = sev, validation_issue_message = message, validation_issue_config_key = key\<rparr>"

definition unreadable_issue :: "string \<Rightarrow> string \<Rightarrow> string \<Rightarrow> bool \<Rightarrow> validation_issue" where
  "unreadable_issue name target path denied =
     pam_issue None (name @ '' will not be set to '' @ target @ '': '' @ path @ '' could not be read (''
       @ current_value_caveat denied @ '')'') High"

record pam_preview =
  preview_issues :: "validation_issue list"
  preview_estimates :: "string list"
  preview_compliant :: nat
  preview_exceptions :: "string list"

definition preview_value :: "pam_directive \<Rightarrow> string \<Rightarrow> pam_observed \<Rightarrow> pam_preview \<Rightarrow> pam_preview" where
  "preview_value d target observed acc =
     (let name = directive_name d in
      case observed of
        ObservedValue v \<Rightarrow>
          if \<not> pam_violates d target (Some v) then acc\<lparr>preview_compliant := Suc (preview_compliant acc)\<rparr>
          else acc\<lparr>preview_estimates := preview_estimates acc @ [name @ '' will change: '' @ v @ '' -> '' @ target]\<rparr>
      | ObservedNotSet \<Rightarrow>
          acc\<lparr>preview_estimates := preview_estimates acc @ [''Set '' @ name @ '' = '' @ target @ '' (currently not set)'']\<rparr>
      | ObservedUnreadable path denied \<Rightarrow>
          acc\<lparr>preview_issues := preview_issues acc @ [unreadable_issue name target path denied]\<rparr>)"

text \<open>For the two files edited in memory an unreadable one is named by the layer that failed.\<close>

definition preview_pam_directive ::
  "'d::linorder calendar \<Rightarrow> 'd \<Rightarrow> ('h, 'z) executor_scheme \<Rightarrow> 'h \<Rightarrow> plugin_config \<Rightarrow> conf_read \<Rightarrow> conf_read \<Rightarrow>
   (string \<times> conf_read) list \<Rightarrow> pam_preview \<Rightarrow> pam_directive \<Rightarrow> pam_preview" where
  "preview_pam_directive cal today ex h config pwquality login_defs already_read acc d =
     (if pam_config_file d = PamAuth then acc
      else
        (let name = directive_name d; observed = observed_pam_value ex h d pwquality login_defs already_read;
             target = clamped_baseline d config
         in case matching_exception cal today config name (value_or_not_set observed) of
              Some x \<Rightarrow> acc\<lparr>preview_exceptions := preview_exceptions acc
                @ [exception_preview_line name (value_or_not_set observed) (reason x)]\<rparr>
            | None \<Rightarrow>
                (case pam_config_file d of
                   SecurityConf _ \<Rightarrow> preview_value d target observed acc
                 | conf \<Rightarrow>
                     (case (if conf = PwQuality then pwquality else login_defs) of
                        ConfUnreadable path _ denied \<Rightarrow>
                          acc\<lparr>preview_issues := preview_issues acc @ [unreadable_issue name target path denied]\<rparr>
                      | _ \<Rightarrow> preview_value d target observed acc))))"

definition pam_validate ::
  "'d::linorder calendar \<Rightarrow> 'd \<Rightarrow> ('h, 'z) executor_scheme \<Rightarrow> 'h \<Rightarrow> plugin_config \<Rightarrow> validation_report" where
  "pam_validate cal today ex h config =
     (let already_read = pam_confs ex h; presence = module_presence_by_file ex h;
          pwquality = read_conf_classified ex h PWQUALITY_CONF; login_defs = read_conf_classified ex h LOGIN_DEFS;
          issues = map (\<lambda>(path, so_name). pam_issue None (module_not_loaded_message path so_name) High) (modules_not_loaded ex h)
            @ map (\<lambda>f. pam_issue None (finding_description f
                 @ ''; apply will not import them, so restoring them is a manual step'') (finding_severity f))
                (layer_drift_findings ex h already_read)
            @ (if dictcheck_locks_out_password_changes ex h presence pwquality
               then [pam_issue (Some ''dictcheck'') dictcheck_lockout_message Medium] else []);
          p = foldl (preview_pam_directive cal today ex h config pwquality login_defs already_read)
            \<lparr>preview_issues = issues, preview_estimates = [], preview_compliant = 0, preview_exceptions = []\<rparr> PAM_DIRECTIVES
      in \<lparr>validation_report_plugin_id = PAM_PLUGIN_ID, validation_report_is_valid = (preview_issues p = []),
          validation_report_issues = preview_issues p, validation_report_estimated_changes = preview_estimates p,
          validation_report_compliant_count = preview_compliant p, validation_report_exceptions = preview_exceptions p\<rparr>)"

end
