(* ===== verification/Pam_Safety.thy ===== *)
theory Pam_Safety
  imports Pam_Plugin Apply_Effects Whole_File Compliance_Report
begin

text \<open>
  What a PAM apply may do to a host, what the files it writes say, and what its scan accounts for.
\<close>

subsection \<open>The table\<close>

lemma pam_sound: "d \<in> set PAM_DIRECTIVES \<Longrightarrow> sound_entry (secure_directive.truncate d)"
  using shipped_placeable by (auto simp: shipped_directives_def list_all_iff)

lemma pam_files:
  "d \<in> set PAM_DIRECTIVES \<Longrightarrow> pam_config_file d \<in> {PwQuality, LoginDefs, SecurityConf FAILLOCK_CONF, SecurityConf PWHISTORY_CONF}"
  by (auto simp: PAM_DIRECTIVES_def pam_directive_of_def)

lemma pam_paths_differ: "distinct PAM_BACKED_UP_FILES"
  by code_simp

lemma backed_up [simp]:
  "PWQUALITY_CONF \<in> set PAM_BACKED_UP_FILES" "LOGIN_DEFS \<in> set PAM_BACKED_UP_FILES"
  "FAILLOCK_CONF \<in> set PAM_BACKED_UP_FILES" "PWHISTORY_CONF \<in> set PAM_BACKED_UP_FILES"
  by (simp_all add: PAM_BACKED_UP_FILES_def)

subsection \<open>Effects\<close>

text \<open>A backup of one of the four files, the removal of some of its old backups, its directory, its mode.\<close>

definition pam_command :: "string \<times> string list \<Rightarrow> bool" where
  "pam_command c =
     (\<exists>path\<in>set PAM_BACKED_UP_FILES.
        (\<exists>stamp. c = (''cp'', [''-p'', ''--no-dereference'', path, pam_backup_prefix path @ stamp]))
        \<or> (\<exists>victims. c = (''rm'', ''-f'' # ''--'' # victims) \<and> (\<forall>v\<in>set victims. starts_with (pam_backup_prefix path) v))
        \<or> (\<exists>dir. parent_path path = Some dir \<and> c = (''mkdir'', [''-p'', dir]))
        \<or> (\<exists>m. c = (''chmod'', [show_radix 8 m, path])))"

lemma pam_commandI:
  assumes "path \<in> set PAM_BACKED_UP_FILES"
  shows "pam_command (''cp'', [''-p'', ''--no-dereference'', path, pam_backup_prefix path @ stamp])"
    and "\<forall>v\<in>set victims. starts_with (pam_backup_prefix path) v \<Longrightarrow> pam_command (''rm'', ''-f'' # ''--'' # victims)"
    and "parent_path path = Some dir \<Longrightarrow> pam_command (''mkdir'', [''-p'', dir])"
    and "pam_command (''chmod'', [show_radix 8 m, path])"
  unfolding pam_command_def by (rule bexI[OF _ assms], blast)+

context recorded_effects
begin

lemma prune_all_confined:
  "set paths \<subseteq> set PAM_BACKED_UP_FILES \<Longrightarrow>
     confined W pam_command h (foldl (\<lambda>h path. prune_timestamped_backups ex h (pam_backup_prefix path) BACKUPS_KEPT) h paths)"
proof (induction paths arbitrary: h)
  case (Cons path paths)
  have "confined W pam_command h (prune_timestamped_backups ex h (pam_backup_prefix path) BACKUPS_KEPT)"
    by (rule prune_prefix_confined, rule pam_commandI(2)) (use Cons.prems in auto)
  with Cons show ?case by (auto intro: confined_trans)
qed simp

lemma backup_confined:
  assumes path: "path \<in> set PAM_BACKED_UP_FILES" and run: "create_config_backup ex h stamp path = (r, h')"
  shows "confined W pam_command h h'"
proof -
  obtain out h1 where c: "execute_command ex h ''cp'' [''-p'', ''--no-dereference'', path, pam_backup_prefix path @ stamp] = (out, h1)"
    by fastforce
  have 1: "confined W pam_command h h1" by (rule run_confined[where R = pam_command, OF c pam_commandI(1)[OF path]])
  have "confined W pam_command h1 (prune_timestamped_backups ex h1 (pam_backup_prefix path) BACKUPS_KEPT)"
    by (rule prune_prefix_confined, rule pam_commandI(2)[OF path])
  moreover have "h' = h1 \<or> h' = prune_timestamped_backups ex h1 (pam_backup_prefix path) BACKUPS_KEPT"
    using run by (auto simp: create_config_backup_def c Let_def split: sum.splits if_splits)
  ultimately show ?thesis using 1 confined_trans[OF 1] by blast
qed

lemma create_mode_confined:
  "path \<in> set PAM_BACKED_UP_FILES \<Longrightarrow> apply_create_mode ex h path m = (cs, h') \<Longrightarrow> confined W pam_command h h'"
  by (auto simp: apply_create_mode_def Let_def split: prod.splits sum.splits intro: run_confined pam_commandI(4))

lemma backup_before_confined:
  "path \<in> set PAM_BACKED_UP_FILES \<Longrightarrow> backup_before ex h stamp path label = (r, h') \<Longrightarrow> confined W pam_command h h'"
  by (auto simp: backup_before_def split: prod.splits sum.splits intro: backup_confined)

lemma directory_before_confined:
  "path \<in> set PAM_BACKED_UP_FILES \<Longrightarrow> directory_before ex h path label = (r, h') \<Longrightarrow> confined W pam_command h h'"
  by (auto simp: directory_before_def split: prod.splits option.splits
      intro: ensure_plugin_directory_confined[where R = pam_command] pam_commandI(3))

lemma backup_and_write_confined:
  assumes path: "path \<in> set PAM_BACKED_UP_FILES"
    and run: "backup_and_write ex h stamp path label content m = (r, h')" and W: "W (path, content)"
  shows "confined W pam_command h h'"
proof -
  let ?creating = "path_exists ex h path = Inr False"
  obtain b h1 where b: "(if ?creating then directory_before ex h path label else backup_before ex h stamp path label) = (b, h1)"
    by fastforce
  have 1: "confined W pam_command h h1"
    using b backup_before_confined[OF path] directory_before_confined[OF path] by (auto split: if_splits)
  obtain w h2 where w: "write_file ex h1 path content = (w, h2)" by fastforce
  have 2: "confined W pam_command h1 h2" by (rule write_confined[where W = W, OF w W])
  have "h' \<in> {h1, h2} \<or> (\<exists>m cs. apply_create_mode ex h2 path m = (cs, h'))"
    using run b w by (auto simp: backup_and_write_def Let_def split: sum.splits option.splits prod.splits)
  then show ?thesis
    using 1 2 create_mode_confined[OF path, of h2 _ _ h' W] confined_trans[OF 1 2] confined_trans[OF confined_trans[OF 1 2]]
    by blast
qed

end

subsection \<open>Targets\<close>

definition pam_goal :: "plugin_config \<Rightarrow> pam_directive \<Rightarrow> pam_observed \<Rightarrow> string" where
  "pam_goal config d observed = pam_clamp d (clamped_baseline d config) (value_or_not_set observed)"

lemma pam_goal_placed:
  assumes "d \<in> set PAM_DIRECTIVES"
  obtains n where "place (compare d) (pam_goal config d observed) = Some (n, pam_goal config d observed)"
    "violated_by (compare d) (clamped_baseline d config) (Some (pam_goal config d observed)) = Some False"
    "\<not> pam_violates d (value_or_not_set observed) (Some (pam_goal config d observed))"
proof -
  let ?e = "secure_directive.truncate d" and ?v = "value_or_not_set observed"
  have e: "compare ?e = compare d" "directive_name ?e = directive_name d" "secure_value ?e = secure_value d"
    by (simp_all add: secure_directive.defs)
  obtain t n where t: "resolved_target (compare d) config (directive_name d) (secure_value d) = Some t"
    "place (compare d) t = Some (n, t)"
    using resolved_target_placed[OF pam_sound[OF assms], of config] unfolding e by metis
  then have c: "clamped_baseline d config = t" by (simp add: clamped_baseline_def)
  have "wf_strictness (compare d)" using pam_sound[OF assms] e by simp
  from clamp_target_placed[OF this t(2), of "Some ?v"] obtain g m where
    g: "clamp_target (compare d) t (Some ?v) = Some g" "place (compare d) g = Some (m, g)" "n \<le> m"
      "\<And>v k w. Some ?v = Some v \<Longrightarrow> place (compare d) v = Some (k, w) \<Longrightarrow> k \<le> m" by metis
  then have "pam_goal config d observed = g" by (simp add: pam_goal_def pam_clamp_def c)
  with g t(2) c show thesis
    by (intro that[of m]) (auto simp: violated_by_def pam_violates_def split: option.splits dest: g(4)[OF refl])
qed

lemma pam_goal_valid: "d \<in> set PAM_DIRECTIVES \<Longrightarrow> valid_value (pam_goal config d observed)"
proof -
  assume d: "d \<in> set PAM_DIRECTIVES"
  obtain n where n: "place (compare d) (pam_goal config d observed) = Some (n, pam_goal config d observed)"
    using d by (rule pam_goal_placed)
  have "compare d \<in> {AtLeast, AtMost, NonZeroAtMost}"
    using d by (auto simp: PAM_DIRECTIVES_def pam_directive_of_def)
  with n have "\<exists>i. show_int i = pam_goal config d observed" by (auto split: if_splits)
  then show ?thesis by (metis show_int_valid)
qed

lemma pam_names: "list_all (\<lambda>d. valid_key (directive_name d)) PAM_DIRECTIVES"
  "distinct (map (\<lambda>d. map ascii_lower (directive_name d)) PAM_DIRECTIVES)"
  by code_simp+

lemma pam_key: "d \<in> set PAM_DIRECTIVES \<Longrightarrow> valid_key (directive_name d)"
  using pam_names(1) by (simp add: list_all_iff)

lemma one_threshold_per_file:
  assumes "d \<in> set PAM_DIRECTIVES" "e \<in> set PAM_DIRECTIVES" "pam_config_file d = SecurityConf path"
    and "conf_path (pam_config_file e) = Some path"
  shows "e = d"
proof -
  have "list_all (\<lambda>d. case pam_config_file d of
      SecurityConf path \<Rightarrow> list_all (\<lambda>e. conf_path (pam_config_file e) = Some path \<longrightarrow> e = d) PAM_DIRECTIVES
    | _ \<Rightarrow> True) PAM_DIRECTIVES" by code_simp
  then show ?thesis using assms unfolding list_all_iff by fastforce
qed

subsection \<open>The buffers\<close>

abbreviation covered ::
  "'d::linorder calendar \<Rightarrow> 'd \<Rightarrow> plugin_config \<Rightarrow> pam_directive \<Rightarrow> pam_observed \<Rightarrow> bool" where
  "covered cal today config d observed \<equiv>
     matching_exception cal today config (directive_name d) (value_or_not_set observed) \<noteq> None"

text \<open>The buffer of one of the two files edited in memory.\<close>

definition pam_buffer :: "pam_progress \<Rightarrow> pam_directive \<Rightarrow> string" where
  "pam_buffer acc d = (if pam_config_file d = PwQuality then pwquality_content acc else login_defs_content acc)"

abbreviation buffer_value :: "pam_progress \<Rightarrow> pam_directive \<Rightarrow> string option" where
  "buffer_value acc d \<equiv> parse_config_value (pam_buffer acc d) (directive_name d) Auto True"

lemma exact_directive_value:
  assumes "apply_exact_directive content name target format label = (out, changed, c)" "valid_key name" "valid_value target"
  shows "parse_config_value out name Auto True = Some target"
    and "valid_key n \<Longrightarrow> \<not> eq_ignore_ascii_case name n \<Longrightarrow>
      parse_config_value out n Auto True = parse_config_value content n Auto True"
  using assms(1) auto_whole_set[OF assms(2,3)] auto_whole_frame[OF assms(2,3)]
  by (auto simp: apply_exact_directive_def Let_def simp del: parse_config_value.simps split: if_splits)

text \<open>What one step of the loop does to the buffers: it settles its own directive and keeps the others.\<close>

lemma directive_step_buffers:
  assumes d: "d \<in> set PAM_DIRECTIVES"
    and run: "apply_pam_directive cal today stamp ex config p l acc h d observed = (acc', h')"
  shows "pam_config_file d = PwQuality \<and> p \<or> pam_config_file d = LoginDefs \<and> l \<Longrightarrow> \<not> covered cal today config d observed
      \<Longrightarrow> buffer_value acc' d = Some (pam_goal config d observed)"
    and "e \<in> set PAM_DIRECTIVES \<Longrightarrow> \<not> eq_ignore_ascii_case (directive_name d) (directive_name e)
      \<Longrightarrow> buffer_value acc' e = buffer_value acc e"
proof -
  note valid = pam_key[OF d] pam_goal_valid[OF d, unfolded pam_goal_def]
  show "buffer_value acc' d = Some (pam_goal config d observed)"
    if "pam_config_file d = PwQuality \<and> p \<or> pam_config_file d = LoginDefs \<and> l" "\<not> covered cal today config d observed"
    using run that
    by (auto simp: apply_pam_directive_def Let_def pam_buffer_def pam_goal_def simp del: parse_config_value.simps split: prod.splits)
      (rule exact_directive_value(1)[OF _ valid]; assumption)+
  show "buffer_value acc' e = buffer_value acc e"
    if "e \<in> set PAM_DIRECTIVES" "\<not> eq_ignore_ascii_case (directive_name d) (directive_name e)"
    using run that(2) pam_key[OF that(1)]
    by (auto simp: apply_pam_directive_def Let_def pam_buffer_def simp del: parse_config_value.simps split: prod.splits option.splits pam_config_file.splits if_splits)
      (rule exact_directive_value(2)[OF _ valid]; assumption)+
qed

text \<open>A written file: one of the four, not refused, in which every uncovered directive of the file reads as its
  goal.\<close>

definition settled_file ::
  "'d::linorder calendar \<Rightarrow> 'd \<Rightarrow> plugin_config \<Rightarrow> (pam_directive \<Rightarrow> pam_observed) \<Rightarrow> string \<Rightarrow> string \<Rightarrow> bool" where
  "settled_file cal today config seen path content =
     (\<forall>d\<in>set PAM_DIRECTIVES. conf_path (pam_config_file d) = Some path \<and> \<not> covered cal today config d (seen d) \<longrightarrow>
        parse_config_value content (directive_name d) Auto True = Some (pam_goal config d (seen d)))"

definition pam_write ::
  "'d::linorder calendar \<Rightarrow> 'd \<Rightarrow> plugin_config \<Rightarrow> (pam_directive \<Rightarrow> pam_observed) \<Rightarrow> string set \<Rightarrow> string \<times> string \<Rightarrow> bool" where
  "pam_write cal today config seen refused w =
     (fst w \<in> set PAM_BACKED_UP_FILES \<and> fst w \<notin> refused \<and> settled_file cal today config seen (fst w) (snd w))"

lemma pam_goal_violated:
  assumes "d \<in> set PAM_DIRECTIVES" "pam_violates d (clamped_baseline d config) (Some (value_or_not_set observed))"
  shows "pam_goal config d observed = clamped_baseline d config"
proof -
  let ?e = "secure_directive.truncate d"
  have e: "compare ?e = compare d" "directive_name ?e = directive_name d" "secure_value ?e = secure_value d"
    by (simp_all add: secure_directive.defs)
  obtain t n where t: "resolved_target (compare d) config (directive_name d) (secure_value d) = Some t"
    "place (compare d) t = Some (n, t)"
    using resolved_target_placed[OF pam_sound[OF assms(1)], of config] unfolding e by metis
  then have c: "clamped_baseline d config = t" by (simp add: clamped_baseline_def)
  show ?thesis
    using assms(2) t(2) unfolding c
    by (auto simp: pam_goal_def pam_clamp_def c clamp_target_def pam_violates_def violated_by_def split: option.splits)
qed

lemma security_path:
  assumes "d \<in> set PAM_DIRECTIVES" "pam_config_file d = SecurityConf path"
  shows "path \<in> {FAILLOCK_CONF, PWHISTORY_CONF}" "path \<in> set PAM_BACKED_UP_FILES" "path \<notin> {PWQUALITY_CONF, LOGIN_DEFS}"
proof -
  show p: "path \<in> {FAILLOCK_CONF, PWHISTORY_CONF}" using pam_files[OF assms(1)] assms(2) by auto
  then show "path \<in> set PAM_BACKED_UP_FILES" by auto
  have "list_all (\<lambda>p. list_all (\<lambda>q. p \<noteq> q) [PWQUALITY_CONF, LOGIN_DEFS]) [FAILLOCK_CONF, PWHISTORY_CONF]" by code_simp
  then show "path \<notin> {PWQUALITY_CONF, LOGIN_DEFS}" using p by auto
qed

context recorded_effects
begin

lemma security_conf_confined:
  assumes d: "d \<in> set PAM_DIRECTIVES" "pam_config_file d = SecurityConf path"
    and refused: "refused \<subseteq> {PWQUALITY_CONF, LOGIN_DEFS}"
    and run: "apply_security_conf ex h stamp d path (clamped_baseline d config) (seen d) = (r, h')"
  shows "confined (pam_write cal today config seen refused) pam_command h h'"
proof -
  let ?target = "clamped_baseline d config" and ?r = "read_conf_classified ex h path"
  let ?out = "set_config_directive (content_or_empty ?r) (directive_name d) ?target (pam_config_format (pam_config_file d)) True Remove"
  have "h' = h \<or> pam_violates d ?target (Some (value_or_not_set (seen d)))
      \<and> (\<exists>m r. backup_and_write ex h stamp path path ?out m = (r, h'))"
    using run by (auto simp: apply_security_conf_def Let_def split: if_splits inline_read.splits prod.splits bool.splits)
  then show ?thesis
  proof (elim disjE conjE exE)
    fix m r assume v: "pam_violates d ?target (Some (value_or_not_set (seen d)))"
      and w: "backup_and_write ex h stamp path path ?out m = (r, h')"
    note goal = pam_goal_violated[OF d(1) v]
    have "parse_config_value ?out (directive_name d) Auto True = Some ?target"
      using pam_goal_valid[OF d(1), of config "seen d"] unfolding goal by (rule auto_whole_set[OF pam_key[OF d(1)]])
    then have "settled_file cal today config seen path ?out"
      unfolding settled_file_def using one_threshold_per_file[OF d(1) _ d(2)] goal by metis
    moreover have "path \<notin> refused" using security_path(3)[OF d] refused by blast
    ultimately have "pam_write cal today config seen refused (path, ?out)"
      using security_path(2)[OF d] by (simp add: pam_write_def)
    then show ?thesis by (rule backup_and_write_confined[OF security_path(2)[OF d] w])
  qed simp
qed

lemma directive_step_confined:
  assumes d: "d \<in> set PAM_DIRECTIVES" and refused: "refused \<subseteq> {PWQUALITY_CONF, LOGIN_DEFS}"
    and run: "apply_pam_directive cal today stamp ex config p l acc h d (seen d) = (acc', h')"
  shows "confined (pam_write cal today config seen refused) pam_command h h'"
proof -
  have "h' = h \<or> (\<exists>path r. pam_config_file d = SecurityConf path
      \<and> apply_security_conf ex h stamp d path (clamped_baseline d config) (seen d) = (r, h'))"
    using run by (auto simp: apply_pam_directive_def Let_def split: option.splits pam_config_file.splits if_splits prod.splits)
  then show ?thesis by (auto intro: security_conf_confined[where seen = seen, OF d _ refused])
qed

lemma directives_confined:
  assumes "refused \<subseteq> {PWQUALITY_CONF, LOGIN_DEFS}"
  shows "set ds \<subseteq> set PAM_DIRECTIVES \<Longrightarrow>
     apply_pam_directives cal today stamp ex config p l acc h (map (\<lambda>d. (d, seen d)) ds) = (acc', h')
     \<Longrightarrow> confined (pam_write cal today config seen refused) pam_command h h'"
proof (induction ds arbitrary: acc h)
  case (Cons d ds)
  obtain acc1 h1 where 1: "apply_pam_directive cal today stamp ex config p l acc h d (seen d) = (acc1, h1)" by fastforce
  have "confined (pam_write cal today config seen refused) pam_command h h1"
    by (rule directive_step_confined[where seen = seen, OF _ assms 1]) (use Cons.prems(1) in simp)
  moreover have "confined (pam_write cal today config seen refused) pam_command h1 h'"
    by (rule Cons.IH) (use Cons.prems 1 in auto)
  ultimately show ?case by (rule confined_trans)
qed simp

end

lemma directives_buffers:
  "set ds \<subseteq> set PAM_DIRECTIVES \<Longrightarrow> distinct (map (\<lambda>d. map ascii_lower (directive_name d)) ds) \<Longrightarrow>
     apply_pam_directives cal today stamp ex config p l acc h (map (\<lambda>d. (d, seen d)) ds) = (acc', h') \<Longrightarrow>
     (\<forall>d\<in>set PAM_DIRECTIVES. (\<forall>e\<in>set ds. \<not> eq_ignore_ascii_case (directive_name e) (directive_name d))
         \<longrightarrow> buffer_value acc' d = buffer_value acc d)
     \<and> (\<forall>d\<in>set ds. (pam_config_file d = PwQuality \<and> p \<or> pam_config_file d = LoginDefs \<and> l)
           \<and> \<not> covered cal today config d (seen d) \<longrightarrow> buffer_value acc' d = Some (pam_goal config d (seen d)))"
proof (induction ds arbitrary: acc h)
  case (Cons d ds)
  obtain acc1 h1 where 1: "apply_pam_directive cal today stamp ex config p l acc h d (seen d) = (acc1, h1)" by fastforce
  have d: "d \<in> set PAM_DIRECTIVES" and ds: "set ds \<subseteq> set PAM_DIRECTIVES" using Cons.prems(1) by auto
  have rest: "apply_pam_directives cal today stamp ex config p l acc1 h1 (map (\<lambda>d. (d, seen d)) ds) = (acc', h')"
    using Cons.prems(3) 1 by simp
  note IH = Cons.IH[OF ds _ rest]
  have apart: "\<forall>e\<in>set ds. \<not> eq_ignore_ascii_case (directive_name e) (directive_name d)"
    using Cons.prems(2) by (auto simp: eq_ignore_ascii_case_def image_iff)
  have dist: "distinct (map (\<lambda>d. map ascii_lower (directive_name d)) ds)" using Cons.prems(2) by simp
  show ?case
  proof (intro conjI ballI impI)
    fix e assume "e \<in> set PAM_DIRECTIVES" "\<forall>f\<in>set (d # ds). \<not> eq_ignore_ascii_case (directive_name f) (directive_name e)"
    then show "buffer_value acc' e = buffer_value acc e"
      using IH[OF dist] directive_step_buffers(2)[OF d 1] by simp
  next
    fix e assume e: "e \<in> set (d # ds)" "(pam_config_file e = PwQuality \<and> p \<or> pam_config_file e = LoginDefs \<and> l)
      \<and> \<not> covered cal today config e (seen e)"
    show "buffer_value acc' e = Some (pam_goal config e (seen e))"
    proof (cases "e = d")
      case True
      then show ?thesis using IH[OF dist] d apart directive_step_buffers(1)[OF d 1] e(2) by simp
    next
      case False
      then show ?thesis using IH[OF dist] e by simp
    qed
  qed
qed simp

subsection \<open>What is written\<close>

text \<open>The value of every directive when the loop starts.\<close>

definition pam_seen :: "('h, 'z) executor_scheme \<Rightarrow> 'h \<Rightarrow> pam_directive \<Rightarrow> pam_observed" where
  "pam_seen ex h d =
     observed_pam_value ex h d (read_conf_classified ex h PWQUALITY_CONF) (read_conf_classified ex h LOGIN_DEFS) []"

definition unreadable_conf :: "('h, 'z) executor_scheme \<Rightarrow> 'h \<Rightarrow> string \<Rightarrow> bool" where
  "unreadable_conf ex h path = (case read_conf_classified ex h path of ConfUnreadable _ _ _ \<Rightarrow> True | _ \<Rightarrow> False)"

lemma pam_harden_stages:
  assumes "pam_harden cal today stamp ex config changes h = ((ok, cs), h')"
  obtains acc0 acc h1 pw lw where
    "apply_pam_directives cal today stamp ex config (write_allowed pw) (write_allowed lw) acc0 h
       (map (\<lambda>d. (d, pam_seen ex h d)) PAM_DIRECTIVES) = (acc, h1)"
    "pam_commit stamp ex pw lw acc h1 = ((ok, cs), h')"
    "pam_success acc0 = (write_allowed pw \<and> write_allowed lw \<and> modules_not_loaded ex h = [])"
    "write_allowed pw = (\<not> unreadable_conf ex h PWQUALITY_CONF)" "write_allowed lw = (\<not> unreadable_conf ex h LOGIN_DEFS)"
proof -
  have w: "write_allowed (fst (conf_is_writable ex h path (read_conf_classified ex h path))) = (\<not> unreadable_conf ex h path)" for path
    by (auto simp: conf_is_writable_def unreadable_conf_def Let_def split: conf_read.splits config_layer.splits)
  obtain pw c1 where pw: "conf_is_writable ex h PWQUALITY_CONF (read_conf_classified ex h PWQUALITY_CONF) = (pw, c1)" by fastforce
  obtain lw c2 where lw: "conf_is_writable ex h LOGIN_DEFS (read_conf_classified ex h LOGIN_DEFS) = (lw, c2)" by fastforce
  show thesis
    using assms w[of PWQUALITY_CONF] w[of LOGIN_DEFS]
    by (auto simp: pam_harden_def Let_def pw lw pam_seen_def split: prod.splits intro!: that)
qed

lemma directives_success:
  "apply_pam_directives cal today stamp ex config p l acc h ds = (acc', h') \<Longrightarrow> pam_success acc' \<Longrightarrow> pam_success acc"
proof (induction ds arbitrary: acc h)
  case (Cons x ds)
  obtain d v where x: "x = (d, v)" by fastforce
  obtain acc1 h1 where 1: "apply_pam_directive cal today stamp ex config p l acc h d v = (acc1, h1)" by fastforce
  have "pam_success acc1" using Cons 1 x by simp
  then show ?case
    using 1 by (auto simp: apply_pam_directive_def Let_def split: option.splits pam_config_file.splits if_splits prod.splits)
qed simp

lemma buffered_file:
  assumes "d \<in> set PAM_DIRECTIVES"
  shows "conf_path (pam_config_file d) = Some PWQUALITY_CONF \<longleftrightarrow> pam_config_file d = PwQuality"
    and "conf_path (pam_config_file d) = Some LOGIN_DEFS \<longleftrightarrow> pam_config_file d = LoginDefs"
proof -
  have "list_all (\<lambda>d. (conf_path (pam_config_file d) = Some PWQUALITY_CONF \<longleftrightarrow> pam_config_file d = PwQuality)
      \<and> (conf_path (pam_config_file d) = Some LOGIN_DEFS \<longleftrightarrow> pam_config_file d = LoginDefs)) PAM_DIRECTIVES" by code_simp
  with assms show "conf_path (pam_config_file d) = Some PWQUALITY_CONF \<longleftrightarrow> pam_config_file d = PwQuality"
    "conf_path (pam_config_file d) = Some LOGIN_DEFS \<longleftrightarrow> pam_config_file d = LoginDefs"
    by (auto simp: list_all_iff)
qed

context recorded_effects
begin

lemma write_buffer_confined:
  assumes "path \<in> set PAM_BACKED_UP_FILES" "write_allowed permission \<Longrightarrow> W (path, content)"
    and "write_buffer ex h stamp path label content changed permission = (r, h')"
  shows "confined W pam_command h h'"
  using assms(3) backup_and_write_confined[where W = W, OF assms(1) _ assms(2)]
  by (auto simp: write_buffer_def write_changed_conf_def split: if_splits prod.splits bool.splits)

lemma commit_confined:
  assumes "write_allowed pw \<Longrightarrow> W (PWQUALITY_CONF, pwquality_content acc)"
    and "write_allowed lw \<Longrightarrow> W (LOGIN_DEFS, login_defs_content acc)"
    and run: "pam_commit stamp ex pw lw acc h = (r, h')"
  shows "confined W pam_command h h'"
proof -
  obtain r1 h1 where 1: "write_buffer ex h stamp PWQUALITY_CONF ''pwquality.conf'' (pwquality_content acc)
      (pwquality_changed acc) pw = (r1, h1)" by fastforce
  obtain r2 h2 where 2: "write_buffer ex h1 stamp LOGIN_DEFS ''login.defs'' (login_defs_content acc)
      (login_defs_changed acc) lw = (r2, h2)" by fastforce
  have "h' = h2" using run by (auto simp: pam_commit_def 1 2 split: prod.splits)
  with confined_trans[OF write_buffer_confined[where W = W, OF backed_up(1) assms(1) 1]
      write_buffer_confined[where W = W, OF backed_up(2) assms(2) 2]]
  show ?thesis by blast
qed

lemma harden_pam_confined:
  assumes run: "pam_harden cal today stamp ex config changes h = ((ok, cs), h')"
  shows "confined (pam_write cal today config (pam_seen ex h) {p \<in> {PWQUALITY_CONF, LOGIN_DEFS}. unreadable_conf ex h p})
      pam_command h h'"
proof -
  let ?W = "pam_write cal today config (pam_seen ex h) {p \<in> {PWQUALITY_CONF, LOGIN_DEFS}. unreadable_conf ex h p}"
  obtain acc0 acc h1 pw lw where loop: "apply_pam_directives cal today stamp ex config (write_allowed pw) (write_allowed lw) acc0 h
       (map (\<lambda>d. (d, pam_seen ex h d)) PAM_DIRECTIVES) = (acc, h1)"
    and commit: "pam_commit stamp ex pw lw acc h1 = ((ok, cs), h')"
    and w: "write_allowed pw = (\<not> unreadable_conf ex h PWQUALITY_CONF)" "write_allowed lw = (\<not> unreadable_conf ex h LOGIN_DEFS)"
    by (rule pam_harden_stages[OF run])
  note b = conjunct2[OF directives_buffers[OF order_refl pam_names(2) loop], rule_format]
  have p: "?W (PWQUALITY_CONF, pwquality_content acc)" if "write_allowed pw"
  proof -
    have "settled_file cal today config (pam_seen ex h) PWQUALITY_CONF (pwquality_content acc)"
      unfolding settled_file_def
    proof (intro ballI impI)
      fix d assume d: "d \<in> set PAM_DIRECTIVES" and c: "conf_path (pam_config_file d) = Some PWQUALITY_CONF
        \<and> \<not> covered cal today config d (pam_seen ex h d)"
      then have "pam_config_file d = PwQuality" using buffered_file(1)[OF d] by simp
      with b[OF d] c that show "parse_config_value (pwquality_content acc) (directive_name d) Auto True
          = Some (pam_goal config d (pam_seen ex h d))" by (simp add: pam_buffer_def del: parse_config_value.simps)
    qed
    then show ?thesis using that w(1) by (simp add: pam_write_def)
  qed
  have l: "?W (LOGIN_DEFS, login_defs_content acc)" if "write_allowed lw"
  proof -
    have "settled_file cal today config (pam_seen ex h) LOGIN_DEFS (login_defs_content acc)"
      unfolding settled_file_def
    proof (intro ballI impI)
      fix d assume d: "d \<in> set PAM_DIRECTIVES" and c: "conf_path (pam_config_file d) = Some LOGIN_DEFS
        \<and> \<not> covered cal today config d (pam_seen ex h d)"
      then have "pam_config_file d = LoginDefs" using buffered_file(2)[OF d] by simp
      with b[OF d] c that show "parse_config_value (login_defs_content acc) (directive_name d) Auto True
          = Some (pam_goal config d (pam_seen ex h d))" by (simp add: pam_buffer_def del: parse_config_value.simps)
    qed
    then show ?thesis using that w(2) by (simp add: pam_write_def)
  qed
  have "confined ?W pam_command h h1" by (rule directives_confined[OF _ order_refl loop]) auto
  also have "confined ?W pam_command h1 h'" by (rule commit_confined[OF p l commit])
  finally show ?thesis .
qed

end

text \<open>
  C16. Whatever a PAM apply writes carries the policy out: every file it writes is one of the four it manages,
  and in it every directive of that file that no exception documents reads, by the plugin's own parser, as a
  value no looser than the target and no looser than the value the host had.
\<close>

theorem pam_writes_carry_policy:
  assumes "recorded_effects ex writes runs"
    and "pam_harden cal today stamp ex config changes h = ((ok, cs), h')"
  shows "\<exists>ws. writes h' = writes h @ ws \<and> (\<forall>(path, content)\<in>set ws. path \<in> set PAM_BACKED_UP_FILES
     \<and> (\<forall>d\<in>set PAM_DIRECTIVES. conf_path (pam_config_file d) = Some path
          \<and> matching_exception cal today config (directive_name d) (value_or_not_set (pam_seen ex h d)) = None \<longrightarrow>
          (\<exists>t. parse_config_value content (directive_name d) Auto True = Some t
             \<and> violated_by (compare d) (clamped_baseline d config) (Some t) = Some False
             \<and> \<not> pam_violates d (value_or_not_set (pam_seen ex h d)) (Some t))))"
proof -
  obtain ws where ws: "writes h' = writes h @ ws"
    "\<forall>w\<in>set ws. pam_write cal today config (pam_seen ex h) {p \<in> {PWQUALITY_CONF, LOGIN_DEFS}. unreadable_conf ex h p} w"
    using recorded_effects.harden_pam_confined[OF assms] unfolding recorded_effects.confined_def[OF assms(1)] by blast
  have goal: "violated_by (compare d) (clamped_baseline d config) (Some (pam_goal config d v)) = Some False
      \<and> \<not> pam_violates d (value_or_not_set v) (Some (pam_goal config d v))" if "d \<in> set PAM_DIRECTIVES" for d v
    by (rule pam_goal_placed[OF that, of config v]) blast
  show ?thesis
  proof (intro exI[of _ ws] conjI ws(1) ballI, clarify)
    fix path content assume "(path, content) \<in> set ws"
    then have p: "path \<in> set PAM_BACKED_UP_FILES" and s: "settled_file cal today config (pam_seen ex h) path content"
      using ws(2) by (auto simp: pam_write_def)
    show "path \<in> set PAM_BACKED_UP_FILES \<and> (\<forall>d\<in>set PAM_DIRECTIVES. conf_path (pam_config_file d) = Some path
          \<and> matching_exception cal today config (directive_name d) (value_or_not_set (pam_seen ex h d)) = None \<longrightarrow>
          (\<exists>t. parse_config_value content (directive_name d) Auto True = Some t
             \<and> violated_by (compare d) (clamped_baseline d config) (Some t) = Some False
             \<and> \<not> pam_violates d (value_or_not_set (pam_seen ex h d)) (Some t)))"
      using p s goal unfolding settled_file_def by blast
  qed
qed


subsection \<open>What an apply may run\<close>

text \<open>A PAM apply stays with its files: it writes none but the four it manages, and every command it runs takes
  a backup of one of them, removes old backups of one, makes its directory or sets its mode. Nothing under
  \<open>/etc/pam.d\<close> is written, whatever the configuration asks for.
\<close>

theorem pam_apply_confined:
  assumes "recorded_effects (ctx_executor ctx) writes runs"
    and "pam_apply cal today stamp ctx h db config = Some (r, h', db')"
  shows "\<exists>ws rs. writes h' = writes h @ ws \<and> runs h' = runs h @ rs
     \<and> (\<forall>w\<in>set ws. fst w \<in> set PAM_BACKED_UP_FILES) \<and> (\<forall>c\<in>set rs. pam_command c)"
proof -
  note rec = assms(1)
  let ?ex = "ctx_executor ctx" and ?W = "\<lambda>w. fst w \<in> set PAM_BACKED_UP_FILES"
  let ?h1 = "foldl (\<lambda>h path. prune_timestamped_backups ?ex h (pam_backup_prefix path) BACKUPS_KEPT) h PAM_BACKED_UP_FILES"
  let ?confined = "recorded_effects.confined writes runs ?W pam_command"
  obtain cid h2 db2 where c: "create_checkpoint_for_apply ctx ?h1 db ''pam-hardening-pre-apply''
      [PWQUALITY_CONF, LOGIN_DEFS, ''/etc/pam.d'', FAILLOCK_CONF, PWHISTORY_CONF] = Some (cid, h2, db2)"
    using assms(2) by (auto simp: pam_apply_def Let_def split: option.splits)
  have "?confined h ?h1" by (rule recorded_effects.prune_all_confined[OF rec order_refl])
  then have 2: "?confined h h2"
    by (rule recorded_effects.confined_trans[OF rec]) (rule checkpoint_for_apply_confined[OF rec c])
  have 3: "?confined h2 h3" if "pam_harden cal today stamp ?ex config cs h2 = ((ok, cs'), h3)" for cs ok cs' h3
    using recorded_effects.harden_pam_confined[OF rec that]
    unfolding recorded_effects.confined_def[OF rec] pam_write_def by blast
  have "h' = h2 \<or> (\<exists>cs ok cs'. pam_harden cal today stamp ?ex config cs h2 = ((ok, cs'), h'))"
    using assms(2) unfolding pam_apply_def Let_def c by (auto split: sum.splits prod.splits)
  then have "?confined h h'" using 2 3 recorded_effects.confined_trans[OF rec 2] by blast
  then show ?thesis unfolding recorded_effects.confined_def[OF rec] .
qed

subsection \<open>What a scan accounts for\<close>

lemma search_inline_quiet:
  "read_conf_classified ex h' = read_conf_classified ex h \<Longrightarrow> search_inline ex h' m arg unread ps = search_inline ex h m arg unread ps"
  by (induction ps arbitrary: unread) (auto split: conf_read.splits option.splits)

lemma observed_quiet:
  assumes "read_conf_classified ex h' = read_conf_classified ex h"
  shows "observed_pam_value ex h' d a b c = observed_pam_value ex h d a b c"
  by (simp only: observed_pam_value_def read_effective_threshold_def read_pamd_inline_def search_inline_quiet[OF assms] assms)

lemma min_days_state: "min_days_enforceable ex h = (r, h') \<Longrightarrow> h' = snd (execute_command ex h ''chage'' [''--help''])"
  by (auto simp: min_days_enforceable_def Let_def split: prod.splits sum.splits if_splits)

text \<open>A directive with nothing to report: its value in force meets the target, and its module, if one reads
  the file, is in the stack.\<close>

definition directive_met ::
  "('h, 'z) executor_scheme \<Rightarrow> 'h \<Rightarrow> plugin_config \<Rightarrow> (string \<times> module_presence) list \<Rightarrow> conf_read \<Rightarrow> conf_read \<Rightarrow>
   (string \<times> conf_read) list \<Rightarrow> pam_directive \<Rightarrow> bool" where
  "directive_met ex h config presence pwquality login_defs already_read d =
     (presence_for presence d \<in> {InStack, NoModule}
      \<and> (\<exists>v. observed_pam_value ex h d pwquality login_defs already_read = ObservedValue v
           \<and> violated_by (compare d) (clamped_baseline d config) (Some v) = Some False))"

lemma violated_by_target: "d \<in> set PAM_DIRECTIVES \<Longrightarrow> violated_by (compare d) (clamped_baseline d config) v \<noteq> None"
  by (rule pam_goal_placed[of d config ObservedNotSet], assumption) (auto simp: violated_by_def split: option.splits)

lemma not_set_violates: "d \<in> set PAM_DIRECTIVES \<Longrightarrow> pam_violates d (clamped_baseline d config) None"
  using violated_by_target[of d config None] by (auto simp: pam_violates_def violated_by_def split: option.splits)

lemma scan_directive_accounts:
  assumes d: "d \<in> set PAM_DIRECTIVES"
    and quiet: "\<forall>h. read_conf_classified ex (snd (execute_command ex h ''chage'' [''--help''])) = read_conf_classified ex h"
    and run: "scan_pam_directive cal today ex config presence a b c h d = ((fs, us), h')"
  shows "read_conf_classified ex h' = read_conf_classified ex h"
    and "(\<exists>f\<in>set fs. finding_id f = ''pam-'' @ directive_name d)
      \<or> (\<exists>u\<in>set us. unchecked_check_id u = ''pam-'' @ directive_name d) \<or> directive_met ex h config presence a b c d"
proof -
  obtain e h1 where e: "(if directive_name d = MIN_DAYS_DIRECTIVE then min_days_enforceable ex h else (None, h)) = (e, h1)"
    by fastforce
  have h1: "read_conf_classified ex h1 = read_conf_classified ex h"
    using e quiet by (auto split: if_splits dest: min_days_state)
  note steps = run[unfolded scan_pam_directive_def e prod.case Let_def]
  show "read_conf_classified ex h' = read_conf_classified ex h"
    using steps h1 by (auto split: if_splits module_presence.splits pam_observed.splits)
  have met: "violated_by (compare d) (clamped_baseline d config) (Some v) = Some False"
    if "\<not> pam_violates d (clamped_baseline d config) (Some v)" for v
    using that violated_by_target[OF d, of config "Some v"] by (cases "violated_by (compare d) (clamped_baseline d config) (Some v)")
      (auto simp: pam_violates_def)
  have auth: "pam_config_file d \<noteq> PamAuth" using pam_files[OF d] by auto
  let ?target = "clamped_baseline d config"
  have judged: "(\<exists>f\<in>set fs. finding_id f = ''pam-'' @ directive_name d)
      \<or> (\<exists>u\<in>set us. unchecked_check_id u = ''pam-'' @ directive_name d) \<or> directive_met ex h config presence a b c d"
    if known: "presence_for presence d \<in> {InStack, NoModule}"
      and rest: "(if e = Some False then (([min_days_unenforceable_finding d], []), h1)
        else case observed_pam_value ex h1 d a b c of
          ObservedValue v \<Rightarrow> (if \<not> pam_violates d ?target (Some v) then ([], [])
            else ([insecure_pam_finding cal today config d ?target (Some v)], []), h1)
        | ObservedNotSet \<Rightarrow> (if \<not> pam_violates d ?target None then ([], [])
            else ([insecure_pam_finding cal today config d ?target None], []), h1)
        | ObservedUnreadable path denied \<Rightarrow> (([], [unchecked_pam_directive d (unreadable_reason path denied) denied]), h1))
        = ((fs, us), h')"
  proof (cases "e = Some False")
    case True
    then have "fs = [min_days_unenforceable_finding d]" using rest by simp
    then show ?thesis by (simp add: min_days_unenforceable_finding_def)
  next
    case False
    have id: "finding_id (insecure_pam_finding cal today config d ?target v) = ''pam-'' @ directive_name d" for v
      by (simp add: insecure_pam_finding_def Let_def)
    show ?thesis
    proof (cases "observed_pam_value ex h1 d a b c")
      case (ObservedValue v)
      then show ?thesis
        using rest False known met[of v] observed_quiet[OF h1, of d a b c] id by (auto simp: directive_met_def split: if_splits)
    next
      case ObservedNotSet
      then have "fs = [insecure_pam_finding cal today config d ?target None]"
        using rest False not_set_violates[OF d, of config] by simp
      then show ?thesis by (simp add: id)
    next
      case (ObservedUnreadable path denied)
      then have "us = [unchecked_pam_directive d (unreadable_reason path denied) denied]" using rest False by simp
      then show ?thesis by (simp add: unchecked_pam_directive_def)
    qed
  qed
  show "(\<exists>f\<in>set fs. finding_id f = ''pam-'' @ directive_name d)
      \<or> (\<exists>u\<in>set us. unchecked_check_id u = ''pam-'' @ directive_name d) \<or> directive_met ex h config presence a b c d"
  proof (cases "presence_for presence d")
    case (NotInStack so_name)
    then have "\<exists>f. fs = [f] \<and> finding_id f = ''pam-'' @ directive_name d"
      using steps auth by (auto simp: module_absent_finding_def)
    then show ?thesis by auto
  next
    case (Indeterminate why denied)
    then have "\<exists>u. us = [u] \<and> unchecked_check_id u = ''pam-'' @ directive_name d"
      using steps auth by (auto simp: unchecked_pam_directive_def)
    then show ?thesis by auto
  next
    case InStack
    then show ?thesis using steps auth judged by simp
  next
    case NoModule
    then show ?thesis using steps auth judged by simp
  qed
qed

lemma directive_met_quiet:
  assumes "read_conf_classified ex h' = read_conf_classified ex h"
  shows "directive_met ex h' config presence a b c d = directive_met ex h config presence a b c d"
  by (simp only: directive_met_def observed_quiet[OF assms])

lemma scan_directives_account:
  assumes quiet: "\<forall>h. read_conf_classified ex (snd (execute_command ex h ''chage'' [''--help''])) = read_conf_classified ex h"
  shows "set ds \<subseteq> set PAM_DIRECTIVES \<Longrightarrow> d \<in> set ds \<Longrightarrow>
     scan_pam_directives cal today ex config presence a b c h ds = ((fs, us), h') \<Longrightarrow>
     (\<exists>f\<in>set fs. finding_id f = ''pam-'' @ directive_name d)
      \<or> (\<exists>u\<in>set us. unchecked_check_id u = ''pam-'' @ directive_name d) \<or> directive_met ex h config presence a b c d"
proof (induction ds arbitrary: h fs us)
  case (Cons e ds)
  obtain fs1 us1 h1 where 1: "scan_pam_directive cal today ex config presence a b c h e = ((fs1, us1), h1)"
    by (metis prod.exhaust)
  obtain fs2 us2 h2 where 2: "scan_pam_directives cal today ex config presence a b c h1 ds = ((fs2, us2), h2)"
    by (metis prod.exhaust)
  have all: "fs = fs1 @ fs2" "us = us1 @ us2" and h2: "h2 = h'" using Cons.prems(3) 1 2 by auto
  have e: "e \<in> set PAM_DIRECTIVES" and ds: "set ds \<subseteq> set PAM_DIRECTIVES" using Cons.prems(1) by auto
  note step = scan_directive_accounts[OF e quiet 1]
  show ?case
  proof (cases "d = e")
    case True
    with step(2) show ?thesis by (auto simp: all)
  next
    case False
    with Cons.prems(2) have "d \<in> set ds" by simp
    from Cons.IH[OF ds this 2[unfolded h2]] show ?thesis by (auto simp: all directive_met_quiet[OF step(1)])
  qed
qed simp


subsection \<open>Concrete runs\<close>

definition sample_pam_host :: mock_host where
  "sample_pam_host = with_read_permission_denied PWQUALITY_CONF
     (new_mock\<lparr>command_programs := [''cp'' \<mapsto> \<lparr>stdout = [], stderr = [], exit_code = 0\<rparr>,
        ''mkdir'' \<mapsto> \<lparr>stdout = [], stderr = [], exit_code = 0\<rparr>]\<rparr>)"

lemma sample_pam_fresh: "files_written sample_pam_host = []" "commands_executed sample_pam_host = []"
  by (simp_all add: sample_pam_host_def with_read_permission_denied_def new_mock_def)

lemma sample_pam_unreadable:
  "unreadable_conf (mock_executor False ''sample'') sample_pam_host PWQUALITY_CONF"
  by (simp add: unreadable_conf_def read_conf_classified_def read_layered_def read_one_def mock_read_file_def
      mock_path_exists_def sample_pam_host_def with_read_permission_denied_def new_mock_def)

theorem pam_writes_carry_policy_witness:
  "\<exists>ok cs h'. pam_harden sample_calendar 3 ''0'' (mock_executor False ''sample'') default_plugin_config [] sample_pam_host
       = ((ok, cs), h')
     \<and> (\<forall>(path, content)\<in>set (files_written h'). path = LOGIN_DEFS \<longrightarrow>
          (\<exists>t. parse_config_value content (directive_name (PAM_DIRECTIVES ! 6)) Auto True = Some t))"
proof -
  let ?ex = "mock_executor False ''sample''" and ?d = "PAM_DIRECTIVES ! 6"
  obtain ok cs h' where run: "pam_harden sample_calendar 3 ''0'' ?ex default_plugin_config [] sample_pam_host = ((ok, cs), h')"
    by (metis prod.exhaust)
  have d: "?d \<in> set PAM_DIRECTIVES" by (simp add: PAM_DIRECTIVES_def)
  have c: "conf_path (pam_config_file ?d) = Some LOGIN_DEFS" by code_simp
  have e: "matching_exception sample_calendar 3 default_plugin_config key v = None" for key v
    by (simp add: matching_exception_def has_valid_exception_def default_plugin_config_def)
  have "\<exists>t. parse_config_value content (directive_name ?d) Auto True = Some t"
    if "(LOGIN_DEFS, content) \<in> set (files_written h')" for content
  proof -
    obtain ws where ws: "files_written h' = files_written sample_pam_host @ ws"
      and all: "\<forall>(path, content)\<in>set ws. path \<in> set PAM_BACKED_UP_FILES \<and> (\<forall>d\<in>set PAM_DIRECTIVES.
        conf_path (pam_config_file d) = Some path \<and> matching_exception sample_calendar 3 default_plugin_config (directive_name d)
          (value_or_not_set (pam_seen ?ex sample_pam_host d)) = None \<longrightarrow>
        (\<exists>t. parse_config_value content (directive_name d) Auto True = Some t
             \<and> violated_by (compare d) (clamped_baseline d default_plugin_config) (Some t) = Some False
             \<and> \<not> pam_violates d (value_or_not_set (pam_seen ?ex sample_pam_host d)) (Some t)))"
      using pam_writes_carry_policy[OF mock.recorded_effects_axioms run] by (elim exE conjE)
    have "(LOGIN_DEFS, content) \<in> set ws" using that ws sample_pam_fresh(1) by simp
    from bspec[OF all this, unfolded prod.case, THEN conjunct2, THEN bspec[OF _ d], THEN mp[OF _ conjI[OF c e]]]
    show ?thesis by (elim exE conjE) (rule exI)
  qed
  with run show ?thesis by blast
qed


lemma pam_apply_returns:
  assumes "ctx_manager ctx = None"
  obtains r h' where "pam_apply cal today stamp ctx h db config = Some (r, h', db)"
proof -
  let ?h1 = "foldl (\<lambda>h path. prune_timestamped_backups (ctx_executor ctx) h (pam_backup_prefix path) BACKUPS_KEPT) h PAM_BACKED_UP_FILES"
  have c: "create_checkpoint_for_apply ctx ?h1 db name paths = Some (Inr None, ?h1, db)" for name paths
    by (simp add: create_checkpoint_for_apply_def assms)
  obtain ok cs h2 where "pam_harden cal today stamp (ctx_executor ctx) config
      (case checkpoint_change None of Some c \<Rightarrow> [c] | None \<Rightarrow> []) ?h1 = ((ok, cs), h2)" by (metis prod.exhaust)
  note run = this
  show thesis
    by (rule that) (unfold pam_apply_def Let_def c option.case prod.case sum.case run, rule refl)
qed

theorem pam_apply_confined_witness:
  "\<exists>r h' db'. pam_apply sample_calendar 3 ''0'' \<lparr>ctx_executor = mock_executor False ''sample'', ctx_manager = None\<rparr>
       sample_pam_host empty_database default_plugin_config = Some (r, h', db')
     \<and> (\<forall>c\<in>set (commands_executed h'). pam_command c)"
proof -
  let ?ctx = "\<lparr>ctx_executor = mock_executor False ''sample'', ctx_manager = None\<rparr>"
  obtain r h' where run: "pam_apply sample_calendar 3 ''0'' ?ctx sample_pam_host empty_database default_plugin_config
      = Some (r, h', empty_database)"
    by (rule pam_apply_returns[of ?ctx]) simp
  from pam_apply_confined[OF _ run, of files_written commands_executed] mock.recorded_effects_axioms sample_pam_fresh(2)
  have "\<forall>c\<in>set (commands_executed h'). pam_command c" by auto
  with run show ?thesis by blast
qed

lemma mock_run_keeps_files:
  "read_conf_classified (mock_executor r d) (snd (mock_execute_command h program args)) = read_conf_classified (mock_executor r d) h"
proof
  fix path
  let ?h' = "snd (mock_execute_command h program args)"
  have kept: "mock_read_file ?h' = mock_read_file h" "mock_path_exists ?h' = mock_path_exists h"
    by (auto simp: mock_execute_command_def mock_read_file_def mock_path_exists_def Let_def fun_eq_iff split: list.splits option.splits)
  show "read_conf_classified (mock_executor r d) ?h' path = read_conf_classified (mock_executor r d) h path"
    unfolding read_conf_classified_def read_layered_def read_one_def mock_executor_simps kept by (rule refl)
qed


end
