(* ===== verification/Audit_Plugin.thy ===== *)
theory Audit_Plugin
  imports Services_Plugin Unit_Divergence
begin

text \<open>
  The audit plugin (hardener-plugins/src/audit): the rule table and the rules file rendered from it, the probes
  of the daemon and of the loaded rules, the scan, the apply with its reload, the hooks of a rollback
  (audit/divergence.rs) and the preview. The timestamp and nonce that end the name of a backup are an argument;
  log lines are not modelled.
\<close>

definition AUDIT_PLUGIN_ID :: plugin_id where "AUDIT_PLUGIN_ID = ''audit-hardening''"

subsection \<open>The rules\<close>

record audit_rule_directive =
  audit_rule_category :: string
  audit_rule_content :: string
  audit_rule_description :: string
  audit_rule_severity :: severity

definition audit_rule_of :: "string \<Rightarrow> string \<Rightarrow> string \<Rightarrow> severity \<Rightarrow> audit_rule_directive" where
  "audit_rule_of category content what sev =
     \<lparr>audit_rule_category = category, audit_rule_content = content, audit_rule_description = what,
      audit_rule_severity = sev\<rparr>"

definition AUDIT_RULES :: "audit_rule_directive list" where
  "AUDIT_RULES =
    [audit_rule_of ''time-change''
        ''-a always,exit -F arch=b64 -S adjtimex -S settimeofday -k time-change''
        ''Monitor system time modifications (64-bit)'' High,
     audit_rule_of ''time-change''
        ''-a always,exit -F arch=b32 -S adjtimex -S settimeofday -k time-change''
        ''Monitor system time modifications (32-bit)'' High,
     audit_rule_of ''time-change''
        ''-a always,exit -F arch=b64 -S clock_settime -k time-change''
        ''Monitor clock_settime syscall (64-bit)'' High,
     audit_rule_of ''time-change''
        ''-w /etc/localtime -p wa -k time-change''
        ''Monitor timezone configuration changes'' Medium,
     audit_rule_of ''identity''
        ''-w /etc/passwd -p wa -k identity''
        ''Monitor user account file modifications'' Critical,
     audit_rule_of ''identity''
        ''-w /etc/shadow -p wa -k identity''
        ''Monitor password hash file modifications'' Critical,
     audit_rule_of ''identity''
        ''-w /etc/group -p wa -k identity''
        ''Monitor group account file modifications'' Critical,
     audit_rule_of ''identity''
        ''-w /etc/gshadow -p wa -k identity''
        ''Monitor group password file modifications'' Critical,
     audit_rule_of ''identity''
        ''-w /etc/security/opasswd -p wa -k identity''
        ''Monitor password history file modifications'' High,
     audit_rule_of ''network-change''
        ''-a always,exit -F arch=b64 -S sethostname -S setdomainname -k network-change''
        ''Monitor hostname and domain name changes (64-bit)'' Medium,
     audit_rule_of ''network-change''
        ''-w /etc/hosts -p wa -k network-change''
        ''Monitor hosts file modifications'' Medium,
     audit_rule_of ''network-change''
        ''-w /etc/network/ -p wa -k network-change''
        ''Monitor network configuration directory'' Medium,
     audit_rule_of ''perm-mod''
        ''-a always,exit -F arch=b64 -S chmod -S fchmod -S fchmodat -F auid>=1000 -F auid!=unset -k perm-mod''
        ''Monitor file permission changes by users'' Medium,
     audit_rule_of ''perm-mod''
        ''-a always,exit -F arch=b64 -S chown -S fchown -S fchownat -S lchown -F auid>=1000 -F auid!=unset -k perm-mod''
        ''Monitor file ownership changes by users'' Medium,
     audit_rule_of ''perm-mod''
        ''-a always,exit -F arch=b64 -S setxattr -S lsetxattr -S fsetxattr -F auid>=1000 -F auid!=unset -k perm-mod''
        ''Monitor extended attribute changes by users'' Medium,
     audit_rule_of ''privileged''
        ''-w /usr/bin/sudo -p x -k privileged''
        ''Monitor sudo command execution'' High,
     audit_rule_of ''privileged''
        ''-w /usr/bin/su -p x -k privileged''
        ''Monitor su command execution'' High,
     audit_rule_of ''privileged''
        ''-w /usr/bin/passwd -p wa -k privileged''
        ''Monitor passwd command execution'' Medium,
     audit_rule_of ''delete''
        ''-a always,exit -F arch=b64 -S unlink -S unlinkat -S rename -S renameat -F auid>=1000 -F auid!=unset -k delete''
        ''Monitor file deletion and renaming by users'' Medium,
     audit_rule_of ''modules''
        ''-w /sbin/insmod -p x -k modules''
        ''Monitor kernel module insertion'' High,
     audit_rule_of ''modules''
        ''-w /sbin/rmmod -p x -k modules''
        ''Monitor kernel module removal'' High,
     audit_rule_of ''modules''
        ''-w /sbin/modprobe -p x -k modules''
        ''Monitor modprobe execution'' High]"

definition AUDITD_PRESENT_EXCEPTION :: string where "AUDITD_PRESENT_EXCEPTION = ''auditd-present''"
definition AUDITD_AT_BOOT_EXCEPTION :: string where "AUDITD_AT_BOOT_EXCEPTION = ''auditd-at-boot''"
definition AUDITD_RUNNING_EXCEPTION :: string where "AUDITD_RUNNING_EXCEPTION = ''auditd-running''"
definition AUDIT_RULES_PATH :: string where "AUDIT_RULES_PATH = ''/etc/audit/rules.d/hardening.rules''"
definition AUDIT_RULES_DIR :: string where "AUDIT_RULES_DIR = ''/etc/audit/rules.d''"
definition AUDIT_COMPILED_RULES :: string where "AUDIT_COMPILED_RULES = ''/etc/audit/audit.rules''"
definition AUDIT_COMPILED_RULES_PREV :: string where "AUDIT_COMPILED_RULES_PREV = ''/etc/audit/audit.rules.prev''"
definition AUDIT_RULES_MODE :: string where "AUDIT_RULES_MODE = ''0640''"

definition AUDIT_BACKLOG_PRELUDE :: string where
  "AUDIT_BACKLOG_PRELUDE =
     ''# BACKLOG'' @ [nl] @ ''# Kernel audit queue: absorb bursts, drop rather than stall on overflow'' @ [nl]
     @ ''-b 65536'' @ [nl] @ ''--backlog_wait_time 0'' @ [nl, nl]"

definition AUDIT_CATEGORIES :: "string list" where
  "AUDIT_CATEGORIES = [''time-change'', ''identity'', ''network-change'', ''perm-mod'', ''privileged'', ''delete'', ''modules'']"

definition ascii_upper :: "char \<Rightarrow> char" where
  "ascii_upper c = (let n = (of_char c :: nat) in if 97 \<le> n \<and> n \<le> 122 then char_of (n - 32) else c)"

text \<open>The categories are ASCII, so \<open>to_uppercase\<close> is the ASCII one.\<close>

definition rendered_category ::
  "'d::linorder calendar \<Rightarrow> 'd \<Rightarrow> plugin_config \<Rightarrow> string \<Rightarrow> string" where
  "rendered_category cal today config category =
     (case has_valid_exception cal today config category of
        Some x \<Rightarrow> ''# '' @ map ascii_upper category @ '': SKIPPED (exception: '' @ reason x @ '')'' @ [nl, nl]
      | None \<Rightarrow>
          ''# '' @ map ascii_upper category @ [nl]
          @ concat (map (\<lambda>r. ''# '' @ audit_rule_description r @ [nl] @ audit_rule_content r @ [nl, nl])
              (filter (\<lambda>r. audit_rule_category r = category) AUDIT_RULES)))"

definition rendered_rules_file ::
  "'d::linorder calendar \<Rightarrow> 'd \<Rightarrow> plugin_config \<Rightarrow> string \<times> string list" where
  "rendered_rules_file cal today config =
     (''# Audit rules generated by Linux Hardening Tool'' @ [nl] @ ''# DO NOT EDIT - Changes will be overwritten'' @ [nl, nl]
        @ AUDIT_BACKLOG_PRELUDE @ concat (map (rendered_category cal today config) AUDIT_CATEGORIES),
      filter (\<lambda>category. has_valid_exception cal today config category \<noteq> None) AUDIT_CATEGORIES)"

definition rules_file_estimate :: "('h, 'z) executor_scheme \<Rightarrow> 'h \<Rightarrow> string \<Rightarrow> string option" where
  "rules_file_estimate ex h desired =
     (if path_exists ex h AUDIT_RULES_PATH = Inr False then Some (''Create '' @ AUDIT_RULES_PATH)
      else case read_file ex h AUDIT_RULES_PATH of
             Inr current \<Rightarrow> if current = desired then None else Some (''Rewrite '' @ AUDIT_RULES_PATH)
           | Inl e \<Rightarrow>
               Some (''Rewrite '' @ AUDIT_RULES_PATH @ '' (an apply that cannot read the current file rewrites it; current content could not be read: ''
                 @ host_error_text e @ '')''))"

subsection \<open>Probes\<close>

datatype auditd_presence = AuditdInstalled | AuditdAbsent | AuditdIndeterminate string

definition probe_auditd :: "('h, 'z) executor_scheme \<Rightarrow> 'h \<Rightarrow> auditd_presence \<times> 'h" where
  "probe_auditd ex h =
     (case command_exists ex h ''auditd'' of
        (Inr there, h) \<Rightarrow> (if there then AuditdInstalled else AuditdAbsent, h)
      | (Inl e, h) \<Rightarrow> (AuditdIndeterminate (host_error_text e), h))"

definition is_auditd_enabled :: "('h, 'z) executor_scheme \<Rightarrow> 'h \<Rightarrow> (hardening_error, bool) result \<times> 'h" where
  "is_auditd_enabled ex h =
     (case execute_command ex h ''systemctl'' [''is-enabled'', ''auditd''] of
        (Inl e, h) \<Rightarrow> (Inl (hardening_of e), h)
      | (Inr out, h) \<Rightarrow> (Inr (trim (stdout out) = ''enabled''), h))"

definition is_auditd_running :: "('h, 'z) executor_scheme \<Rightarrow> 'h \<Rightarrow> (hardening_error, bool) result \<times> 'h" where
  "is_auditd_running ex h =
     (case execute_command ex h ''systemctl'' [''is-active'', ''auditd''] of
        (Inl e, h) \<Rightarrow> (Inl (hardening_of e), h)
      | (Inr out, h) \<Rightarrow> (Inr (command_success out), h))"

datatype audit_rules_result =
  AuditRules "string list"
| AuditPermissionDenied
| AuditProbeFailed string
| AuditUnrecognisedFailure string

definition read_current_audit_rules :: "('h, 'z) executor_scheme \<Rightarrow> 'h \<Rightarrow> audit_rules_result \<times> 'h" where
  "read_current_audit_rules ex h =
     (case execute_command ex h ''auditctl'' [''-l''] of
        (Inl e, h) \<Rightarrow> (AuditProbeFailed (host_error_text e), h)
      | (Inr out, h) \<Rightarrow>
          (if \<not> command_success out then
             if message_indicates_permission_denied (stderr out) then AuditPermissionDenied
             else AuditUnrecognisedFailure (''auditctl -l exited '' @ show_int (exit_code out) @ '' with stderr ''
               @ debug_str (trim (stderr out)))
           else AuditRules (filter (\<lambda>s. s \<noteq> [] \<and> \<not> starts_with ''No rules'' s) (map trim (str_lines (stdout out)))), h))"

text \<open>The fold of scan and preview: a failure it does not recognise reads as no rules.\<close>

definition folded_audit_rules :: "audit_rules_result \<Rightarrow> audit_rules_result" where
  "folded_audit_rules r = (case r of AuditUnrecognisedFailure _ \<Rightarrow> AuditRules [] | _ \<Rightarrow> r)"

definition rule_loaded :: "string list \<Rightarrow> audit_rule_directive \<Rightarrow> bool" where
  "rule_loaded current_rules rule = list_ex (contains (audit_rule_category rule)) current_rules"

subsection \<open>Scan\<close>

definition audit_unchecked ::
  "string \<Rightarrow> string \<Rightarrow> string \<Rightarrow> unchecked_blocker \<Rightarrow> compliance_mapping list \<Rightarrow> unchecked_check" where
  "audit_unchecked cid title why blocker mappings =
     \<lparr>unchecked_check_id = cid, unchecked_title = title, unchecked_category = Audit, unchecked_reason = why,
      unchecked_blocker = blocker, unchecked_compliance = mappings\<rparr>"

definition post_install_unchecked :: "string \<Rightarrow> unchecked_blocker \<Rightarrow> unchecked_check" where
  "post_install_unchecked why blocker =
     audit_unchecked ''auditd-post-install'' ''auditd service and rule state'' why blocker audit_post_install_mappings"

definition audit_rule_id :: "audit_rule_directive \<Rightarrow> string" where
  "audit_rule_id rule = ''audit_rule_'' @ replace_chars [CHR ''-''] (CHR ''_'') (audit_rule_category rule)"

definition unchecked_audit_rules :: "string \<Rightarrow> unchecked_blocker \<Rightarrow> unchecked_check list" where
  "unchecked_audit_rules why blocker =
     map (\<lambda>rule. audit_unchecked (audit_rule_id rule) (''Audit rule: '' @ audit_rule_category rule) why blocker
       (audit_compliance_mappings ''rules'')) AUDIT_RULES"

definition auditd_absent_finding :: "'d::linorder calendar \<Rightarrow> 'd \<Rightarrow> plugin_config \<Rightarrow> finding" where
  "auditd_absent_finding cal today config =
     \<lparr>finding_category = Audit, finding_current_value = ''not installed'',
      finding_description = ''Audit daemon (auditd) is not installed'',
      finding_explanation = ''The audit daemon is required for comprehensive system monitoring and compliance'',
      finding_id = ''audit_not_installed'', finding_impact = ''No system auditing - security events are not logged'',
      finding_recommended_value = ''installed and running'',
      finding_remediation_steps = [''Install auditd package (apt install auditd / dnf install auditd)'',
        ''Enable auditd service: systemctl enable auditd'', ''Start auditd service: systemctl start auditd''],
      finding_severity = Critical, finding_title = ''Audit daemon is not installed'',
      finding_compliance = audit_compliance_mappings ''not_installed'',
      finding_exception = exception_outcome_for_presence cal today config AUDITD_PRESENT_EXCEPTION,
      finding_exception_key = Some AUDITD_PRESENT_EXCEPTION\<rparr>"

definition auditd_disabled_finding :: "'d::linorder calendar \<Rightarrow> 'd \<Rightarrow> plugin_config \<Rightarrow> finding" where
  "auditd_disabled_finding cal today config =
     \<lparr>finding_category = Audit, finding_current_value = ''disabled'',
      finding_description = ''Audit daemon is not enabled to start at boot'',
      finding_explanation = ''Auditd should be enabled to ensure audit logging starts automatically'',
      finding_id = ''audit_not_enabled'', finding_impact = ''Audit logging may not start after reboot'',
      finding_recommended_value = ''enabled'', finding_remediation_steps = [''systemctl enable auditd''],
      finding_severity = High, finding_title = ''Audit daemon not enabled'',
      finding_compliance = audit_compliance_mappings ''not_enabled'',
      finding_exception = exception_outcome_for_presence cal today config AUDITD_AT_BOOT_EXCEPTION,
      finding_exception_key = Some AUDITD_AT_BOOT_EXCEPTION\<rparr>"

definition auditd_stopped_finding :: "'d::linorder calendar \<Rightarrow> 'd \<Rightarrow> plugin_config \<Rightarrow> finding" where
  "auditd_stopped_finding cal today config =
     \<lparr>finding_category = Audit, finding_current_value = ''stopped'',
      finding_description = ''Audit daemon is not currently running'', finding_explanation = ''Auditd must be running'',
      finding_id = ''auditd_not_running'', finding_impact = ''No audit events are being collected'',
      finding_recommended_value = ''running'', finding_remediation_steps = [''systemctl start auditd''],
      finding_severity = High, finding_title = ''Audit daemon not running'',
      finding_compliance = audit_compliance_mappings ''not_running'',
      finding_exception = exception_outcome_for_presence cal today config AUDITD_RUNNING_EXCEPTION,
      finding_exception_key = Some AUDITD_RUNNING_EXCEPTION\<rparr>"

definition missing_rule_finding ::
  "'d::linorder calendar \<Rightarrow> 'd \<Rightarrow> plugin_config \<Rightarrow> audit_rule_directive \<Rightarrow> finding" where
  "missing_rule_finding cal today config rule =
     \<lparr>finding_category = Audit, finding_current_value = ''not configured'',
      finding_description = audit_rule_description rule,
      finding_explanation = ''Audit rule for '' @ audit_rule_category rule @ '' is not configured. This rule monitors: ''
        @ audit_rule_description rule,
      finding_id = audit_rule_id rule,
      finding_impact = ''Security events in this category are not being audited'',
      finding_recommended_value = audit_rule_content rule,
      finding_remediation_steps = [''Add rule: '' @ audit_rule_content rule, ''Restart auditd: systemctl restart auditd''],
      finding_severity = audit_rule_severity rule, finding_title = ''Missing audit rule: '' @ audit_rule_category rule,
      finding_compliance = audit_compliance_mappings ''rules'',
      finding_exception = exception_outcome_for_presence cal today config (audit_rule_category rule),
      finding_exception_key = Some (audit_rule_category rule)\<rparr>"

definition audit_scan_result :: "nat \<Rightarrow> finding list \<Rightarrow> unchecked_check list \<Rightarrow> scan_result" where
  "audit_scan_result duration findings unchecked =
     \<lparr>scan_plugin_id = AUDIT_PLUGIN_ID, scan_success = True, scan_findings = findings, scan_unchecked = unchecked,
      scan_duration_us = duration, scan_error = None, scan_skipped = None\<rparr>"

text \<open>The rules: the findings and the unchecked entries they add.\<close>

definition scan_audit_rules ::
  "'d::linorder calendar \<Rightarrow> 'd \<Rightarrow> ('h, 'z) executor_scheme \<Rightarrow> plugin_config \<Rightarrow> 'h \<Rightarrow>
   (finding list \<times> unchecked_check list) \<times> 'h" where
  "scan_audit_rules cal today ex config h =
     (case read_current_audit_rules ex h of
        (r, h) \<Rightarrow>
          (case folded_audit_rules r of
             AuditRules current \<Rightarrow>
               ((map (missing_rule_finding cal today config) (filter (\<lambda>rule. \<not> rule_loaded current rule) AUDIT_RULES), []), h)
           | AuditPermissionDenied \<Rightarrow>
               (case refusal_blocker ex h of
                  (blocker, h) \<Rightarrow>
                    (([], unchecked_audit_rules ''listing loaded audit rules (auditctl -l) requires root'' blocker), h))
           | AuditProbeFailed why \<Rightarrow>
               (case command_exists ex h ''auditctl'' of
                  (there, h) \<Rightarrow>
                    (([], unchecked_audit_rules
                       (''auditctl could not be run, so the loaded audit rules could not be listed: '' @ why)
                       (if there = Inr False then Environment else Unknown)), h))
           | AuditUnrecognisedFailure _ \<Rightarrow> (([], []), h)))"

definition audit_scan ::
  "'d::linorder calendar \<Rightarrow> 'd \<Rightarrow> nat \<Rightarrow> ('h, 'z) executor_scheme \<Rightarrow> 'h \<Rightarrow> plugin_config \<Rightarrow> scan_result \<times> 'h" where
  "audit_scan cal today duration ex h config =
     (case probe_auditd ex h of
        (AuditdIndeterminate why, h) \<Rightarrow>
          (audit_scan_result duration []
             [audit_unchecked ''audit_not_installed'' ''audit daemon presence''
                (''could not determine whether auditd is installed: '' @ why) Unknown
                (audit_compliance_mappings ''not_installed''),
              post_install_unchecked ''whether auditd is installed could not be determined, so whether it is enabled, running and correctly ruled cannot be either'' Unknown], h)
      | (AuditdAbsent, h) \<Rightarrow>
          (audit_scan_result duration [auditd_absent_finding cal today config]
             [post_install_unchecked ''auditd is not installed, so whether it is enabled, running and correctly ruled cannot be determined'' Environment], h)
      | (AuditdInstalled, h) \<Rightarrow>
          (case is_auditd_enabled ex h of
             (boot, h) \<Rightarrow>
               (case is_auditd_running ex h of
                  (running, h) \<Rightarrow>
                    (case scan_audit_rules cal today ex config h of
                       ((fs, us), h) \<Rightarrow>
                         (audit_scan_result duration
                            ((if or_false boot then [] else [auditd_disabled_finding cal today config])
                             @ (if or_false running then [] else [auditd_stopped_finding cal today config]) @ fs) us, h)))))"

subsection \<open>Writing the rules file\<close>

definition audit_backup_prefix :: string where "audit_backup_prefix = AUDIT_RULES_PATH @ ''.backup.''"

definition write_audit_rules_file ::
  "('h, 'z) executor_scheme \<Rightarrow> 'h \<Rightarrow> string \<Rightarrow> string \<Rightarrow> (hardening_error, string option) result \<times> 'h" where
  "write_audit_rules_file ex h stamp content =
     (let backup = audit_backup_prefix @ stamp;
          write = (\<lambda>saved h. case write_file ex h AUDIT_RULES_PATH content of
            (Inr _, h) \<Rightarrow> (Inr saved, h)
          | (Inl e, h) \<Rightarrow> (Inl (hardening_of e), h))
      in if path_exists ex h AUDIT_RULES_PATH = Inr False then write None h
         else case execute_command ex h ''cp'' [''-p'', ''--no-dereference'', AUDIT_RULES_PATH, backup] of
                (Inl e, h) \<Rightarrow> (Inl (hardening_of e), h)
              | (Inr out, h) \<Rightarrow>
                  if \<not> command_success out then
                    (Inl (PluginError (''Failed to back up '' @ AUDIT_RULES_PATH @ '' to '' @ backup @ '': cp exited ''
                       @ show_int (exit_code out) @ '' ('' @ trim (stderr out) @ '')'')), h)
                  else write (Some backup) (prune_timestamped_backups ex h audit_backup_prefix BACKUPS_KEPT))"

definition set_audit_rules_mode :: "('h, 'z) executor_scheme \<Rightarrow> 'h \<Rightarrow> change list \<times> 'h" where
  "set_audit_rules_mode ex h =
     (let failed = (\<lambda>why. [change_of (''Wrote '' @ AUDIT_RULES_PATH @ '' but could not set its mode to '' @ AUDIT_RULES_MODE
            @ ''; the rules are in force and the file is readable more widely than intended'') ConfigFile (Some why)])
      in case execute_command ex h ''chmod'' [AUDIT_RULES_MODE, AUDIT_RULES_PATH] of
           (Inr out, h) \<Rightarrow>
             (if command_success out then []
              else failed (''chmod exited '' @ show_int (exit_code out) @ '': '' @ trim (stderr out)), h)
         | (Inl e, h) \<Rightarrow> (failed (host_error_text e), h))"

subsection \<open>Loading the rules\<close>

definition compiled_rule_paths_present :: "('h, 'z) executor_scheme \<Rightarrow> 'h \<Rightarrow> (string \<times> bool) list" where
  "compiled_rule_paths_present ex h =
     map (\<lambda>path. (path, path_exists ex h path \<noteq> Inr False)) [AUDIT_COMPILED_RULES, AUDIT_COMPILED_RULES_PREV]"

definition paths_the_reload_created :: "(string \<times> bool) list \<Rightarrow> (string \<times> bool) list \<Rightarrow> string list" where
  "paths_the_reload_created earlier later =
     map (\<lambda>((path, _), _). path) (filter (\<lambda>((_, was_there), (_, is_there)). \<not> was_there \<and> is_there) (zip earlier later))"

definition remove_paths_the_reload_created ::
  "('h, 'z) executor_scheme \<Rightarrow> 'h \<Rightarrow> (string \<times> bool) list \<Rightarrow> 'h" where
  "remove_paths_the_reload_created ex h earlier =
     foldl (\<lambda>h path. snd (execute_command ex h ''rm'' [''-f'', ''--'', path])) h
       (paths_the_reload_created earlier (compiled_rule_paths_present ex h))"

definition restart_auditd ::
  "('h, 'z) executor_scheme \<Rightarrow> bool \<Rightarrow> 'h \<Rightarrow> (hardening_error, unit) result \<times> 'h" where
  "restart_auditd ex flushed h =
     (case execute_command ex h ''systemctl'' [''restart'', ''auditd''] of
        (Inl e, h) \<Rightarrow> (Inl (hardening_of e), h)
      | (Inr out, h) \<Rightarrow>
          (if command_success out then Inr ()
           else Inl (PluginError (''Failed to reload audit rules (augenrules --load and systemctl restart both failed)''
             @ (if flushed then ''; the kernel rule set was flushed before the failed retry, so audit rules may currently be unloaded: reload them with `auditctl -R /etc/audit/audit.rules` or reboot''
                else ''; previously loaded audit rules are still active''))), h))"

definition reload_audit_rules :: "('h, 'z) executor_scheme \<Rightarrow> 'h \<Rightarrow> (hardening_error, unit) result \<times> 'h" where
  "reload_audit_rules ex h =
     (case command_exists ex h ''augenrules'' of
        (found, h) \<Rightarrow>
          if \<not> or_false found then restart_auditd ex False h
          else
            (case execute_command ex h ''augenrules'' [''--load''] of
               (Inl e, h) \<Rightarrow> (Inl (hardening_of e), h)
             | (Inr out, h) \<Rightarrow>
                 if command_success out then (Inr (), h)
                 else if contains ''Rule exists'' (stdout out) \<or> contains ''Rule exists'' (stderr out) then
                   (case execute_command ex h ''auditctl'' [''-D''] of
                      (_, h) \<Rightarrow>
                        (case execute_command ex h ''augenrules'' [''--load''] of
                           (Inl e, h) \<Rightarrow> (Inl (hardening_of e), h)
                         | (Inr again, h) \<Rightarrow>
                             if command_success again then (Inr (), h) else restart_auditd ex True h))
                 else restart_auditd ex False h))"

definition is_audit_config_immutable :: "('h, 'z) executor_scheme \<Rightarrow> 'h \<Rightarrow> bool \<times> 'h" where
  "is_audit_config_immutable ex h =
     (case execute_command ex h ''auditctl'' [''-s''] of
        (Inl _, h) \<Rightarrow> (False, h)
      | (Inr out, h) \<Rightarrow>
          (command_success out \<and> list_ex (\<lambda>line. split_whitespace line = [''enabled'', ''2'']) (str_lines (stdout out)), h))"

subsection \<open>Apply\<close>

definition audit_refusal :: "auditd_presence \<Rightarrow> (string \<times> string \<times> string) option" where
  "audit_refusal presence =
     (case presence of
        AuditdInstalled \<Rightarrow> None
      | AuditdAbsent \<Rightarrow> Some (''Auditd not installed - cannot apply rules'', ''auditd package not found'', ''Auditd is not installed'')
      | AuditdIndeterminate why \<Rightarrow>
          Some (''Could not determine whether auditd is installed - not applying rules'', ''probing for auditd failed: '' @ why,
                ''Whether auditd is installed could not be determined''))"

text \<open>\<open>systemctl\<close> with one verb on the daemon, and the change it records.\<close>

definition auditd_service_change ::
  "('h, 'z) executor_scheme \<Rightarrow> 'h \<Rightarrow> string \<Rightarrow> string \<Rightarrow> string \<Rightarrow> change \<times> 'h" where
  "auditd_service_change ex h verb succeeded failed =
     (case execute_command ex h ''systemctl'' [verb, ''auditd''] of
        (out, h) \<Rightarrow>
          (if (case out of Inr o' \<Rightarrow> command_success o' | Inl _ \<Rightarrow> False) then change_of succeeded Service None
           else change_of failed Service (Some (''systemctl '' @ verb @ '' failed'')), h))"

definition start_auditd :: "('h, 'z) executor_scheme \<Rightarrow> 'h \<Rightarrow> change list \<times> 'h" where
  "start_auditd ex h =
     (case is_auditd_enabled ex h of
        (boot, h) \<Rightarrow>
          (case (if or_false boot then ([], h)
                 else case auditd_service_change ex h ''enable'' ''Enabled auditd service'' ''Failed to enable auditd service'' of
                        (c, h) \<Rightarrow> ([c], h)) of
             (cs, h) \<Rightarrow>
               (case is_auditd_running ex h of
                  (running, h) \<Rightarrow>
                    if or_false running then (cs, h)
                    else case auditd_service_change ex h ''start'' ''Started auditd service'' ''Failed to start auditd'' of
                           (c, h) \<Rightarrow> (cs @ [c], h))))"

definition reload_change :: "('h, 'z) executor_scheme \<Rightarrow> 'h \<Rightarrow> change \<times> 'h" where
  "reload_change ex h =
     (case reload_audit_rules ex h of
        (Inr _, h) \<Rightarrow> (change_of ''Loaded audit rules into running daemon'' Service None, h)
      | (Inl e, h) \<Rightarrow>
          (case is_audit_config_immutable ex h of
             (True, h) \<Rightarrow>
               (change_of ''Audit rule reload skipped: config is locked (-e 2); a reboot is required for rule changes to take effect'' Skipped None, h)
           | (False, h) \<Rightarrow> (change_of ''Failed to reload audit rules'' Service (Some (error_text e)), h)))"

text \<open>The write is stopped by a directory that could not be made; the reload runs either way.\<close>

definition install_rules ::
  "('h, 'z) executor_scheme \<Rightarrow> 'h \<Rightarrow> string \<Rightarrow> string option \<Rightarrow> string \<Rightarrow> change list \<times> 'h" where
  "install_rules ex h stamp dir_error content =
     (case (case dir_error of
              Some why \<Rightarrow> (Inl why, h)
            | None \<Rightarrow>
                (case write_audit_rules_file ex h stamp content of
                   (Inl e, h) \<Rightarrow> (Inl (error_text e), h)
                 | (Inr backup, h) \<Rightarrow> (Inr backup, h))) of
        (Inl why, h) \<Rightarrow>
          (case reload_change ex h of (c, h) \<Rightarrow> ([change_of ''Failed to write audit rules'' ConfigFile (Some why), c], h))
      | (Inr backup, h) \<Rightarrow>
          (case set_audit_rules_mode ex h of
             (ms, h) \<Rightarrow>
               (case reload_change ex h of
                  (c, h) \<Rightarrow>
                    ([change_of (case backup of
                        Some path \<Rightarrow> ''Created audit rules file (backup: '' @ path @ '')''
                      | None \<Rightarrow> ''Created audit rules file (no previous file to back up)'') ConfigFile None] @ ms @ [c], h))))"

text \<open>What follows the checkpoint.\<close>

definition audit_harden ::
  "'d::linorder calendar \<Rightarrow> 'd \<Rightarrow> string \<Rightarrow> ('h, 'z) executor_scheme \<Rightarrow> plugin_config \<Rightarrow> string option \<Rightarrow> 'h \<Rightarrow>
   change list \<times> 'h" where
  "audit_harden cal today stamp ex config dir_error h =
     (case start_auditd ex h of
        (cs, h) \<Rightarrow>
          (let (content, skipped) = rendered_rules_file cal today config;
               skips = map (\<lambda>category. change_of (''Audit category '' @ category @ '': skipped (exception: ''
                 @ (case has_valid_exception cal today config category of Some x \<Rightarrow> reason x | None \<Rightarrow> []) @ '')'') Skipped None) skipped
           in if read_file ex h AUDIT_RULES_PATH = Inr content then
                (cs @ skips @ [change_of ''Audit rules already up to date - unchanged'' Skipped None], h)
              else case install_rules ex h stamp dir_error content of (news, h) \<Rightarrow> (cs @ skips @ news, h)))"

definition audit_apply ::
  "'d::linorder calendar \<Rightarrow> 'd \<Rightarrow> string \<Rightarrow> 'h apply_context \<Rightarrow> 'h \<Rightarrow> database \<Rightarrow> plugin_config \<Rightarrow>
   ((hardening_error, apply_result) result \<times> 'h \<times> database) option" where
  "audit_apply cal today stamp ctx h db config =
     (let ex = ctx_executor ctx in
      case probe_auditd ex h of
        (presence, h) \<Rightarrow>
          (case audit_refusal presence of
             Some (what, why, summary) \<Rightarrow>
               Some (Inr \<lparr>apply_plugin_id = AUDIT_PLUGIN_ID, apply_success = False,
                 apply_changes = [change_of what Service (Some why)], apply_checkpoint_id = None, apply_error = Some summary\<rparr>, h, db)
           | None \<Rightarrow>
               (case ensure_plugin_directory ex h AUDIT_RULES_DIR of
                  (dir_error, h) \<Rightarrow>
                    (case create_checkpoint_for_apply ctx (prune_timestamped_backups ex h audit_backup_prefix BACKUPS_KEPT) db
                            ''audit-hardening-pre-apply''
                            [''/etc/audit/auditd.conf'', AUDIT_RULES_DIR, AUDIT_RULES_PATH, AUDIT_COMPILED_RULES, AUDIT_COMPILED_RULES_PREV] of
                       None \<Rightarrow> None
                     | Some (Inl e, h, db) \<Rightarrow> Some (Inl e, h, db)
                     | Some (Inr cid, h, db) \<Rightarrow>
                         (case audit_harden cal today stamp ex config dir_error h of
                            (cs, h) \<Rightarrow>
                              (let changes = (case checkpoint_change cid of Some c \<Rightarrow> [c] | None \<Rightarrow> []) @ cs;
                                   ok = list_all change_success changes
                               in Some (Inr \<lparr>apply_plugin_id = AUDIT_PLUGIN_ID, apply_success = ok, apply_changes = changes,
                                    apply_checkpoint_id = cid,
                                    apply_error = (if ok then None else case join_failure_reasons changes of
                                      Some r \<Rightarrow> Some r | None \<Rightarrow> Some ''Some changes failed'')\<rparr>, h, db)))))))"

subsection \<open>After a rollback\<close>

definition audit_reloads_for_path :: "string \<Rightarrow> bool" where
  "audit_reloads_for_path path = path_starts_with path ''/etc/audit''"

definition audit_reload_after_rollback ::
  "('h, 'z) executor_scheme \<Rightarrow> 'h \<Rightarrow> (hardening_error, string option) result \<times> 'h" where
  "audit_reload_after_rollback ex h =
     (let earlier = compiled_rule_paths_present ex h in
      case reload_audit_rules ex h of
        (reloaded, h) \<Rightarrow>
          (let h = remove_paths_the_reload_created ex h earlier in
           case reloaded of
             Inr _ \<Rightarrow> (Inr (Some ''audit rules reloaded''), h)
           | Inl e \<Rightarrow>
               (case is_audit_config_immutable ex h of
                  (True, h) \<Rightarrow>
                    (Inr (Some ''audit rules restored but not loaded: the kernel audit config is locked (-e 2), so a reboot is required for them to take effect''), h)
                | (False, h) \<Rightarrow> (Inl e, h))))"

definition AUDIT_SUBJECT :: string where "AUDIT_SUBJECT = ''audit-rules''"

definition UNRUNNABLE_CEILING_REASON :: string where
  "UNRUNNABLE_CEILING_REASON =
     ''a stated ceiling rather than a probe that failed: auditctl cannot run in any container this project builds, measured booted and unbooted. #18 turns this into a measurement''"

definition audit_divergence_reason :: "audit_rules_result \<Rightarrow> string \<times> string option" where
  "audit_divergence_reason r =
     (case r of
        AuditRules rules \<Rightarrow>
          (''auditctl read '' @ show_radix 10 (length rules)
             @ '' loaded audit rule(s) from the kernel, but comparing them against the restored audit rules file is not implemented'',
           Some ''a stated ceiling rather than a probe that failed: comparing a read-back rule set against the restored audit rules file is not implemented in this crate. #18 turns this into a measurement'')
      | AuditPermissionDenied \<Rightarrow>
          (''auditctl refused to list the kernel's loaded audit rules for lack of privilege, so the kernel rule set cannot be read back here'',
           Some UNRUNNABLE_CEILING_REASON)
      | AuditProbeFailed cause \<Rightarrow>
          (''auditctl could not be run, so the kernel's loaded audit rules cannot be read back here: '' @ cause,
           Some UNRUNNABLE_CEILING_REASON)
      | AuditUnrecognisedFailure cause \<Rightarrow>
          (''auditctl failed for a reason this project does not recognise as a permission refusal, so the kernel's loaded audit rules cannot be read back here: '' @ cause,
           None))"

definition audit_divergences :: "('h, 'z) executor_scheme \<Rightarrow> 'h \<Rightarrow> rollback_divergence list \<times> 'h" where
  "audit_divergences ex h =
     (case read_current_audit_rules ex h of
        (r, h) \<Rightarrow>
          (case audit_divergence_reason r of
             (why, expected) \<Rightarrow>
               ([divergence_row AUDIT_PLUGIN_ID AUDIT_SUBJECT Unverifiable (why @ ''. See #18.'') expected], h)))"

definition audit_divergences_after_rollback ::
  "('h, 'z) executor_scheme \<Rightarrow> 'h \<Rightarrow> string list \<Rightarrow> rollback_divergence list \<times> 'h" where
  "audit_divergences_after_rollback ex h restored =
     (if list_ex audit_reloads_for_path restored then audit_divergences ex h else ([], h))"

subsection \<open>Preview\<close>

fun audit_exception_lines ::
  "'d::linorder calendar \<Rightarrow> 'd \<Rightarrow> plugin_config \<Rightarrow> string list \<Rightarrow> audit_rule_directive list \<Rightarrow> string list" where
  "audit_exception_lines cal today config lines_so_far [] = lines_so_far"
| "audit_exception_lines cal today config lines_so_far (rule # rules) =
     audit_exception_lines cal today config
       (case has_valid_exception cal today config (audit_rule_category rule) of
          Some x \<Rightarrow>
            if list_ex (starts_with (audit_rule_category rule)) lines_so_far then lines_so_far
            else lines_so_far @ [exception_preview_line (audit_rule_category rule) EXCEPTION_OBSERVED_UNCHANGED (reason x)]
        | None \<Rightarrow> lines_so_far) rules"

definition preview_audit_rules ::
  "'d::linorder calendar \<Rightarrow> 'd \<Rightarrow> plugin_config \<Rightarrow> audit_rules_result \<Rightarrow> string list \<times> string list" where
  "preview_audit_rules cal today config r =
     (case folded_audit_rules r of
        AuditRules current \<Rightarrow>
          (let missing = length (filter (\<lambda>rule. has_valid_exception cal today config (audit_rule_category rule) = None
                 \<and> \<not> rule_loaded current rule) AUDIT_RULES)
           in (if missing > 0 then [''Add '' @ show_radix 10 missing @ '' audit-rules''] else [],
               audit_exception_lines cal today config [] AUDIT_RULES))
      | _ \<Rightarrow> ([], []))"

definition audit_validate ::
  "'d::linorder calendar \<Rightarrow> 'd \<Rightarrow> ('h, 'z) executor_scheme \<Rightarrow> 'h \<Rightarrow> plugin_config \<Rightarrow> validation_report \<times> 'h" where
  "audit_validate cal today ex h config =
     (let report = (\<lambda>issues estimates xs.
            \<lparr>validation_report_plugin_id = AUDIT_PLUGIN_ID, validation_report_is_valid = (issues = []),
             validation_report_issues = issues, validation_report_estimated_changes = estimates,
             validation_report_compliant_count = 0, validation_report_exceptions = xs\<rparr>);
          issue = (\<lambda>message sev. \<lparr>validation_issue_severity = sev, validation_issue_message = message, validation_issue_config_key = None\<rparr>)
      in case probe_auditd ex h of
           (AuditdAbsent, h) \<Rightarrow> (report [issue ''auditd is not installed - this plugin requires auditd'' Critical] [] [], h)
         | (AuditdIndeterminate why, h) \<Rightarrow>
             (report [issue (''Failed to check auditd installation status: '' @ why) High] [] [], h)
         | (AuditdInstalled, h) \<Rightarrow>
             (case is_auditd_enabled ex h of
                (boot, h) \<Rightarrow>
                  (case is_auditd_running ex h of
                     (running, h) \<Rightarrow>
                       (case read_current_audit_rules ex h of
                          (r, h) \<Rightarrow>
                            (case preview_audit_rules cal today config r of
                               (adds, xs) \<Rightarrow>
                                 (report []
                                    ((if boot = Inr False then [''Enable auditd service''] else [])
                                     @ (if running = Inr False then [''Start auditd service''] else []) @ adds
                                     @ (case rules_file_estimate ex h (fst (rendered_rules_file cal today config)) of
                                          Some line \<Rightarrow> [line] | None \<Rightarrow> [])) xs, h))))))"

end
