(* ===== verification/Audit_Safety.thy ===== *)
theory Audit_Safety
  imports Audit_Plugin Apply_Effects Compliance_Report
begin

text \<open>
  What an audit apply and the reload of a rollback may do to a host, what the scan leaves unassessed on a host
  without the daemon, and how little of the rule set satisfies it.
\<close>

subsection \<open>Effects\<close>

definition reload_command :: "string \<times> string list \<Rightarrow> bool" where
  "reload_command c =
     (c \<in> {(''augenrules'', [''--load'']), (''auditctl'', [''-D'']), (''auditctl'', [''-s'']), (''systemctl'', [''restart'', ''auditd'']),
           (''sh'', [''-c'', COMMAND_EXISTS_PROBE, ''sh'', ''augenrules''])})"

definition audit_command :: "string \<times> string list \<Rightarrow> bool" where
  "audit_command c =
     (reload_command c \<or> c = (''sh'', [''-c'', COMMAND_EXISTS_PROBE, ''sh'', ''auditd''])
      \<or> (\<exists>verb\<in>{''is-enabled'', ''is-active'', ''enable'', ''start''}. c = (''systemctl'', [verb, ''auditd'']))
      \<or> c = (''mkdir'', [''-p'', AUDIT_RULES_DIR]) \<or> c = (''chmod'', [AUDIT_RULES_MODE, AUDIT_RULES_PATH])
      \<or> (\<exists>stamp. c = (''cp'', [''-p'', ''--no-dereference'', AUDIT_RULES_PATH, audit_backup_prefix @ stamp]))
      \<or> (\<exists>victims. c = (''rm'', ''-f'' # ''--'' # victims) \<and> (\<forall>v\<in>set victims. starts_with audit_backup_prefix v)))"

lemma audit_commandI:
  shows "reload_command c \<Longrightarrow> audit_command c"
    and "audit_command (''sh'', [''-c'', COMMAND_EXISTS_PROBE, ''sh'', ''auditd''])"
    and "verb \<in> {''is-enabled'', ''is-active'', ''enable'', ''start''} \<Longrightarrow> audit_command (''systemctl'', [verb, ''auditd''])"
    and "audit_command (''mkdir'', [''-p'', AUDIT_RULES_DIR])"
    and "audit_command (''chmod'', [AUDIT_RULES_MODE, AUDIT_RULES_PATH])"
    and "audit_command (''cp'', [''-p'', ''--no-dereference'', AUDIT_RULES_PATH, audit_backup_prefix @ stamp])"
    and "\<forall>v\<in>set victims. starts_with audit_backup_prefix v \<Longrightarrow> audit_command (''rm'', ''-f'' # ''--'' # victims)"
  by (simp_all add: audit_command_def)

context recorded_effects
begin

lemma command_exists_confined:
  "command_exists ex h program = (r, h') \<Longrightarrow> R (''sh'', [''-c'', COMMAND_EXISTS_PROBE, ''sh'', program]) \<Longrightarrow> confined W R h h'"
  by (auto simp: command_exists_def split: prod.splits sum.splits intro: run_confined)

lemma restart_confined: "restart_auditd ex flushed h = (r, h') \<Longrightarrow> R (''systemctl'', [''restart'', ''auditd'']) \<Longrightarrow> confined W R h h'"
  by (auto simp: restart_auditd_def split: prod.splits sum.splits intro: run_confined)

lemma reload_confined:
  assumes R: "\<And>c. reload_command c \<Longrightarrow> R c" and run: "reload_audit_rules ex h = (r, h')"
  shows "confined W R h h'"
proof -
  obtain found h1 where f: "command_exists ex h ''augenrules'' = (found, h1)" by fastforce
  obtain o1 h2 where l1: "execute_command ex h1 ''augenrules'' [''--load''] = (o1, h2)" by fastforce
  obtain o2 h3 where d: "execute_command ex h2 ''auditctl'' [''-D''] = (o2, h3)" by fastforce
  obtain o3 h4 where l2: "execute_command ex h3 ''augenrules'' [''--load''] = (o3, h4)" by fastforce
  have R': "R (''augenrules'', [''--load''])" "R (''auditctl'', [''-D''])" "R (''systemctl'', [''restart'', ''auditd''])"
    "R (''sh'', [''-c'', COMMAND_EXISTS_PROBE, ''sh'', ''augenrules''])"
    by (rule R, simp add: reload_command_def)+
  have c1: "confined W R h h1" by (rule command_exists_confined[where R = R, OF f R'(4)])
  have c2: "confined W R h h2" by (rule confined_trans[OF c1 run_confined[where R = R, OF l1 R'(1)]])
  have c3: "confined W R h h3" by (rule confined_trans[OF c2 run_confined[where R = R, OF d R'(2)]])
  have c4: "confined W R h h4" by (rule confined_trans[OF c3 run_confined[where R = R, OF l2 R'(1)]])
  have "h' \<in> {h2, h4} \<or> (\<exists>b g q. g \<in> {h1, h2, h4} \<and> restart_auditd ex b g = (q, h'))"
    using run by (auto simp: reload_audit_rules_def f l1 d l2 split: sum.splits if_splits)
  moreover have "confined W R g h'" if "restart_auditd ex b g = (q, h')" for b g q
    by (rule restart_confined[where R = R, OF that R'(3)])
  ultimately show ?thesis using c1 c2 c3 c4 confined_trans by blast
qed

lemma immutable_confined: "is_audit_config_immutable ex h = (b, h') \<Longrightarrow> R (''auditctl'', [''-s'']) \<Longrightarrow> confined W R h h'"
  by (auto simp: is_audit_config_immutable_def split: prod.splits sum.splits intro: run_confined)

lemma reload_change_confined:
  assumes "\<And>c. reload_command c \<Longrightarrow> R c" "reload_change ex h = (c, h')"
  shows "confined W R h h'"
proof -
  obtain r h1 where r: "reload_audit_rules ex h = (r, h1)" by fastforce
  obtain b h2 where b: "is_audit_config_immutable ex h1 = (b, h2)" by fastforce
  have s: "R (''auditctl'', [''-s''])" by (rule assms(1)) (simp add: reload_command_def)
  have 1: "confined W R h h1" by (rule reload_confined[OF assms(1) r])
  have "h' \<in> {h1, h2}" using assms(2) by (auto simp: reload_change_def r b split: sum.splits bool.splits)
  then show ?thesis using 1 confined_trans[OF 1 immutable_confined[where R = R, OF b s]] by blast
qed

lemma auditd_probe_confined:
  "is_auditd_enabled ex h = (r, h') \<Longrightarrow> confined W audit_command h h'"
  "is_auditd_running ex h = (q, h') \<Longrightarrow> confined W audit_command h h'"
  by (auto simp: is_auditd_enabled_def is_auditd_running_def split: prod.splits sum.splits intro!: run_confined audit_commandI(3))

lemma auditd_change_confined:
  assumes "auditd_service_change ex h verb a b = (c, h')" "verb \<in> {''enable'', ''start''}"
  shows "confined W audit_command h h'"
proof -
  obtain out h1 where o: "execute_command ex h ''systemctl'' [verb, ''auditd''] = (out, h1)" by fastforce
  have "audit_command (''systemctl'', [verb, ''auditd''])" by (rule audit_commandI(3)) (use assms(2) in auto)
  from run_confined[where R = audit_command, OF o this] assms(1) show ?thesis by (simp add: auditd_service_change_def o)
qed

lemma start_auditd_confined:
  assumes "start_auditd ex h = (cs, h')"
  shows "confined W audit_command h h'"
proof -
  obtain b h1 where b: "is_auditd_enabled ex h = (b, h1)" by fastforce
  obtain c2 h2 where c2: "(if or_false b then ([], h1)
      else case auditd_service_change ex h1 ''enable'' ''Enabled auditd service'' ''Failed to enable auditd service'' of
        (c, h) \<Rightarrow> ([c], h)) = (c2, h2)" by fastforce
  obtain r h3 where r: "is_auditd_running ex h2 = (r, h3)" by fastforce
  obtain c4 h4 where c4: "auditd_service_change ex h3 ''start'' ''Started auditd service'' ''Failed to start auditd'' = (c4, h4)"
    by fastforce
  have 1: "confined W audit_command h h1" by (rule auditd_probe_confined(1)[OF b])
  have 2: "confined W audit_command h1 h2"
    using c2 by (auto split: if_splits prod.splits dest: auditd_change_confined)
  have 3: "confined W audit_command h2 h3" by (rule auditd_probe_confined(2)[OF r])
  have 4: "confined W audit_command h3 h4" by (rule auditd_change_confined[OF c4]) simp
  have "h' \<in> {h3, h4}"
    using assms unfolding start_auditd_def b prod.case c2 r c4 by (auto split: if_splits)
  then show ?thesis using confined_trans[OF confined_trans[OF 1 2] 3] confined_trans[OF _ 4] by blast
qed

lemma write_rules_confined:
  assumes run: "write_audit_rules_file ex h stamp content = (r, h')" and W: "W (AUDIT_RULES_PATH, content)"
  shows "confined W audit_command h h'"
proof -
  obtain o1 h1 where c: "execute_command ex h ''cp'' [''-p'', ''--no-dereference'', AUDIT_RULES_PATH, audit_backup_prefix @ stamp] = (o1, h1)"
    by fastforce
  let ?h2 = "prune_timestamped_backups ex h1 audit_backup_prefix BACKUPS_KEPT"
  have 1: "confined W audit_command h h1" by (rule run_confined[where R = audit_command, OF c audit_commandI(6)])
  have 2: "confined W audit_command h1 ?h2" by (rule prune_prefix_confined) (rule audit_commandI(7))
  have w: "confined W audit_command g h'" if "write_file ex g AUDIT_RULES_PATH content = (q, h')" for g q
    by (rule write_confined[where W = W, OF that W])
  have "h' = h1 \<or> (\<exists>g q. g \<in> {h, ?h2} \<and> write_file ex g AUDIT_RULES_PATH content = (q, h'))"
    using run by (auto simp: write_audit_rules_file_def c Let_def split: if_splits sum.splits prod.splits)
  then show ?thesis using 1 w confined_trans[OF 1 2] confined_trans by blast
qed

lemma set_mode_confined: "set_audit_rules_mode ex h = (cs, h') \<Longrightarrow> confined W audit_command h h'"
  by (auto simp: set_audit_rules_mode_def Let_def split: prod.splits sum.splits intro!: run_confined audit_commandI(5))

lemma install_confined:
  assumes run: "install_rules ex h stamp dir_error content = (cs, h')" and W: "W (AUDIT_RULES_PATH, content)"
  shows "confined W audit_command h h'"
proof -
  let ?w = "case dir_error of Some why \<Rightarrow> (Inl why, h)
    | None \<Rightarrow> (case write_audit_rules_file ex h stamp content of (Inl e, h) \<Rightarrow> (Inl (error_text e), h) | (Inr backup, h) \<Rightarrow> (Inr backup, h))"
  obtain w h1 where w: "?w = (w, h1)" by fastforce
  have 1: "confined W audit_command h h1"
    using w write_rules_confined[where W = W, OF _ W] by (auto split: option.splits prod.splits sum.splits)
  obtain ms h2 where m: "set_audit_rules_mode ex h1 = (ms, h2)" by fastforce
  have 2: "confined W audit_command h h2" by (rule confined_trans[OF 1 set_mode_confined[OF m]])
  have r: "confined W audit_command g h'" if "reload_change ex g = (c, h')" for g c
    by (rule reload_change_confined[where R = audit_command, OF audit_commandI(1) that])
  note steps = run[unfolded install_rules_def w prod.case]
  show ?thesis
  proof (cases w)
    case (Inl why)
    then obtain c where "reload_change ex h1 = (c, h')" using steps by (auto split: prod.splits)
    with 1 r show ?thesis using confined_trans by blast
  next
    case (Inr backup)
    then obtain c where "reload_change ex h2 = (c, h')" using steps by (auto simp: m split: prod.splits)
    with 2 r show ?thesis using confined_trans by blast
  qed
qed

lemma audit_harden_confined:
  assumes "audit_harden cal today stamp ex config dir_error h = (cs, h')"
  shows "confined (\<lambda>w. w = (AUDIT_RULES_PATH, fst (rendered_rules_file cal today config))) audit_command h h'"
proof -
  obtain c1 h1 where s: "start_auditd ex h = (c1, h1)" by fastforce
  have "h' = h1 \<or> (\<exists>q. install_rules ex h1 stamp dir_error (fst (rendered_rules_file cal today config)) = (q, h'))"
    using assms by (auto simp: audit_harden_def s Let_def split: prod.splits if_splits)
  then show ?thesis
  proof (elim disjE exE)
    fix q assume i: "install_rules ex h1 stamp dir_error (fst (rendered_rules_file cal today config)) = (q, h')"
    show ?thesis by (rule confined_trans[OF start_auditd_confined[OF s] install_confined[OF i]]) simp
  qed (use start_auditd_confined[OF s] in simp)
qed

end

text \<open>
  C20. An audit apply writes nothing but its own rules file, whole, with the rules rendered from the
  configuration; it runs only probes of the daemon, its enable and start, the directory, backup, prune and mode
  of that file, and the reload. It never stops or disables the daemon.
\<close>

theorem audit_apply_confined:
  assumes "recorded_effects (ctx_executor ctx) writes runs"
    and "audit_apply cal today stamp ctx h db config = Some (r, h', db')"
  shows "\<exists>ws rs. writes h' = writes h @ ws \<and> runs h' = runs h @ rs
     \<and> (\<forall>w\<in>set ws. w = (AUDIT_RULES_PATH, fst (rendered_rules_file cal today config))) \<and> (\<forall>c\<in>set rs. audit_command c)"
proof -
  note rec = assms(1)
  let ?ex = "ctx_executor ctx" and ?W = "\<lambda>w. w = (AUDIT_RULES_PATH, fst (rendered_rules_file cal today config))"
  let ?confined = "recorded_effects.confined writes runs ?W audit_command"
  note trans = recorded_effects.confined_trans[OF rec, where W = ?W and R = audit_command]
  obtain presence h1 where p: "probe_auditd ?ex h = (presence, h1)" by fastforce
  obtain q h0 where q: "command_exists ?ex h ''auditd'' = (q, h0)" by fastforce
  have "h1 = h0" using p q by (auto simp: probe_auditd_def split: sum.splits)
  then have 1: "?confined h h1"
    using recorded_effects.command_exists_confined[OF rec q, of audit_command ?W] audit_commandI(2) by simp
  obtain dir_error h2 where d: "ensure_plugin_directory ?ex h1 AUDIT_RULES_DIR = (dir_error, h2)" by fastforce
  have 2: "?confined h1 h2"
    by (rule recorded_effects.ensure_plugin_directory_confined[OF rec d, where R = audit_command]) (rule audit_commandI(4))
  let ?h3 = "prune_timestamped_backups ?ex h2 audit_backup_prefix BACKUPS_KEPT"
  have 3: "?confined h2 ?h3"
    by (rule recorded_effects.prune_prefix_confined[OF rec]) (rule audit_commandI(7))
  let ?cp = "create_checkpoint_for_apply ctx ?h3 db ''audit-hardening-pre-apply''
    [''/etc/audit/auditd.conf'', AUDIT_RULES_DIR, AUDIT_RULES_PATH, AUDIT_COMPILED_RULES, AUDIT_COMPILED_RULES_PREV]"
  have 4: "?confined ?h3 h4" if "?cp = Some (cid, h4, db4)" for cid h4 db4
    by (rule checkpoint_for_apply_confined[OF rec that])
  note steps = assms(2)[unfolded audit_apply_def Let_def p prod.case d]
  show ?thesis
  proof (cases "audit_refusal presence")
    case (Some x)
    then have "h' = h1" using steps by (auto split: prod.splits)
    with 1 show ?thesis unfolding recorded_effects.confined_def[OF rec] by simp
  next
    case None
    note steps = steps[unfolded None option.case]
    obtain cid h4 db4 where cp: "?cp = Some (cid, h4, db4)" using steps by (auto split: option.splits)
    have upto: "?confined h h4" by (rule trans[OF trans[OF trans[OF 1 2] 3] 4[OF cp]])
    have "h' = h4 \<or> (\<exists>q. audit_harden cal today stamp ?ex config dir_error h4 = (q, h'))"
      using steps[unfolded cp option.case] by (auto split: sum.splits prod.splits)
    then have "?confined h h'"
    proof (elim disjE exE)
      fix q assume "audit_harden cal today stamp ?ex config dir_error h4 = (q, h')"
      from trans[OF upto recorded_effects.audit_harden_confined[OF rec this]] show ?thesis .
    qed (use upto in simp)
    then show ?thesis unfolding recorded_effects.confined_def[OF rec] .
  qed
qed

subsection \<open>The reload of a rollback\<close>

lemma created_were_absent:
  "path \<in> set (paths_the_reload_created (compiled_rule_paths_present ex h) (compiled_rule_paths_present ex h2)) \<Longrightarrow>
     path \<in> {AUDIT_COMPILED_RULES, AUDIT_COMPILED_RULES_PREV} \<and> path_exists ex h path = Inr False"
  by (auto simp: paths_the_reload_created_def compiled_rule_paths_present_def split: if_splits)

lemma removals_confined:
  assumes "recorded_effects ex writes runs" "\<And>path. path \<in> set paths \<Longrightarrow> R (''rm'', [''-f'', ''--'', path])"
  shows "recorded_effects.confined writes runs W R h (foldl (\<lambda>h path. snd (execute_command ex h ''rm'' [''-f'', ''--'', path])) h paths)"
  using assms(2)
proof (induction paths arbitrary: h)
  case (Cons path paths)
  have "recorded_effects.confined writes runs W R h (snd (execute_command ex h ''rm'' [''-f'', ''--'', path]))"
    by (rule recorded_effects.run_confined[OF assms(1) prod.collapse[symmetric]]) (use Cons.prems in simp)
  moreover have "recorded_effects.confined writes runs W R (snd (execute_command ex h ''rm'' [''-f'', ''--'', path]))
      (foldl (\<lambda>h path. snd (execute_command ex h ''rm'' [''-f'', ''--'', path])) (snd (execute_command ex h ''rm'' [''-f'', ''--'', path])) paths)"
    by (rule Cons.IH) (use Cons.prems in simp)
  ultimately show ?case using recorded_effects.confined_trans[OF assms(1)] by simp
qed (simp add: recorded_effects.confined_refl[OF assms(1)])

text \<open>The reload that follows a rollback writes no file, and removes a compiled rule file only when that file
  was confirmed absent in the state the rollback restored.
\<close>

theorem audit_reload_confined:
  assumes "recorded_effects ex writes runs" and "audit_reload_after_rollback ex h = (r, h')"
  shows "writes h' = writes h \<and> (\<exists>rs. runs h' = runs h @ rs \<and> (\<forall>c\<in>set rs. reload_command c
     \<or> (\<exists>path\<in>{AUDIT_COMPILED_RULES, AUDIT_COMPILED_RULES_PREV}.
          c = (''rm'', [''-f'', ''--'', path]) \<and> path_exists ex h path = Inr False)))"
proof -
  note rec = assms(1)
  let ?R = "\<lambda>c. reload_command c \<or> (\<exists>path\<in>{AUDIT_COMPILED_RULES, AUDIT_COMPILED_RULES_PREV}.
    c = (''rm'', [''-f'', ''--'', path]) \<and> path_exists ex h path = Inr False)"
  let ?confined = "recorded_effects.confined writes runs (\<lambda>_. False) ?R"
  note trans = recorded_effects.confined_trans[OF rec, where W = "\<lambda>_. False" and R = ?R]
  obtain q h1 where q: "reload_audit_rules ex h = (q, h1)" by fastforce
  let ?h2 = "remove_paths_the_reload_created ex h1 (compiled_rule_paths_present ex h)"
  obtain b h3 where b: "is_audit_config_immutable ex ?h2 = (b, h3)" by fastforce
  have 1: "?confined h h1" by (rule recorded_effects.reload_confined[OF rec _ q]) simp
  have "?confined h1 ?h2"
    unfolding remove_paths_the_reload_created_def
  proof (rule removals_confined[OF rec])
    fix path assume "path \<in> set (paths_the_reload_created (compiled_rule_paths_present ex h) (compiled_rule_paths_present ex h1))"
    then have "path \<in> {AUDIT_COMPILED_RULES, AUDIT_COMPILED_RULES_PREV} \<and> path_exists ex h path = Inr False"
      by (rule created_were_absent)
    then show "?R (''rm'', [''-f'', ''--'', path])" by blast
  qed
  then have 2: "?confined h ?h2" by (rule trans[OF 1])
  have 3: "?confined ?h2 h3"
    by (rule recorded_effects.immutable_confined[OF rec b, where R = ?R]) (simp add: reload_command_def)
  have "h' \<in> {?h2, h3}"
    using assms(2)[unfolded audit_reload_after_rollback_def Let_def q prod.case] b by (auto split: sum.splits bool.splits)
  then have "?confined h h'" using 2 trans[OF 2 3] by auto
  then show ?thesis by (rule recorded_effects.confined_no_write[OF rec])
qed

subsection \<open>What a scan leaves unassessed\<close>

definition mentions :: "compliance_mapping \<Rightarrow> compliance_mapping list \<Rightarrow> bool" where
  "mentions m ms = list_ex (\<lambda>n. compliance_framework n = compliance_framework m \<and> compliance_control_id n = compliance_control_id m) ms"

lemma absence_covers: "list_all (\<lambda>m. mentions m (audit_compliance_mappings ''not_installed'') \<or> mentions m audit_post_install_mappings) audit_coverage"
  by code_simp

text \<open>
  C21. No control passes on the absence of the daemon: on a host where auditd is not installed, or where its
  presence could not be determined, every control the plugin declares coverage for is carried by a finding or
  by an unchecked entry of the scan.
\<close>

theorem absent_daemon_passes_nothing:
  assumes "audit_scan cal today duration ex h config = (r, h')" "fst (probe_auditd ex h) \<noteq> AuditdInstalled" "m \<in> set audit_coverage"
  shows "(\<exists>f\<in>set (scan_findings r). mentions m (finding_compliance f))
     \<or> (\<exists>u\<in>set (scan_unchecked r). mentions m (unchecked_compliance u))"
proof -
  have m: "mentions m (audit_compliance_mappings ''not_installed'') \<or> mentions m audit_post_install_mappings"
    using absence_covers assms(3) by (simp add: list_all_iff)
  obtain presence h1 where p: "probe_auditd ex h = (presence, h1)" by fastforce
  note steps = assms(1)[unfolded audit_scan_def p prod.case]
  show ?thesis
  proof (cases presence)
    case AuditdAbsent
    then have "scan_findings r = [auditd_absent_finding cal today config]"
      "map unchecked_compliance (scan_unchecked r) = [audit_post_install_mappings]"
      using steps by (auto simp: audit_scan_result_def post_install_unchecked_def audit_unchecked_def)
    with m show ?thesis by (auto simp: auditd_absent_finding_def)
  next
    case (AuditdIndeterminate why)
    then have "map unchecked_compliance (scan_unchecked r) = [audit_compliance_mappings ''not_installed'', audit_post_install_mappings]"
      using steps by (auto simp: audit_scan_result_def post_install_unchecked_def audit_unchecked_def)
    with m show ?thesis by auto
  next
    case AuditdInstalled
    with assms(2) p show ?thesis by simp
  qed
qed

text \<open>
  C39. One line per category satisfies the scan: where every category name occurs somewhere in the loaded rules,
  the scan reports no rule finding, though the lines need watch none of the files and system calls of the table.
\<close>

theorem category_name_hides_rules:
  assumes "read_current_audit_rules ex h = (AuditRules current, h1)"
    and "\<forall>category\<in>set AUDIT_CATEGORIES. \<exists>line\<in>set current. contains category line"
  shows "fst (scan_audit_rules cal today ex config h) = ([], [])"
proof -
  have "list_all (\<lambda>rule. audit_rule_category rule \<in> set AUDIT_CATEGORIES) AUDIT_RULES" by code_simp
  then have "\<forall>rule\<in>set AUDIT_RULES. rule_loaded current rule"
    using assms(2) by (auto simp: list_all_iff rule_loaded_def list_ex_iff)
  then have "filter (\<lambda>rule. \<not> rule_loaded current rule) AUDIT_RULES = []" by (simp add: filter_empty_conv)
  then show ?thesis by (simp add: scan_audit_rules_def assms(1) folded_audit_rules_def)
qed

subsection \<open>Concrete runs\<close>

text \<open>A host with the daemon's programs, whose loaded rules name every category and watch nothing of the table.\<close>

definition idle_rules :: string where
  "idle_rules = concat (map (\<lambda>category. ''-w /srv/'' @ category @ '' -p r'' @ [nl]) AUDIT_CATEGORIES)"

definition audited_host :: mock_host where
  "audited_host =
     (let ok = \<lambda>text. \<lparr>stdout = text, stderr = [], exit_code = 0\<rparr> in
      new_mock\<lparr>command_programs := [''sh'' \<mapsto> ok [], ''auditctl'' \<mapsto> ok idle_rules, ''systemctl'' \<mapsto> ok [],
        ''augenrules'' \<mapsto> ok [], ''chmod'' \<mapsto> ok [], ''mkdir'' \<mapsto> ok []]\<rparr>)"

lemma audited_fresh: "files_written audited_host = []" "commands_executed audited_host = []"
  by (simp_all add: audited_host_def new_mock_def Let_def)

lemma audit_apply_returns:
  assumes "ctx_manager ctx = None"
  obtains r h' where "audit_apply cal today stamp ctx h db config = Some (r, h', db)"
proof -
  obtain presence h1 where p: "probe_auditd (ctx_executor ctx) h = (presence, h1)" by fastforce
  obtain dir_error h2 where d: "ensure_plugin_directory (ctx_executor ctx) h1 AUDIT_RULES_DIR = (dir_error, h2)" by fastforce
  let ?h3 = "prune_timestamped_backups (ctx_executor ctx) h2 audit_backup_prefix BACKUPS_KEPT"
  obtain cs h4 where a: "audit_harden cal today stamp (ctx_executor ctx) config dir_error ?h3 = (cs, h4)" by fastforce
  have c: "create_checkpoint_for_apply ctx ?h3 db name paths = Some (Inr None, ?h3, db)" for name paths
    by (simp add: create_checkpoint_for_apply_def assms)
  show thesis
  proof (cases "audit_refusal presence")
    case None
    show thesis by (rule that) (unfold audit_apply_def Let_def p d prod.case None option.case c sum.case a, rule refl)
  next
    case (Some x)
    obtain what why summary where x: "x = (what, why, summary)" by (metis prod_cases3)
    show thesis by (rule that) (unfold audit_apply_def Let_def p d prod.case Some x option.case, rule refl)
  qed
qed

theorem audit_apply_confined_witness:
  "\<exists>r h' db'. audit_apply sample_calendar 3 ''0'' \<lparr>ctx_executor = mock_executor False ''sample'', ctx_manager = None\<rparr>
       audited_host empty_database default_plugin_config = Some (r, h', db')
     \<and> (\<forall>w\<in>set (files_written h'). w = (AUDIT_RULES_PATH, fst (rendered_rules_file sample_calendar 3 default_plugin_config)))"
proof -
  let ?ctx = "\<lparr>ctx_executor = mock_executor False ''sample'', ctx_manager = None\<rparr>"
  obtain r h' where run: "audit_apply sample_calendar 3 ''0'' ?ctx audited_host empty_database default_plugin_config
      = Some (r, h', empty_database)" by (rule audit_apply_returns[of ?ctx]) simp
  from audit_apply_confined[OF _ run, of files_written commands_executed] mock.recorded_effects_axioms audited_fresh(1)
  have "\<forall>w\<in>set (files_written h'). w = (AUDIT_RULES_PATH, fst (rendered_rules_file sample_calendar 3 default_plugin_config))"
    by auto
  with run show ?thesis by blast
qed

theorem audit_reload_confined_witness:
  "\<exists>r h'. audit_reload_after_rollback (mock_executor False ''sample'') audited_host = (r, h') \<and> files_written h' = []"
proof -
  obtain r h' where run: "audit_reload_after_rollback (mock_executor False ''sample'') audited_host = (r, h')" by fastforce
  from audit_reload_confined[OF mock.recorded_effects_axioms run] run audited_fresh(1) show ?thesis by auto
qed

theorem absent_daemon_passes_nothing_witness:
  "\<exists>r h'. audit_scan sample_calendar 3 0 (mock_executor False ''sample'') new_mock default_plugin_config = (r, h')
     \<and> ((\<exists>f\<in>set (scan_findings r). mentions (hd audit_coverage) (finding_compliance f))
        \<or> (\<exists>u\<in>set (scan_unchecked r). mentions (hd audit_coverage) (unchecked_compliance u)))"
proof -
  obtain r h' where run: "audit_scan sample_calendar 3 0 (mock_executor False ''sample'') new_mock default_plugin_config = (r, h')"
    by fastforce
  have "fst (probe_auditd (mock_executor False ''sample'') new_mock) \<noteq> AuditdInstalled"
    by (simp add: probe_auditd_def command_exists_def mock_execute_command_def new_mock_def Let_def)
  moreover have "audit_coverage \<noteq> []"
    by (simp add: audit_coverage_def AUDIT_FINDING_TYPES_def audit_compliance_mappings_def)
  ultimately show ?thesis
    using absent_daemon_passes_nothing[OF run, of "hd audit_coverage"] run by simp
qed

theorem category_name_hides_rules_witness:
  "fst (scan_audit_rules sample_calendar (3::nat) (mock_executor False ''sample'') default_plugin_config audited_host) = ([], [])
   \<and> list_all (\<lambda>rule. audit_rule_content rule \<notin> set (str_lines idle_rules)) AUDIT_RULES"
proof
  show "list_all (\<lambda>rule. audit_rule_content rule \<notin> set (str_lines idle_rules)) AUDIT_RULES" by code_simp
  have parsed: "filter (\<lambda>s. s \<noteq> [] \<and> \<not> starts_with ''No rules'' s) (map trim (str_lines idle_rules))
      = map (\<lambda>category. ''-w /srv/'' @ category @ '' -p r'') AUDIT_CATEGORIES" by code_simp
  have "\<exists>h1. read_current_audit_rules (mock_executor False ''sample'') audited_host
      = (AuditRules (map (\<lambda>category. ''-w /srv/'' @ category @ '' -p r'') AUDIT_CATEGORIES), h1)"
    by (simp add: read_current_audit_rules_def audited_host_def mock_execute_command_def new_mock_def Let_def parsed command_success_def)
  then obtain h1 where read: "read_current_audit_rules (mock_executor False ''sample'') audited_host
      = (AuditRules (map (\<lambda>category. ''-w /srv/'' @ category @ '' -p r'') AUDIT_CATEGORIES), h1)" by blast
  have "list_all (\<lambda>category. list_ex (contains category) (map (\<lambda>category. ''-w /srv/'' @ category @ '' -p r'') AUDIT_CATEGORIES)) AUDIT_CATEGORIES"
    by code_simp
  then show "fst (scan_audit_rules sample_calendar (3::nat) (mock_executor False ''sample'') default_plugin_config audited_host) = ([], [])"
    by (intro category_name_hides_rules[OF read]) (simp add: list_all_iff list_ex_iff)
qed

end
