(* ===== verification/Mac_Plugin.thy ===== *)
theory Mac_Plugin
  imports Services_Plugin Unit_Divergence
begin

text \<open>
  The mandatory access control plugin (hardener-plugins/src/mac): which system the host runs, the probes of
  SELinux and AppArmor, scan, apply, preview, and the reload and the report after a rollback
  (mac/divergence.rs). Counts of profiles are \<open>usize\<close> on a 64-bit target; log lines are not modelled.
\<close>

definition MAC_PLUGIN_ID :: plugin_id where "MAC_PLUGIN_ID = ''mac-hardening''"
definition SELINUX_CONFIG_PATH :: string where "SELINUX_CONFIG_PATH = ''/etc/selinux/config''"
definition MAC_PRESENT_EXCEPTION :: string where "MAC_PRESENT_EXCEPTION = ''mac-present''"

subsection \<open>Probes\<close>

datatype mac_system = AppArmor | SELinux

datatype mac_detection = MacFound mac_system | MacAbsent | MacIndeterminate string

fun detect_in :: "('h, 'z) executor_scheme \<Rightarrow> 'h \<Rightarrow> (string \<times> mac_system) list \<Rightarrow> mac_detection" where
  "detect_in ex h [] = MacAbsent"
| "detect_in ex h ((path, system) # rest) =
     (case path_exists ex h path of
        Inr True \<Rightarrow> MacFound system
      | Inr False \<Rightarrow> detect_in ex h rest
      | Inl e \<Rightarrow> MacIndeterminate (''probing '' @ path @ '' failed: '' @ host_error_text e))"

definition detect_mac_system :: "('h, 'z) executor_scheme \<Rightarrow> 'h \<Rightarrow> mac_detection" where
  "detect_mac_system ex h =
     detect_in ex h [(''/sys/fs/selinux'', SELinux), (''/sys/kernel/security/apparmor'', AppArmor)]"

definition get_selinux_mode :: "('h, 'z) executor_scheme \<Rightarrow> 'h \<Rightarrow> (hardening_error, string) result \<times> 'h" where
  "get_selinux_mode ex h =
     (case execute_command ex h ''getenforce'' [] of
        (Inl e, h) \<Rightarrow> (Inl (PluginError (''Failed to execute getenforce: '' @ host_error_chain_text e)), h)
      | (Inr out, h) \<Rightarrow>
          (if command_success out then Inr (trim (stdout out)) else Inl (PluginError ''getenforce command failed''), h))"

definition set_selinux_enforcing :: "('h, 'z) executor_scheme \<Rightarrow> 'h \<Rightarrow> (hardening_error, change) result \<times> 'h" where
  "set_selinux_enforcing ex h =
     (case get_selinux_mode ex h of
        (Inl e, h) \<Rightarrow> (Inl e, h)
      | (Inr current, h) \<Rightarrow>
          (if current = ''Enforcing'' then (Inr (change_of ''SELinux already in enforcing mode'' Skipped None), h)
           else case execute_command ex h ''setenforce'' [''1''] of
                  (Inl e, h) \<Rightarrow> (Inl (PluginError (''Failed to execute setenforce: '' @ host_error_chain_text e)), h)
                | (Inr out, h) \<Rightarrow>
                    (Inr (if command_success out then change_of (''Set SELinux mode from '' @ current @ '' to Enforcing'') ConfigFile None
                          else change_of ''Failed to set SELinux to enforcing mode'' ConfigFile (Some (stderr out))), h)))"

datatype apparmor_probe = Profiles nat nat nat | ApparmorPermissionDenied | ApparmorUnavailable

definition profile_count :: "string \<Rightarrow> nat \<Rightarrow> nat" where
  "profile_count line so_far =
     (case split_whitespace line of
        [] \<Rightarrow> so_far
      | word # _ \<Rightarrow> (case parse_unsigned 10 (2 ^ 64) word of Some n \<Rightarrow> n | None \<Rightarrow> 0))"

definition count_profiles :: "nat \<times> nat \<Rightarrow> string \<Rightarrow> nat \<times> nat" where
  "count_profiles counts line =
     (case counts of
        (enforcing, complaining) \<Rightarrow>
          if contains ''profiles are in enforce mode'' line then (profile_count line enforcing, complaining)
          else if contains ''profiles are in complain mode'' line then (enforcing, profile_count line complaining)
          else (enforcing, complaining))"

text \<open>The total wraps at the width of the counts.\<close>

definition probe_apparmor :: "('h, 'z) executor_scheme \<Rightarrow> 'h \<Rightarrow> apparmor_probe \<times> 'h" where
  "probe_apparmor ex h =
     (case execute_command ex h ''aa-status'' [''--verbose''] of
        (Inl _, h) \<Rightarrow> (ApparmorUnavailable, h)
      | (Inr out, h) \<Rightarrow>
          (if \<not> command_success out then
             if message_indicates_permission_denied (stderr out) then ApparmorPermissionDenied else ApparmorUnavailable
           else case foldl count_profiles (0, 0) (str_lines (trim (stdout out))) of
                  (enforcing, complaining) \<Rightarrow> Profiles enforcing complaining ((enforcing + complaining) mod 2 ^ 64), h))"

subsection \<open>Scan\<close>

definition selinux_finding :: "'d::linorder calendar \<Rightarrow> 'd \<Rightarrow> plugin_config \<Rightarrow> string \<Rightarrow> finding" where
  "selinux_finding cal today config current =
     \<lparr>finding_category = Kernel, finding_current_value = current,
      finding_description = ''SELinux is not in enforcing mode'',
      finding_explanation = ''SELinux should be in enforcing mode to actively prevent security violations'',
      finding_id = ''selinux-not-enforcing'', finding_impact = ''Security policies are not being enforced'',
      finding_recommended_value = ''Enforcing'',
      finding_remediation_steps = [''Run: setenforce 1'', ''Edit /etc/selinux/config and set SELINUX=enforcing''],
      finding_severity = High, finding_title = ''SELinux Not Enforcing'',
      finding_compliance = mac_compliance_mappings ''selinux-not-enforcing'',
      finding_exception = exception_outcome_for_presence cal today config ''selinux-enforcing'',
      finding_exception_key = Some ''selinux-enforcing''\<rparr>"

definition complain_finding :: "'d::linorder calendar \<Rightarrow> 'd \<Rightarrow> plugin_config \<Rightarrow> nat \<Rightarrow> finding" where
  "complain_finding cal today config n =
     \<lparr>finding_category = Kernel, finding_current_value = show_radix 10 n @ '' profiles in complain mode'',
      finding_description = ''Some AppArmor profiles are in complain mode'',
      finding_explanation = ''Profiles in complain mode only log violations instead of blocking them'',
      finding_id = ''apparmor-complain-mode'',
      finding_impact = ''Security policies are not being enforced for some applications'',
      finding_recommended_value = ''All profiles in enforce mode'',
      finding_remediation_steps = [''Review '' @ show_radix 10 n @ '' profiles in complain mode'',
        ''Use aa-enforce to set profiles to enforce mode''],
      finding_severity = Medium, finding_title = ''AppArmor Profiles in Complain Mode'',
      finding_compliance = mac_compliance_mappings ''apparmor-complain-mode'',
      finding_exception = exception_outcome_for_presence cal today config ''apparmor-enforce'',
      finding_exception_key = Some ''apparmor-enforce''\<rparr>"

definition no_profiles_finding :: "'d::linorder calendar \<Rightarrow> 'd \<Rightarrow> plugin_config \<Rightarrow> finding" where
  "no_profiles_finding cal today config =
     \<lparr>finding_category = Kernel, finding_current_value = ''0 profiles loaded'',
      finding_description = ''No AppArmor profiles are loaded'',
      finding_explanation = ''AppArmor is installed but no profiles are active'',
      finding_id = ''apparmor-no-profiles'', finding_impact = ''No application confinement is in effect'',
      finding_recommended_value = ''Load AppArmor profiles'',
      finding_remediation_steps = [''Install apparmor-profiles package'', ''Enable AppArmor service''],
      finding_severity = High, finding_title = ''No AppArmor Profiles Loaded'',
      finding_compliance = mac_compliance_mappings ''apparmor-no-profiles'',
      finding_exception = exception_outcome_for_presence cal today config ''apparmor-enforce'',
      finding_exception_key = Some ''apparmor-enforce''\<rparr>"

definition no_mac_finding :: "'d::linorder calendar \<Rightarrow> 'd \<Rightarrow> plugin_config \<Rightarrow> finding" where
  "no_mac_finding cal today config =
     \<lparr>finding_category = Kernel, finding_current_value = ''None'',
      finding_description = ''No MAC system detected on this system'',
      finding_explanation = ''Neither SELinux nor AppArmor is available. Consider enabling one for enhanced security.'',
      finding_id = ''no-mac-system'', finding_impact = ''Missing kernel-level mandatory access controls'',
      finding_recommended_value = ''SELinux or AppArmor enabled'',
      finding_remediation_steps = [''Install and enable AppArmor (Ubuntu/Debian) or SELinux (RHEL/Fedora)''],
      finding_severity = Medium, finding_title = ''No MAC System Found'',
      finding_compliance = mac_compliance_mappings ''no-mac-system'',
      finding_exception = exception_outcome_for_presence cal today config MAC_PRESENT_EXCEPTION,
      finding_exception_key = Some MAC_PRESENT_EXCEPTION\<rparr>"

definition mac_unchecked ::
  "string \<Rightarrow> string \<Rightarrow> string \<Rightarrow> unchecked_blocker \<Rightarrow> compliance_mapping list \<Rightarrow> unchecked_check" where
  "mac_unchecked cid title why blocker mappings =
     \<lparr>unchecked_check_id = cid, unchecked_title = title, unchecked_category = Kernel, unchecked_reason = why,
      unchecked_blocker = blocker, unchecked_compliance = mappings\<rparr>"

definition mac_scan_result :: "nat \<Rightarrow> finding list \<Rightarrow> unchecked_check list \<Rightarrow> scan_result" where
  "mac_scan_result duration findings unchecked =
     \<lparr>scan_plugin_id = MAC_PLUGIN_ID, scan_success = True, scan_findings = findings, scan_unchecked = unchecked,
      scan_duration_us = duration, scan_error = None, scan_skipped = None\<rparr>"

definition mac_scan ::
  "'d::linorder calendar \<Rightarrow> 'd \<Rightarrow> nat \<Rightarrow> ('h, 'z) executor_scheme \<Rightarrow> 'h \<Rightarrow> plugin_config \<Rightarrow> scan_result \<times> 'h" where
  "mac_scan cal today duration ex h config =
     (case detect_mac_system ex h of
        MacFound SELinux \<Rightarrow>
          (case get_selinux_mode ex h of
             (r, h) \<Rightarrow>
               (mac_scan_result duration
                  (case r of
                     Inr current \<Rightarrow> if current \<noteq> ''Enforcing'' then [selinux_finding cal today config current] else []
                   | Inl _ \<Rightarrow> []) [], h))
      | MacFound AppArmor \<Rightarrow>
          (case probe_apparmor ex h of
             (Profiles _ complaining loaded, h) \<Rightarrow>
               (mac_scan_result duration
                  ((if complaining > 0 then [complain_finding cal today config complaining] else [])
                   @ (if loaded = 0 then [no_profiles_finding cal today config] else [])) [], h)
           | (ApparmorPermissionDenied, h) \<Rightarrow>
               (case refusal_blocker ex h of
                  (blocker, h) \<Rightarrow>
                    (mac_scan_result duration []
                       [mac_unchecked ''apparmor-no-profiles'' ''AppArmor profile enforcement''
                          ''reading the AppArmor profile set (aa-status) requires root'' blocker
                          (mac_compliance_mappings ''apparmor-no-profiles'')], h))
           | (ApparmorUnavailable, h) \<Rightarrow> (mac_scan_result duration [] [], h))
      | MacIndeterminate why \<Rightarrow>
          (mac_scan_result duration []
             [mac_unchecked ''no-mac-system'' ''MAC system presence''
                (''could not determine whether a MAC system is present: '' @ why) Unknown
                (mac_compliance_mappings ''no-mac-system'')], h)
      | MacAbsent \<Rightarrow>
          (mac_scan_result duration [no_mac_finding cal today config]
             [mac_unchecked ''mac-enforcement-mode'' ''MAC enforcement mode''
                ''no MAC system is installed, so whether one is enforcing cannot be determined'' Environment
                mac_enforcement_mappings], h))"

subsection \<open>Apply\<close>

definition mac_paths :: "string list" where
  "mac_paths = [SELINUX_CONFIG_PATH, ''/etc/apparmor'', ''/etc/apparmor.d'']"

text \<open>What follows the checkpoint: the changes, or the error that ends the run.\<close>

definition mac_harden ::
  "'d::linorder calendar \<Rightarrow> 'd \<Rightarrow> ('h, 'z) executor_scheme \<Rightarrow> plugin_config \<Rightarrow> 'h \<Rightarrow> (string, change) result \<times> 'h" where
  "mac_harden cal today ex config h =
     (case detect_mac_system ex h of
        MacFound SELinux \<Rightarrow>
          (case has_valid_exception cal today config ''selinux-enforcing'' of
             Some x \<Rightarrow> (Inr (change_of (''SELinux enforcement: skipped (exception: '' @ reason x @ '')'') Skipped None), h)
           | None \<Rightarrow>
               (case set_selinux_enforcing ex h of
                  (Inr c, h) \<Rightarrow> (Inr c, h)
                | (Inl e, h) \<Rightarrow> (Inl (''Failed to set SELinux enforcing: '' @ error_text e), h)))
      | MacFound AppArmor \<Rightarrow>
          (Inr (case has_valid_exception cal today config ''apparmor-enforce'' of
             Some x \<Rightarrow> change_of (''AppArmor enforcement: skipped (exception: '' @ reason x @ '')'') Skipped None
           | None \<Rightarrow> change_of ''AppArmor detected - use aa-enforce to set specific profiles to enforce mode'' Skipped None), h)
      | MacIndeterminate why \<Rightarrow>
          (Inr (change_of ''Could not determine whether a MAC system is present - nothing was changed'' ConfigFile (Some why)), h)
      | MacAbsent \<Rightarrow> (Inr (change_of ''No MAC system detected - nothing to configure (skipped)'' Skipped None), h))"

definition mac_apply ::
  "'d::linorder calendar \<Rightarrow> 'd \<Rightarrow> 'h apply_context \<Rightarrow> 'h \<Rightarrow> database \<Rightarrow> plugin_config \<Rightarrow>
   ((hardening_error, apply_result) result \<times> 'h \<times> database) option" where
  "mac_apply cal today ctx h db config =
     (case create_checkpoint_for_apply ctx h db ''mac-hardening-pre-apply'' mac_paths of
        None \<Rightarrow> None
      | Some (Inl e, h, db) \<Rightarrow> Some (Inl e, h, db)
      | Some (Inr cid, h, db) \<Rightarrow>
          (let taken = (case checkpoint_change cid of Some c \<Rightarrow> [c] | None \<Rightarrow> []);
               outcome = (\<lambda>changes ok error. \<lparr>apply_plugin_id = MAC_PLUGIN_ID, apply_success = ok, apply_changes = changes,
                 apply_checkpoint_id = cid, apply_error = error\<rparr>)
           in case mac_harden cal today (ctx_executor ctx) config h of
                (Inl why, h) \<Rightarrow> Some (Inr (outcome taken False (Some why)), h, db)
              | (Inr c, h) \<Rightarrow> Some (Inr (outcome (taken @ [c]) (list_all change_success (taken @ [c])) None), h, db)))"

subsection \<open>After a rollback\<close>

datatype restored_mode = Setenforce string | NotConfiguredMode | UnknownMode string

definition selinux_line_mode :: "string \<Rightarrow> string option" where
  "selinux_line_mode line =
     (case strip_prefix ''SELINUX='' (trim line) of
        None \<Rightarrow> None
      | Some v \<Rightarrow> Some (if eq_ignore_ascii_case (trim v) ''enforcing'' then ''1'' else ''0''))"

definition selinux_mode_argument :: "string \<Rightarrow> string option" where
  "selinux_mode_argument content = find_map selinux_line_mode (str_lines content)"

definition restored_selinux_mode :: "('h, 'z) executor_scheme \<Rightarrow> 'h \<Rightarrow> restored_mode" where
  "restored_selinux_mode ex h =
     (case read_file ex h SELINUX_CONFIG_PATH of
        Inl e \<Rightarrow>
          (if path_exists ex h SELINUX_CONFIG_PATH = Inr False then NotConfiguredMode else UnknownMode (host_error_text e))
      | Inr content \<Rightarrow>
          (case selinux_mode_argument content of
             Some m \<Rightarrow> Setenforce m
           | None \<Rightarrow> UnknownMode (''no SELINUX= directive in '' @ SELINUX_CONFIG_PATH)))"

text \<open>Why a command did not do what it was asked, if it did not.\<close>

definition command_failure :: "string \<Rightarrow> string \<Rightarrow> command_output host_result \<Rightarrow> string option" where
  "command_failure shown program r =
     (case r of
        Inr out \<Rightarrow>
          if command_success out then None
          else Some (shown @ '' exited '' @ show_int (exit_code out) @ '': '' @ trim (stderr out))
      | Inl e \<Rightarrow> Some (''could not run '' @ program @ '': '' @ host_error_text e))"

definition reload_apparmor ::
  "('h, 'z) executor_scheme \<Rightarrow> 'h \<Rightarrow> string option \<Rightarrow> (hardening_error, string option) result \<times> 'h" where
  "reload_apparmor ex h setenforce_failure =
     (case execute_command ex h ''systemctl'' [''reload'', ''apparmor''] of
        (r, h) \<Rightarrow>
          (case (setenforce_failure, command_failure ''systemctl reload apparmor'' ''systemctl reload apparmor'' r) of
             (None, None) \<Rightarrow> Inr (Some ''AppArmor profiles reloaded'')
           | (None, Some why) \<Rightarrow> Inl (PluginError (''Could not reload the MAC system: '' @ why))
           | (Some why, None) \<Rightarrow>
               Inl (PluginError (''Could not reload the MAC system: '' @ why
                 @ '' (AppArmor profiles were reloaded, but that does not restore SELinux's runtime mode)''))
           | (Some selinux_why, Some apparmor_why) \<Rightarrow>
               Inl (PluginError (''Could not reload the MAC system: '' @ selinux_why @ ''; '' @ apparmor_why)), h))"

definition reload_mac_system ::
  "('h, 'z) executor_scheme \<Rightarrow> 'h \<Rightarrow> (hardening_error, string option) result \<times> 'h" where
  "reload_mac_system ex h =
     (case restored_selinux_mode ex h of
        UnknownMode _ \<Rightarrow> (Inr None, h)
      | NotConfiguredMode \<Rightarrow> reload_apparmor ex h None
      | Setenforce m \<Rightarrow>
          (case execute_command ex h ''setenforce'' [m] of
             (r, h) \<Rightarrow>
               (case command_failure (''setenforce '' @ m) ''setenforce'' r of
                  None \<Rightarrow> (Inr (Some (''SELinux runtime mode restored (setenforce '' @ m @ '')'')), h)
                | Some why \<Rightarrow> reload_apparmor ex h (Some why))))"

definition mac_reloads_for_path :: "string \<Rightarrow> bool" where
  "mac_reloads_for_path path =
     (path_starts_with path ''/etc/selinux'' \<or> path_starts_with path ''/etc/apparmor'' \<or> path_starts_with path ''/etc/apparmor.d'')"

definition mac_reload_after_rollback ::
  "('h, 'z) executor_scheme \<Rightarrow> 'h \<Rightarrow> (hardening_error, string option) result \<times> 'h" where
  "mac_reload_after_rollback ex h = (if detect_mac_system ex h = MacAbsent then (Inr None, h) else reload_mac_system ex h)"

definition CEILING_REASON :: string where
  "CEILING_REASON =
     ''a stated ceiling rather than a probe that failed: loading an LSM policy is host-global, so no container this project can build can be given MAC enforcement to disagree about. #18 turns this into a measurement''"

definition mac_divergences :: "('h, 'z) executor_scheme \<Rightarrow> 'h \<Rightarrow> rollback_divergence list" where
  "mac_divergences ex h =
     (let row = (\<lambda>subject why expected. [divergence_row MAC_PLUGIN_ID subject Unverifiable (why @ ''. See #18.'') expected])
      in case detect_mac_system ex h of
           MacFound SELinux \<Rightarrow>
             row ''selinux'' ''the policy the kernel is enforcing cannot be compared against the restored configuration: reading it back needs a host where a policy can be loaded''
               (Some CEILING_REASON)
         | MacFound AppArmor \<Rightarrow>
             row ''apparmor'' ''the profile set the kernel is enforcing cannot be compared against the restored configuration: reading it back needs a host where a profile can be loaded''
               (Some CEILING_REASON)
         | MacAbsent \<Rightarrow> []
         | MacIndeterminate why \<Rightarrow> row ''mac'' (''the host could not be probed for a MAC system: '' @ why) None)"

subsection \<open>Preview\<close>

definition mac_validate ::
  "'d::linorder calendar \<Rightarrow> 'd \<Rightarrow> ('h, 'z) executor_scheme \<Rightarrow> 'h \<Rightarrow> plugin_config \<Rightarrow> validation_report \<times> 'h" where
  "mac_validate cal today ex h config =
     (let report = (\<lambda>issues estimates xs.
            \<lparr>validation_report_plugin_id = MAC_PLUGIN_ID, validation_report_is_valid = (issues = []),
             validation_report_issues = issues, validation_report_estimated_changes = estimates,
             validation_report_compliant_count = 0, validation_report_exceptions = xs\<rparr>);
          kept = (\<lambda>key x. exception_preview_line key EXCEPTION_OBSERVED_UNCHANGED (reason x))
      in case detect_mac_system ex h of
           MacFound SELinux \<Rightarrow>
             (case has_valid_exception cal today config ''selinux-enforcing'' of
                Some x \<Rightarrow> (report [] [] [kept ''selinux-enforcing'' x], h)
              | None \<Rightarrow>
                  (case get_selinux_mode ex h of
                     (Inr current, h) \<Rightarrow> (report [] (if current \<noteq> ''Enforcing'' then [''Set SELinux to enforcing mode''] else []) [], h)
                   | (Inl _, h) \<Rightarrow>
                       (report [issue_of High ''Cannot read SELinux status - getenforce may not be available'' ''selinux.mode''] [] [], h)))
         | MacFound AppArmor \<Rightarrow>
             (case has_valid_exception cal today config ''apparmor-enforce'' of
                Some x \<Rightarrow> (report [] [] [kept ''apparmor-enforce'' x], h)
              | None \<Rightarrow>
                  (case probe_apparmor ex h of
                     (p, h) \<Rightarrow>
                       (report
                          (case p of
                             Profiles _ _ _ \<Rightarrow> []
                           | _ \<Rightarrow> [issue_of High ''Cannot read AppArmor status - aa-status may not be available'' ''apparmor.status''])
                          [] [], h)))
         | MacIndeterminate why \<Rightarrow>
             (report [issue_of High (''Cannot determine whether a MAC system is present: '' @ why) ''mac.system''] [] [], h)
         | MacAbsent \<Rightarrow> (report [] [] [], h))"

end
