(* ===== verification/Mac_Safety.thy ===== *)
theory Mac_Safety
  imports Mac_Plugin Apply_Effects
begin

text \<open>
  What a MAC apply achieves on a host whose SELinux tools keep their contract, what the reload of a rollback
  may run and claim, and when the scan says nothing.
\<close>

subsection \<open>Apply\<close>

definition observed_mode :: "('h, 'z) executor_scheme \<Rightarrow> 'h \<Rightarrow> (hardening_error, string) result" where
  "observed_mode ex h = fst (get_selinux_mode ex h)"

text \<open>
  The contract of the tools: reading the mode or following a link changes neither the mode nor which system
  is present, and a \<open>setenforce 1\<close> that exits with zero leaves the host enforcing.
\<close>

definition selinux_contract :: "('h, 'z) executor_scheme \<Rightarrow> bool" where
  "selinux_contract ex \<longleftrightarrow>
     (\<forall>h path. observed_mode ex (snd (read_link ex h path)) = observed_mode ex h
        \<and> detect_mac_system ex (snd (read_link ex h path)) = detect_mac_system ex h)
     \<and> (\<forall>h. observed_mode ex (snd (execute_command ex h ''getenforce'' [])) = observed_mode ex h)
     \<and> (\<forall>h out h'. execute_command ex h ''setenforce'' [''1''] = (Inr out, h') \<and> command_success out \<longrightarrow>
          observed_mode ex h' = Inr ''Enforcing'')"

lemma contract_reads:
  assumes "selinux_contract ex"
  shows "reading_host ex (\<lambda>h h'. observed_mode ex h' = observed_mode ex h \<and> detect_mac_system ex h' = detect_mac_system ex h)"
proof
  fix h path l h' assume "read_link ex h path = (l, h')"
  then have "h' = snd (read_link ex h path)" by simp
  then show "observed_mode ex h' = observed_mode ex h \<and> detect_mac_system ex h' = detect_mac_system ex h"
    using assms unfolding selinux_contract_def by blast
qed auto

lemma mode_read_keeps:
  assumes "selinux_contract ex" "get_selinux_mode ex h = (r, h')"
  shows "observed_mode ex h' = r"
proof -
  have "h' = snd (execute_command ex h ''getenforce'' [])"
    using assms(2) by (auto simp: get_selinux_mode_def split: prod.splits sum.splits if_splits)
  moreover have "observed_mode ex h = r" using assms(2) by (simp add: observed_mode_def)
  ultimately show ?thesis using assms(1) unfolding selinux_contract_def by metis
qed

lemma set_enforcing_enforces:
  assumes "selinux_contract ex" "set_selinux_enforcing ex h = (Inr c, h')" "change_success c"
  shows "observed_mode ex h' = Inr ''Enforcing''"
proof -
  obtain r h1 where r: "get_selinux_mode ex h = (r, h1)" by fastforce
  obtain current where i: "r = Inr current" using assms(2) r by (cases r) (simp_all add: set_selinux_enforcing_def)
  show ?thesis
  proof (cases "current = ''Enforcing''")
    case True
    then have "h' = h1" using assms(2) by (simp add: set_selinux_enforcing_def r i)
    with True show ?thesis using mode_read_keeps[OF assms(1) r] i by simp
  next
    case False
    obtain out h2 where o: "execute_command ex h1 ''setenforce'' [''1''] = (out, h2)" by fastforce
    from assms(2,3) False obtain q where "out = Inr q" "command_success q" "h' = h2"
      by (auto simp: set_selinux_enforcing_def r i o change_of_def split: sum.splits if_splits)
    with o show ?thesis using assms(1) unfolding selinux_contract_def by blast
  qed
qed

text \<open>
  C18. On a host with SELinux an apply that reports success leaves the kernel enforcing, unless a valid
  exception documents the mode.
\<close>

theorem mac_apply_enforces:
  assumes "selinux_contract (ctx_executor ctx)"
    and "mac_apply cal today ctx h db config = Some (Inr r, h', db')" "apply_success r"
    and "detect_mac_system (ctx_executor ctx) h = MacFound SELinux"
    and "has_valid_exception cal today config ''selinux-enforcing'' = None"
  shows "observed_mode (ctx_executor ctx) h' = Inr ''Enforcing''"
proof -
  let ?ex = "ctx_executor ctx" and ?cp = "create_checkpoint_for_apply ctx h db ''mac-hardening-pre-apply'' mac_paths"
  obtain cid h1 db1 where cp: "?cp = Some (Inr cid, h1, db1)"
    using assms(2) by (auto simp: mac_apply_def split: option.splits sum.splits prod.splits)
  have "detect_mac_system ?ex h1 = MacFound SELinux"
    using checkpoint_for_apply_rel[OF contract_reads[OF assms(1)] cp] assms(4) by simp
  then obtain s h2 where s: "set_selinux_enforcing ?ex h1 = (s, h2)"
    "mac_harden cal today ?ex config h1 = (map_sum (\<lambda>e. ''Failed to set SELinux enforcing: '' @ error_text e) id s, h2)"
    using assms(5) by (cases "set_selinux_enforcing ?ex h1") (auto simp: mac_harden_def split: sum.splits)
  with assms(2,3) cp obtain c where "s = Inr c" "change_success c" "h' = h2"
    by (cases s) (auto simp: mac_apply_def Let_def)
  with s(1) show ?thesis using set_enforcing_enforces[OF assms(1)] by blast
qed

subsection \<open>Reload\<close>

definition mac_reload_command :: "('h, 'z) executor_scheme \<Rightarrow> 'h \<Rightarrow> string \<times> string list \<Rightarrow> bool" where
  "mac_reload_command ex h c \<longleftrightarrow>
     (\<exists>m. c = (''setenforce'', [m]) \<and> restored_selinux_mode ex h = Setenforce m)
     \<or> c = (''systemctl'', [''reload'', ''apparmor'']) \<and> (\<forall>why. restored_selinux_mode ex h \<noteq> UnknownMode why)"

context recorded_effects
begin

lemma reload_apparmor_confined:
  "reload_apparmor ex h failure = (r, h') \<Longrightarrow> R (''systemctl'', [''reload'', ''apparmor'']) \<Longrightarrow> confined W R h h'"
  by (auto simp: reload_apparmor_def split: prod.splits intro: run_confined)

lemma reload_mac_confined:
  assumes "reload_mac_system ex h = (r, h')"
  shows "confined (\<lambda>_. False) (mac_reload_command ex h) h h'"
proof (cases "restored_selinux_mode ex h")
  case (Setenforce m)
  obtain o1 h1 where e: "execute_command ex h ''setenforce'' [m] = (o1, h1)" by fastforce
  have 1: "confined (\<lambda>_. False) (mac_reload_command ex h) h h1"
    by (rule run_confined[where R = "mac_reload_command ex h", OF e]) (simp add: mac_reload_command_def Setenforce)
  have "h' = h1 \<or> (\<exists>f. reload_apparmor ex h1 f = (r, h'))"
    using assms by (auto simp: reload_mac_system_def Setenforce e split: option.splits)
  then show ?thesis
  proof (elim disjE exE)
    fix f assume f: "reload_apparmor ex h1 f = (r, h')"
    show ?thesis
      by (rule confined_trans[OF 1 reload_apparmor_confined[OF f]]) (simp add: mac_reload_command_def Setenforce)
  qed (use 1 in simp)
next
  case NotConfiguredMode
  then have "reload_apparmor ex h None = (r, h')" using assms by (simp add: reload_mac_system_def)
  then show ?thesis by (rule reload_apparmor_confined) (simp add: mac_reload_command_def NotConfiguredMode)
qed (use assms in \<open>simp add: reload_mac_system_def\<close>)

end


subsection \<open>Scan\<close>

text \<open>
  C40. The scan reports neither a finding nor an unchecked entry exactly when SELinux is present and its mode
  read \<open>Enforcing\<close> or could not be read, or AppArmor is present and \<open>aa-status\<close> counted at least one profile
  and none in complain mode, or did not run.
\<close>

theorem mac_scan_silence:
  "scan_findings (fst (mac_scan cal today duration ex h config)) = [] \<and> scan_unchecked (fst (mac_scan cal today duration ex h config)) = []
   \<longleftrightarrow> (case detect_mac_system ex h of
          MacFound SELinux \<Rightarrow> (case fst (get_selinux_mode ex h) of Inr current \<Rightarrow> current = ''Enforcing'' | Inl _ \<Rightarrow> True)
        | MacFound AppArmor \<Rightarrow>
            (case fst (probe_apparmor ex h) of
               Profiles _ complaining loaded \<Rightarrow> complaining = 0 \<and> loaded \<noteq> 0
             | ApparmorPermissionDenied \<Rightarrow> False
             | ApparmorUnavailable \<Rightarrow> True)
        | MacAbsent \<Rightarrow> False
        | MacIndeterminate _ \<Rightarrow> False)"
proof (cases "detect_mac_system ex h")
  case (MacFound system)
  obtain r h1 where r: "get_selinux_mode ex h = (r, h1)" by fastforce
  obtain p h2 where p: "probe_apparmor ex h = (p, h2)" by fastforce
  obtain b h3 where b: "refusal_blocker ex h2 = (b, h3)" by fastforce
  show ?thesis
  proof (cases system)
    case SELinux
    with MacFound show ?thesis by (cases r) (simp_all add: mac_scan_def mac_scan_result_def r)
  next
    case AppArmor
    with MacFound show ?thesis by (cases p) (simp_all add: mac_scan_def mac_scan_result_def p b)
  qed
qed (simp_all add: mac_scan_def mac_scan_result_def)

subsection \<open>Concrete hosts\<close>

text \<open>A host whose state is the mode it runs in.\<close>

definition enforcing_command :: "string \<Rightarrow> string \<Rightarrow> string list \<Rightarrow> command_output host_result \<times> string" where
  "enforcing_command h program args =
     (if program = ''getenforce'' then (Inr \<lparr>stdout = h, stderr = [], exit_code = 0\<rparr>, h)
      else if program = ''setenforce'' \<and> args = [''1''] then (Inr \<lparr>stdout = [], stderr = [], exit_code = 0\<rparr>, ''Enforcing'')
      else (Inl (Causes []), h))"

definition selinux_executor :: "string executor" where
  "selinux_executor =
     \<lparr>description = ''selinux'', legacy_description = None, is_remote = False,
      read_file = (\<lambda>_ _. Inl (Causes [])), read_file_optional = (\<lambda>_ _. Inl (Causes [])), path_exists = (\<lambda>_ p. Inr (p = ''/sys/fs/selinux'')),
      metadata_of = (\<lambda>_ _. Inl (Causes [])), read_dir = (\<lambda>_ _. Inl (Causes [])), write_file = (\<lambda>h _ _. (Inl (Causes []), h)),
      execute_command = enforcing_command, read_link = (\<lambda>h _. (Inr None, h)), link_target_as_writer = (\<lambda>h _. (Inr None, h))\<rparr>"

lemma selinux_executor_simps [simp]:
  "execute_command selinux_executor = enforcing_command" "read_link selinux_executor h path = (Inr None, h)"
  "path_exists selinux_executor h path = Inr (path = ''/sys/fs/selinux'')"
  by (simp_all add: selinux_executor_def)

lemma trim_enforcing: "trim ''Enforcing'' = ''Enforcing''"
  by code_simp

lemma enforcing_contract: "selinux_contract selinux_executor"
  by (auto simp: selinux_contract_def observed_mode_def get_selinux_mode_def enforcing_command_def command_success_def trim_enforcing)

theorem mac_apply_enforces_witness:
  "\<exists>r h' db'. mac_apply sample_calendar 3 \<lparr>ctx_executor = selinux_executor, ctx_manager = None\<rparr> ''Permissive'' empty_database
       default_plugin_config = Some (Inr r, h', db') \<and> trim h' = ''Enforcing''"
proof -
  let ?ctx = "\<lparr>ctx_executor = selinux_executor, ctx_manager = None\<rparr>"
  have found: "detect_mac_system selinux_executor h = MacFound SELinux" for h by (simp add: detect_mac_system_def)
  have free: "has_valid_exception sample_calendar 3 default_plugin_config s = None" for s
    by (simp add: has_valid_exception_def default_plugin_config_def)
  have "trim ''Permissive'' \<noteq> ''Enforcing''" by code_simp
  then obtain r h' db' where run: "mac_apply sample_calendar 3 ?ctx ''Permissive'' empty_database default_plugin_config = Some (Inr r, h', db')"
    "apply_success r"
    by (simp add: mac_apply_def create_checkpoint_for_apply_def checkpoint_change_def mac_harden_def found free set_selinux_enforcing_def
        get_selinux_mode_def enforcing_command_def command_success_def change_of_def)
  have "observed_mode selinux_executor h' = Inr ''Enforcing''"
    using mac_apply_enforces[OF _ run] by (simp add: enforcing_contract found free)
  then have "trim h' = ''Enforcing''" by (simp add: observed_mode_def get_selinux_mode_def enforcing_command_def command_success_def)
  with run show ?thesis by blast
qed


end
