(* ===== verification/Spec2Isabelle.thy ===== *)
theory Spec2Isabelle
  imports Config_Edit Ssh_Include Strictness Checkpoint_Rollback Audit_Log Compliance_Report Plugin_Engine
    Distro Kernel_Boot Ssh_Safety Permissions_Safety Services_Safety Kernel_Divergence Config_Loader Config_Write Pam_Safety Audit_Safety Mac_Safety
begin

text \<open>
  Verification library for \<open>linux-hardener\<close>, a tool that scans a Linux host, hardens it and undoes a hardening.

  \<^bold>\<open>The program.\<close> A front end (the command line or the desktop application) loads a configuration, builds the
  registry of plugins and asks the plugin manager for a scan, an apply or a preview. Each plugin reads the host
  through the executor, judges what it reads against its own table and the configuration, and in an apply takes a
  checkpoint before it changes anything. A rollback restores the files of a checkpoint, asks the plugins to reload,
  and collects what each of them found still diverging. Scan results become compliance reports. Every action is filed
  in an audit log whose entries are chained by their digests.

  \<^bold>\<open>Theories and the code they model\<close> (paths under \<open>crates\<close>).

  \<^item> \<open>Hardener_Prelude\<close>, \<open>Text_Lines\<close>, \<open>Number_Text\<close>, \<open>Wildcard\<close>, \<open>Whole_File\<close>: Rust's text, line and number
    operations, the two-pointer wildcard loop, and the lemmas all components share. A string is a list of characters
    below 256; \<open>Result\<close> is a sum with the error on the left, \<open>Option\<close> is \<open>option\<close>.
  \<^item> \<open>Hardener_Types\<close> (hardener-types), \<open>Policy_Config\<close> (hardener-core/src/config.rs, config/scope.rs): the data the
    components exchange; the sections, exceptions and exclusions of the configuration.
  \<^item> \<open>Host_Executor\<close> (hardener-common/src/executor, error.rs, vendor_config.rs): the trait as a record of functions over
    a host state of any type, its provided methods, and the mock executor on which witnesses run. The locales
    \<open>file_store\<close> and \<open>recorded_effects\<close> state what clients may rely on; both are interpreted on the mock.
  \<^item> \<open>Config_Text\<close>, \<open>Config_Edit\<close> (hardener-common/src/file_utils.rs): the reader and writer of configuration
    directives; what a write does to a file line by line, against each of the readers (locale \<open>directive_reader\<close>).
  \<^item> \<open>Strictness\<close> (hardener-plugins/src/strictness.rs and the directive tables): how a value is placed on a scale, when
    it violates a target, and how a configured target is clamped (locale \<open>scale\<close>).
  \<^item> \<open>Config_Validation\<close>, \<open>Config_Loader\<close>, \<open>Config_Write\<close> (hardener-core/src/config_validation.rs, config_loader.rs,
    config_write.rs): the checks every configuration passes, the sources and their precedence, the audited write.
  \<^item> \<open>Checkpoint_Store\<close>, \<open>Checkpoint_Rollback\<close> (hardener-state/src/checkpoint.rs, manager.rs): the tables, digests and
    signatures; capture, the refusals of a restore, rollback. \<open>Audit_Log\<close> (hash_chain.rs, audit.rs): the chained log.
  \<^item> \<open>Plugin_Engine\<close> (hardener-core/src/plugin.rs, registry.rs, plugin_manager.rs): a plugin is the record of its trait
    methods; dependency resolution, scans and applies over the selected plugins.
  \<^item> \<open>Plugin_Support\<close>, \<open>Apply_Effects\<close> (hardener-plugins/src/lib.rs, scan_outcome.rs): what the plugins share, and what
    those shared steps may do to a host (locale \<open>reading_host\<close>: taking a checkpoint only reads).
  \<^item> \<open>Plugin_Mappings\<close>, \<open>Plugin_Coverage\<close>, \<open>Compliance_Tables\<close>, \<open>Compliance_Report\<close>: the compliance mappings of every
    plugin, the catalogues, and the scoring of hardener-compliance.
  \<^item> The plugins (hardener-plugins/src): \<open>Kernel_Persistence\<close>, \<open>Kernel_Plugin\<close>, \<open>Kernel_Boot\<close>, \<open>Kernel_Divergence\<close> (kernel);
    \<open>Ssh_Include\<close>, \<open>Ssh_Plugin\<close>, \<open>Ssh_Safety\<close> (ssh); \<open>Permissions_Plugin\<close>, \<open>Permissions_Safety\<close> (permissions);
    \<open>Services_Plugin\<close>, \<open>Services_Safety\<close> (services); \<open>Pam_Reading\<close>, \<open>Pam_Plugin\<close>, \<open>Pam_Safety\<close> (pam); \<open>Audit_Plugin\<close>,
    \<open>Audit_Safety\<close> (audit); \<open>Mac_Plugin\<close>, \<open>Mac_Safety\<close> (mac); \<open>Unit_Divergence\<close> (the rollback reports of ssh and services).
    A \<open>_Plugin\<close> theory has the operations in the order of the code (probes, scan, apply, rollback hooks, preview); a
    \<open>_Safety\<close> theory has what they guarantee.
  \<^item> \<open>Distro\<close> (hardener-distro): the parser of os-release.

  \<^bold>\<open>What the lemmas show.\<close> For every plugin with an apply: which files it may write and which commands it may run
  (\<open>recorded_effects.confined\<close>, composed step by step); that what it writes meets the policy and never loosens a
  stricter host; and, under a stated contract of the host's tools, that a successful apply leaves nothing for a scan to
  find. For scans: that silence means a value was read and met its target, or exactly where it does not. For previews:
  that they announce what an apply does. For checkpoints: that a restore writes only what a verified checkpoint holds,
  below the allowed prefixes, and that a failed one changes nothing. For the audit log: that verification accepts a
  logged history and that the chain binds it. For the configuration: that what loads is safe and that the last source
  decides. For reports: that a pass needs evidence and a live finding fails.

  \<^bold>\<open>Parameters.\<close> Code outside the repository is an argument: the executor, \<open>std::fs\<close> (records \<open>local_files\<close> and
  \<open>local_store\<close>), SHA-256 and Ed25519 (record \<open>crypto\<close>), the JSON form of log entries, the dates of chrono (record
  \<open>calendar\<close>), petgraph's topological sort, the TOML parser, the iteration order of hash maps, the clock, the identifiers
  and the stamps that end the names of backups. What a theorem relies on is a hypothesis of it, and its witness supplies
  a concrete instance.

  \<^bold>\<open>Bounds and fuel.\<close> Integers keep their width: modes are 32-bit words, numbers in configuration files are read as
  \<open>i64\<close>, \<open>u32\<close>, \<open>u16\<close> or \<open>u8\<close> with their bounds, counts of \<open>usize\<close> assume a 64-bit target. The capture of a directory
  recurses over the host's own tree, which the model cannot bound, so it takes fuel; \<open>None\<close> is a capture the fuel did
  not cover, and the theorems about an apply speak of the runs that return. Fuel above the depth of the tree is enough,
  since each level uses one. The wildcard loop is a \<open>partial_function\<close> in \<open>option\<close>, and \<open>Wildcard\<close> proves that it returns on
  every input.

  \<^bold>\<open>Not modelled.\<close> The command line and its batch mode, the desktop application, the local and SSH executors, the
  scheduler and its notifications, the renderers of reports and the SQL schema are input and output around the parts
  above. Of the firewall plugin only the compliance table is here. Log lines are left out everywhere.
\<close>

end
